(* ===== verification/Net_Prelude.thy ===== *)
theory Net_Prelude
  imports Main "HOL-Library.Word"
begin

unbundle bit_operations_syntax

text \<open>
  Shared vocabulary of the development: the faults a C or C++ statement can run into, statements
  as state transformers that either fault or return the next state, their sequential composition,
  and the few facts on lists, options, maps and 16-bit flag words that the component theories use.

  A statement has type \<open>'s \<Rightarrow> fault + 's\<close>: \<open>Inl\<close> is undefined behaviour or an abort of the
  program, \<open>Inr\<close> the state after the statement. A function body is written as the list of its
  statements, run in order by \<open>exec\<close>, so that a definition reads line by line like its source.
\<close>

section \<open>Collections of rewrite rules\<close>

named_theorems stmt_simps \<open>execution of statement lists\<close>
named_theorems flag_simps \<open>the event flag words\<close>

section \<open>Faults and statements\<close>

datatype fault =
    Use_After_Free      \<comment> \<open>an operation on, or a second release of, an object that is not allocated\<close>
  | Null_Deref          \<comment> \<open>an operation through a null pointer\<close>
  | Uninit_Read         \<comment> \<open>a value is used that no statement has written\<close>
  | Type_Confusion      \<comment> \<open>a \<open>void *\<close> is cast to a type its object does not have\<close>
  | Missing_Return      \<comment> \<open>control flows off the end of a value-returning C++ function\<close>
  | Assert_Failed       \<comment> \<open>an \<open>assert\<close> that does not hold\<close>
  | Out_Of_Bounds       \<comment> \<open>an access outside an array\<close>
  | Cpp_Exception       \<comment> \<open>an exception nobody catches\<close>
  | Exit nat            \<comment> \<open>\<open>exit(n)\<close>\<close>

type_synonym byte = "8 word"
type_synonym 'a res = "fault + 'a"
type_synonym 's stmt = "'s \<Rightarrow> 's res"

fun exec :: "'s stmt list \<Rightarrow> 's stmt" where
  "exec [] s = Inr s"
| "exec (c # cs) s = (case c s of Inl f \<Rightarrow> Inl f | Inr s' \<Rightarrow> exec cs s')"

definition when_stmt :: "bool \<Rightarrow> 's stmt list \<Rightarrow> 's stmt" where
  "when_stmt b cs s = (if b then exec cs s else Inr s)"

lemma exec_append [stmt_simps]:
  "exec (cs @ ds) s = (case exec cs s of Inl f \<Rightarrow> Inl f | Inr s' \<Rightarrow> exec ds s')"
  by (induction cs arbitrary: s) (auto split: sum.splits)

lemma when_stmt_simps [stmt_simps, simp]:
  "when_stmt True cs s = exec cs s"
  "when_stmt False cs s = Inr s"
  by (simp_all add: when_stmt_def)

lemma exec_preserves:
  assumes "\<And>c s s'. c \<in> set cs \<Longrightarrow> P s \<Longrightarrow> c s = Inr s' \<Longrightarrow> P s'"
    and "P s" and "exec cs s = Inr s'"
  shows "P s'"
  using assms
proof (induction cs arbitrary: s)
  case Nil
  then show ?case by simp
next
  case (Cons c cs)
  from Cons.prems(3) obtain t where t: "c s = Inr t" "exec cs t = Inr s'"
    by (auto split: sum.splits)
  from Cons.prems(1) [of c s t] Cons.prems(2) t(1) have "P t" by simp
  then show ?case using Cons.prems(1) t(2) by (intro Cons.IH [of t]) auto
qed

text \<open>A pointer member: not written yet, null, or the address of an object.\<close>

datatype 'a ptr = Undef | Null | Ref 'a

text \<open>Continue with the object a pointer refers to.\<close>

definition deref :: "('s \<Rightarrow> 'a \<Rightarrow> 'o option) \<Rightarrow> 'a ptr \<Rightarrow> ('a \<Rightarrow> 'o \<Rightarrow> 's \<Rightarrow> 'r res) \<Rightarrow> 's \<Rightarrow> 'r res" where
  "deref objs p k s = (case p of
      Undef \<Rightarrow> Inl Uninit_Read
    | Null \<Rightarrow> Inl Null_Deref
    | Ref a \<Rightarrow> (case objs s a of None \<Rightarrow> Inl Use_After_Free | Some x \<Rightarrow> k a x s))"

lemma deref_simps [stmt_simps, simp]:
  "deref objs Undef k s = Inl Uninit_Read"
  "deref objs Null k s = Inl Null_Deref"
  "objs s a = Some x \<Longrightarrow> deref objs (Ref a) k s = k a x s"
  "objs s a = None \<Longrightarrow> deref objs (Ref a) k s = Inl Use_After_Free"
  by (simp_all add: deref_def)

section \<open>Flag words\<close>

type_synonym flags = "16 word"

definition has_flag :: "flags \<Rightarrow> flags \<Rightarrow> bool" where
  "has_flag w m \<longleftrightarrow> w AND m \<noteq> 0"

definition set_flag :: "flags \<Rightarrow> flags \<Rightarrow> flags" where
  "set_flag w m = w OR m"

definition clear_flag :: "flags \<Rightarrow> flags \<Rightarrow> flags" where
  "clear_flag w m = w AND NOT m"

lemma has_clear_flag [flag_simps, simp]: "\<not> has_flag (clear_flag w m) m"
  by (simp add: has_flag_def clear_flag_def and.assoc)

lemma has_clear_flag_disjoint [flag_simps]:
  assumes "m AND n = 0"
  shows "has_flag (clear_flag w m) n = has_flag w n"
proof -
  have "NOT m AND n = n"
  proof (rule bit_word_eqI)
    fix i assume "i < LENGTH(16)"
    from assms have "bit (m AND n) i = bit (0 :: flags) i" by simp
    then show "bit (NOT m AND n) i = bit n i"
      using \<open>i < LENGTH(16)\<close> by (auto simp: bit_and_iff bit_not_iff)
  qed
  then show ?thesis by (simp add: has_flag_def clear_flag_def and.assoc)
qed

lemma has_set_flag: "has_flag (set_flag w m) n \<longleftrightarrow> has_flag w n \<or> has_flag m n"
  by (simp add: has_flag_def set_flag_def bit.conj_disj_distrib2 or_eq_0_iff)

end
