(* ===== verification/Libevent.thy ===== *)
theory Libevent
  imports Net_Prelude
begin

text \<open>
  The interface to libevent, as far as the program uses it. \<open>struct bufferevent\<close>,
  \<open>struct event_watermark\<close> and the flag constants are those of the headers under
  \<open>lib/libevent/event2\<close>. The library itself is only shipped as an archive, so its functions are
  fields of a record \<open>libevent\<close>, an argument of every definition that calls them, and the locale
  \<open>libevent_lib\<close> states what the headers document of them. A law speaks only of bufferevents that
  are allocated: what a call on a released one does is not known, and the statements below report
  such a call as a fault. Arguments the program only hands through (the length of an address, the
  SSL object of a connection) are not arguments of these functions.

  \<open>libevent_ref\<close> is one library with the documented behaviour; the interpretation \<open>ref\<close> shows
  that the laws can be met.
\<close>

section \<open>Flags\<close>

abbreviation EV_READ :: flags where "EV_READ \<equiv> 0x02"
abbreviation EV_WRITE :: flags where "EV_WRITE \<equiv> 0x04"
abbreviation EV_PERSIST :: flags where "EV_PERSIST \<equiv> 0x10"
abbreviation EV_ET :: flags where "EV_ET \<equiv> 0x20"

abbreviation BEV_EVENT_EOF :: flags where "BEV_EVENT_EOF \<equiv> 0x10"
abbreviation BEV_EVENT_ERROR :: flags where "BEV_EVENT_ERROR \<equiv> 0x20"
abbreviation BEV_EVENT_CONNECTED :: flags where "BEV_EVENT_CONNECTED \<equiv> 0x80"

abbreviation BEV_OPT_CLOSE_ON_FREE :: flags where "BEV_OPT_CLOSE_ON_FREE \<equiv> 1"
abbreviation BEV_OPT_DEFER_CALLBACKS :: flags where "BEV_OPT_DEFER_CALLBACKS \<equiv> 4"

lemma rw_flags [flag_simps, simp]:
  "has_flag (clear_flag w EV_READ) EV_WRITE = has_flag w EV_WRITE"
  "has_flag (clear_flag w EV_WRITE) EV_READ = has_flag w EV_READ"
  "has_flag (set_flag w EV_READ) EV_READ"
  "has_flag (set_flag w EV_WRITE) EV_WRITE"
  "has_flag (set_flag w EV_READ) EV_WRITE = has_flag w EV_WRITE"
  "has_flag (set_flag w EV_WRITE) EV_READ = has_flag w EV_READ"
  "has_flag (set_flag w 6) EV_READ" \<comment> \<open>\<open>EV_READ | EV_WRITE\<close>\<close>
  "has_flag (set_flag w 6) EV_WRITE"
  "has_flag EV_READ EV_READ" "has_flag EV_WRITE EV_WRITE"
  "\<not> has_flag EV_READ EV_WRITE" "\<not> has_flag EV_WRITE EV_READ"
  by (simp_all add: has_clear_flag_disjoint has_set_flag, simp_all add: has_flag_def)

section \<open>Bufferevents\<close>

type_synonym bev = nat
type_synonym event_base = nat
type_synonym evutil_socket_t = int

record sockaddr_storage =
  sin_family :: "16 word"
  sin_port :: "16 word"
  sin_addr :: "32 word"
  ss_rest :: "byte list"

record event_watermark =
  low :: nat
  high :: nat

record ('cb, 'ctx) bufferevent =
  ev_base :: event_base
  bev_fd :: evutil_socket_t
  inbuf :: "byte list"
  outbuf :: "byte list"
  wm_read :: event_watermark
  wm_write :: event_watermark
  bev_readcb :: "'cb option"
  bev_writecb :: "'cb option"
  bev_errorcb :: "'cb option"
  bev_cbarg :: 'ctx
  enabled :: flags

text \<open>The bufferevents that are allocated, by their address.\<close>

type_synonym ('cb, 'ctx) heap = "bev \<Rightarrow> ('cb, 'ctx) bufferevent option"

abbreviation reading :: "('cb, 'ctx) bufferevent \<Rightarrow> bool" where
  "reading x \<equiv> has_flag (enabled x) EV_READ"

abbreviation writing :: "('cb, 'ctx) bufferevent \<Rightarrow> bool" where
  "writing x \<equiv> has_flag (enabled x) EV_WRITE"

text \<open>
  An \<open>evbuffer\<close> of the program is always the input or the output buffer of a bufferevent
  (\<open>bufferevent_get_input\<close>, \<open>bufferevent_get_output\<close>).
\<close>

datatype evbuffer = Input_Of bev | Output_Of bev

primrec buf_owner :: "evbuffer \<Rightarrow> bev" where
  "buf_owner (Input_Of b) = b"
| "buf_owner (Output_Of b) = b"

primrec buf_get :: "evbuffer \<Rightarrow> ('cb, 'ctx) bufferevent \<Rightarrow> byte list" where
  "buf_get (Input_Of b) x = inbuf x"
| "buf_get (Output_Of b) x = outbuf x"

primrec buf_set :: "evbuffer \<Rightarrow> byte list \<Rightarrow> ('cb, 'ctx) bufferevent \<Rightarrow> ('cb, 'ctx) bufferevent" where
  "buf_set (Input_Of b) d x = x\<lparr>inbuf := d\<rparr>"
| "buf_set (Output_Of b) d x = x\<lparr>outbuf := d\<rparr>"

definition buf_contents :: "('cb, 'ctx) heap \<Rightarrow> evbuffer \<Rightarrow> byte list" where
  "buf_contents h eb = (case h (buf_owner eb) of None \<Rightarrow> [] | Some x \<Rightarrow> buf_get eb x)"

definition buf_write :: "evbuffer \<Rightarrow> byte list \<Rightarrow> ('cb, 'ctx) heap \<Rightarrow> ('cb, 'ctx) heap" where
  "buf_write eb d h = h(buf_owner eb := map_option (buf_set eb d) (h (buf_owner eb)))"

definition buf_live :: "('cb, 'ctx) heap \<Rightarrow> evbuffer \<Rightarrow> bool" where
  "buf_live h eb \<longleftrightarrow> h (buf_owner eb) \<noteq> None"

definition fresh_bev :: "('cb, 'ctx) bufferevent \<Rightarrow> bool" where
  "fresh_bev x \<longleftrightarrow> inbuf x = [] \<and> outbuf x = [] \<and> wm_read x = \<lparr>low = 0, high = 0\<rparr> \<and>
     wm_write x = \<lparr>low = 0, high = 0\<rparr> \<and>
     bev_readcb x = None \<and> bev_writecb x = None \<and> bev_errorcb x = None"

section \<open>The library's functions\<close>

record ('cb, 'ctx) libevent =
  le_socket_new :: "event_base \<Rightarrow> evutil_socket_t \<Rightarrow> flags \<Rightarrow> ('cb, 'ctx) heap \<Rightarrow>
    bev option \<times> ('cb, 'ctx) heap"
  le_openssl_socket_new :: "event_base \<Rightarrow> evutil_socket_t \<Rightarrow> flags \<Rightarrow> ('cb, 'ctx) heap \<Rightarrow>
    bev option \<times> ('cb, 'ctx) heap"
  le_openssl_filter_new :: "event_base \<Rightarrow> bev \<Rightarrow> flags \<Rightarrow> ('cb, 'ctx) heap \<Rightarrow>
    bev option \<times> ('cb, 'ctx) heap"
  le_socket_connect :: "bev \<Rightarrow> sockaddr_storage \<Rightarrow> ('cb, 'ctx) heap \<Rightarrow> int \<times> ('cb, 'ctx) heap"
  le_free :: "bev \<Rightarrow> ('cb, 'ctx) heap \<Rightarrow> ('cb, 'ctx) heap"
  le_setcb :: "bev \<Rightarrow> 'cb option \<Rightarrow> 'cb option \<Rightarrow> 'cb option \<Rightarrow> 'ctx \<Rightarrow>
    ('cb, 'ctx) heap \<Rightarrow> ('cb, 'ctx) heap"
  le_setwatermark :: "bev \<Rightarrow> flags \<Rightarrow> nat \<Rightarrow> nat \<Rightarrow> ('cb, 'ctx) heap \<Rightarrow> ('cb, 'ctx) heap"
  le_enable :: "bev \<Rightarrow> flags \<Rightarrow> ('cb, 'ctx) heap \<Rightarrow> ('cb, 'ctx) heap"
  le_disable :: "bev \<Rightarrow> flags \<Rightarrow> ('cb, 'ctx) heap \<Rightarrow> ('cb, 'ctx) heap"
  le_get_length :: "evbuffer \<Rightarrow> ('cb, 'ctx) heap \<Rightarrow> nat"
  le_add_buffer :: "evbuffer \<Rightarrow> evbuffer \<Rightarrow> ('cb, 'ctx) heap \<Rightarrow> ('cb, 'ctx) heap"
  le_add :: "evbuffer \<Rightarrow> byte list \<Rightarrow> ('cb, 'ctx) heap \<Rightarrow> ('cb, 'ctx) heap"
  le_drain :: "evbuffer \<Rightarrow> nat \<Rightarrow> ('cb, 'ctx) heap \<Rightarrow> ('cb, 'ctx) heap"

text \<open>
  Calls as statements: a call on a bufferevent that is not allocated is a fault, whatever the
  library would do.
\<close>

definition on_live :: "bev \<Rightarrow> (('cb, 'ctx) heap \<Rightarrow> ('cb, 'ctx) heap) \<Rightarrow> ('cb, 'ctx) heap stmt" where
  "on_live b f h = (if h b = None then Inl Use_After_Free else Inr (f h))"

definition bufferevent_free :: "('cb, 'ctx) libevent \<Rightarrow> bev \<Rightarrow> ('cb, 'ctx) heap stmt" where
  "bufferevent_free L b = on_live b (le_free L b)"

definition bufferevent_setcb :: "('cb, 'ctx) libevent \<Rightarrow> bev \<Rightarrow> 'cb option \<Rightarrow> 'cb option \<Rightarrow>
    'cb option \<Rightarrow> 'ctx \<Rightarrow> ('cb, 'ctx) heap stmt" where
  "bufferevent_setcb L b r w e arg = on_live b (le_setcb L b r w e arg)"

definition bufferevent_setwatermark :: "('cb, 'ctx) libevent \<Rightarrow> bev \<Rightarrow> flags \<Rightarrow> nat \<Rightarrow> nat \<Rightarrow>
    ('cb, 'ctx) heap stmt" where
  "bufferevent_setwatermark L b ev lo hi = on_live b (le_setwatermark L b ev lo hi)"

definition bufferevent_enable :: "('cb, 'ctx) libevent \<Rightarrow> bev \<Rightarrow> flags \<Rightarrow> ('cb, 'ctx) heap stmt" where
  "bufferevent_enable L b ev = on_live b (le_enable L b ev)"

definition bufferevent_disable :: "('cb, 'ctx) libevent \<Rightarrow> bev \<Rightarrow> flags \<Rightarrow> ('cb, 'ctx) heap stmt" where
  "bufferevent_disable L b ev = on_live b (le_disable L b ev)"

definition evbuffer_add_buffer :: "('cb, 'ctx) libevent \<Rightarrow> evbuffer \<Rightarrow> evbuffer \<Rightarrow>
    ('cb, 'ctx) heap stmt" where
  "evbuffer_add_buffer L dst src h =
     (if buf_live h dst \<and> buf_live h src then Inr (le_add_buffer L dst src h)
      else Inl Use_After_Free)"

definition evbuffer_add :: "('cb, 'ctx) libevent \<Rightarrow> evbuffer \<Rightarrow> byte list \<Rightarrow> ('cb, 'ctx) heap stmt" where
  "evbuffer_add L dst d = on_live (buf_owner dst) (le_add L dst d)"

definition evbuffer_drain :: "('cb, 'ctx) libevent \<Rightarrow> evbuffer \<Rightarrow> nat \<Rightarrow> ('cb, 'ctx) heap stmt" where
  "evbuffer_drain L src n = on_live (buf_owner src) (le_drain L src n)"

text \<open>A statement that reads the length of an evbuffer and goes on with it.\<close>

definition with_length :: "('cb, 'ctx) libevent \<Rightarrow> evbuffer \<Rightarrow> (nat \<Rightarrow> ('cb, 'ctx) heap stmt) \<Rightarrow>
    ('cb, 'ctx) heap stmt" where
  "with_length L eb k h =
     (if buf_live h eb then k (le_get_length L eb h) h else Inl Use_After_Free)"

section \<open>What the headers document\<close>

locale libevent_lib =
  fixes L :: "('cb, 'ctx) libevent"
  assumes socket_new_none: "le_socket_new L base fd opts h = (None, h') \<Longrightarrow> h' = h"
    and socket_new_some: "le_socket_new L base fd opts h = (Some b, h') \<Longrightarrow>
      h b = None \<and> (\<exists>x. fresh_bev x \<and> h' = h(b \<mapsto> x))"
    and ssl_socket_new_none: "le_openssl_socket_new L base fd opts h = (None, h') \<Longrightarrow> h' = h"
    and ssl_socket_new_some: "le_openssl_socket_new L base fd opts h = (Some b, h') \<Longrightarrow>
      h b = None \<and> (\<exists>x. fresh_bev x \<and> h' = h(b \<mapsto> x))"
    and ssl_filter_new_none: "le_openssl_filter_new L base u opts h = (None, h') \<Longrightarrow> h' = h"
    and ssl_filter_new_some: "le_openssl_filter_new L base u opts h = (Some b, h') \<Longrightarrow>
      h b = None \<and> (\<exists>x. fresh_bev x \<and> h' = (h(u := None))(b \<mapsto> x))"
    and socket_connect: "h b = Some x \<Longrightarrow>
      \<exists>rc fd. le_socket_connect L b a h = (rc, h(b \<mapsto> x\<lparr>bev_fd := fd\<rparr>))"
    and free: "h b = Some x \<Longrightarrow> le_free L b h = h(b := None)"
    and setcb: "h b = Some x \<Longrightarrow> le_setcb L b r w e arg h =
      h(b \<mapsto> x\<lparr>bev_readcb := r, bev_writecb := w, bev_errorcb := e, bev_cbarg := arg\<rparr>)"
    and setwatermark: "h b = Some x \<Longrightarrow> le_setwatermark L b ev lo hi h =
      h(b \<mapsto> x\<lparr>wm_read := (if has_flag ev EV_READ then \<lparr>low = lo, high = hi\<rparr> else wm_read x),
               wm_write := (if has_flag ev EV_WRITE then \<lparr>low = lo, high = hi\<rparr> else wm_write x)\<rparr>)"
    and enable: "h b = Some x \<Longrightarrow>
      le_enable L b ev h = h(b \<mapsto> x\<lparr>enabled := set_flag (enabled x) ev\<rparr>)"
    and disable: "h b = Some x \<Longrightarrow>
      le_disable L b ev h = h(b \<mapsto> x\<lparr>enabled := clear_flag (enabled x) ev\<rparr>)"
    and get_length: "buf_live h eb \<Longrightarrow> le_get_length L eb h = length (buf_contents h eb)"
    and add_buffer: "buf_live h dst \<Longrightarrow> buf_live h src \<Longrightarrow> dst \<noteq> src \<Longrightarrow>
      le_add_buffer L dst src h =
        buf_write src [] (buf_write dst (buf_contents h dst @ buf_contents h src) h)"
    and add: "buf_live h dst \<Longrightarrow> le_add L dst d h = buf_write dst (buf_contents h dst @ d) h"
    and drain: "buf_live h src \<Longrightarrow>
      le_drain L src n h = buf_write src (drop n (buf_contents h src)) h"
begin

text \<open>Each call, computed: the fault on a released bufferevent, else the documented effect.\<close>

lemma free_eq:
  "bufferevent_free L b h = (case h b of None \<Rightarrow> Inl Use_After_Free | Some x \<Rightarrow> Inr (h(b := None)))"
  by (auto simp: bufferevent_free_def on_live_def free split: option.split)

lemma setcb_eq:
  "bufferevent_setcb L b r w e arg h = (case h b of None \<Rightarrow> Inl Use_After_Free | Some x \<Rightarrow>
     Inr (h(b \<mapsto> x\<lparr>bev_readcb := r, bev_writecb := w, bev_errorcb := e, bev_cbarg := arg\<rparr>)))"
  by (auto simp: bufferevent_setcb_def on_live_def setcb split: option.split)

lemma setwatermark_eq:
  "bufferevent_setwatermark L b EV_WRITE lo hi h = (case h b of None \<Rightarrow> Inl Use_After_Free
     | Some x \<Rightarrow> Inr (h(b \<mapsto> x\<lparr>wm_write := \<lparr>low = lo, high = hi\<rparr>\<rparr>)))"
  by (auto simp: bufferevent_setwatermark_def on_live_def setwatermark split: option.split)

lemma enable_eq:
  "bufferevent_enable L b ev h = (case h b of None \<Rightarrow> Inl Use_After_Free
     | Some x \<Rightarrow> Inr (h(b \<mapsto> x\<lparr>enabled := set_flag (enabled x) ev\<rparr>)))"
  by (auto simp: bufferevent_enable_def on_live_def enable split: option.split)

lemma disable_eq:
  "bufferevent_disable L b ev h = (case h b of None \<Rightarrow> Inl Use_After_Free
     | Some x \<Rightarrow> Inr (h(b \<mapsto> x\<lparr>enabled := clear_flag (enabled x) ev\<rparr>)))"
  by (auto simp: bufferevent_disable_def on_live_def disable split: option.split)

lemma add_buffer_eq:
  assumes "h p = Some y" and "h b = Some x"
  shows "evbuffer_add_buffer L (Output_Of p) (Input_Of b) h =
    Inr (if p = b then h(b \<mapsto> x\<lparr>outbuf := outbuf x @ inbuf x, inbuf := []\<rparr>)
         else h(p \<mapsto> y\<lparr>outbuf := outbuf y @ inbuf x\<rparr>, b \<mapsto> x\<lparr>inbuf := []\<rparr>))"
  using assms
  by (auto simp: evbuffer_add_buffer_def buf_live_def add_buffer buf_write_def buf_contents_def)

lemma drain_eq:
  "evbuffer_drain L (Input_Of b) n h = (case h b of None \<Rightarrow> Inl Use_After_Free
     | Some x \<Rightarrow> Inr (h(b \<mapsto> x\<lparr>inbuf := drop n (inbuf x)\<rparr>)))"
  by (auto simp: evbuffer_drain_def on_live_def drain buf_live_def buf_write_def buf_contents_def
      split: option.split)

lemma evbuffer_add_eq:
  "evbuffer_add L (Output_Of b) d h = (case h b of None \<Rightarrow> Inl Use_After_Free
     | Some x \<Rightarrow> Inr (h(b \<mapsto> x\<lparr>outbuf := outbuf x @ d\<rparr>)))"
  by (auto simp: evbuffer_add_def on_live_def add buf_live_def buf_write_def buf_contents_def
      split: option.split)

lemma with_length_eq:
  "with_length L (Output_Of b) k h = (case h b of None \<Rightarrow> Inl Use_After_Free
     | Some x \<Rightarrow> k (length (outbuf x)) h)"
  "with_length L (Input_Of b) k h = (case h b of None \<Rightarrow> Inl Use_After_Free
     | Some x \<Rightarrow> k (length (inbuf x)) h)"
  by (auto simp: with_length_def get_length buf_live_def buf_contents_def split: option.split)

lemmas api_simps = free_eq setcb_eq setwatermark_eq enable_eq disable_eq add_buffer_eq drain_eq
  evbuffer_add_eq with_length_eq

end

section \<open>A library with the documented behaviour\<close>

definition new_bev :: "'ctx \<Rightarrow> event_base \<Rightarrow> evutil_socket_t \<Rightarrow> ('cb, 'ctx) bufferevent" where
  "new_bev c base fd = \<lparr>ev_base = base, bev_fd = fd, inbuf = [], outbuf = [],
     wm_read = \<lparr>low = 0, high = 0\<rparr>, wm_write = \<lparr>low = 0, high = 0\<rparr>, bev_readcb = None,
     bev_writecb = None, bev_errorcb = None, bev_cbarg = c, enabled = EV_WRITE\<rparr>"

text \<open>A fixed pool of addresses: allocation fails when all of them are in use.\<close>

definition bev_pool :: "bev list" where
  "bev_pool = [1, 2, 3, 4, 5, 6, 7, 8]"

definition alloc_bev :: "'ctx \<Rightarrow> event_base \<Rightarrow> evutil_socket_t \<Rightarrow> ('cb, 'ctx) heap \<Rightarrow>
    bev option \<times> ('cb, 'ctx) heap" where
  "alloc_bev c base fd h = (case find (\<lambda>b. h b = None) bev_pool of
     None \<Rightarrow> (None, h) | Some b \<Rightarrow> (Some b, h(b \<mapsto> new_bev c base fd)))"

definition upd_bev :: "bev \<Rightarrow> (('cb, 'ctx) bufferevent \<Rightarrow> ('cb, 'ctx) bufferevent) \<Rightarrow>
    ('cb, 'ctx) heap \<Rightarrow> ('cb, 'ctx) heap" where
  "upd_bev b f h = h(b := map_option f (h b))"

definition libevent_ref :: "'ctx \<Rightarrow> ('cb, 'ctx) libevent" where
  "libevent_ref c = \<lparr>
     le_socket_new = (\<lambda>base fd opts. alloc_bev c base fd),
     le_openssl_socket_new = (\<lambda>base fd opts. alloc_bev c base fd),
     le_openssl_filter_new = (\<lambda>base u opts h. (case alloc_bev c base (- 1) h of
        (None, _) \<Rightarrow> (None, h)
      | (Some b, _) \<Rightarrow> (Some b, (h(u := None))(b \<mapsto> new_bev c base (- 1))))),
     le_socket_connect = (\<lambda>b a h. (0, upd_bev b (\<lambda>x. x\<lparr>bev_fd := 100 + int b\<rparr>) h)),
     le_free = (\<lambda>b h. h(b := None)),
     le_setcb = (\<lambda>b r w e arg. upd_bev b (\<lambda>x. x\<lparr>bev_readcb := r, bev_writecb := w,
        bev_errorcb := e, bev_cbarg := arg\<rparr>)),
     le_setwatermark = (\<lambda>b ev lo hi. upd_bev b (\<lambda>x. x\<lparr>
        wm_read := (if has_flag ev EV_READ then \<lparr>low = lo, high = hi\<rparr> else wm_read x),
        wm_write := (if has_flag ev EV_WRITE then \<lparr>low = lo, high = hi\<rparr> else wm_write x)\<rparr>)),
     le_enable = (\<lambda>b ev. upd_bev b (\<lambda>x. x\<lparr>enabled := set_flag (enabled x) ev\<rparr>)),
     le_disable = (\<lambda>b ev. upd_bev b (\<lambda>x. x\<lparr>enabled := clear_flag (enabled x) ev\<rparr>)),
     le_get_length = (\<lambda>eb h. length (buf_contents h eb)),
     le_add_buffer = (\<lambda>dst src h.
        buf_write src [] (buf_write dst (buf_contents h dst @ buf_contents h src) h)),
     le_add = (\<lambda>dst d h. buf_write dst (buf_contents h dst @ d) h),
     le_drain = (\<lambda>src n h. buf_write src (drop n (buf_contents h src)) h)\<rparr>"

lemma alloc_bev_none: "alloc_bev c base fd h = (None, h') \<Longrightarrow> h' = h"
  by (auto simp: alloc_bev_def split: option.splits)

lemma alloc_bev_some:
  assumes "alloc_bev c base fd h = (Some b, h')"
  shows "h b = None \<and> h' = h(b \<mapsto> new_bev c base fd)"
proof -
  from assms have f: "find (\<lambda>b. h b = None) bev_pool = Some b"
    and h': "h' = h(b \<mapsto> new_bev c base fd)"
    by (auto simp: alloc_bev_def split: option.splits)
  from f have "h b = None" by (auto simp: find_Some_iff)
  with h' show ?thesis by simp
qed

lemma fresh_new_bev: "fresh_bev (new_bev c base fd)"
  by (simp add: fresh_bev_def new_bev_def)

interpretation ref: libevent_lib "libevent_ref c" for c
proof
  fix base fd opts h h' b
  show "le_socket_new (libevent_ref c) base fd opts h = (None, h') \<Longrightarrow> h' = h"
    by (auto simp: libevent_ref_def dest: alloc_bev_none)
  show "le_socket_new (libevent_ref c) base fd opts h = (Some b, h') \<Longrightarrow>
      h b = None \<and> (\<exists>x. fresh_bev x \<and> h' = h(b \<mapsto> x))"
    by (auto simp: libevent_ref_def dest: alloc_bev_some intro: fresh_new_bev)
  show "le_openssl_socket_new (libevent_ref c) base fd opts h = (None, h') \<Longrightarrow> h' = h"
    by (auto simp: libevent_ref_def dest: alloc_bev_none)
  show "le_openssl_socket_new (libevent_ref c) base fd opts h = (Some b, h') \<Longrightarrow>
      h b = None \<and> (\<exists>x. fresh_bev x \<and> h' = h(b \<mapsto> x))"
    by (auto simp: libevent_ref_def dest: alloc_bev_some intro: fresh_new_bev)
next
  fix base u opts h h' b
  show "le_openssl_filter_new (libevent_ref c) base u opts h = (None, h') \<Longrightarrow> h' = h"
    by (auto simp: libevent_ref_def split: prod.splits option.splits)
  show "le_openssl_filter_new (libevent_ref c) base u opts h = (Some b, h') \<Longrightarrow>
      h b = None \<and> (\<exists>x. fresh_bev x \<and> h' = (h(u := None))(b \<mapsto> x))"
    by (auto simp: libevent_ref_def split: prod.splits option.splits
        dest: alloc_bev_some intro: fresh_new_bev)
qed (auto simp: libevent_ref_def upd_bev_def)

end
