(* ===== verification/Le_Proxy.thy ===== *)
theory Le_Proxy
  imports Libevent
begin

text \<open>
  The forwarding proxy of \<open>source/tcp/le_proxy.cpp\<close>: the four bufferevent callbacks and
  \<open>accept_cb\<close>, statement by statement, and the event loop around them as a step relation.

  The callback argument \<open>ctx\<close> is the partner bufferevent or \<open>NULL\<close> (\<open>bev option\<close>). A step of the
  loop is what the headers let libevent do with a bufferevent: read bytes into its input while
  reading is enabled, write bytes of its output while writing is enabled, run its read callback,
  run its write callback when the output has fallen to the low watermark, run its event callback,
  or accept a connection. The ghost fields \<open>arrived\<close> and \<open>sent\<close> record, per bufferevent, the bytes
  that have arrived for it from its partner's peer and the bytes it has written out.

  Shown here: no callback ever touches a released bufferevent; bytes are delivered in order, none
  lost, none made up, and a bufferevent is closed after a flush only when all of them are out; a
  full output stops the reading of the other side, and reading is always resumed; the proxy
  refines a pair of FIFO channels.
\<close>

section \<open>The callbacks\<close>

datatype le_cb = Readcb | Drained_Writecb | Close_On_Finished_Writecb | Eventcb

type_synonym le_bev = "(le_cb, bev option) bufferevent"
type_synonym le_heap = "(le_cb, bev option) heap"
type_synonym le_lib = "(le_cb, bev option) libevent"

definition MAX_OUTPUT :: nat where
  "MAX_OUTPUT = 512 * 1024"

definition readcb :: "le_lib \<Rightarrow> bev \<Rightarrow> bev option \<Rightarrow> le_heap stmt" where
  "readcb L bev ctx = with_length L (Input_Of bev) (\<lambda>len.
     case ctx of
       None \<Rightarrow> evbuffer_drain L (Input_Of bev) len
     | Some partner \<Rightarrow> exec
        [evbuffer_add_buffer L (Output_Of partner) (Input_Of bev),
         with_length L (Output_Of partner) (\<lambda>n. when_stmt (n \<ge> MAX_OUTPUT)
           [bufferevent_setcb L partner (Some Readcb) (Some Drained_Writecb) (Some Eventcb) (Some bev),
            bufferevent_setwatermark L partner EV_WRITE (MAX_OUTPUT div 2) MAX_OUTPUT,
            bufferevent_disable L bev EV_READ])])"

definition drained_writecb :: "le_lib \<Rightarrow> bev \<Rightarrow> bev option \<Rightarrow> le_heap stmt" where
  "drained_writecb L bev ctx = exec
     [bufferevent_setcb L bev (Some Readcb) None (Some Eventcb) ctx,
      bufferevent_setwatermark L bev EV_WRITE 0 0,
      (case ctx of None \<Rightarrow> exec [] | Some partner \<Rightarrow> bufferevent_enable L partner EV_READ)]"

definition close_on_finished_writecb :: "le_lib \<Rightarrow> bev \<Rightarrow> bev option \<Rightarrow> le_heap stmt" where
  "close_on_finished_writecb L bev ctx =
     with_length L (Output_Of bev) (\<lambda>n. when_stmt (n = 0) [bufferevent_free L bev])"

definition eventcb :: "le_lib \<Rightarrow> bev \<Rightarrow> flags \<Rightarrow> bev option \<Rightarrow> le_heap stmt" where
  "eventcb L bev what ctx = when_stmt (has_flag what (BEV_EVENT_EOF OR BEV_EVENT_ERROR))
     [(case ctx of
         None \<Rightarrow> exec []
       | Some partner \<Rightarrow> exec
          [readcb L bev ctx,
           with_length L (Output_Of partner) (\<lambda>n.
             if n \<noteq> 0 then exec
               [bufferevent_setcb L partner None (Some Close_On_Finished_Writecb) (Some Eventcb) None,
                bufferevent_disable L partner EV_READ]
             else bufferevent_free L partner)]),
      bufferevent_free L bev]"

text \<open>The call through a \<open>bufferevent_data_cb\<close> pointer.\<close>

primrec le_data_cb :: "le_cb \<Rightarrow> le_lib \<Rightarrow> bev \<Rightarrow> bev option \<Rightarrow> le_heap stmt" where
  "le_data_cb Readcb L = readcb L"
| "le_data_cb Drained_Writecb L = drained_writecb L"
| "le_data_cb Close_On_Finished_Writecb L = close_on_finished_writecb L"
| "le_data_cb Eventcb L = (\<lambda>bev ctx h. Inl Type_Confusion)"

section \<open>Accepting a connection\<close>

record le_globals =
  le_base :: event_base
  connect_to_addr :: sockaddr_storage
  ssl_ctx :: bool           \<comment> \<open>\<open>ssl_ctx\<close> is not \<open>NULL\<close>\<close>
  use_wrapper :: bool

abbreviation BEV_OPTS :: flags where
  "BEV_OPTS \<equiv> BEV_OPT_CLOSE_ON_FREE OR BEV_OPT_DEFER_CALLBACKS"

text \<open>The last four statements of \<open>accept_cb\<close>, and its two error returns.\<close>

definition le_link :: "le_lib \<Rightarrow> bev \<Rightarrow> bev \<Rightarrow> le_heap \<Rightarrow> (le_heap \<times> (bev \<times> bev) option) res" where
  "le_link L b_in b_out h = map_sum id (\<lambda>h'. (h', Some (b_in, b_out))) (exec
     [bufferevent_setcb L b_in (Some Readcb) None (Some Eventcb) (Some b_out),
      bufferevent_setcb L b_out (Some Readcb) None (Some Eventcb) (Some b_in),
      bufferevent_enable L b_in (EV_READ OR EV_WRITE),
      bufferevent_enable L b_out (EV_READ OR EV_WRITE)] h)"

definition le_drop :: "le_lib \<Rightarrow> bev \<Rightarrow> bev \<Rightarrow> le_heap \<Rightarrow> (le_heap \<times> (bev \<times> bev) option) res" where
  "le_drop L b_in b_out h = map_sum id (\<lambda>h'. (h', None)) (exec
     [bufferevent_free L b_out, bufferevent_free L b_in] h)"

definition accept_cb :: "le_lib \<Rightarrow> le_globals \<Rightarrow> evutil_socket_t \<Rightarrow> le_heap \<Rightarrow>
    (le_heap \<times> (bev \<times> bev) option) res" where
  "accept_cb L g fd h =
     (case le_socket_new L (le_base g) fd BEV_OPTS h of (b_in, h1) \<Rightarrow>
      case (if \<not> ssl_ctx g \<or> use_wrapper g then le_socket_new L (le_base g) (- 1) BEV_OPTS h1
            else le_openssl_socket_new L (le_base g) (- 1) BEV_OPTS h1) of (b_out, h2) \<Rightarrow>
      (case (b_in, b_out) of
         (Some b_in, Some b_out) \<Rightarrow>
           (case le_socket_connect L b_out (connect_to_addr g) h2 of (rc, h3) \<Rightarrow>
              if rc < 0 then le_drop L b_in b_out h3
              else if ssl_ctx g \<and> use_wrapper g then
                (case le_openssl_filter_new L (le_base g) b_out BEV_OPTS h3 of
                   (None, h4) \<Rightarrow> le_drop L b_in b_out h4
                 | (Some b_ssl, h4) \<Rightarrow> le_link L b_in b_ssl h4)
              else le_link L b_in b_out h3)
       | _ \<Rightarrow> Inl Assert_Failed))"

section \<open>The event loop\<close>

record le_state =
  bevs :: le_heap
  arrived :: "bev \<Rightarrow> byte list"
  sent :: "bev \<Rightarrow> byte list"

definition log_arrival :: "bev option \<Rightarrow> byte list \<Rightarrow> (bev \<Rightarrow> byte list) \<Rightarrow> bev \<Rightarrow> byte list" where
  "log_arrival to d a = (case to of None \<Rightarrow> a | Some p \<Rightarrow> a(p := a p @ d))"

definition le_after :: "le_state \<Rightarrow> le_heap res \<Rightarrow> le_state res" where
  "le_after s r = map_sum id (\<lambda>h. s\<lparr>bevs := h\<rparr>) r"

definition le_accepted :: "le_state \<Rightarrow> (le_heap \<times> (bev \<times> bev) option) res \<Rightarrow> le_state res" where
  "le_accepted s r = map_sum id (\<lambda>(h, new). case new of
       None \<Rightarrow> s\<lparr>bevs := h\<rparr>
     | Some (b_in, b_out) \<Rightarrow> s\<lparr>bevs := h, arrived := (arrived s)(b_in := [], b_out := []),
                               sent := (sent s)(b_in := [], b_out := [])\<rparr>) r"

datatype le_action =
    Sock_Read bev "byte list" | Sock_Write bev "byte list"
  | Run_Readcb bev | Run_Writecb bev | Run_Eventcb bev flags | Accept evutil_socket_t

inductive le_step :: "le_lib \<Rightarrow> le_globals \<Rightarrow> le_state \<Rightarrow> le_action \<Rightarrow> le_state res \<Rightarrow> bool"
  for L :: le_lib and g :: le_globals where
  sock_read: "bevs s b = Some x \<Longrightarrow> reading x \<Longrightarrow>
    le_step L g s (Sock_Read b d) (Inr (s\<lparr>bevs := (bevs s)(b \<mapsto> x\<lparr>inbuf := inbuf x @ d\<rparr>),
      arrived := log_arrival (bev_cbarg x) d (arrived s)\<rparr>))"
| sock_write: "bevs s b = Some x \<Longrightarrow> writing x \<Longrightarrow> outbuf x = d @ rest \<Longrightarrow>
    le_step L g s (Sock_Write b d) (Inr (s\<lparr>bevs := (bevs s)(b \<mapsto> x\<lparr>outbuf := rest\<rparr>),
      sent := (sent s)(b := sent s b @ d)\<rparr>))"
| run_readcb: "bevs s b = Some x \<Longrightarrow> bev_readcb x = Some cb \<Longrightarrow>
    le_step L g s (Run_Readcb b) (le_after s (le_data_cb cb L b (bev_cbarg x) (bevs s)))"
| run_writecb: "bevs s b = Some x \<Longrightarrow> bev_writecb x = Some cb \<Longrightarrow>
    length (outbuf x) \<le> low (wm_write x) \<Longrightarrow>
    le_step L g s (Run_Writecb b) (le_after s (le_data_cb cb L b (bev_cbarg x) (bevs s)))"
| run_eventcb: "bevs s b = Some x \<Longrightarrow> bev_errorcb x = Some Eventcb \<Longrightarrow>
    le_step L g s (Run_Eventcb b what) (le_after s (eventcb L b what (bev_cbarg x) (bevs s)))"
| accept: "le_step L g s (Accept fd) (le_accepted s (accept_cb L g fd (bevs s)))"

definition le_init :: le_state where
  "le_init = \<lparr>bevs = (\<lambda>_. None), arrived = (\<lambda>_. []), sent = (\<lambda>_. [])\<rparr>"

inductive le_steps :: "le_lib \<Rightarrow> le_globals \<Rightarrow> le_state \<Rightarrow> le_action list \<Rightarrow> le_state \<Rightarrow> bool"
  for L :: le_lib and g :: le_globals where
  le_refl: "le_steps L g s [] s"
| le_more: "le_steps L g s as t \<Longrightarrow> le_step L g t a (Inr u) \<Longrightarrow> le_steps L g s (as @ [a]) u"

definition le_reachable :: "le_lib \<Rightarrow> le_globals \<Rightarrow> le_state \<Rightarrow> bool" where
  "le_reachable L g s \<longleftrightarrow> (\<exists>as. le_steps L g le_init as s)"

section \<open>The invariant\<close>

lemma MAX_OUTPUT_half: "MAX_OUTPUT div 2 < MAX_OUTPUT" "0 < MAX_OUTPUT"
  by (simp_all add: MAX_OUTPUT_def)

text \<open>
  A bufferevent is either linked to a live partner that is linked back to it, or it has no partner
  any more and only waits for its output to drain. Of a linked pair, \<open>y\<close> is read as long as the
  output \<open>x\<close> of what is read is below \<open>MAX_OUTPUT\<close>; when \<open>y\<close> is not read, \<open>x\<close> has the callback
  that will turn reading on again.
\<close>

definition le_throttle :: "le_bev \<Rightarrow> le_bev \<Rightarrow> bool" where
  "le_throttle x y \<longleftrightarrow>
     (if reading y then bev_writecb x = None \<and> length (outbuf x) < MAX_OUTPUT
      else bev_writecb x = Some Drained_Writecb \<and> low (wm_write x) = MAX_OUTPUT div 2)"

definition le_ok :: "le_heap \<Rightarrow> bev \<Rightarrow> le_bev \<Rightarrow> bool" where
  "le_ok h b x \<longleftrightarrow> writing x \<and> bev_errorcb x = Some Eventcb \<and>
     (case bev_cbarg x of
        None \<Rightarrow> bev_readcb x = None \<and> bev_writecb x = Some Close_On_Finished_Writecb \<and> \<not> reading x
      | Some p \<Rightarrow> p \<noteq> b \<and> bev_readcb x = Some Readcb \<and>
          (\<exists>y. h p = Some y \<and> bev_cbarg y = Some b \<and> le_throttle x y))"

definition le_inv :: "le_heap \<Rightarrow> bool" where
  "le_inv h \<longleftrightarrow> (\<forall>b x. h b = Some x \<longrightarrow> le_ok h b x)"

text \<open>What the output of \<open>b\<close> and the input of its partner hold together.\<close>

definition in_flight :: "le_heap \<Rightarrow> le_bev \<Rightarrow> byte list" where
  "in_flight h x = outbuf x @ (case bev_cbarg x of None \<Rightarrow> [] | Some p \<Rightarrow>
     (case h p of None \<Rightarrow> [] | Some y \<Rightarrow> inbuf y))"

definition le_stream :: "le_state \<Rightarrow> bool" where
  "le_stream s \<longleftrightarrow> (\<forall>b x. bevs s b = Some x \<longrightarrow>
     arrived s b = sent s b @ in_flight (bevs s) x)"

definition le_good :: "le_state \<Rightarrow> bool" where
  "le_good s \<longleftrightarrow> le_inv (bevs s) \<and> le_stream s"

lemma le_good_init: "le_good le_init"
  by (simp add: le_good_def le_inv_def le_stream_def le_init_def)

lemma le_goodD:
  assumes "le_good s" and "bevs s b = Some x"
  shows "le_ok (bevs s) b x" and "arrived s b = sent s b @ in_flight (bevs s) x"
  using assms by (auto simp: le_good_def le_inv_def le_stream_def)

lemma le_linked:
  assumes "le_good s" and "bevs s b = Some x" and "bev_cbarg x = Some p"
  obtains y where "p \<noteq> b" "bevs s p = Some y" "bev_cbarg y = Some b"
    "le_throttle x y" "le_throttle y x"
proof -
  from le_goodD(1) [OF assms(1,2)] assms(3) obtain y where
    y: "p \<noteq> b" "bevs s p = Some y" "bev_cbarg y = Some b" "le_throttle x y"
    by (auto simp: le_ok_def)
  from le_goodD(1) [OF assms(1) y(2)] y(3) assms(2) have "le_throttle y x"
    by (auto simp: le_ok_def)
  with y show thesis by (rule that)
qed

lemma le_partner_outside:
  assumes good: "le_good s" and b: "bevs s b = Some x" and c: "bevs s c = Some z"
    and out: "c \<noteq> b" "bev_cbarg x \<noteq> Some c" and q: "bev_cbarg z = Some q"
  shows "q \<noteq> b \<and> bev_cbarg x \<noteq> Some q"
proof -
  obtain y where y: "bevs s q = Some y" "bev_cbarg y = Some c"
    using le_linked [OF good c q] by blast
  have "bev_cbarg x \<noteq> Some q"
  proof
    assume "bev_cbarg x = Some q"
    then have "bev_cbarg y = Some b" using le_linked [OF good b] y(1) by (metis option.sel)
    with y(2) out(1) show False by simp
  qed
  moreover have "q \<noteq> b" using y b out(2) by auto
  ultimately show ?thesis by simp
qed

text \<open>
  A step changes one bufferevent and at most its partner. The rest of the heap is linked among
  itself, so only the two have to be looked at.
\<close>

lemma le_good_upd:
  assumes good: "le_good s" and b: "bevs s b = Some x"
    and frame: "\<And>c. c \<noteq> b \<Longrightarrow> bev_cbarg x \<noteq> Some c \<Longrightarrow>
      bevs s' c = bevs s c \<and> arrived s' c = arrived s c \<and> sent s' c = sent s c"
    and loc: "\<And>c z. c = b \<or> bev_cbarg x = Some c \<Longrightarrow> bevs s' c = Some z \<Longrightarrow>
      le_ok (bevs s') c z \<and> arrived s' c = sent s' c @ in_flight (bevs s') z"
  shows "le_good s'"
proof -
  have "le_ok (bevs s') c z \<and> arrived s' c = sent s' c @ in_flight (bevs s') z"
    if c: "bevs s' c = Some z" for c z
  proof (cases "c = b \<or> bev_cbarg x = Some c")
    case True
    then show ?thesis using c by (rule loc)
  next
    case False
    then have h: "bevs s c = Some z" and fc: "arrived s' c = arrived s c" "sent s' c = sent s c"
      using frame [of c] c by auto
    show ?thesis
    proof (cases "bev_cbarg z")
      case None
      then show ?thesis using le_goodD [OF good h] fc by (auto simp: le_ok_def in_flight_def)
    next
      case (Some q)
      then have "bevs s' q = bevs s q"
        using le_partner_outside [OF good b h] False frame by blast
      then show ?thesis using Some le_goodD [OF good h] fc by (auto simp: le_ok_def in_flight_def)
    qed
  qed
  then show ?thesis by (auto simp: le_good_def le_inv_def le_stream_def)
qed

lemma le_good_pair:
  assumes good: "le_good s" and b: "bevs s b = Some x" and p: "bev_cbarg x = Some p"
    and h: "h = (bevs s)(b := X, p := Y)"
    and X: "\<And>z. X = Some z \<Longrightarrow> le_ok h b z \<and> arrived s b = sent s b @ in_flight h z"
    and Y: "\<And>z. Y = Some z \<Longrightarrow> le_ok h p z \<and> arrived s p = sent s p @ in_flight h z"
  shows "le_good (s\<lparr>bevs := h\<rparr>)"
proof (rule le_good_upd [OF good b], goal_cases)
  case (1 c)
  then show ?case using p h by auto
next
  case (2 c z)
  have "p \<noteq> b" using le_goodD(1) [OF good b] p by (auto simp: le_ok_def)
  with 2 p h consider "c = b" "X = Some z" | "c = p" "Y = Some z" by auto
  then show ?case using X Y by cases auto
qed

section \<open>What the callbacks do\<close>

definition full_partner :: "bev \<Rightarrow> byte list \<Rightarrow> le_bev \<Rightarrow> le_bev" where
  "full_partner b d y = y\<lparr>outbuf := outbuf y @ d, bev_readcb := Some Readcb,
     bev_writecb := Some Drained_Writecb, bev_errorcb := Some Eventcb, bev_cbarg := Some b,
     wm_write := \<lparr>low = MAX_OUTPUT div 2, high = MAX_OUTPUT\<rparr>\<rparr>"

definition closing_partner :: "le_bev \<Rightarrow> le_bev" where
  "closing_partner y = y\<lparr>bev_readcb := None, bev_writecb := Some Close_On_Finished_Writecb,
     bev_errorcb := Some Eventcb, bev_cbarg := None, enabled := clear_flag (enabled y) EV_READ\<rparr>"

definition linked_bev :: "bev \<Rightarrow> le_bev \<Rightarrow> bool" where
  "linked_bev p x \<longleftrightarrow> inbuf x = [] \<and> outbuf x = [] \<and> bev_readcb x = Some Readcb \<and>
     bev_writecb x = None \<and> bev_errorcb x = Some Eventcb \<and> bev_cbarg x = Some p \<and>
     reading x \<and> writing x"

definition link_bev :: "bev \<Rightarrow> le_bev \<Rightarrow> le_bev" where
  "link_bev p x = x\<lparr>bev_readcb := Some Readcb, bev_writecb := None, bev_errorcb := Some Eventcb,
     bev_cbarg := Some p, enabled := set_flag (enabled x) (EV_READ OR EV_WRITE)\<rparr>"

lemma linked_link_bev: "fresh_bev x \<Longrightarrow> linked_bev p (link_bev p x)"
  by (simp add: linked_bev_def link_bev_def fresh_bev_def)

lemma le_good_accept:
  assumes good: "le_good s" and new: "bevs s a = None" "bevs s b = None" "a \<noteq> b"
    and x: "linked_bev b x" and y: "linked_bev a y"
  shows "le_good (s\<lparr>bevs := (bevs s)(a \<mapsto> x, b \<mapsto> y), arrived := (arrived s)(a := [], b := []),
    sent := (sent s)(a := [], b := [])\<rparr>)" (is "le_good ?s")
proof -
  have "le_ok (bevs ?s) c z \<and> arrived ?s c = sent ?s c @ in_flight (bevs ?s) z"
    if c: "bevs ?s c = Some z" for c z
  proof -
    consider "c = a" "z = x" | "c = b" "z = y" | "c \<noteq> a" "c \<noteq> b" "bevs s c = Some z"
      using c new(3) by (auto split: if_splits)
    then show ?thesis
    proof cases
      case 3
      have "bev_cbarg z \<noteq> Some a" "bev_cbarg z \<noteq> Some b"
        using le_goodD(1) [OF good 3(3)] new(1,2) by (auto simp: le_ok_def)
      then show ?thesis using 3 le_goodD [OF good 3(3)]
        by (auto simp: le_ok_def in_flight_def split: option.splits)
    qed (use x y new(3) MAX_OUTPUT_half(2) in
        \<open>auto simp: linked_bev_def le_ok_def le_throttle_def in_flight_def\<close>)
  qed
  then show ?thesis by (auto simp: le_good_def le_inv_def le_stream_def)
qed

text \<open>Bytes that arrive or leave keep the invariant.\<close>

lemma sock_read_good:
  assumes good: "le_good s" and b: "bevs s b = Some x" and rd: "reading x"
  shows "le_good (s\<lparr>bevs := (bevs s)(b \<mapsto> x\<lparr>inbuf := inbuf x @ d\<rparr>),
    arrived := log_arrival (bev_cbarg x) d (arrived s)\<rparr>)"
proof (rule le_good_upd [OF good b], goal_cases)
  case (1 c)
  then show ?case by (auto simp: log_arrival_def split: option.splits)
next
  case (2 c z)
  obtain p where p: "bev_cbarg x = Some p"
    using le_goodD(1) [OF good b] rd by (auto simp: le_ok_def split: option.splits)
  obtain y where y: "p \<noteq> b" "bevs s p = Some y" "bev_cbarg y = Some b"
    using le_linked [OF good b p] by blast
  then show ?case using 2 p b le_goodD [OF good b] le_goodD [OF good y(2)]
    by (auto simp: log_arrival_def le_ok_def le_throttle_def in_flight_def)
qed

lemma sock_write_good:
  assumes good: "le_good s" and b: "bevs s b = Some x" and out: "outbuf x = d @ rest"
  shows "le_good (s\<lparr>bevs := (bevs s)(b \<mapsto> x\<lparr>outbuf := rest\<rparr>), sent := (sent s)(b := sent s b @ d)\<rparr>)"
proof (rule le_good_upd [OF good b], goal_cases)
  case (1 c)
  then show ?case by auto
next
  case (2 c z)
  show ?case
  proof (cases "bev_cbarg x")
    case None
    then show ?thesis using 2 out le_goodD [OF good b] by (auto simp: le_ok_def in_flight_def)
  next
    case (Some p)
    then obtain y where y: "p \<noteq> b" "bevs s p = Some y" "bev_cbarg y = Some b"
      using le_linked [OF good b] by metis
    then show ?thesis using 2 Some b out le_goodD [OF good b] le_goodD [OF good y(2)]
      by (auto simp: le_ok_def le_throttle_def in_flight_def)
  qed
qed

locale le_proxy_lib = libevent_lib L for L :: le_lib
begin

lemma readcb_linked:
  assumes "h b = Some x" and "h p = Some y" and "p \<noteq> b"
  shows "readcb L b (Some p) h = Inr (
    if MAX_OUTPUT \<le> length (outbuf y @ inbuf x)
    then h(b \<mapsto> x\<lparr>inbuf := [], enabled := clear_flag (enabled x) EV_READ\<rparr>,
           p \<mapsto> full_partner b (inbuf x) y)
    else h(b \<mapsto> x\<lparr>inbuf := []\<rparr>, p \<mapsto> y\<lparr>outbuf := outbuf y @ inbuf x\<rparr>))"
  using assms by (simp add: readcb_def api_simps full_partner_def fun_upd_twist)

lemma readcb_unlinked:
  assumes "h b = Some x"
  shows "readcb L b None h = Inr (h(b \<mapsto> x\<lparr>inbuf := []\<rparr>))"
  using assms by (simp add: readcb_def api_simps)

lemma drained_writecb_linked:
  assumes "h b = Some x" and "h p = Some y" and "p \<noteq> b"
  shows "drained_writecb L b (Some p) h = Inr (h(
    b \<mapsto> x\<lparr>bev_readcb := Some Readcb, bev_writecb := None, bev_errorcb := Some Eventcb,
          bev_cbarg := Some p, wm_write := \<lparr>low = 0, high = 0\<rparr>\<rparr>,
    p \<mapsto> y\<lparr>enabled := set_flag (enabled y) EV_READ\<rparr>))"
  using assms by (simp add: drained_writecb_def api_simps)

lemma close_on_finished_writecb_eq:
  assumes "h b = Some x"
  shows "close_on_finished_writecb L b ctx h =
    Inr (if outbuf x = [] then h(b := None) else h)"
  using assms by (simp add: close_on_finished_writecb_def api_simps)

lemma eventcb_other:
  assumes "\<not> has_flag what (BEV_EVENT_EOF OR BEV_EVENT_ERROR)"
  shows "eventcb L b what ctx h = Inr h"
  using assms by (simp add: eventcb_def)

lemma eventcb_unlinked:
  assumes "has_flag what (BEV_EVENT_EOF OR BEV_EVENT_ERROR)" and "h b = Some x"
  shows "eventcb L b what None h = Inr (h(b := None))"
  using assms by (simp add: eventcb_def api_simps)

lemma eventcb_linked:
  assumes "has_flag what (BEV_EVENT_EOF OR BEV_EVENT_ERROR)"
    and "h b = Some x" and "h p = Some y" and "p \<noteq> b"
  shows "eventcb L b what (Some p) h = Inr (h(b := None, p :=
    (if outbuf y @ inbuf x = [] then None else Some (closing_partner (y\<lparr>outbuf := outbuf y @ inbuf x,
       wm_write := if MAX_OUTPUT \<le> length (outbuf y @ inbuf x)
         then \<lparr>low = MAX_OUTPUT div 2, high = MAX_OUTPUT\<rparr> else wm_write y\<rparr>)))))"
proof (cases "MAX_OUTPUT \<le> length (outbuf y @ inbuf x)")
  case True
  then have "outbuf y @ inbuf x \<noteq> []"
    using MAX_OUTPUT_half(2) by auto
  with assms True show ?thesis
    by (auto simp: eventcb_def readcb_linked api_simps closing_partner_def full_partner_def
        fun_upd_twist)
next
  case False
  with assms show ?thesis
    by (cases y) (simp add: eventcb_def readcb_linked api_simps closing_partner_def fun_upd_twist)
qed

text \<open>Every callback, run where the loop may run it, returns and keeps the invariant.\<close>

lemma readcb_good:
  assumes good: "le_good s" and b: "bevs s b = Some x" and p: "bev_cbarg x = Some p"
  shows "\<exists>h. readcb L b (Some p) (bevs s) = Inr h \<and> le_good (s\<lparr>bevs := h\<rparr>)"
proof -
  obtain y where y: "p \<noteq> b" "bevs s p = Some y" "bev_cbarg y = Some b"
    and th: "le_throttle x y" "le_throttle y x"
    using le_linked [OF good b p] by blast
  note facts = b p y th le_goodD [OF good b] le_goodD [OF good y(2)]
  show ?thesis
  proof (cases "MAX_OUTPUT \<le> length (outbuf y @ inbuf x)")
    case True
    have "le_good (s\<lparr>bevs := (bevs s)(b \<mapsto> x\<lparr>inbuf := [], enabled := clear_flag (enabled x) EV_READ\<rparr>,
        p \<mapsto> full_partner b (inbuf x) y)\<rparr>)"
      using facts True by (intro le_good_pair [OF good b p refl])
        (auto simp: le_ok_def le_throttle_def in_flight_def full_partner_def)
    with True readcb_linked [of "bevs s", OF b y(2,1)] show ?thesis by simp
  next
    case False
    have "le_good (s\<lparr>bevs := (bevs s)(b \<mapsto> x\<lparr>inbuf := []\<rparr>, p \<mapsto> y\<lparr>outbuf := outbuf y @ inbuf x\<rparr>)\<rparr>)"
      using facts False by (intro le_good_pair [OF good b p refl])
        (auto simp: le_ok_def le_throttle_def in_flight_def)
    with False readcb_linked [of "bevs s", OF b y(2,1)] show ?thesis by simp
  qed
qed

lemma drained_writecb_good:
  assumes good: "le_good s" and b: "bevs s b = Some x" and p: "bev_cbarg x = Some p"
    and cb: "bev_writecb x = Some Drained_Writecb" and out: "length (outbuf x) \<le> low (wm_write x)"
  shows "\<exists>h. drained_writecb L b (Some p) (bevs s) = Inr h \<and> le_good (s\<lparr>bevs := h\<rparr>)"
proof -
  obtain y where y: "p \<noteq> b" "bevs s p = Some y" "bev_cbarg y = Some b"
    and th: "le_throttle x y" "le_throttle y x"
    using le_linked [OF good b p] by blast
  have "length (outbuf x) < MAX_OUTPUT"
    using th(1) cb out MAX_OUTPUT_half(1) by (auto simp: le_throttle_def split: if_splits)
  then have "le_good (s\<lparr>bevs := (bevs s)(
      b \<mapsto> x\<lparr>bev_readcb := Some Readcb, bev_writecb := None, bev_errorcb := Some Eventcb,
            bev_cbarg := Some p, wm_write := \<lparr>low = 0, high = 0\<rparr>\<rparr>,
      p \<mapsto> y\<lparr>enabled := set_flag (enabled y) EV_READ\<rparr>)\<rparr>)"
    using b p y th le_goodD [OF good b] le_goodD [OF good y(2)]
    by (intro le_good_pair [OF good b p refl])
      (auto simp: le_ok_def le_throttle_def in_flight_def)
  with drained_writecb_linked [of "bevs s", OF b y(2,1)] show ?thesis by simp
qed

text \<open>A bufferevent without partner is not the partner of another, so it can go.\<close>

lemma le_good_release:
  assumes good: "le_good s" and b: "bevs s b = Some x" and ctx: "bev_cbarg x = None"
  shows "le_good (s\<lparr>bevs := (bevs s)(b := None)\<rparr>)"
  by (rule le_good_upd [OF good b]) (use ctx in auto)

lemma eventcb_good:
  assumes good: "le_good s" and b: "bevs s b = Some x"
  shows "\<exists>h. eventcb L b what (bev_cbarg x) (bevs s) = Inr h \<and> le_good (s\<lparr>bevs := h\<rparr>)"
proof (cases "has_flag what (BEV_EVENT_EOF OR BEV_EVENT_ERROR)")
  case False
  then show ?thesis using eventcb_other good by simp
next
  case True
  show ?thesis
  proof (cases "bev_cbarg x")
    case None
    then show ?thesis using eventcb_unlinked [of what "bevs s", OF True b]
        le_good_release [OF good b] by simp
  next
    case (Some p)
    then obtain y where y: "p \<noteq> b" "bevs s p = Some y" "bev_cbarg y = Some b"
      using le_linked [OF good b] by metis
    have "le_good (s\<lparr>bevs := (bevs s)(b := None, p :=
      (if outbuf y @ inbuf x = [] then None else Some (closing_partner (y\<lparr>outbuf := outbuf y @ inbuf x,
       wm_write := if MAX_OUTPUT \<le> length (outbuf y @ inbuf x)
         then \<lparr>low = MAX_OUTPUT div 2, high = MAX_OUTPUT\<rparr> else wm_write y\<rparr>))))\<rparr>)"
      using b Some y le_goodD [OF good y(2)]
      by (intro le_good_pair [OF good b Some refl])
        (auto simp: le_ok_def in_flight_def closing_partner_def split: if_splits)
    then show ?thesis using eventcb_linked [of what "bevs s", OF True b y(2,1)] Some by simp
  qed
qed

lemma le_link_eq:
  assumes "h b_in = Some x" and "h b_out = Some y" and "b_in \<noteq> b_out"
  shows "le_link L b_in b_out h =
    Inr (h(b_in \<mapsto> link_bev b_out x, b_out \<mapsto> link_bev b_in y), Some (b_in, b_out))"
  using assms by (simp add: le_link_def api_simps link_bev_def fun_upd_twist)

lemma le_drop_eq:
  assumes "h b_in = Some x" and "h b_out = Some y" and "b_in \<noteq> b_out"
  shows "le_drop L b_in b_out h = Inr (h(b_out := None, b_in := None), None)"
  using assms by (simp add: le_drop_def api_simps)

text \<open>
  \<open>accept_cb\<close> fails its assertion, gives up and leaves the heap as it was, or adds a linked pair of
  new bufferevents. The address of the upstream bufferevent is given back in the last case when a
  TLS filter has taken it over.
\<close>

definition accept_outcome :: "le_heap \<Rightarrow> (le_heap \<times> (bev \<times> bev) option) res \<Rightarrow> bool" where
  "accept_outcome h r \<longleftrightarrow> r = Inl Assert_Failed \<or> r = Inr (h, None) \<or>
     (\<exists>a b x y. r = Inr (h(a \<mapsto> x, b \<mapsto> y), Some (a, b)) \<and> h a = None \<and> h b = None \<and> a \<noteq> b \<and>
        linked_bev b x \<and> linked_bev a y)"

lemma le_drop_outcome:
  assumes "h a = None" and "h b = None" and "a \<noteq> b"
  shows "accept_outcome h (le_drop L a b (h(a \<mapsto> x, b \<mapsto> y)))"
  using assms le_drop_eq [of "h(a \<mapsto> x, b \<mapsto> y)" a x b y]
  by (simp add: accept_outcome_def fun_upd_twist fun_upd_idem)

lemma le_link_outcome:
  assumes "h a = None" and "h b = None" and "a \<noteq> b" and "fresh_bev x" and "fresh_bev y"
  shows "accept_outcome h (le_link L a b (h(a \<mapsto> x, b \<mapsto> y)))"
  using assms le_link_eq [of "h(a \<mapsto> x, b \<mapsto> y)" a x b y]
  unfolding accept_outcome_def
  by (intro disjI2 exI [of _ a] exI [of _ b] exI [of _ "link_bev b x"] exI [of _ "link_bev a y"])
    (simp add: fun_upd_twist linked_link_bev)

lemma upstream_new:
  assumes "(if c then le_socket_new L base (- 1) opts h else le_openssl_socket_new L base (- 1) opts h)
    = (Some b, h')"
  shows "h b = None \<and> (\<exists>y. fresh_bev y \<and> h' = h(b \<mapsto> y))"
proof (cases c)
  case True
  with assms have "le_socket_new L base (- 1) opts h = (Some b, h')" by simp
  then show ?thesis by (rule socket_new_some)
next
  case False
  with assms have "le_openssl_socket_new L base (- 1) opts h = (Some b, h')" by simp
  then show ?thesis by (rule ssl_socket_new_some)
qed

lemma wrap_outcome:
  assumes a: "h a = None" and b: "h b = None" "a \<noteq> b" and x: "fresh_bev x"
    and w: "le_openssl_filter_new L base b opts (h(a \<mapsto> x, b \<mapsto> y)) = (r, h4)"
  shows "accept_outcome h (case r of None \<Rightarrow> le_drop L a b h4 | Some c \<Rightarrow> le_link L a c h4)"
proof (cases r)
  case None
  then have "h4 = h(a \<mapsto> x, b \<mapsto> y)" using ssl_filter_new_none w by blast
  then show ?thesis using None le_drop_outcome [OF a b] by simp
next
  case (Some c)
  obtain z where z: "(h(a \<mapsto> x, b \<mapsto> y)) c = None" "fresh_bev z"
    "h4 = ((h(a \<mapsto> x, b \<mapsto> y))(b := None))(c \<mapsto> z)"
    using ssl_filter_new_some w Some by blast
  have c: "h c = None" "a \<noteq> c" using z(1) by (auto split: if_splits)
  have "h4 = h(a \<mapsto> x, c \<mapsto> z)" using z(3) b by (auto simp: fun_eq_iff)
  then show ?thesis using Some le_link_outcome [OF a c x z(2)] by simp
qed

lemma connect_outcome:
  assumes a: "h a = None" and b: "h b = None" "a \<noteq> b" and x: "fresh_bev x" and y: "fresh_bev y"
  shows "accept_outcome h (case le_socket_connect L b adr (h(a \<mapsto> x, b \<mapsto> y)) of (rc, h3) \<Rightarrow>
    if rc < 0 then le_drop L a b h3
    else if wrap then (case le_openssl_filter_new L base b opts h3 of
        (None, h4) \<Rightarrow> le_drop L a b h4 | (Some c, h4) \<Rightarrow> le_link L a c h4)
    else le_link L a b h3)"
proof -
  obtain rc f where c: "le_socket_connect L b adr (h(a \<mapsto> x, b \<mapsto> y)) =
      (rc, h(a \<mapsto> x, b \<mapsto> y\<lparr>bev_fd := f\<rparr>))"
    using socket_connect [of "h(a \<mapsto> x, b \<mapsto> y)" b y adr] by auto
  obtain r h4 where w: "le_openssl_filter_new L base b opts (h(a \<mapsto> x, b \<mapsto> y\<lparr>bev_fd := f\<rparr>)) = (r, h4)"
    by fastforce
  have "fresh_bev (y\<lparr>bev_fd := f\<rparr>)" using y by (simp add: fresh_bev_def)
  then show ?thesis
    using c w wrap_outcome [OF a b x w] le_drop_outcome [OF a b] le_link_outcome [OF a b x]
    by (cases r) auto
qed

lemma accept_cb_outcome: "accept_outcome h (accept_cb L g fd h)"
proof -
  obtain bi h1 where n1: "le_socket_new L (le_base g) fd BEV_OPTS h = (bi, h1)" by fastforce
  obtain bo h2 where n2: "(if \<not> ssl_ctx g \<or> use_wrapper g
      then le_socket_new L (le_base g) (- 1) BEV_OPTS h1
      else le_openssl_socket_new L (le_base g) (- 1) BEV_OPTS h1) = (bo, h2)" by fastforce
  show ?thesis
  proof (cases bi; cases bo)
    fix a b assume ab: "bi = Some a" "bo = Some b"
    obtain x where x: "h a = None" "fresh_bev x" "h1 = h(a \<mapsto> x)"
      using socket_new_some n1 ab(1) by blast
    obtain y where y: "h1 b = None" "fresh_bev y" "h2 = h1(b \<mapsto> y)"
      using upstream_new n2 ab(2) by blast
    have b: "h b = None" "a \<noteq> b" using x y by (auto split: if_splits)
    show ?thesis
      unfolding accept_cb_def n1 [unfolded ab x(3)] n2 [unfolded ab y(3) x(3)] prod.case option.case
      by (rule connect_outcome [OF x(1) b x(2) y(2)])
  qed (use n1 n2 in \<open>simp_all add: accept_cb_def accept_outcome_def\<close>)
qed

lemma accept_good:
  assumes good: "le_good s" and r: "le_accepted s (accept_cb L g fd (bevs s)) = r"
  shows "r = Inl Assert_Failed \<or> (\<exists>s'. r = Inr s' \<and> le_good s')"
  using accept_cb_outcome [of "bevs s" g fd] r good
  unfolding accept_outcome_def
  by (auto simp: le_accepted_def intro!: le_good_accept)

lemma writecb_good:
  assumes good: "le_good s" and b: "bevs s b = Some x" and cb: "bev_writecb x = Some cb"
    and out: "length (outbuf x) \<le> low (wm_write x)"
  shows "\<exists>h. le_data_cb cb L b (bev_cbarg x) (bevs s) = Inr h \<and> le_good (s\<lparr>bevs := h\<rparr>)"
proof (cases "bev_cbarg x")
  case None
  then have "cb = Close_On_Finished_Writecb"
    using le_goodD(1) [OF good b] cb by (simp add: le_ok_def)
  then show ?thesis using None close_on_finished_writecb_eq [of "bevs s", OF b]
      le_good_release [OF good b] good by simp
next
  case (Some p)
  then obtain y where "le_throttle x y" using le_linked [OF good b] by metis
  then have "cb = Drained_Writecb" using cb by (auto simp: le_throttle_def split: if_splits)
  then show ?thesis using Some drained_writecb_good [OF good b Some] cb out by simp
qed

lemma run_readcb_good:
  assumes good: "le_good s" and b: "bevs s b = Some x" and cb: "bev_readcb x = Some cb"
  shows "\<exists>h. le_data_cb cb L b (bev_cbarg x) (bevs s) = Inr h \<and> le_good (s\<lparr>bevs := h\<rparr>)"
proof -
  obtain p where "bev_cbarg x = Some p" "cb = Readcb"
    using le_goodD(1) [OF good b] cb by (auto simp: le_ok_def split: option.splits)
  then show ?thesis using readcb_good [OF good b] by simp
qed

lemma le_after_good:
  "\<exists>h. r = Inr h \<and> le_good (s\<lparr>bevs := h\<rparr>) \<Longrightarrow> \<exists>s'. le_after s r = Inr s' \<and> le_good s'"
  by (auto simp: le_after_def)

lemma step_good:
  assumes step: "le_step L g s a r" and good: "le_good s"
  shows "(r = Inl Assert_Failed \<and> (\<exists>fd. a = Accept fd)) \<or> (\<exists>s'. r = Inr s' \<and> le_good s')"
  using step
proof cases
  case (sock_read b x d)
  then show ?thesis using sock_read_good [OF good] by blast
next
  case (sock_write b x d rest)
  then show ?thesis using sock_write_good [OF good] by blast
next
  case (run_readcb b x cb)
  then show ?thesis using le_after_good [OF run_readcb_good [OF good]] by blast
next
  case (run_writecb b x cb)
  then show ?thesis using le_after_good [OF writecb_good [OF good]] by blast
next
  case (run_eventcb b x what)
  then show ?thesis using le_after_good [OF eventcb_good [OF good]] by blast
next
  case (accept fd)
  then show ?thesis using accept_good [OF good, of g fd] by blast
qed

lemma steps_good: "le_steps L g s as t \<Longrightarrow> le_good s \<Longrightarrow> le_good t"
  by (induction rule: le_steps.induct) (auto dest: step_good)

lemma reachable_good: "le_reachable L g s \<Longrightarrow> le_good s"
  using steps_good le_good_init by (auto simp: le_reachable_def)

end

section \<open>The abstract relay\<close>

text \<open>
  What a forwarding proxy promises, without buffers, callbacks and watermarks: per endpoint a FIFO
  of the bytes on their way to it and the bytes already delivered. An endpoint that reports the end
  or an error of its connection goes, with what was on its way to it; the endpoint at the other
  side goes at the same time only if nothing is on its way to it, and otherwise as soon as that is
  so.
\<close>

type_synonym relay = "bev \<Rightarrow> (byte list \<times> byte list) option"

inductive relay_step :: "relay \<Rightarrow> le_action \<Rightarrow> relay \<Rightarrow> bool" where
  receive: "c p = Some (q, dlv) \<Longrightarrow> relay_step c (Sock_Read b d) (c(p \<mapsto> (q @ d, dlv)))"
| deliver: "c b = Some (d @ q, dlv) \<Longrightarrow> relay_step c (Sock_Write b d) (c(b \<mapsto> (q, dlv @ d)))"
| forward: "relay_step c (Run_Readcb b) c"
| drained: "relay_step c (Run_Writecb b) c"
| finish: "c b = Some ([], dlv) \<Longrightarrow> relay_step c (Run_Writecb b) (c(b := None))"
| no_hangup: "\<not> has_flag what (BEV_EVENT_EOF OR BEV_EVENT_ERROR) \<Longrightarrow> relay_step c (Run_Eventcb b what) c"
| hangup: "has_flag what (BEV_EVENT_EOF OR BEV_EVENT_ERROR) \<Longrightarrow>
    relay_step c (Run_Eventcb b what) (c(b := None))"
| hangup_both: "has_flag what (BEV_EVENT_EOF OR BEV_EVENT_ERROR) \<Longrightarrow> c p = Some ([], dlv) \<Longrightarrow>
    relay_step c (Run_Eventcb b what) (c(b := None, p := None))"
| refuse: "relay_step c (Accept fd) c"
| connect: "c a = None \<Longrightarrow> c b = None \<Longrightarrow> a \<noteq> b \<Longrightarrow>
    relay_step c (Accept fd) (c(a \<mapsto> ([], []), b \<mapsto> ([], [])))"

definition relay_of :: "le_state \<Rightarrow> relay" where
  "relay_of s b = map_option (\<lambda>x. (in_flight (bevs s) x, sent s b)) (bevs s b)"

lemma relay_of_frame:
  assumes good: "le_good s" and b: "bevs s b = Some x" and out: "c \<noteq> b" "bev_cbarg x \<noteq> Some c"
    and frame: "\<And>c. c \<noteq> b \<Longrightarrow> bev_cbarg x \<noteq> Some c \<Longrightarrow> bevs s' c = bevs s c \<and> sent s' c = sent s c"
  shows "relay_of s' c = relay_of s c"
proof (cases "bevs s c")
  case None
  then show ?thesis using frame [OF out] by (simp add: relay_of_def)
next
  case (Some z)
  have "in_flight (bevs s') z = in_flight (bevs s) z"
  proof (cases "bev_cbarg z")
    case (Some q)
    then show ?thesis
      using le_partner_outside [OF good b \<open>bevs s c = Some z\<close> out Some] frame by (simp add: in_flight_def)
  qed (simp add: in_flight_def)
  then show ?thesis using Some frame [OF out] by (simp add: relay_of_def)
qed

lemma relay_of_some: "bevs s b = Some x \<Longrightarrow> relay_of s b = Some (in_flight (bevs s) x, sent s b)"
  by (simp add: relay_of_def)

lemma relay_of_pair:
  assumes good: "le_good s" and b: "bevs s b = Some x" and p: "bev_cbarg x = Some p"
    and h: "h = (bevs s)(b := X, p := Y)"
  shows "relay_of (s\<lparr>bevs := h\<rparr>) = (relay_of s)(
    b := map_option (\<lambda>z. (in_flight h z, sent s b)) X,
    p := map_option (\<lambda>z. (in_flight h z, sent s p)) Y)"
proof
  fix c
  have "p \<noteq> b" using le_goodD(1) [OF good b] p by (auto simp: le_ok_def)
  moreover have "relay_of (s\<lparr>bevs := h\<rparr>) c = relay_of s c" if "c \<noteq> b" "c \<noteq> p"
    using that p h by (intro relay_of_frame [OF good b]) auto
  ultimately show "relay_of (s\<lparr>bevs := h\<rparr>) c = ((relay_of s)(
      b := map_option (\<lambda>z. (in_flight h z, sent s b)) X,
      p := map_option (\<lambda>z. (in_flight h z, sent s p)) Y)) c"
    using h by (auto simp: relay_of_def)
qed

lemma relay_of_same:
  assumes good: "le_good s" and b: "bevs s b = Some x" and p: "bev_cbarg x = Some p"
    and y: "bevs s p = Some y" and h: "h = (bevs s)(b \<mapsto> z, p \<mapsto> w)"
    and "in_flight h z = in_flight (bevs s) x" and "in_flight h w = in_flight (bevs s) y"
  shows "relay_of (s\<lparr>bevs := h\<rparr>) = relay_of s"
  unfolding relay_of_pair [OF good b p h]
  using assms(6,7) relay_of_some [OF b] relay_of_some [OF y] by (auto simp: fun_eq_iff)

text \<open>A bufferevent that only waits for its output to drain is in nobody else's way.\<close>

lemma relay_of_release:
  assumes good: "le_good s" and b: "bevs s b = Some x" and ctx: "bev_cbarg x = None"
  shows "relay_of (s\<lparr>bevs := (bevs s)(b := None)\<rparr>) = (relay_of s)(b := None)"
proof
  fix c
  show "relay_of (s\<lparr>bevs := (bevs s)(b := None)\<rparr>) c = ((relay_of s)(b := None)) c"
  proof (cases "c = b")
    case False
    have "relay_of (s\<lparr>bevs := (bevs s)(b := None)\<rparr>) c = relay_of s c"
      by (rule relay_of_frame [OF good b False]) (use ctx in auto)
    with False show ?thesis by simp
  qed (simp add: relay_of_def)
qed

lemma sock_read_refines:
  assumes good: "le_good s" and b: "bevs s b = Some x" and rd: "reading x"
  shows "\<exists>p q dlv. relay_of s p = Some (q, dlv) \<and>
    relay_of (s\<lparr>bevs := (bevs s)(b \<mapsto> x\<lparr>inbuf := inbuf x @ d\<rparr>), arrived := a\<rparr>) =
      (relay_of s)(p \<mapsto> (q @ d, dlv))"
proof -
  obtain p where p: "bev_cbarg x = Some p"
    using le_goodD(1) [OF good b] rd by (auto simp: le_ok_def split: option.splits)
  obtain y where y: "p \<noteq> b" "bevs s p = Some y" "bev_cbarg y = Some b"
    using le_linked [OF good b p] by blast
  let ?h = "(bevs s)(b \<mapsto> x\<lparr>inbuf := inbuf x @ d\<rparr>, p \<mapsto> y)"
  have h: "?h = (bevs s)(b \<mapsto> x\<lparr>inbuf := inbuf x @ d\<rparr>)" using y by auto
  have "relay_of (s\<lparr>bevs := ?h, arrived := a\<rparr>) = relay_of (s\<lparr>bevs := ?h\<rparr>)"
    by (simp add: relay_of_def fun_eq_iff)
  also have "\<dots> = (relay_of s)(p \<mapsto> (in_flight (bevs s) y @ d, sent s p))"
    using relay_of_some [OF b] b p y
    by (auto simp: relay_of_pair [OF good b p refl] in_flight_def fun_eq_iff)
  finally show ?thesis using relay_of_some [OF y(2)] h by metis
qed

lemma sock_write_refines:
  assumes good: "le_good s" and b: "bevs s b = Some x" and out: "outbuf x = d @ rest"
  shows "\<exists>q dlv. relay_of s b = Some (d @ q, dlv) \<and>
    relay_of (s\<lparr>bevs := (bevs s)(b \<mapsto> x\<lparr>outbuf := rest\<rparr>), sent := (sent s)(b := sent s b @ d)\<rparr>) =
      (relay_of s)(b \<mapsto> (q, dlv @ d))"
proof -
  let ?s = "s\<lparr>bevs := (bevs s)(b \<mapsto> x\<lparr>outbuf := rest\<rparr>), sent := (sent s)(b := sent s b @ d)\<rparr>"
  have ne: "bev_cbarg x \<noteq> Some b" using le_goodD(1) [OF good b] by (auto simp: le_ok_def)
  have fl: "in_flight (bevs s) x = d @ in_flight (bevs ?s) (x\<lparr>outbuf := rest\<rparr>)"
    using out ne by (auto simp: in_flight_def split: option.splits)
  have "relay_of ?s = (relay_of s)(b \<mapsto> (in_flight (bevs ?s) (x\<lparr>outbuf := rest\<rparr>), sent s b @ d))"
  proof (rule ext)
    fix c
    have "in_flight (bevs ?s) z = in_flight (bevs s) z" for z
      using b by (auto simp: in_flight_def split: option.splits)
    then show "relay_of ?s c =
        ((relay_of s)(b \<mapsto> (in_flight (bevs ?s) (x\<lparr>outbuf := rest\<rparr>), sent s b @ d))) c"
      by (simp add: relay_of_def)
  qed
  then show ?thesis using relay_of_some [OF b] fl
    by (intro exI [of _ "in_flight (bevs ?s) (x\<lparr>outbuf := rest\<rparr>)"] exI [of _ "sent s b"]) simp
qed

context le_proxy_lib
begin

lemma readcb_refines:
  assumes good: "le_good s" and b: "bevs s b = Some x" and p: "bev_cbarg x = Some p"
    and r: "readcb L b (Some p) (bevs s) = Inr h"
  shows "relay_of (s\<lparr>bevs := h\<rparr>) = relay_of s"
proof -
  obtain y where y: "p \<noteq> b" "bevs s p = Some y" "bev_cbarg y = Some b"
    using le_linked [OF good b p] by blast
  show ?thesis
  proof (cases "MAX_OUTPUT \<le> length (outbuf y @ inbuf x)")
    case True
    then show ?thesis using readcb_linked [of "bevs s", OF b y(2,1)] r p y b
      by (intro relay_of_same [OF good b p y(2)]) (auto simp: in_flight_def full_partner_def)
  next
    case False
    then show ?thesis using readcb_linked [of "bevs s", OF b y(2,1)] r p y b
      by (intro relay_of_same [OF good b p y(2)]) (auto simp: in_flight_def)
  qed
qed

lemma writecb_refines:
  assumes good: "le_good s" and b: "bevs s b = Some x" and cb: "bev_writecb x = Some cb"
    and r: "le_data_cb cb L b (bev_cbarg x) (bevs s) = Inr h"
  shows "relay_step (relay_of s) (Run_Writecb b) (relay_of (s\<lparr>bevs := h\<rparr>))"
proof (cases "bev_cbarg x")
  case None
  then have "cb = Close_On_Finished_Writecb"
    using le_goodD(1) [OF good b] cb by (simp add: le_ok_def)
  then have h: "h = (if outbuf x = [] then (bevs s)(b := None) else bevs s)"
    using r None close_on_finished_writecb_eq [of "bevs s", OF b] by simp
  show ?thesis
  proof (cases "outbuf x = []")
    case True
    then have "relay_of s b = Some ([], sent s b)"
      using relay_of_some [OF b] None by (simp add: in_flight_def)
    with True h relay_of_release [OF good b None] show ?thesis by (auto intro: finish)
  qed (use h in \<open>auto intro: drained\<close>)
next
  case (Some p)
  then obtain y where y: "p \<noteq> b" "bevs s p = Some y" "bev_cbarg y = Some b" and th: "le_throttle x y"
    using le_linked [OF good b] by metis
  have "cb = Drained_Writecb" using th cb by (auto simp: le_throttle_def split: if_splits)
  then have "relay_of (s\<lparr>bevs := h\<rparr>) = relay_of s"
    using drained_writecb_linked [of "bevs s", OF b y(2,1)] r Some y b
    by (intro relay_of_same [OF good b Some y(2)]) (auto simp: in_flight_def)
  then show ?thesis by (simp add: drained)
qed

lemma eventcb_refines:
  assumes good: "le_good s" and b: "bevs s b = Some x"
    and r: "eventcb L b what (bev_cbarg x) (bevs s) = Inr h"
  shows "relay_step (relay_of s) (Run_Eventcb b what) (relay_of (s\<lparr>bevs := h\<rparr>))"
proof (cases "has_flag what (BEV_EVENT_EOF OR BEV_EVENT_ERROR)")
  case False
  then have "h = bevs s" using r eventcb_other by simp
  then show ?thesis using no_hangup [OF False] by simp
next
  case True
  show ?thesis
  proof (cases "bev_cbarg x")
    case None
    then show ?thesis using r eventcb_unlinked [of what "bevs s", OF True b]
        relay_of_release [OF good b None] hangup [OF True] by simp
  next
    case (Some p)
    then obtain y where y: "p \<noteq> b" "bevs s p = Some y" "bev_cbarg y = Some b"
      using le_linked [OF good b] by metis
    have rp: "relay_of s p = Some (outbuf y @ inbuf x, sent s p)"
      using relay_of_some [OF y(2)] y b by (simp add: in_flight_def)
    note ev = eventcb_linked [of what "bevs s", OF True b y(2,1)] r Some
    show ?thesis
    proof (cases "outbuf y @ inbuf x = []")
      case nil: True
      then have "relay_of (s\<lparr>bevs := h\<rparr>) = (relay_of s)(b := None, p := None)"
        using ev relay_of_pair [OF good b Some] by fastforce
      then show ?thesis using hangup_both [OF True] rp nil by metis
    next
      case False
      then obtain z where z: "h = (bevs s)(b := None, p := Some z)"
        "outbuf z = outbuf y @ inbuf x" "bev_cbarg z = None"
        using ev by (fastforce simp: closing_partner_def)
      then have "relay_of (s\<lparr>bevs := h\<rparr>) = (relay_of s)(b := None, p \<mapsto> (outbuf y @ inbuf x, sent s p))"
        unfolding relay_of_pair [OF good b Some z(1)] by (simp add: in_flight_def)
      also have "\<dots> = (relay_of s)(b := None)" using rp y(1) by (auto simp: fun_eq_iff)
      finally show ?thesis using hangup [OF True] by simp
    qed
  qed
qed

lemma accept_refines:
  assumes good: "le_good s" and r: "le_accepted s (accept_cb L g fd (bevs s)) = Inr s'"
  shows "relay_step (relay_of s) (Accept fd) (relay_of s')"
proof -
  consider "accept_cb L g fd (bevs s) = Inr (bevs s, None)"
    | a b x y where "accept_cb L g fd (bevs s) = Inr ((bevs s)(a \<mapsto> x, b \<mapsto> y), Some (a, b))"
      "bevs s a = None" "bevs s b = None" "a \<noteq> b" "linked_bev b x" "linked_bev a y"
    using accept_cb_outcome [of "bevs s" g fd] r by (auto simp: accept_outcome_def le_accepted_def)
  then show ?thesis
  proof cases
    case 1
    then show ?thesis using r by (auto simp: le_accepted_def intro: refuse)
  next
    case (2 a b x y)
    have "relay_of s' c = ((relay_of s)(a \<mapsto> ([], []), b \<mapsto> ([], []))) c" for c
    proof (cases "c = a \<or> c = b \<or> bevs s c = None")
      case True
      then show ?thesis using 2 r
        by (auto simp: le_accepted_def relay_of_def in_flight_def linked_bev_def)
    next
      case False
      then obtain z where z: "bevs s c = Some z" by auto
      have "bev_cbarg z \<noteq> Some a" "bev_cbarg z \<noteq> Some b"
        using le_goodD(1) [OF good z] 2 by (auto simp: le_ok_def)
      then show ?thesis using z False 2 r
        by (auto simp: le_accepted_def relay_of_def in_flight_def split: option.splits)
    qed
    then have "relay_of s' = (relay_of s)(a \<mapsto> ([], []), b \<mapsto> ([], []))" by (rule ext)
    then show ?thesis using 2 by (auto intro!: connect simp: relay_of_def)
  qed
qed

lemma le_after_Inr: "Inr s' = le_after s r \<longleftrightarrow> (\<exists>h. r = Inr h \<and> s' = s\<lparr>bevs := h\<rparr>)"
  by (cases r) (auto simp: le_after_def)

lemma step_refines:
  assumes step: "le_step L g s a (Inr s')" and good: "le_good s"
  shows "relay_step (relay_of s) a (relay_of s')"
  using step
proof cases
  case (sock_read b x d)
  then show ?thesis using sock_read_refines [OF good] receive by metis
next
  case (sock_write b x d rest)
  then show ?thesis using sock_write_refines [OF good] deliver by metis
next
  case (run_readcb b x cb)
  obtain p where p: "bev_cbarg x = Some p" "cb = Readcb"
    using le_goodD(1) [OF good run_readcb(3)] run_readcb(4) by (auto simp: le_ok_def split: option.splits)
  then show ?thesis using run_readcb readcb_refines [OF good run_readcb(3) p(1)]
    by (auto simp: le_after_Inr intro: forward)
next
  case (run_writecb b x cb)
  then show ?thesis using writecb_refines [OF good run_writecb(3,4)]
    by (auto simp: le_after_Inr)
next
  case (run_eventcb b x what)
  then show ?thesis using eventcb_refines [OF good run_eventcb(3)]
    by (auto simp: le_after_Inr)
next
  case (accept fd)
  then show ?thesis using accept_refines [OF good] by metis
qed

text \<open>
  The two waits of the proxy can always come to an end: writing out what is buffered and running
  the write callback that is installed turns reading on again, or closes a bufferevent that only
  waits for its output.
\<close>

lemma can_resume:
  assumes good: "le_good s" and b: "bevs s b = Some x" and p: "bev_cbarg x = Some p"
    and y: "bevs s p = Some y" and rd: "\<not> reading x"
  shows "\<exists>t x'. le_steps L g s [Sock_Write p (outbuf y), Run_Writecb p] t \<and>
    bevs t b = Some x' \<and> reading x'"
proof -
  have pb: "p \<noteq> b" and yb: "bev_cbarg y = Some b" and th: "le_throttle y x"
    using le_linked [OF good b p] y by (metis option.sel)+
  have cb: "bev_writecb y = Some Drained_Writecb" using th rd by (simp add: le_throttle_def)
  let ?y = "y\<lparr>outbuf := []\<rparr>"
  let ?s = "s\<lparr>bevs := (bevs s)(p \<mapsto> ?y), sent := (sent s)(p := sent s p @ outbuf y)\<rparr>"
  have "le_step L g s (Sock_Write p (outbuf y)) (Inr ?s)"
    using y le_goodD(1) [OF good y] by (intro sock_write) (auto simp: le_ok_def)
  moreover have "\<exists>t x'. le_step L g ?s (Run_Writecb p) (Inr t) \<and> bevs t b = Some x' \<and> reading x'"
  proof -
    have d: "\<exists>h x'. drained_writecb L p (Some b) (bevs ?s) = Inr h \<and> h b = Some x' \<and> reading x'"
      using drained_writecb_linked [of "bevs ?s" p ?y b x] b pb by auto
    have "le_step L g ?s (Run_Writecb p) (le_after ?s (drained_writecb L p (Some b) (bevs ?s)))"
      using run_writecb [of ?s p ?y Drained_Writecb L g] yb cb by simp
    with d show ?thesis by (fastforce simp: le_after_def)
  qed
  ultimately show ?thesis using le_more [OF le_more [OF le_refl]] by fastforce
qed

lemma can_finish:
  assumes good: "le_good s" and b: "bevs s b = Some x" and ctx: "bev_cbarg x = None"
  shows "\<exists>t. le_steps L g s [Sock_Write b (outbuf x), Run_Writecb b] t \<and>
    bevs t b = None \<and> sent t b = arrived s b"
proof -
  note ok = le_goodD [OF good b]
  let ?x = "x\<lparr>outbuf := []\<rparr>"
  let ?s = "s\<lparr>bevs := (bevs s)(b \<mapsto> ?x), sent := (sent s)(b := sent s b @ outbuf x)\<rparr>"
  have "le_step L g s (Sock_Write b (outbuf x)) (Inr ?s)"
    using b ok by (intro sock_write) (auto simp: le_ok_def)
  moreover have "le_step L g ?s (Run_Writecb b) (Inr (?s\<lparr>bevs := (bevs ?s)(b := None)\<rparr>))"
    using run_writecb [of ?s b ?x Close_On_Finished_Writecb L g] ok ctx
      close_on_finished_writecb_eq [of "bevs ?s" b ?x None]
    by (simp add: le_ok_def le_after_def)
  ultimately have "le_steps L g s [Sock_Write b (outbuf x), Run_Writecb b]
      (?s\<lparr>bevs := (bevs ?s)(b := None)\<rparr>)"
    using le_more [OF le_more [OF le_refl]] by fastforce
  moreover have "sent s b @ outbuf x = arrived s b" using ok ctx by (simp add: in_flight_def)
  ultimately show ?thesis by (intro exI) auto
qed

end

interpretation le_ref: le_proxy_lib "libevent_ref None"
  by unfold_locales

end
