(* ===== verification/Le_Proxy_Correct.thy ===== *)
theory Le_Proxy_Correct
  imports Le_Proxy
begin

text \<open>
  The properties of the forwarding proxy \<open>le_proxy\<close>, over every run of its event loop with any
  library that behaves as the libevent headers document (\<open>le_proxy_lib L\<close>), and the concrete runs
  that witness them with the library \<open>libevent_ref\<close>.
\<close>

section \<open>Concrete runs\<close>

abbreviation ref_lib :: le_lib where
  "ref_lib \<equiv> libevent_ref None"

definition ex_globals :: le_globals where
  "ex_globals = \<lparr>le_base = 0,
     connect_to_addr = \<lparr>sin_family = 2, sin_port = 0x5000, sin_addr = 0x04030201, ss_rest = []\<rparr>,
     ssl_ctx = False, use_wrapper = True\<rparr>"

text \<open>One connection accepted on descriptor 7; the client is bufferevent 1, the server 2.\<close>

definition ex_client :: le_bev where
  "ex_client = link_bev 2 (new_bev None 0 7)"

definition ex_server :: le_bev where
  "ex_server = link_bev 1 (new_bev None 0 102)"

definition ex_accepted :: le_state where
  "ex_accepted = le_init\<lparr>bevs := (bevs le_init)(1 \<mapsto> ex_client, 2 \<mapsto> ex_server)\<rparr>"

text \<open>The client has sent \<open>d\<close>, not yet forwarded.\<close>

definition ex_received :: "byte list \<Rightarrow> le_state" where
  "ex_received d = ex_accepted\<lparr>
     bevs := (bevs ex_accepted)(1 \<mapsto> ex_client\<lparr>inbuf := d\<rparr>),
     arrived := (arrived ex_accepted)(2 := d)\<rparr>"

lemma ex_step_accept: "le_step ref_lib ex_globals le_init (Accept 7) (Inr ex_accepted)"
proof -
  have "accept_cb ref_lib ex_globals 7 (bevs le_init) = Inr (bevs ex_accepted, Some (1, 2))"
    by (simp add: accept_cb_def libevent_ref_def ex_globals_def alloc_bev_def bev_pool_def le_init_def
        le_link_def bufferevent_setcb_def bufferevent_enable_def on_live_def upd_bev_def
        ex_accepted_def ex_client_def ex_server_def link_bev_def new_bev_def)
  then have "le_accepted le_init (accept_cb ref_lib ex_globals 7 (bevs le_init)) = Inr ex_accepted"
    by (simp add: le_accepted_def ex_accepted_def le_init_def fun_upd_idem)
  then show ?thesis using accept [of ref_lib ex_globals le_init 7] by simp
qed

lemma ex_bevs:
  "bevs ex_accepted 1 = Some ex_client" "bevs ex_accepted 2 = Some ex_server"
  "bevs (ex_received d) 1 = Some (ex_client\<lparr>inbuf := d\<rparr>)"
  "bevs (ex_received d) 2 = Some ex_server"
  by (simp_all add: ex_accepted_def ex_received_def)

lemma ex_fields:
  "bev_cbarg ex_client = Some 2" "bev_cbarg ex_server = Some 1"
  "inbuf ex_client = []" "outbuf ex_client = []" "inbuf ex_server = []" "outbuf ex_server = []"
  "reading ex_client" "reading ex_server" "bev_readcb ex_client = Some Readcb"
  "bev_errorcb ex_client = Some Eventcb"
  by (simp_all add: ex_client_def ex_server_def link_bev_def new_bev_def)

lemma ex_steps_accepted: "le_steps ref_lib ex_globals le_init [Accept 7] ex_accepted"
  using le_more [OF le_refl ex_step_accept] by simp

lemma ex_steps_received:
  "le_steps ref_lib ex_globals le_init [Accept 7, Sock_Read 1 d] (ex_received d)"
proof -
  have "le_step ref_lib ex_globals ex_accepted (Sock_Read 1 d) (Inr (ex_received d))"
    using sock_read [of ex_accepted 1 ex_client ref_lib ex_globals d]
    by (simp add: ex_bevs ex_fields ex_received_def log_arrival_def)
      (simp add: ex_accepted_def le_init_def)
  then show ?thesis using le_more [OF ex_steps_accepted] by fastforce
qed

text \<open>The client has sent as much as the server's output may hold, and it was forwarded.\<close>

definition ex_full :: "byte list" where
  "ex_full = replicate MAX_OUTPUT 0"

definition ex_choked :: le_state where
  "ex_choked = (ex_received ex_full)\<lparr>bevs := (bevs (ex_received ex_full))(
     1 \<mapsto> ex_client\<lparr>inbuf := [], enabled := clear_flag (enabled ex_client) EV_READ\<rparr>,
     2 \<mapsto> full_partner 1 ex_full ex_server)\<rparr>"

text \<open>The client has sent \<open>hi\<close> and closed its side before it was forwarded.\<close>

definition ex_hi :: "byte list" where
  "ex_hi = [104, 105]"

definition ex_closing :: le_state where
  "ex_closing = (ex_received ex_hi)\<lparr>bevs := (bevs (ex_received ex_hi))(
     1 := None, 2 \<mapsto> closing_partner (ex_server\<lparr>outbuf := ex_hi\<rparr>))\<rparr>"

lemma ex_step_choked: "le_step ref_lib ex_globals (ex_received ex_full) (Run_Readcb 1) (Inr ex_choked)"
proof -
  have "readcb ref_lib 1 (Some 2) (bevs (ex_received ex_full)) = Inr (bevs ex_choked)"
    using le_ref.readcb_linked [OF ex_bevs(3) [of ex_full] ex_bevs(4) [of ex_full]]
    by (simp add: ex_fields ex_full_def ex_choked_def)
  then show ?thesis
    using run_readcb [of "ex_received ex_full" 1 _ Readcb ref_lib ex_globals, OF ex_bevs(3)]
    by (simp add: ex_fields le_after_def ex_choked_def)
qed

lemma ex_step_closing:
  "le_step ref_lib ex_globals (ex_received ex_hi) (Run_Eventcb 1 BEV_EVENT_EOF) (Inr ex_closing)"
proof -
  have "eventcb ref_lib 1 BEV_EVENT_EOF (Some 2) (bevs (ex_received ex_hi)) = Inr (bevs ex_closing)"
    using le_ref.eventcb_linked [OF _ ex_bevs(3) [of ex_hi] ex_bevs(4) [of ex_hi], of BEV_EVENT_EOF]
    by (simp add: ex_fields ex_hi_def ex_closing_def has_flag_def MAX_OUTPUT_def)
  then show ?thesis
    using run_eventcb [of "ex_received ex_hi" 1 _ ref_lib ex_globals BEV_EVENT_EOF, OF ex_bevs(3)]
    by (simp add: ex_fields le_after_def ex_closing_def)
qed

lemma ex_reachable:
  "le_reachable ref_lib ex_globals ex_accepted"
  "le_reachable ref_lib ex_globals (ex_received d)"
  "le_reachable ref_lib ex_globals ex_choked"
  "le_reachable ref_lib ex_globals ex_closing"
  unfolding le_reachable_def
  using ex_steps_accepted ex_steps_received le_more [OF ex_steps_received ex_step_choked]
    le_more [OF ex_steps_received ex_step_closing] by blast+

section \<open>Properties\<close>

text \<open>
  C1 (memory safety). Whatever the event loop does next in a reachable state, the callback it runs
  returns; no callback uses or frees a bufferevent that is already freed. The only way a step can
  end the program is the assertion in \<open>accept_cb\<close>, when a bufferevent could not be allocated.
\<close>

theorem le_proxy_no_use_after_free:
  assumes "le_proxy_lib L" and "le_reachable L g s" and "le_step L g s a r"
  shows "(\<exists>s'. r = Inr s') \<or> (r = Inl Assert_Failed \<and> (\<exists>fd. a = Accept fd))"
  using le_proxy_lib.step_good [OF assms(1,3) le_proxy_lib.reachable_good [OF assms(1,2)]] by blast

theorem le_proxy_no_use_after_free_witness:
  "(\<exists>s'. Inr ex_closing = (Inr s' :: le_state res)) \<or>
   (Inr ex_closing = (Inl Assert_Failed :: le_state res) \<and>
     (\<exists>fd. Run_Eventcb 1 BEV_EVENT_EOF = Accept fd))"
  by (rule le_proxy_no_use_after_free [OF le_ref.le_proxy_lib_axioms ex_reachable(2) ex_step_closing])

text \<open>
  C2 (stream integrity). In every reachable state, the bytes that have arrived for an endpoint are
  exactly the bytes already sent to it, followed by what its output and its partner's input hold:
  no byte is lost, duplicated or reordered.
\<close>

theorem le_proxy_stream_integrity:
  assumes "le_proxy_lib L" and "le_reachable L g s" and "bevs s b = Some x"
  shows "arrived s b = sent s b @ in_flight (bevs s) x"
  using le_proxy_lib.reachable_good [OF assms(1,2)] assms(3) by (rule le_goodD(2))

theorem le_proxy_stream_integrity_witness:
  "arrived (ex_received ex_hi) 2 = sent (ex_received ex_hi) 2 @ in_flight (bevs (ex_received ex_hi)) ex_server
   \<and> arrived (ex_received ex_hi) 2 = ex_hi"
  using le_proxy_stream_integrity [OF le_ref.le_proxy_lib_axioms ex_reachable(2) ex_bevs(4), of ex_hi]
  by (simp add: ex_received_def)

text \<open>
  C3 (refinement). Every step of the event loop, seen through the map that forgets the buffers'
  layout, callbacks and watermarks, is the step of the abstract relay with the same label: a pair of
  FIFO channels per connection, in which an endpoint that still has bytes on their way to it
  survives the end of the other side.
\<close>

theorem le_proxy_refines_relay:
  assumes "le_proxy_lib L" and "le_reachable L g s" and "le_step L g s a (Inr s')"
  shows "relay_step (relay_of s) a (relay_of s')"
  using le_proxy_lib.step_refines [OF assms(1,3) le_proxy_lib.reachable_good [OF assms(1,2)]] .

theorem le_proxy_refines_relay_witness:
  "relay_step (relay_of (ex_received ex_hi)) (Run_Eventcb 1 BEV_EVENT_EOF) (relay_of ex_closing) \<and>
   relay_of ex_closing 2 = Some (ex_hi, [])"
  using le_proxy_refines_relay [OF le_ref.le_proxy_lib_axioms ex_reachable(2) ex_step_closing]
  by (simp add: relay_of_def ex_closing_def in_flight_def closing_partner_def ex_received_def
      ex_accepted_def le_init_def)

text \<open>
  C9 (back pressure). While an endpoint is being read, the output of its partner is below
  \<open>MAX_OUTPUT\<close>; once it is not, the endpoint is not read, and its partner has the callback and the
  low watermark that turn reading on again.
\<close>

theorem le_proxy_backpressure:
  assumes "le_proxy_lib L" and "le_reachable L g s"
    and "bevs s b = Some x" and "bev_cbarg x = Some p" and "bevs s p = Some y"
  shows "if reading x then length (outbuf y) < MAX_OUTPUT
    else bev_writecb y = Some Drained_Writecb \<and> bev_cbarg y = Some b \<and>
         low (wm_write y) = MAX_OUTPUT div 2"
  using le_linked [OF le_proxy_lib.reachable_good [OF assms(1,2)] assms(3,4)] assms(5)
  by (metis le_throttle_def option.sel)

theorem le_proxy_backpressure_witness:
  "if reading ex_client then length (outbuf ex_server) < MAX_OUTPUT
   else bev_writecb ex_server = Some Drained_Writecb \<and> bev_cbarg ex_server = Some 1 \<and>
        low (wm_write ex_server) = MAX_OUTPUT div 2"
  by (rule le_proxy_backpressure [OF le_ref.le_proxy_lib_axioms ex_reachable(1) ex_bevs(1)
        ex_fields(1) ex_bevs(2)])

text \<open>
  C14 (no lost wake-up). From every reachable state in which an endpoint is not read, writing out its
  partner's output and running the partner's write callback leads to a state in which it is read
  again.
\<close>

theorem le_proxy_reading_resumes:
  assumes "le_proxy_lib L" and "le_reachable L g s"
    and "bevs s b = Some x" and "bev_cbarg x = Some p" and "bevs s p = Some y" and "\<not> reading x"
  shows "\<exists>t x'. le_steps L g s [Sock_Write p (outbuf y), Run_Writecb p] t \<and>
    bevs t b = Some x' \<and> reading x'"
  using le_proxy_lib.can_resume [OF assms(1) le_proxy_lib.reachable_good [OF assms(1,2)] assms(3-6)] .

theorem le_proxy_reading_resumes_witness:
  "\<exists>t x'. le_steps ref_lib ex_globals ex_choked [Sock_Write 2 ex_full, Run_Writecb 2] t \<and>
    bevs t 1 = Some x' \<and> reading x'"
proof -
  have x: "bevs ex_choked 1 = Some (ex_client\<lparr>inbuf := [], enabled := clear_flag (enabled ex_client) EV_READ\<rparr>)"
    and y: "bevs ex_choked 2 = Some (full_partner 1 ex_full ex_server)"
    by (simp_all add: ex_choked_def)
  have out: "outbuf (full_partner 1 ex_full ex_server) = ex_full"
    by (simp add: full_partner_def ex_fields)
  show ?thesis
    using le_proxy_reading_resumes [OF le_ref.le_proxy_lib_axioms ex_reachable(3) x _ y]
    unfolding out by (simp add: ex_fields)
qed

text \<open>
  C8 (flush before close). An endpoint whose partner is gone still has every byte that arrived for
  it: writing out its output and running its write callback frees it with all of them sent.
\<close>

theorem le_proxy_flush_then_close:
  assumes "le_proxy_lib L" and "le_reachable L g s" and "bevs s b = Some x" and "bev_cbarg x = None"
  shows "\<exists>t. le_steps L g s [Sock_Write b (outbuf x), Run_Writecb b] t \<and>
    bevs t b = None \<and> sent t b = arrived s b"
  using le_proxy_lib.can_finish [OF assms(1) le_proxy_lib.reachable_good [OF assms(1,2)] assms(3,4)] .

theorem le_proxy_flush_then_close_witness:
  "\<exists>t. le_steps ref_lib ex_globals ex_closing [Sock_Write 2 ex_hi, Run_Writecb 2] t \<and>
    bevs t 2 = None \<and> sent t 2 = ex_hi"
proof -
  have x: "bevs ex_closing 2 = Some (closing_partner (ex_server\<lparr>outbuf := ex_hi\<rparr>))"
    by (simp add: ex_closing_def)
  show ?thesis
    using le_proxy_flush_then_close [OF le_ref.le_proxy_lib_axioms ex_reachable(4) x]
    by (simp add: closing_partner_def ex_closing_def ex_received_def ex_accepted_def)
qed

end
