(* ===== verification/C_Lib.thy ===== *)
theory C_Lib
  imports Net_Prelude
begin

text \<open>
  The parts of the C library the program computes with: \<open>atoi\<close>, \<open>strtok\<close>, \<open>toupper\<close> in the C
  locale, and the byte-order functions of a little-endian machine. A C string is a \<open>string\<close> without
  the terminating NUL.
\<close>

section \<open>Byte order\<close>

definition htons :: "16 word \<Rightarrow> 16 word" where
  "htons x = push_bit 8 x OR drop_bit 8 x"

definition ntohs :: "16 word \<Rightarrow> 16 word" where
  "ntohs x = push_bit 8 x OR drop_bit 8 x"

definition htonl :: "32 word \<Rightarrow> 32 word" where
  "htonl x = push_bit 24 x OR (push_bit 8 x AND 0xff0000) OR (drop_bit 8 x AND 0xff00) OR drop_bit 24 x"

lemma ntohs_htons: "ntohs (htons x) = x"
  by (rule bit_word_eqI) (auto simp: ntohs_def htons_def bit_simps)

section \<open>Numbers in strings\<close>

definition is_space :: "char \<Rightarrow> bool" where
  "is_space c \<longleftrightarrow> c \<in> {CHR '' '', CHR 0x09, CHR 0x0A, CHR 0x0B, CHR 0x0C, CHR 0x0D}"

definition digit_val :: "char \<Rightarrow> int option" where
  "digit_val c = (let n = of_char c :: int in if 48 \<le> n \<and> n \<le> 57 then Some (n - 48) else None)"

fun read_digits :: "int \<Rightarrow> string \<Rightarrow> int" where
  "read_digits acc [] = acc"
| "read_digits acc (c # cs) =
     (case digit_val c of None \<Rightarrow> acc | Some d \<Rightarrow> read_digits (10 * acc + d) cs)"

definition LONG_MAX :: int where "LONG_MAX = 2 ^ 63 - 1"

text \<open>\<open>strtol\<close> in base 10, with its saturation, on a 64-bit \<open>long\<close>.\<close>

definition strtol10 :: "string \<Rightarrow> int" where
  "strtol10 s = (let t = dropWhile is_space s;
     v = (case t of
            [] \<Rightarrow> 0
          | c # cs \<Rightarrow> if c = CHR ''-'' then - read_digits 0 cs
                      else if c = CHR ''+'' then read_digits 0 cs
                      else read_digits 0 t)
     in max (- LONG_MAX - 1) (min LONG_MAX v))"

text \<open>\<open>atoi\<close> is \<open>(int) strtol(s, NULL, 10)\<close>.\<close>

definition atoi :: "string \<Rightarrow> int" where
  "atoi s = sint (word_of_int (strtol10 s) :: 32 word)"

lemma digit_val_bounds: "digit_val c = Some d \<Longrightarrow> 0 \<le> d \<and> d \<le> 9"
  by (auto simp: digit_val_def Let_def split: if_splits)

lemma read_digits_mono: "0 \<le> acc \<Longrightarrow> acc \<le> read_digits acc s"
proof (induction s arbitrary: acc)
  case (Cons c cs)
  show ?case
  proof (cases "digit_val c")
    case (Some d)
    then have d: "0 \<le> d" using digit_val_bounds by auto
    then have "10 * acc + d \<le> read_digits (10 * acc + d) cs" using Cons by simp
    moreover have "acc \<le> 10 * acc + d" using d Cons.prems by simp
    ultimately have "acc \<le> read_digits (10 * acc + d) cs" by (rule order_trans [rotated])
    then show ?thesis using Some by simp
  qed simp
qed simp

section \<open>Tokens\<close>

text \<open>
  One call of \<open>strtok\<close> with the one delimiter \<open>d\<close>: leading delimiters are skipped; \<open>None\<close> is the
  null pointer, otherwise the token and what the next call continues with.
\<close>

definition strtok :: "char \<Rightarrow> string \<Rightarrow> (string \<times> string) option" where
  "strtok d s = (let t = dropWhile (\<lambda>c. c = d) s in
     if t = [] then None
     else Some (takeWhile (\<lambda>c. c \<noteq> d) t, drop 1 (dropWhile (\<lambda>c. c \<noteq> d) t)))"

lemma strtok_no_delim:
  assumes "d \<notin> set s" and "s \<noteq> []"
  shows "strtok d s = Some (s, [])"
proof -
  have a: "dropWhile (\<lambda>c. c = d) s = s" using assms by (cases s) auto
  have b: "takeWhile (\<lambda>c. c \<noteq> d) s = s" and c: "dropWhile (\<lambda>c. c \<noteq> d) s = []"
    using assms by (auto simp: takeWhile_eq_all_conv dropWhile_eq_Nil_conv)
  show ?thesis unfolding strtok_def Let_def a b c using assms(2) by simp
qed

section \<open>Letters\<close>

text \<open>\<open>toupper\<close> in the C locale, on the value of a \<open>char\<close>.\<close>

definition toupper :: "byte \<Rightarrow> byte" where
  "toupper c = (if 97 \<le> c \<and> c \<le> 122 then c - 32 else c)"

definition is_lower :: "byte \<Rightarrow> bool" where
  "is_lower c \<longleftrightarrow> 97 \<le> c \<and> c \<le> 122"

lemma toupper_lower: "is_lower c \<Longrightarrow> \<not> is_lower (toupper c)"
  by (simp add: is_lower_def toupper_def) unat_arith

lemma toupper_idem: "toupper (toupper c) = toupper c"
  by (simp add: toupper_def) unat_arith

lemma toupper_eq_0_iff: "toupper c = 0 \<longleftrightarrow> c = 0"
  by (simp add: toupper_def) unat_arith

end
