(* ===== verification/IoContext.thy ===== *)
theory IoContext
  imports Libevent C_Lib
begin

text \<open>
  \<open>IoContext\<close> of \<open>source/common/concurrency\<close>: the array of event bases, the choice of one for a new
  connection, the listening socket, and the dispatch of the main base.

  \<open>event_base_new\<close>, \<open>evutil_parse_sockaddr_port\<close>, \<open>evconnlistener_new_bind\<close> and
  \<open>event_base_dispatch\<close> are arguments of the definitions that call them. \<open>chose_io_index\<close> is
  \<open>None\<close> as long as nothing has been stored in it: the constructor does not initialise it.
\<close>

section \<open>The class\<close>

record io_context =
  threads :: int
  chose_io_index :: "int option"
  base_array :: "event_base option list"
  listen_on_addr :: sockaddr_storage
  address :: string

definition zero_sockaddr :: sockaddr_storage where
  "zero_sockaddr = \<lparr>sin_family = 0, sin_port = 0, sin_addr = 0, ss_rest = []\<rparr>"

text \<open>The constructor; \<open>new_base i\<close> is what the \<open>i\<close>th call of \<open>event_base_new\<close> returns.\<close>

definition io_context_new :: "(nat \<Rightarrow> event_base option) \<Rightarrow> int \<Rightarrow> io_context res" where
  "io_context_new new_base n =
     (if n < 0 then Inl Cpp_Exception
      else Inr \<lparr>threads = n, chose_io_index = None, base_array = map new_base [0..<nat n],
                listen_on_addr = zero_sockaddr, address = []\<rparr>)"

definition array_get :: "'a list \<Rightarrow> int \<Rightarrow> 'a res" where
  "array_get xs i = (if 0 \<le> i \<and> i < int (length xs) then Inr (xs ! nat i) else Inl Out_Of_Bounds)"

definition main_base :: "io_context \<Rightarrow> event_base option res" where
  "main_base c = array_get (base_array c) 0"

definition io_base :: "io_context \<Rightarrow> (event_base option \<times> io_context) res" where
  "io_base c =
     (if threads c = 1 then map_sum id (\<lambda>b. (b, c)) (array_get (base_array c) 0)
      else case chose_io_index c of
        None \<Rightarrow> Inl Uninit_Read
      | Some i \<Rightarrow>
          (let j = (if i \<ge> threads c then 1 else i)
           in map_sum id (\<lambda>b. (b, c\<lparr>chose_io_index := Some (j + 1)\<rparr>)) (array_get (base_array c) j)))"

text \<open>\<open>free\<close> on the set of live event bases: the loop over \<open>base_array\<close>.\<close>

definition event_base_free :: "event_base option \<Rightarrow> event_base set stmt" where
  "event_base_free b live = (case b of None \<Rightarrow> Inr live
     | Some e \<Rightarrow> if e \<in> live then Inr (live - {e}) else Inl Use_After_Free)"

definition io_free :: "io_context \<Rightarrow> event_base set stmt" where
  "io_free c = exec (map event_base_free (base_array c))"

definition io_dispatch :: "(event_base option \<Rightarrow> event_base set stmt) \<Rightarrow> io_context \<Rightarrow>
    event_base set stmt" where
  "io_dispatch event_base_dispatch c live =
     (case main_base c of Inl f \<Rightarrow> Inl f
      | Inr b \<Rightarrow> exec [event_base_dispatch b, io_free c] live)"

section \<open>Listening\<close>

abbreviation AF_INET :: "16 word" where "AF_INET \<equiv> 2"

abbreviation LISTEN_OPTS :: flags where
  "LISTEN_OPTS \<equiv> 2 OR 4 OR 8 OR 1" \<comment> \<open>\<open>CLOSE_ON_FREE | CLOSE_ON_EXEC | REUSEABLE | LEAVE_SOCKETS_BLOCKING\<close>\<close>

text \<open>
  \<open>parse a\<close> is the address and length that \<open>evutil_parse_sockaddr_port\<close> stores, or \<open>None\<close> when
  it returns a negative value; \<open>bind\<close> tells whether \<open>evconnlistener_new_bind\<close> returns a listener.
\<close>

definition io_listen :: "(string \<Rightarrow> (sockaddr_storage \<times> nat) option) \<Rightarrow>
    (event_base option \<Rightarrow> flags \<Rightarrow> sockaddr_storage \<Rightarrow> nat \<Rightarrow> bool) \<Rightarrow>
    string \<Rightarrow> io_context \<Rightarrow> (int \<times> io_context) res" where
  "io_listen parse bind address_str c =
     (let c1 = c\<lparr>address := address_str, listen_on_addr := zero_sockaddr\<rparr> in
      if length address_str \<ge> 100 then Inl Out_Of_Bounds
      else
       (let first = strtok (CHR ''*'') address_str;
            sport = (case first of None \<Rightarrow> None | Some (_, rest) \<Rightarrow> map_option fst (strtok (CHR ''*'') rest));
            bound = (case parse address_str of
                Some (a, len) \<Rightarrow> Inr (a, len)
              | None \<Rightarrow> (case sport of None \<Rightarrow> Inl Null_Deref
                  | Some port \<Rightarrow> Inr (zero_sockaddr\<lparr>sin_port := htons (word_of_int (atoi port)),
                      sin_addr := htonl 0x7f000001, sin_family := AF_INET\<rparr>, 16)))
        in case bound of
             Inl f \<Rightarrow> Inl f
           | Inr (a, len) \<Rightarrow> (case main_base c1 of Inl f \<Rightarrow> Inl f
               | Inr b \<Rightarrow> Inr (if bind b LISTEN_OPTS a len then 0 else 1, c1\<lparr>listen_on_addr := a\<rparr>))))"

text \<open>
  For an address shorter than the local buffer, \<open>listen\<close> uses what libevent parses;
  if libevent refuses the address, the text after the first \<open>*\<close> is read as a port on the loopback
  address, cut to 16 bits and not checked against 1..65535, and an address without a second
  token is dereferenced as a null pointer.
\<close>

lemma io_listen_address:
  assumes "length a < 100" and "main_base c = Inr b"
  shows "io_listen parse bind a c =
    (case parse a of
       Some (sa, len) \<Rightarrow> Inr (if bind b LISTEN_OPTS sa len then 0 else 1,
         c\<lparr>address := a, listen_on_addr := sa\<rparr>)
     | None \<Rightarrow> (case Option.bind (strtok (CHR ''*'') a) (\<lambda>t. strtok (CHR ''*'') (snd t)) of
         None \<Rightarrow> Inl Null_Deref
       | Some (port, _) \<Rightarrow>
          (let sa = \<lparr>sin_family = AF_INET, sin_port = htons (word_of_int (atoi port)),
                     sin_addr = htonl 0x7f000001, ss_rest = []\<rparr>
           in Inr (if bind b LISTEN_OPTS sa 16 then 0 else 1, c\<lparr>address := a, listen_on_addr := sa\<rparr>))))"
proof -
  have "main_base (c\<lparr>address := a, listen_on_addr := zero_sockaddr\<rparr>) = Inr b"
    using assms(2) by (simp add: main_base_def)
  then show ?thesis using assms(1)
    by (auto simp: io_listen_def Let_def zero_sockaddr_def split: option.splits)
qed

section \<open>Invariant\<close>

text \<open>A context that has chosen a base before, or that never needs the index.\<close>

definition io_wf :: "io_context \<Rightarrow> bool" where
  "io_wf c \<longleftrightarrow> 1 \<le> threads c \<and> int (length (base_array c)) = threads c \<and>
     (threads c = 1 \<or> (\<exists>i. chose_io_index c = Some i \<and> 0 \<le> i))"

lemma array_get_ok: "0 \<le> i \<Longrightarrow> i < int (length xs) \<Longrightarrow> array_get xs i = Inr (xs ! nat i)"
  by (simp add: array_get_def)

lemma io_base_single:
  assumes "threads c = 1" and "length (base_array c) = 1"
  shows "io_base c = Inr (base_array c ! 0, c)"
  using assms by (simp add: io_base_def array_get_def)

lemma io_base_multi:
  assumes "1 < threads c" and "int (length (base_array c)) = threads c"
    and "chose_io_index c = Some i" and "0 \<le> i"
  shows "io_base c = (let j = (if i \<ge> threads c then 1 else i)
    in Inr (base_array c ! nat j, c\<lparr>chose_io_index := Some (j + 1)\<rparr>))"
  using assms by (simp add: io_base_def array_get_def Let_def)

lemma io_base_wf:
  assumes "io_wf c"
  shows "\<exists>b c'. io_base c = Inr (b, c') \<and> io_wf c' \<and> b \<in> set (base_array c) \<and>
    threads c' = threads c \<and> base_array c' = base_array c"
proof (cases "threads c = 1")
  case True
  then have "length (base_array c) = 1" using assms by (simp add: io_wf_def)
  then show ?thesis using True assms io_base_single [OF True] by (auto simp: io_wf_def)
next
  case False
  then obtain i where i: "chose_io_index c = Some i" "0 \<le> i" "1 < threads c"
    "int (length (base_array c)) = threads c"
    using assms by (auto simp: io_wf_def)
  define j where "j = (if i \<ge> threads c then 1 else i)"
  have j: "0 \<le> j" "j < threads c" using i by (auto simp: j_def)
  then have "base_array c ! nat j \<in> set (base_array c)" using i(4) by (intro nth_mem) linarith
  then show ?thesis using io_base_multi [OF i(3,4,1,2)] j i
    by (auto simp: io_wf_def Let_def j_def [symmetric])
qed

section \<open>Choosing a base for each connection\<close>

text \<open>
  The interface the proxies rely on: a choice that always succeeds on a well-formed context, stays
  inside the context's bases and keeps the context well-formed. Clients may then ask for as many
  bases as they like.
\<close>

fun choose_many :: "('c \<Rightarrow> ('b \<times> 'c) res) \<Rightarrow> nat \<Rightarrow> 'c \<Rightarrow> 'b list res" where
  "choose_many pick 0 c = Inr []"
| "choose_many pick (Suc k) c = (case pick c of Inl f \<Rightarrow> Inl f
     | Inr (b, c') \<Rightarrow> map_sum id (\<lambda>bs. b # bs) (choose_many pick k c'))"

locale base_chooser =
  fixes pick :: "'c \<Rightarrow> ('b \<times> 'c) res" and wf :: "'c \<Rightarrow> bool" and bases :: "'c \<Rightarrow> 'b set"
  assumes pick_ok: "wf c \<Longrightarrow> \<exists>b c'. pick c = Inr (b, c') \<and> wf c' \<and> b \<in> bases c \<and> bases c' = bases c"
begin

lemma choose_many_ok:
  "wf c \<Longrightarrow> \<exists>bs. choose_many pick k c = Inr bs \<and> length bs = k \<and> set bs \<subseteq> bases c"
proof (induction k arbitrary: c)
  case 0
  then show ?case by simp
next
  case (Suc k)
  obtain b c' where b: "pick c = Inr (b, c')" "wf c'" "b \<in> bases c" "bases c' = bases c"
    using pick_ok [OF Suc.prems] by blast
  obtain bs where "choose_many pick k c' = Inr bs" "length bs = k" "set bs \<subseteq> bases c'"
    using Suc.IH [OF b(2)] by blast
  with b show ?case by simp
qed

end

interpretation io: base_chooser io_base io_wf "\<lambda>c. set (base_array c)"
proof
  fix c assume "io_wf c"
  from io_base_wf [OF this] show "\<exists>b c'. io_base c = Inr (b, c') \<and> io_wf c' \<and>
      b \<in> set (base_array c) \<and> set (base_array c') = set (base_array c)"
    by fastforce
qed

abbreviation io_choices :: "nat \<Rightarrow> io_context \<Rightarrow> event_base option list res" where
  "io_choices \<equiv> choose_many io_base"

text \<open>A context as the constructor leaves it: with one thread the index is never read.\<close>

lemma io_choices_single:
  assumes "threads c = 1" and "length (base_array c) = 1"
  shows "io_choices k c = Inr (replicate k (base_array c ! 0))"
  using io_base_single [OF assms] by (induction k) simp_all

section \<open>Properties\<close>

definition ex_io :: io_context where
  "ex_io = \<lparr>threads = 3, chose_io_index = Some 2, base_array = [Some 10, Some 11, Some 12],
     listen_on_addr = zero_sockaddr, address = []\<rparr>"

text \<open>
  Bounds. Once the index holds a non-negative number, any number of connections can be given a
  base: \<open>io_base\<close> never indexes outside \<open>base_array\<close> and returns only its elements.
\<close>

theorem io_base_in_bounds:
  assumes "io_wf c"
  shows "\<exists>bs. io_choices k c = Inr bs \<and> length bs = k \<and> set bs \<subseteq> set (base_array c)"
  using assms by (rule io.choose_many_ok)

theorem io_base_in_bounds_witness:
  "io_wf ex_io \<and> (\<exists>bs. io_choices 5 ex_io = Inr bs \<and> length bs = 5 \<and> set bs \<subseteq> set (base_array ex_io))"
proof -
  have w: "io_wf ex_io" by (simp add: io_wf_def ex_io_def)
  show ?thesis using w io_base_in_bounds [OF w, of 5] by blast
qed

text \<open>
  C18 (choice of a base). Over any number of connections, a context as the constructor leaves it gives
  every connection the main base when it is made for one thread, and otherwise faults at the first
  choice: \<open>chose_io_index\<close> is compared with \<open>threads\<close> before anything has been stored in it. No base but the
  main one is ever chosen.
\<close>

theorem io_base_choices:
  assumes "io_context_new new_base n = Inr c"
  shows "io_choices k c = (if n = 1 then Inr (replicate k (new_base 0))
    else if k = 0 then Inr [] else Inl Uninit_Read)"
proof (cases "n = 1")
  case True
  then show ?thesis using assms io_choices_single [of c k] by (auto simp: io_context_new_def)
next
  case False
  then have "io_base c = Inl Uninit_Read" using assms by (auto simp: io_context_new_def io_base_def split: if_splits)
  then show ?thesis using False by (cases k) simp_all
qed

theorem io_base_choices_witness:
  "\<exists>c d. io_context_new Some 1 = Inr c \<and> io_choices 3 c = Inr [Some 0, Some 0, Some 0] \<and>
    io_context_new Some 4 = Inr d \<and> io_choices 3 d = Inl Uninit_Read"
proof -
  obtain c d where c: "io_context_new Some 1 = Inr c" and d: "io_context_new Some 4 = Inr d"
    by (simp add: io_context_new_def)
  then show ?thesis using io_base_choices [OF c, of 3] io_base_choices [OF d, of 3] by (simp add: numeral_3_eq_3)
qed

end
