(* ===== verification/Le_Proxy_Main.thy ===== *)
theory Le_Proxy_Main
  imports Le_Proxy IoContext
begin

text \<open>
  The \<open>main\<close> function of \<open>le_proxy\<close>: options, addresses, TLS and the listener. The functions of other
  libraries it calls are arguments (\<open>main_env\<close>). \<open>syntax()\<close> ends the program by \<open>exit(1)\<close>, which is
  \<open>Inl (Exit 1)\<close>; otherwise the result is the returned code and, when the loop was entered, the
  globals that the callbacks then use and the address that is listened on.
\<close>

record main_env =
  sigpipe_ignored :: bool
  parse_sockaddr :: "string \<Rightarrow> (sockaddr_storage \<times> nat) option"
  new_base :: "event_base option"
  rand_poll :: int
  ssl_ctx_new :: bool          \<comment> \<open>whether \<open>SSL_CTX_new\<close> returns a context\<close>
  new_bind :: "event_base \<Rightarrow> flags \<Rightarrow> sockaddr_storage \<Rightarrow> nat \<Rightarrow> bool"






section \<open>Options\<close>



section \<open>Properties\<close>


definition ex_main_env :: main_env where
  "ex_main_env = \<lparr>sigpipe_ignored = True,
     parse_sockaddr = (\<lambda>a. if a = ''1.2.3.4:80'' then Some (zero_sockaddr\<lparr>sin_port := htons 80\<rparr>, 16) else None),
     new_base = Some 10, rand_poll = 1, ssl_ctx_new = False, new_bind = (\<lambda>_ _ _ _. True)\<rparr>"





lemma no_tls_drop_link:
  "le_drop (L\<lparr>le_openssl_socket_new := f1, le_openssl_filter_new := f2\<rparr>) a b h = le_drop L a b h"
  "le_link (L\<lparr>le_openssl_socket_new := f1, le_openssl_filter_new := f2\<rparr>) a b h = le_link L a b h"
  by (simp_all add: le_drop_def le_link_def bufferevent_free_def bufferevent_setcb_def bufferevent_enable_def on_live_def)

end
