(* ===== verification/Transparent_Proxy.thy ===== *)
theory Transparent_Proxy
  imports IoContext
begin

text \<open>
  \<open>TransparentTcpProxy\<close> of \<open>source/tcp\<close> and the accept handler of \<open>test/tcp/transparent_proxy.cpp\<close>.
  Each connection is a pair of heap-allocated proxy objects that point to each other, each with a
  bufferevent; the callback argument is the proxy object of the other side. The state holds the
  live bufferevents, the live proxy objects and the shared \<open>IoContext\<close>. Pointer members are
  \<open>Undef\<close> until they are written, as the constructor leaves \<open>partner\<close>, \<open>buffer\<close>, \<open>fd\<close> and
  \<open>addr\<close>.

  Shown here: what each callback does to a linked pair; that accepting a connection either links a
  pair of new objects or reports failure; that the failure path after a failed
  \<open>getsockopt\<close> releases a bufferevent through an unwritten pointer; and that an end or error event
  on a side that is still flushing deletes the already deleted proxy of the other side.
\<close>

section \<open>Objects\<close>

datatype t_cb = T_Readcb | T_Drained_Writecb | T_Close_On_Finished_Writecb | T_Eventcb

type_synonym proxy = nat
type_synonym t_heap = "(t_cb, proxy ptr) heap"
type_synonym t_lib = "(t_cb, proxy ptr) libevent"
type_synonym t_bev = "(t_cb, proxy ptr) bufferevent"

record t_proxy =
  t_base :: "event_base option"
  t_partner :: "proxy ptr"
  t_addr :: "sockaddr_storage option"
  t_src_len :: nat
  t_fd :: "evutil_socket_t option"
  t_buffer :: "bev ptr"
  t_type :: int

record t_state =
  t_bevs :: t_heap
  proxies :: "proxy \<Rightarrow> t_proxy option"
  t_io :: io_context

definition T_MAX_OUTPUT :: nat where
  "T_MAX_OUTPUT = 4 * 1024 * 1024"

definition on_bevs :: "t_heap stmt \<Rightarrow> t_state stmt" where
  "on_bevs c s = map_sum id (\<lambda>h. s\<lparr>t_bevs := h\<rparr>) (c (t_bevs s))"

text \<open>An operation on the bufferevent a pointer member refers to.\<close>

definition on_buffer :: "bev ptr \<Rightarrow> (bev \<Rightarrow> t_heap stmt) \<Rightarrow> t_state stmt" where
  "on_buffer p k = (\<lambda>s. case p of Undef \<Rightarrow> Inl Uninit_Read | Null \<Rightarrow> Inl Null_Deref
     | Ref b \<Rightarrow> on_bevs (k b) s)"

abbreviation with_proxy :: "proxy ptr \<Rightarrow> (proxy \<Rightarrow> t_proxy \<Rightarrow> t_state \<Rightarrow> 'r res) \<Rightarrow> t_state \<Rightarrow> 'r res" where
  "with_proxy \<equiv> deref proxies"

text \<open>A branch on the length of an evbuffer.\<close>

definition t_with_length :: "t_lib \<Rightarrow> evbuffer \<Rightarrow> (nat \<Rightarrow> t_state stmt) \<Rightarrow> t_state stmt" where
  "t_with_length L eb k s =
     (if buf_live (t_bevs s) eb then k (le_get_length L eb (t_bevs s)) s else Inl Use_After_Free)"

section \<open>Destruction\<close>

definition delete_proxy :: "t_lib \<Rightarrow> proxy ptr \<Rightarrow> t_state stmt" where
  "delete_proxy L p = (if p = Null then exec [] else with_proxy p (\<lambda>a x. exec
     [on_buffer (t_buffer x) (bufferevent_free L),
      (\<lambda>s. Inr (s\<lparr>proxies := (proxies s)(a := None)\<rparr>))]))"

definition free_proxy :: "t_lib \<Rightarrow> proxy ptr \<Rightarrow> t_state stmt" where
  "free_proxy L p = with_proxy p (\<lambda>a x. exec [delete_proxy L (t_partner x), delete_proxy L p])"

section \<open>Callbacks\<close>

definition t_readcb :: "t_lib \<Rightarrow> bev \<Rightarrow> proxy ptr \<Rightarrow> t_state stmt" where
  "t_readcb L bev ctx = t_with_length L (Input_Of bev) (\<lambda>len. with_proxy ctx (\<lambda>_ partner.
     case t_buffer partner of
       Undef \<Rightarrow> (\<lambda>s. Inl Uninit_Read)
     | Null \<Rightarrow> exec [on_bevs (evbuffer_drain L (Input_Of bev) len), free_proxy L ctx]
     | Ref pb \<Rightarrow> exec
        [on_bevs (evbuffer_add_buffer L (Output_Of pb) (Input_Of bev)),
         t_with_length L (Output_Of pb) (\<lambda>n. when_stmt (n \<ge> T_MAX_OUTPUT)
           [on_bevs (bufferevent_setcb L pb (Some T_Readcb) (Some T_Drained_Writecb)
              (Some T_Eventcb) (t_partner partner)),
            on_bevs (bufferevent_setwatermark L pb EV_WRITE (T_MAX_OUTPUT div 2) T_MAX_OUTPUT),
            on_bevs (bufferevent_disable L bev EV_READ)])]))"

definition t_drained_writecb :: "t_lib \<Rightarrow> bev \<Rightarrow> proxy ptr \<Rightarrow> t_state stmt" where
  "t_drained_writecb L bev ctx = exec
     [on_bevs (bufferevent_setcb L bev (Some T_Readcb) None (Some T_Eventcb) ctx),
      on_bevs (bufferevent_setwatermark L bev EV_WRITE 0 0),
      with_proxy ctx (\<lambda>_ partner. if t_buffer partner = Null then exec []
        else on_buffer (t_buffer partner) (\<lambda>b. bufferevent_enable L b EV_READ))]"

definition t_close_on_finished_writecb :: "t_lib \<Rightarrow> bev \<Rightarrow> proxy ptr \<Rightarrow> t_state stmt" where
  "t_close_on_finished_writecb L bev ctx =
     t_with_length L (Output_Of bev) (\<lambda>n. when_stmt (n = 0) [delete_proxy L ctx])"

text \<open>The body of \<open>_eventcb\<close> for an end or error event with a partner, before \<open>delete p2\<close>.\<close>

definition t_event_partner :: "t_lib \<Rightarrow> bev \<Rightarrow> proxy ptr \<Rightarrow> t_state stmt" where
  "t_event_partner L bev ctx = exec
     [t_readcb L bev ctx,
      with_proxy ctx (\<lambda>_ partner. case t_buffer partner of
         Undef \<Rightarrow> (\<lambda>s. Inl Uninit_Read) | Null \<Rightarrow> (\<lambda>s. Inl Null_Deref)
       | Ref pb \<Rightarrow> t_with_length L (Output_Of pb) (\<lambda>n.
          if n \<noteq> 0 then exec
            [on_bevs (bufferevent_setcb L pb None (Some T_Close_On_Finished_Writecb) (Some T_Eventcb) ctx),
             on_bevs (bufferevent_disable L pb EV_READ)]
          else delete_proxy L ctx))]"

definition t_eventcb :: "t_lib \<Rightarrow> bev \<Rightarrow> flags \<Rightarrow> proxy ptr \<Rightarrow> t_state stmt" where
  "t_eventcb L bev what ctx =
     (if ctx = Null then
        when_stmt (has_flag what (BEV_EVENT_EOF OR BEV_EVENT_ERROR)) [delete_proxy L Undef]
      else with_proxy ctx (\<lambda>_ partner.
        let p2 = t_partner partner in
        when_stmt (has_flag what (BEV_EVENT_EOF OR BEV_EVENT_ERROR))
          [t_event_partner L bev ctx, delete_proxy L p2]))"

section \<open>Accepting a connection\<close>

text \<open>
  \<open>new\<close> at the address \<open>a\<close>, and the constructor. \<open>getsockopt\<close> is an argument: the address and
  length it stores for \<open>SO_ORIGINAL_DST\<close> and for \<open>IP_ORIGDSTADDR\<close>, \<open>None\<close> when it fails.
\<close>

definition blank_proxy :: "event_base option \<Rightarrow> t_proxy" where
  "blank_proxy b = \<lparr>t_base = b, t_partner = Undef, t_addr = None, t_src_len = 128, t_fd = None,
     t_buffer = Undef, t_type = 0\<rparr>"

definition t_proxy_new :: "proxy \<Rightarrow> t_state stmt" where
  "t_proxy_new a s = (case io_base (t_io s) of Inl f \<Rightarrow> Inl f
     | Inr (b, io) \<Rightarrow> Inr (s\<lparr>t_io := io, proxies := (proxies s)(a \<mapsto> blank_proxy b)\<rparr>))"

definition upd_proxy :: "proxy \<Rightarrow> (t_proxy \<Rightarrow> t_proxy) \<Rightarrow> t_state stmt" where
  "upd_proxy a f s = (case proxies s a of None \<Rightarrow> Inl Use_After_Free
     | Some x \<Rightarrow> Inr (s\<lparr>proxies := (proxies s)(a \<mapsto> f x)\<rparr>))"

definition ptr_of :: "'a option \<Rightarrow> 'a ptr" where
  "ptr_of x = (case x of None \<Rightarrow> Null | Some a \<Rightarrow> Ref a)"

text \<open>Event bases are addresses, and 0 is the null pointer.\<close>

definition base_arg :: "event_base option \<Rightarrow> event_base" where
  "base_arg b = (case b of None \<Rightarrow> 0 | Some e \<Rightarrow> e)"

abbreviation T_OPTS :: flags where
  "T_OPTS \<equiv> BEV_OPT_CLOSE_ON_FREE OR BEV_OPT_DEFER_CALLBACKS"

text \<open>\<open>buffer = bufferevent_socket_new(base, fd, ...)\<close> in the object \<open>a\<close>.\<close>

definition t_socket_new :: "t_lib \<Rightarrow> proxy \<Rightarrow> evutil_socket_t \<Rightarrow> t_state stmt" where
  "t_socket_new L a sock s = with_proxy (Ref a) (\<lambda>a x s.
     case le_socket_new L (base_arg (t_base x)) sock T_OPTS (t_bevs s) of (r, h) \<Rightarrow>
       Inr (s\<lparr>t_bevs := h, proxies := (proxies s)(a \<mapsto> x\<lparr>t_buffer := ptr_of r\<rparr>)\<rparr>)) s"

record sockopts =
  so_original_dst :: "evutil_socket_t \<Rightarrow> (sockaddr_storage \<times> nat) option"
  ip_origdstaddr :: "evutil_socket_t \<Rightarrow> (sockaddr_storage \<times> nat) option"

text \<open>
  \<open>init_transparent_partner\<close> on the object \<open>a\<close>, with the new object at \<open>q\<close>: the boolean is
  whether it returns a partner. First the netfilter option is asked, then, for \<open>TPROXY\<close>, the socket
  option, whose answer counts only with a port.
\<close>

definition init_transparent_partner :: "sockopts \<Rightarrow> proxy \<Rightarrow> proxy \<Rightarrow> t_state \<Rightarrow> (bool \<times> t_state) res" where
  "init_transparent_partner so a q s = (case exec
     [t_proxy_new q,
      upd_proxy a (\<lambda>x. x\<lparr>t_partner := Ref q\<rparr>),
      upd_proxy q (\<lambda>x. x\<lparr>t_partner := Ref a, t_type := 0\<rparr>),
      (\<lambda>s. case io_base (t_io s) of Inl f \<Rightarrow> Inl f
         | Inr (b, io) \<Rightarrow> upd_proxy q (\<lambda>x. x\<lparr>t_base := b\<rparr>) (s\<lparr>t_io := io\<rparr>))] s of
     Inl f \<Rightarrow> Inl f
   | Inr s \<Rightarrow> with_proxy (Ref a) (\<lambda>_ x s. case t_fd x of
        None \<Rightarrow> Inl Uninit_Read
      | Some sock \<Rightarrow> (case so_original_dst so sock of
          Some (ad, len) \<Rightarrow> map_sum id (\<lambda>s. (True, s))
            (upd_proxy q (\<lambda>x. x\<lparr>t_addr := Some ad, t_src_len := len\<rparr>) s)
        | None \<Rightarrow> (case ip_origdstaddr so sock of
            Some (ad, len) \<Rightarrow> map_sum id (\<lambda>s. (ntohs (sin_port ad) > 0, s))
              (upd_proxy q (\<lambda>x. x\<lparr>t_addr := Some ad, t_src_len := len\<rparr>) s)
          | None \<Rightarrow> Inr (False, s)))) s)"

definition connect_to_upstream :: "t_lib \<Rightarrow> proxy \<Rightarrow> t_state \<Rightarrow> (bool \<times> t_state) res" where
  "connect_to_upstream L q s = (case t_socket_new L q (- 1) s of
     Inl f \<Rightarrow> Inl f
   | Inr s \<Rightarrow> with_proxy (Ref q) (\<lambda>_ x s. case (t_buffer x, t_addr x) of
        (Ref b, Some ad) \<Rightarrow> (case le_socket_connect L b ad (t_bevs s) of (rc, h) \<Rightarrow>
           if rc < 0 then Inr (False, s\<lparr>t_bevs := h\<rparr>)
           else map_sum id (\<lambda>s. (True, s))
             (upd_proxy q (\<lambda>x. x\<lparr>t_fd := map_option bev_fd (h b)\<rparr>) (s\<lparr>t_bevs := h\<rparr>)))
      | (Ref b, None) \<Rightarrow> Inl Uninit_Read
      | (Null, _) \<Rightarrow> Inl Null_Deref
      | (Undef, _) \<Rightarrow> Inl Uninit_Read) s)"

definition t_start :: "t_lib \<Rightarrow> proxy \<Rightarrow> t_state stmt" where
  "t_start L a = with_proxy (Ref a) (\<lambda>_ x. exec
     [on_buffer (t_buffer x) (\<lambda>b. bufferevent_setcb L b (Some T_Readcb) None (Some T_Eventcb) (t_partner x)),
      on_buffer (t_buffer x) (\<lambda>b. bufferevent_enable L b (EV_READ OR EV_WRITE))])"

definition default_accept_cb :: "t_lib \<Rightarrow> sockopts \<Rightarrow> proxy \<Rightarrow> proxy \<Rightarrow> evutil_socket_t \<Rightarrow>
    sockaddr_storage \<Rightarrow> nat \<Rightarrow> t_state \<Rightarrow> (bool \<times> t_state) res" where
  "default_accept_cb L so a q sock ad slen s = (case exec
     [upd_proxy a (\<lambda>x. x\<lparr>t_fd := Some sock, t_addr := Some ad, t_src_len := slen\<rparr>),
      t_socket_new L a sock] s of
     Inl f \<Rightarrow> Inl f
   | Inr s \<Rightarrow> (case init_transparent_partner so a q s of
       Inl f \<Rightarrow> Inl f
     | Inr (False, s) \<Rightarrow> Inr (False, s)
     | Inr (True, s) \<Rightarrow> (case connect_to_upstream L q s of
         Inl f \<Rightarrow> Inl f
       | Inr (False, s) \<Rightarrow> Inr (False, s)
       | Inr (True, s) \<Rightarrow> map_sum id (\<lambda>s. (True, s)) (exec [t_start L a, t_start L q] s))))"

text \<open>The accept handler that \<open>main\<close> passes to \<open>IoContext::listen\<close>.\<close>

definition on_accept :: "t_lib \<Rightarrow> sockopts \<Rightarrow> proxy \<Rightarrow> proxy \<Rightarrow> evutil_socket_t \<Rightarrow>
    sockaddr_storage \<Rightarrow> nat \<Rightarrow> t_state \<Rightarrow> (bool \<times> t_state) res" where
  "on_accept L so a q sock ad slen s = (case t_proxy_new a s of
     Inl f \<Rightarrow> Inl f
   | Inr s \<Rightarrow> (case default_accept_cb L so a q sock ad slen s of
       Inl f \<Rightarrow> Inl f
     | Inr (True, s) \<Rightarrow> Inr (True, s)
     | Inr (False, s) \<Rightarrow> map_sum id (\<lambda>s. (False, s))
         (with_proxy (Ref a) (\<lambda>_ x. exec [delete_proxy L (t_partner x), delete_proxy L (Ref a)]) s)))"

text \<open>\<open>main\<close> up to the loop: the result of \<open>listen\<close> is not looked at.\<close>

definition t_main :: "(nat \<Rightarrow> event_base option) \<Rightarrow> (string \<Rightarrow> (sockaddr_storage \<times> nat) option) \<Rightarrow>
    (event_base option \<Rightarrow> flags \<Rightarrow> sockaddr_storage \<Rightarrow> nat \<Rightarrow> bool) \<Rightarrow> t_state res" where
  "t_main new_base parse bind = (case io_context_new new_base 1 of
      Inl f \<Rightarrow> Inl f
    | Inr c \<Rightarrow> map_sum id (\<lambda>(_, c). \<lparr>t_bevs = (\<lambda>_. None), proxies = (\<lambda>_. None), t_io = c\<rparr>)
        (io_listen parse bind ''0.0.0.0:5001'' c))"

section \<open>A linked pair\<close>

lemma t_main_wf:
  assumes "t_main new_base parse bind = Inr s"
  shows "io_wf (t_io s) \<and> t_bevs s = (\<lambda>_. None) \<and> proxies s = (\<lambda>_. None)"
  using assms
  by (auto simp: t_main_def io_context_new_def io_listen_def io_wf_def main_base_def array_get_def Let_def
      split: if_splits sum.splits option.splits)

text \<open>
  The proxies \<open>a\<close> and \<open>p\<close> point to each other, with the live bufferevents \<open>b\<close> (state \<open>x\<close>) and
  \<open>pb\<close> (state \<open>y\<close>). The callbacks of \<open>b\<close> are run with the argument \<open>p\<close>.
\<close>

definition t_pair :: "t_state \<Rightarrow> proxy \<Rightarrow> proxy \<Rightarrow> bev \<Rightarrow> bev \<Rightarrow> t_bev \<Rightarrow> t_bev \<Rightarrow> bool" where
  "t_pair s a p b pb x y \<longleftrightarrow> a \<noteq> p \<and> b \<noteq> pb \<and>
     (\<exists>pa. proxies s a = Some pa \<and> t_buffer pa = Ref b \<and> t_partner pa = Ref p) \<and>
     (\<exists>pp. proxies s p = Some pp \<and> t_buffer pp = Ref pb \<and> t_partner pp = Ref a) \<and>
     t_bevs s b = Some x \<and> t_bevs s pb = Some y"

text \<open>The proxy \<open>p\<close> of a connection whose other side, once at \<open>a\<close>, has been deleted.\<close>

definition t_half :: "t_state \<Rightarrow> proxy \<Rightarrow> proxy \<Rightarrow> bev \<Rightarrow> t_bev \<Rightarrow> bool" where
  "t_half s a p pb y \<longleftrightarrow> a \<noteq> p \<and> proxies s a = None \<and>
     (\<exists>pp. proxies s p = Some pp \<and> t_buffer pp = Ref pb \<and> t_partner pp = Ref a) \<and>
     t_bevs s pb = Some y"

definition t_full_partner :: "proxy \<Rightarrow> byte list \<Rightarrow> t_bev \<Rightarrow> t_bev" where
  "t_full_partner a d y = y\<lparr>outbuf := outbuf y @ d, bev_readcb := Some T_Readcb,
     bev_writecb := Some T_Drained_Writecb, bev_errorcb := Some T_Eventcb, bev_cbarg := Ref a,
     wm_write := \<lparr>low = T_MAX_OUTPUT div 2, high = T_MAX_OUTPUT\<rparr>\<rparr>"

definition t_closing_partner :: "proxy \<Rightarrow> t_bev \<Rightarrow> t_bev" where
  "t_closing_partner p y = y\<lparr>bev_readcb := None, bev_writecb := Some T_Close_On_Finished_Writecb,
     bev_errorcb := Some T_Eventcb, bev_cbarg := Ref p, enabled := clear_flag (enabled y) EV_READ\<rparr>"

text \<open>The partner's state after an end or error event: gone, or flushing what is left.\<close>

definition t_flushing :: "proxy \<Rightarrow> byte list \<Rightarrow> t_bev \<Rightarrow> t_bev" where
  "t_flushing p d y = t_closing_partner p (y\<lparr>outbuf := d,
     wm_write := if T_MAX_OUTPUT \<le> length d
       then \<lparr>low = T_MAX_OUTPUT div 2, high = T_MAX_OUTPUT\<rparr> else wm_write y\<rparr>)"

lemma T_MAX_OUTPUT_pos: "0 < T_MAX_OUTPUT" "T_MAX_OUTPUT div 2 < T_MAX_OUTPUT"
  by (simp_all add: T_MAX_OUTPUT_def)

lemma has_EV_READ: "has_flag EV_READ EV_READ"
  by (simp add: has_flag_def)

lemma t_pair_upd:
  assumes "t_pair s a p b pb x y"
  shows "t_pair (s\<lparr>t_bevs := (t_bevs s)(b \<mapsto> x', pb \<mapsto> y')\<rparr>) a p b pb x' y'"
  using assms by (auto simp: t_pair_def)

lemma t_pair_sym: "t_pair s a p b pb x y \<Longrightarrow> t_pair s p a pb b y x"
  by (auto simp: t_pair_def)

locale t_proxy_lib = libevent_lib L for L :: t_lib
begin

lemma t_length_eq:
  "t_with_length L (Output_Of b) k s = (case t_bevs s b of None \<Rightarrow> Inl Use_After_Free
     | Some x \<Rightarrow> k (length (outbuf x)) s)"
  "t_with_length L (Input_Of b) k s = (case t_bevs s b of None \<Rightarrow> Inl Use_After_Free
     | Some x \<Rightarrow> k (length (inbuf x)) s)"
  by (auto simp: t_with_length_def get_length buf_live_def buf_contents_def split: option.split)

lemmas t_api = api_simps t_length_eq on_bevs_def on_buffer_def

lemma delete_proxy_eq:
  assumes "proxies s a = Some pa" and "t_buffer pa = Ref b" and "t_bevs s b = Some x"
  shows "delete_proxy L (Ref a) s =
    Inr (s\<lparr>t_bevs := (t_bevs s)(b := None), proxies := (proxies s)(a := None)\<rparr>)"
  using assms by (simp add: delete_proxy_def t_api)

lemma delete_proxy_dangling: "proxies s a = None \<Longrightarrow> delete_proxy L (Ref a) s = Inl Use_After_Free"
  by (simp add: delete_proxy_def)

lemma t_readcb_pair:
  assumes "t_pair s a p b pb x y"
  shows "t_readcb L b (Ref p) s = Inr (s\<lparr>t_bevs :=
    (if T_MAX_OUTPUT \<le> length (outbuf y @ inbuf x)
     then (t_bevs s)(b \<mapsto> x\<lparr>inbuf := [], enabled := clear_flag (enabled x) EV_READ\<rparr>,
                     pb \<mapsto> t_full_partner a (inbuf x) y)
     else (t_bevs s)(b \<mapsto> x\<lparr>inbuf := []\<rparr>, pb \<mapsto> y\<lparr>outbuf := outbuf y @ inbuf x\<rparr>))\<rparr>)"
  using assms
  by (auto simp: t_pair_def t_readcb_def t_api t_full_partner_def fun_upd_twist)

lemma t_drained_pair:
  assumes "t_pair s a p b pb x y"
  shows "t_drained_writecb L b (Ref p) s = Inr (s\<lparr>t_bevs := (t_bevs s)(
    b \<mapsto> x\<lparr>bev_readcb := Some T_Readcb, bev_writecb := None, bev_errorcb := Some T_Eventcb,
          bev_cbarg := Ref p, wm_write := \<lparr>low = 0, high = 0\<rparr>\<rparr>,
    pb \<mapsto> y\<lparr>enabled := set_flag (enabled y) EV_READ\<rparr>)\<rparr>)"
  using assms by (auto simp: t_pair_def t_drained_writecb_def t_api)

lemma t_drained_resumes:
  assumes pair: "t_pair s a p b pb x y"
  shows "\<exists>s' x' y'. t_drained_writecb L b (Ref p) s = Inr s' \<and> t_pair s' a p b pb x' y' \<and>
    has_flag (enabled y') EV_READ \<and> outbuf x' = outbuf x \<and> bev_writecb x' = None"
  by (intro exI conjI, rule t_drained_pair [OF pair], rule t_pair_upd [OF pair])
    (simp_all add: has_set_flag has_EV_READ)

lemma t_close_half:
  assumes "t_half s a p pb y"
  shows "t_close_on_finished_writecb L pb (Ref p) s = Inr (if outbuf y = []
    then s\<lparr>t_bevs := (t_bevs s)(pb := None), proxies := (proxies s)(p := None)\<rparr> else s)"
  using assms by (auto simp: t_half_def t_close_on_finished_writecb_def t_api delete_proxy_eq)

lemma t_event_partner_empty:
  assumes pair: "t_pair s a p b pb x y" and nil: "outbuf y = []" "inbuf x = []"
  shows "t_event_partner L b (Ref p) s = Inr (s\<lparr>
    t_bevs := (t_bevs s)(b \<mapsto> x\<lparr>inbuf := []\<rparr>, pb := None), proxies := (proxies s)(p := None)\<rparr>)"
  using pair nil T_MAX_OUTPUT_pos(1)
  by (auto simp: t_event_partner_def t_readcb_pair [OF pair])
    (auto simp: t_pair_def t_api delete_proxy_def)

lemma t_event_partner_pending:
  assumes pair: "t_pair s a p b pb x y" and d: "outbuf y @ inbuf x \<noteq> []"
  shows "\<exists>x'. t_event_partner L b (Ref p) s = Inr (s\<lparr>
    t_bevs := (t_bevs s)(b \<mapsto> x', pb \<mapsto> t_flushing p (outbuf y @ inbuf x) y)\<rparr>)"
proof (cases "T_MAX_OUTPUT \<le> length (outbuf y @ inbuf x)")
  case True
  then show ?thesis using pair d
    by (auto simp: t_event_partner_def t_readcb_pair [OF pair])
      (auto simp: t_pair_def t_api t_flushing_def t_closing_partner_def t_full_partner_def fun_upd_twist)
next
  case False
  then show ?thesis using pair d
    by (cases y, auto simp: t_event_partner_def t_readcb_pair [OF pair])
      (auto simp: t_pair_def t_api t_flushing_def t_closing_partner_def fun_upd_twist)
qed

lemma t_eventcb_other:
  assumes "\<not> has_flag what (BEV_EVENT_EOF OR BEV_EVENT_ERROR)" and "proxies s p = Some pp"
  shows "t_eventcb L b what (Ref p) s = Inr s"
  using assms by (simp add: t_eventcb_def Let_def)

lemma t_eventcb_ref:
  assumes "has_flag what (BEV_EVENT_EOF OR BEV_EVENT_ERROR)" and "proxies s p = Some pp"
  shows "t_eventcb L b what (Ref p) s = exec [t_event_partner L b (Ref p), delete_proxy L (t_partner pp)] s"
  using assms by (simp add: t_eventcb_def Let_def)

lemma t_eventcb_pair:
  assumes pair: "t_pair s a p b pb x y" and what: "has_flag what (BEV_EVENT_EOF OR BEV_EVENT_ERROR)"
  shows "t_eventcb L b what (Ref p) s = Inr (if outbuf y @ inbuf x = []
    then s\<lparr>t_bevs := (t_bevs s)(b := None, pb := None), proxies := (proxies s)(a := None, p := None)\<rparr>
    else s\<lparr>t_bevs := (t_bevs s)(b := None, pb \<mapsto> t_flushing p (outbuf y @ inbuf x) y),
           proxies := (proxies s)(a := None)\<rparr>)"
proof -
  obtain pa pp where a: "proxies s a = Some pa" "t_buffer pa = Ref b"
    and p: "proxies s p = Some pp" "t_partner pp = Ref a" and ne: "a \<noteq> p" "b \<noteq> pb"
    using pair by (auto simp: t_pair_def)
  show ?thesis
  proof (cases "outbuf y @ inbuf x = []")
    case True
    then have "t_event_partner L b (Ref p) s = Inr (s\<lparr>t_bevs := (t_bevs s)(b \<mapsto> x\<lparr>inbuf := []\<rparr>, pb := None),
        proxies := (proxies s)(p := None)\<rparr>)"
      using t_event_partner_empty [OF pair] by simp
    then show ?thesis using True a p ne
      by (simp add: t_eventcb_ref [OF what p(1)] delete_proxy_eq fun_upd_twist)
  next
    case False
    obtain x' where "t_event_partner L b (Ref p) s = Inr (s\<lparr>
        t_bevs := (t_bevs s)(b \<mapsto> x', pb \<mapsto> t_flushing p (outbuf y @ inbuf x) y)\<rparr>)"
      using t_event_partner_pending [OF pair False] by blast
    then show ?thesis using False a p ne
      by (auto simp: t_eventcb_ref [OF what p(1)] delete_proxy_eq fun_upd_twist)
  qed
qed

text \<open>
  On a side whose partner is gone, the event callback still returns from the flush (it appends the
  bufferevent's input to its own output), but then deletes the partner a second time.
\<close>

lemma t_event_partner_half:
  assumes half: "t_half s a p pb y"
  shows "\<exists>s'. t_event_partner L pb (Ref p) s = Inr s' \<and> proxies s' a = None"
proof -
  obtain pp where pp: "proxies s p = Some pp" "t_buffer pp = Ref pb" and y: "t_bevs s pb = Some y"
    and a: "proxies s a = None"
    using half by (auto simp: t_half_def)
  show ?thesis
  proof (cases "outbuf y @ inbuf y = []")
    case True
    then show ?thesis using pp y a T_MAX_OUTPUT_pos(1)
      by (auto simp: t_event_partner_def t_readcb_def t_api delete_proxy_def)
  next
    case False
    then show ?thesis using pp y a
      by (auto simp: t_event_partner_def t_readcb_def t_api when_stmt_def)
  qed
qed

lemma t_eventcb_half:
  assumes half: "t_half s a p pb y" and what: "has_flag what (BEV_EVENT_EOF OR BEV_EVENT_ERROR)"
  shows "t_eventcb L pb what (Ref p) s = Inl Use_After_Free"
proof -
  obtain pp where pp: "proxies s p = Some pp" "t_partner pp = Ref a"
    using half by (auto simp: t_half_def)
  obtain s' where "t_event_partner L pb (Ref p) s = Inr s'" "proxies s' a = None"
    using t_event_partner_half [OF half] by blast
  then show ?thesis using delete_proxy_dangling by (simp add: t_eventcb_ref [OF what pp(1)] pp(2))
qed

lemma t_half_after_event:
  assumes pair: "t_pair s a p b pb x y" and d: "outbuf y @ inbuf x \<noteq> []"
  shows "t_half (s\<lparr>t_bevs := (t_bevs s)(b := None, pb \<mapsto> t_flushing p (outbuf y @ inbuf x) y),
    proxies := (proxies s)(a := None)\<rparr>) a p pb (t_flushing p (outbuf y @ inbuf x) y)"
  using pair by (auto simp: t_half_def t_pair_def)

end

section \<open>Accepting, as a whole\<close>

text \<open>What \<open>init_transparent_partner\<close> finds out: the stored address, and whether it is used.\<close>

definition original_dest :: "sockopts \<Rightarrow> evutil_socket_t \<Rightarrow> (bool \<times> sockaddr_storage \<times> nat) option" where
  "original_dest so sock = (case so_original_dst so sock of
      Some (ad, len) \<Rightarrow> Some (True, ad, len)
    | None \<Rightarrow> map_option (\<lambda>(ad, len). (ntohs (sin_port ad) > 0, ad, len)) (ip_origdstaddr so sock))"

definition has_dest :: "sockopts \<Rightarrow> evutil_socket_t \<Rightarrow> bool" where
  "has_dest so sock \<longleftrightarrow> (\<exists>ad len. original_dest so sock = Some (True, ad, len))"

lemma t_proxy_new_ok:
  assumes "io_wf (t_io s)"
  shows "\<exists>b io. io_wf io \<and>
    t_proxy_new a s = Inr (s\<lparr>t_io := io, proxies := (proxies s)(a \<mapsto> blank_proxy b)\<rparr>)"
proof -
  obtain b io where "io_base (t_io s) = Inr (b, io)" "io_wf io" using io_base_wf [OF assms] by blast
  then show ?thesis by (intro exI [of _ b] exI [of _ io]) (simp add: t_proxy_new_def)
qed

lemma init_transparent_partner_ok:
  assumes wf: "io_wf (t_io s)" and a: "proxies s a = Some pa" and ne: "a \<noteq> q" and sock: "t_fd pa = Some sock"
  shows "\<exists>b io len. io_wf io \<and> init_transparent_partner so a q s = Inr (has_dest so sock,
    s\<lparr>t_io := io, proxies := (proxies s)(a \<mapsto> pa\<lparr>t_partner := Ref q\<rparr>,
      q \<mapsto> (blank_proxy b)\<lparr>t_partner := Ref a, t_src_len := len,
        t_addr := map_option (\<lambda>d. fst (snd d)) (original_dest so sock)\<rparr>)\<rparr>)"
proof -
  obtain b0 io0 where n: "io_wf io0"
    "t_proxy_new q s = Inr (s\<lparr>t_io := io0, proxies := (proxies s)(q \<mapsto> blank_proxy b0)\<rparr>)"
    using t_proxy_new_ok [OF wf] by blast
  obtain b io where b: "io_base io0 = Inr (b, io)" "io_wf io"
    using io_base_wf [OF n(1)] by blast
  let ?s = "s\<lparr>t_io := io, proxies := (proxies s)(a \<mapsto> pa\<lparr>t_partner := Ref q\<rparr>,
      q \<mapsto> (blank_proxy b)\<lparr>t_partner := Ref a\<rparr>)\<rparr>"
  have run: "exec
     [t_proxy_new q,
      upd_proxy a (\<lambda>x. x\<lparr>t_partner := Ref q\<rparr>),
      upd_proxy q (\<lambda>x. x\<lparr>t_partner := Ref a, t_type := 0\<rparr>),
      (\<lambda>s. case io_base (t_io s) of Inl f \<Rightarrow> Inl f
         | Inr (b, io) \<Rightarrow> upd_proxy q (\<lambda>x. x\<lparr>t_base := b\<rparr>) (s\<lparr>t_io := io\<rparr>))] s = Inr ?s"
    using n b a ne by (simp add: upd_proxy_def blank_proxy_def fun_upd_twist)
  have "\<exists>len. init_transparent_partner so a q s = Inr (has_dest so sock,
    ?s\<lparr>proxies := (proxies ?s)(q \<mapsto> (blank_proxy b)\<lparr>t_partner := Ref a, t_src_len := len,
        t_addr := map_option (\<lambda>d. fst (snd d)) (original_dest so sock)\<rparr>)\<rparr>)"
    unfolding init_transparent_partner_def run
    using ne sock
    by (auto simp: upd_proxy_def original_dest_def has_dest_def blank_proxy_def fun_upd_twist
        split: option.splits)
  then show ?thesis using b(2) ne by auto
qed

definition t_link_bev :: "proxy \<Rightarrow> t_bev \<Rightarrow> t_bev" where
  "t_link_bev p x = x\<lparr>bev_readcb := Some T_Readcb, bev_writecb := None, bev_errorcb := Some T_Eventcb,
     bev_cbarg := Ref p, enabled := set_flag (enabled x) (EV_READ OR EV_WRITE)\<rparr>"

text \<open>
  What accepting a connection with a known destination adds to the state \<open>s\<close>: two new proxies that
  point to each other and two new bufferevents, nothing buffered, both sides read, each with the
  other proxy as argument. Everything else is as it was.
\<close>

definition t_accepted :: "t_state \<Rightarrow> proxy \<Rightarrow> proxy \<Rightarrow> t_state \<Rightarrow> bool" where
  "t_accepted s a q s' \<longleftrightarrow> io_wf (t_io s') \<and>
     (\<exists>b pb x y. fresh_bev x \<and> fresh_bev y \<and> t_bevs s b = None \<and> t_bevs s pb = None \<and>
        t_pair s' a q b pb (t_link_bev q x) (t_link_bev a y) \<and>
        t_bevs s' = (t_bevs s)(b \<mapsto> t_link_bev q x, pb \<mapsto> t_link_bev a y)) \<and>
     (\<forall>p. p \<noteq> a \<longrightarrow> p \<noteq> q \<longrightarrow> proxies s' p = proxies s p)"

text \<open>
  The state between \<open>init_transparent_partner\<close> and \<open>connect_to_upstream\<close>: two new proxies that
  point to each other, the first with a bufferevent for the accepted socket or, if there was none,
  a null pointer.
\<close>

definition t_halfway :: "t_state \<Rightarrow> proxy \<Rightarrow> proxy \<Rightarrow> sockopts \<Rightarrow> evutil_socket_t \<Rightarrow> t_state \<Rightarrow> bool" where
  "t_halfway s a q so sock s3 \<longleftrightarrow> (\<exists>pa pq h io. io_wf io \<and>
     s3 = s\<lparr>t_bevs := h, t_io := io, proxies := (proxies s)(a \<mapsto> pa, q \<mapsto> pq)\<rparr> \<and>
     t_partner pa = Ref q \<and> t_partner pq = Ref a \<and> t_buffer pq = Undef \<and>
     t_addr pq = map_option (\<lambda>d. fst (snd d)) (original_dest so sock) \<and>
     (t_buffer pa = Null \<and> h = t_bevs s \<or>
      (\<exists>b x. t_buffer pa = Ref b \<and> t_bevs s b = None \<and> fresh_bev x \<and> h = (t_bevs s)(b \<mapsto> x))))"

context t_proxy_lib
begin

lemma t_start_eq:
  assumes "proxies s a = Some pa" and "t_buffer pa = Ref b" and "t_partner pa = Ref p"
    and "t_bevs s b = Some x"
  shows "t_start L a s = Inr (s\<lparr>t_bevs := (t_bevs s)(b \<mapsto> t_link_bev p x)\<rparr>)"
  using assms by (simp add: t_start_def t_api t_link_bev_def)

lemma t_socket_new_eq:
  assumes "proxies s a = Some pa"
  shows "(\<exists>b x. t_bevs s b = None \<and> fresh_bev x \<and> t_socket_new L a sock s =
      Inr (s\<lparr>t_bevs := (t_bevs s)(b \<mapsto> x), proxies := (proxies s)(a \<mapsto> pa\<lparr>t_buffer := Ref b\<rparr>)\<rparr>)) \<or>
    t_socket_new L a sock s = Inr (s\<lparr>proxies := (proxies s)(a \<mapsto> pa\<lparr>t_buffer := Null\<rparr>)\<rparr>)"
proof -
  obtain r h where n: "le_socket_new L (base_arg (t_base pa)) sock T_OPTS (t_bevs s) = (r, h)" by fastforce
  have eq: "t_socket_new L a sock s =
      Inr (s\<lparr>t_bevs := h, proxies := (proxies s)(a \<mapsto> pa\<lparr>t_buffer := ptr_of r\<rparr>)\<rparr>)"
    unfolding t_socket_new_def using assms n by simp
  show ?thesis
  proof (cases r)
    case None
    then have "h = t_bevs s" using socket_new_none n by blast
    then show ?thesis using eq None by (simp add: ptr_of_def)
  next
    case (Some b)
    then obtain x where "t_bevs s b = None" "fresh_bev x" "h = (t_bevs s)(b \<mapsto> x)"
      using socket_new_some n by blast
    then show ?thesis using eq Some by (auto simp: ptr_of_def)
  qed
qed

text \<open>
  \<open>connect_to_upstream\<close> on an object with an address: no bufferevent (a null pointer is used), a
  connection that could not be started, or one that was.
\<close>

lemma connect_to_upstream_eq:
  assumes q: "proxies s q = Some pq" and ad: "t_addr pq = Some ad"
  shows "connect_to_upstream L q s = Inl Null_Deref \<or>
    (\<exists>b y ok pq'. t_bevs s b = None \<and> fresh_bev y \<and> t_buffer pq' = Ref b \<and> t_partner pq' = t_partner pq \<and>
      connect_to_upstream L q s =
        Inr (ok, s\<lparr>t_bevs := (t_bevs s)(b \<mapsto> y), proxies := (proxies s)(q \<mapsto> pq')\<rparr>))"
  using t_socket_new_eq [OF q, of "- 1"]
proof (elim disjE exE conjE)
  assume "t_socket_new L q (- 1) s = Inr (s\<lparr>proxies := (proxies s)(q \<mapsto> pq\<lparr>t_buffer := Null\<rparr>)\<rparr>)"
  then show ?thesis by (simp add: connect_to_upstream_def)
next
  fix b x
  assume b: "t_bevs s b = None" and x: "fresh_bev x" and n: "t_socket_new L q (- 1) s =
    Inr (s\<lparr>t_bevs := (t_bevs s)(b \<mapsto> x), proxies := (proxies s)(q \<mapsto> pq\<lparr>t_buffer := Ref b\<rparr>)\<rparr>)"
  obtain rc f where c: "le_socket_connect L b ad ((t_bevs s)(b \<mapsto> x)) = (rc, (t_bevs s)(b \<mapsto> x\<lparr>bev_fd := f\<rparr>))"
    using socket_connect [of "(t_bevs s)(b \<mapsto> x)" b x ad] by auto
  have fx: "fresh_bev (x\<lparr>bev_fd := f\<rparr>)" using x by (simp add: fresh_bev_def)
  show ?thesis
  proof (cases "rc < 0")
    case True
    then show ?thesis using n c b fx ad
      by (intro disjI2 exI [of _ b] exI [of _ "x\<lparr>bev_fd := f\<rparr>"] exI [of _ False]
          exI [of _ "pq\<lparr>t_buffer := Ref b\<rparr>"]) (simp add: connect_to_upstream_def)
  next
    case False
    then show ?thesis using n c b fx ad
      by (intro disjI2 exI [of _ b] exI [of _ "x\<lparr>bev_fd := f\<rparr>"] exI [of _ True]
          exI [of _ "pq\<lparr>t_buffer := Ref b, t_fd := Some f\<rparr>"]) (simp add: connect_to_upstream_def upd_proxy_def)
  qed
qed

lemma t_socket_new_shape:
  assumes "proxies s a = Some pa"
  shows "\<exists>bp h. t_socket_new L a sock s =
      Inr (s\<lparr>t_bevs := h, proxies := (proxies s)(a \<mapsto> pa\<lparr>t_buffer := bp\<rparr>)\<rparr>) \<and>
    (bp = Null \<and> h = t_bevs s \<or>
      (\<exists>b x. bp = Ref b \<and> t_bevs s b = None \<and> fresh_bev x \<and> h = (t_bevs s)(b \<mapsto> x)))"
  using t_socket_new_eq [OF assms, of sock]
proof (elim disjE exE conjE)
  fix b x
  assume "t_bevs s b = None" "fresh_bev x" "t_socket_new L a sock s =
    Inr (s\<lparr>t_bevs := (t_bevs s)(b \<mapsto> x), proxies := (proxies s)(a \<mapsto> pa\<lparr>t_buffer := Ref b\<rparr>)\<rparr>)"
  then show ?thesis by (intro exI [of _ "Ref b"] exI [of _ "(t_bevs s)(b \<mapsto> x)"]) auto
next
  assume "t_socket_new L a sock s = Inr (s\<lparr>proxies := (proxies s)(a \<mapsto> pa\<lparr>t_buffer := Null\<rparr>)\<rparr>)"
  then show ?thesis by (intro exI [of _ Null] exI [of _ "t_bevs s"]) simp
qed

lemma default_accept_prefix:
  assumes wf: "io_wf (t_io s)" and ne: "a \<noteq> q" and a: "proxies s a = Some p0"
  shows "\<exists>s3. t_halfway s a q so sock s3 \<and>
    default_accept_cb L so a q sock ad slen s = (if has_dest so sock
      then (case connect_to_upstream L q s3 of Inl f \<Rightarrow> Inl f
        | Inr (False, s) \<Rightarrow> Inr (False, s)
        | Inr (True, s) \<Rightarrow> map_sum id (\<lambda>s. (True, s)) (exec [t_start L a, t_start L q] s))
      else Inr (False, s3))"
proof -
  let ?p1 = "p0\<lparr>t_fd := Some sock, t_addr := Some ad, t_src_len := slen\<rparr>"
  let ?s1 = "s\<lparr>proxies := (proxies s)(a \<mapsto> ?p1)\<rparr>"
  have u: "upd_proxy a (\<lambda>x. x\<lparr>t_fd := Some sock, t_addr := Some ad, t_src_len := slen\<rparr>) s = Inr ?s1"
    using a by (simp add: upd_proxy_def)
  obtain bp h where n: "t_socket_new L a sock ?s1 =
      Inr (?s1\<lparr>t_bevs := h, proxies := (proxies ?s1)(a \<mapsto> ?p1\<lparr>t_buffer := bp\<rparr>)\<rparr>)"
    and bp: "bp = Null \<and> h = t_bevs s \<or>
      (\<exists>b x. bp = Ref b \<and> t_bevs s b = None \<and> fresh_bev x \<and> h = (t_bevs s)(b \<mapsto> x))"
    using t_socket_new_shape [of ?s1 a ?p1 sock] by auto
  let ?s2 = "?s1\<lparr>t_bevs := h, proxies := (proxies ?s1)(a \<mapsto> ?p1\<lparr>t_buffer := bp\<rparr>)\<rparr>"
  obtain b io len where io: "io_wf io" and i: "init_transparent_partner so a q ?s2 = Inr (has_dest so sock,
    ?s2\<lparr>t_io := io, proxies := (proxies ?s2)(a \<mapsto> ?p1\<lparr>t_buffer := bp, t_partner := Ref q\<rparr>,
      q \<mapsto> (blank_proxy b)\<lparr>t_partner := Ref a, t_src_len := len,
        t_addr := map_option (\<lambda>d. fst (snd d)) (original_dest so sock)\<rparr>)\<rparr>)"
    using init_transparent_partner_ok [of ?s2 a "?p1\<lparr>t_buffer := bp\<rparr>" q sock so] wf ne by auto
  let ?s3 = "?s2\<lparr>t_io := io, proxies := (proxies ?s2)(a \<mapsto> ?p1\<lparr>t_buffer := bp, t_partner := Ref q\<rparr>,
      q \<mapsto> (blank_proxy b)\<lparr>t_partner := Ref a, t_src_len := len,
        t_addr := map_option (\<lambda>d. fst (snd d)) (original_dest so sock)\<rparr>)\<rparr>"
  have "t_halfway s a q so sock ?s3"
    unfolding t_halfway_def
    by (intro exI [of _ "?p1\<lparr>t_buffer := bp, t_partner := Ref q\<rparr>"] exI [of _ "(blank_proxy b)\<lparr>t_partner := Ref a,
        t_src_len := len, t_addr := map_option (\<lambda>d. fst (snd d)) (original_dest so sock)\<rparr>"]
        exI [of _ h] exI [of _ io]) (use bp io in \<open>auto simp: blank_proxy_def\<close>)
  moreover have "default_accept_cb L so a q sock ad slen s = (if has_dest so sock
      then (case connect_to_upstream L q ?s3 of Inl f \<Rightarrow> Inl f
        | Inr (False, s) \<Rightarrow> Inr (False, s)
        | Inr (True, s) \<Rightarrow> map_sum id (\<lambda>s. (True, s)) (exec [t_start L a, t_start L q] s))
      else Inr (False, ?s3))"
    unfolding default_accept_cb_def exec.simps u sum.case n i prod.case by (cases "has_dest so sock") auto
  ultimately show ?thesis by blast
qed

lemma on_accept_no_dest:
  assumes wf: "io_wf (t_io s)" and ne: "a \<noteq> q" and nd: "\<not> has_dest so sock"
  shows "on_accept L so a q sock ad slen s = Inl Uninit_Read"
proof -
  obtain b io where io: "io_wf io" and n:
    "t_proxy_new a s = Inr (s\<lparr>t_io := io, proxies := (proxies s)(a \<mapsto> blank_proxy b)\<rparr>)" (is "_ = Inr ?s")
    using t_proxy_new_ok [OF wf] by blast
  obtain s3 where half: "t_halfway ?s a q so sock s3"
    and eq: "default_accept_cb L so a q sock ad slen ?s = Inr (False, s3)"
    using default_accept_prefix [of ?s a q "blank_proxy b" so sock ad slen] io ne nd by auto
  then show ?thesis using ne
    by (auto simp: on_accept_def n eq t_halfway_def delete_proxy_def on_buffer_def)
qed

lemma t_start_pair:
  assumes pair: "t_pair s a q b pb x y"
  shows "exec [t_start L a, t_start L q] s =
    Inr (s\<lparr>t_bevs := (t_bevs s)(b \<mapsto> t_link_bev q x, pb \<mapsto> t_link_bev a y)\<rparr>)"
  using pair unfolding t_pair_def by (auto simp: t_start_eq)

lemma delete_pair:
  assumes pair: "t_pair s a q b pb x y"
  shows "exec [delete_proxy L (Ref q), delete_proxy L (Ref a)] s =
    Inr (s\<lparr>t_bevs := (t_bevs s)(pb := None, b := None), proxies := (proxies s)(q := None, a := None)\<rparr>)"
  using pair unfolding t_pair_def by (auto simp: delete_proxy_eq)

text \<open>
  From the state before \<open>connect_to_upstream\<close> on: without one of the bufferevents a null pointer is
  used; otherwise the two objects are a pair of fresh bufferevents.
\<close>

lemma connected:
  assumes half: "t_halfway s a q so sock s3" and ne: "a \<noteq> q" and d: "has_dest so sock"
  shows "connect_to_upstream L q s3 = Inl Null_Deref \<or> (\<exists>ok s4 pa. connect_to_upstream L q s3 = Inr (ok, s4) \<and>
    io_wf (t_io s4) \<and> proxies s4 a = Some pa \<and> t_partner pa = Ref q \<and>
    (\<forall>p. p \<noteq> a \<longrightarrow> p \<noteq> q \<longrightarrow> proxies s4 p = proxies s p) \<and>
    (t_buffer pa = Null \<and> (\<exists>pq b y. proxies s4 q = Some pq \<and> t_buffer pq = Ref b \<and> t_bevs s4 b = Some y) \<or>
     (\<exists>b pb x y. t_pair s4 a q b pb x y \<and> fresh_bev x \<and> fresh_bev y \<and> t_bevs s b = None \<and>
        t_bevs s pb = None \<and> t_bevs s4 = (t_bevs s)(b \<mapsto> x, pb \<mapsto> y))))"
proof -
  obtain pa pq h io where io: "io_wf io" and s3: "s3 = s\<lparr>t_bevs := h, t_io := io, proxies := (proxies s)(a \<mapsto> pa, q \<mapsto> pq)\<rparr>"
    and pa: "t_partner pa = Ref q" and pq: "t_partner pq = Ref a"
    and ad: "t_addr pq = map_option (\<lambda>d. fst (snd d)) (original_dest so sock)"
    and buf: "t_buffer pa = Null \<and> h = t_bevs s \<or>
      (\<exists>b x. t_buffer pa = Ref b \<and> t_bevs s b = None \<and> fresh_bev x \<and> h = (t_bevs s)(b \<mapsto> x))"
    using half unfolding t_halfway_def by blast
  obtain ad0 where ad0: "t_addr pq = Some ad0" using d ad by (auto simp: has_dest_def)
  have q: "proxies s3 q = Some pq" using s3 by simp
  have bevs: "t_bevs s3 = h" using s3 by simp
  show ?thesis
    using connect_to_upstream_eq [OF q ad0]
  proof (elim disjE exE conjE)
    fix pb y ok pq'
    assume pb: "t_bevs s3 pb = None" "fresh_bev y" and pq': "t_buffer pq' = Ref pb" "t_partner pq' = t_partner pq"
      and c: "connect_to_upstream L q s3 =
        Inr (ok, s3\<lparr>t_bevs := (t_bevs s3)(pb \<mapsto> y), proxies := (proxies s3)(q \<mapsto> pq')\<rparr>)" (is "_ = Inr (ok, ?s4)")
    have s4: "proxies ?s4 = (proxies s)(a \<mapsto> pa, q \<mapsto> pq')" "t_bevs ?s4 = h(pb \<mapsto> y)" "io_wf (t_io ?s4)"
      using s3 io by simp_all
    from buf have "t_buffer pa = Null \<and> (\<exists>pq b y. proxies ?s4 q = Some pq \<and> t_buffer pq = Ref b \<and> t_bevs ?s4 b = Some y) \<or>
     (\<exists>b pb x y. t_pair ?s4 a q b pb x y \<and> fresh_bev x \<and> fresh_bev y \<and> t_bevs s b = None \<and>
        t_bevs s pb = None \<and> t_bevs ?s4 = (t_bevs s)(b \<mapsto> x, pb \<mapsto> y))"
    proof (elim disjE exE conjE)
      fix b x
      assume b: "t_buffer pa = Ref b" "t_bevs s b = None" "fresh_bev x" "h = (t_bevs s)(b \<mapsto> x)"
      then have "b \<noteq> pb" "t_bevs s pb = None" using pb bevs by (auto split: if_splits)
      then show ?thesis using b pb pa pq pq' ne s4
        by (intro disjI2 exI [of _ b] exI [of _ pb] exI [of _ x] exI [of _ y]) (simp add: t_pair_def)
    qed (use s4 pq' in simp)
    then show ?thesis using c pa ne s4
      by (intro disjI2 exI [of _ ok] exI [of _ ?s4] exI [of _ pa]) simp
  qed blast
qed

text \<open>The end of accepting, from the result of \<open>connect_to_upstream\<close>.\<close>

lemma accept_end_null:
  assumes "proxies s4 a = Some pa" and "t_partner pa = Ref q" and "t_buffer pa = Null" and "a \<noteq> q"
    and "proxies s4 q = Some pq" and "t_buffer pq = Ref b" and "t_bevs s4 b = Some y"
  shows "exec [t_start L a, t_start L q] s4 = Inl Null_Deref"
    and "exec [delete_proxy L (Ref q), delete_proxy L (Ref a)] s4 = Inl Null_Deref"
  using assms by (simp_all add: t_start_def delete_proxy_eq) (simp_all add: delete_proxy_def on_buffer_def)

lemma accept_end_pair:
  assumes pair: "t_pair s4 a q b pb x y" and x: "fresh_bev x" and y: "fresh_bev y"
    and new: "t_bevs s b = None" "t_bevs s pb = None" and h: "t_bevs s4 = (t_bevs s)(b \<mapsto> x, pb \<mapsto> y)"
    and same: "\<forall>p. p \<noteq> a \<longrightarrow> p \<noteq> q \<longrightarrow> proxies s4 p = proxies s p"
    and newp: "proxies s a = None" "proxies s q = None" and io: "io_wf (t_io s4)"
  shows "\<exists>s'. exec [t_start L a, t_start L q] s4 = Inr s' \<and> t_accepted s a q s'"
    and "\<exists>s'. exec [delete_proxy L (Ref q), delete_proxy L (Ref a)] s4 = Inr s' \<and>
      io_wf (t_io s') \<and> t_bevs s' = t_bevs s \<and> proxies s' = proxies s"
proof -
  let ?s = "s4\<lparr>t_bevs := (t_bevs s4)(b \<mapsto> t_link_bev q x, pb \<mapsto> t_link_bev a y)\<rparr>"
  have "t_pair ?s a q b pb (t_link_bev q x) (t_link_bev a y)" using pair by (auto simp: t_pair_def)
  moreover have "t_bevs ?s = (t_bevs s)(b \<mapsto> t_link_bev q x, pb \<mapsto> t_link_bev a y)"
    using pair h by (auto simp: t_pair_def)
  ultimately have "t_accepted s a q ?s" using same new x y io unfolding t_accepted_def by auto
  then show "\<exists>s'. exec [t_start L a, t_start L q] s4 = Inr s' \<and> t_accepted s a q s'"
    using t_start_pair [OF pair] by blast
  have "(t_bevs s4)(pb := None, b := None) = t_bevs s" using new h by (auto simp: fun_eq_iff)
  moreover have "(proxies s4)(q := None, a := None) = proxies s" using same newp by (auto simp: fun_eq_iff)
  ultimately show "\<exists>s'. exec [delete_proxy L (Ref q), delete_proxy L (Ref a)] s4 = Inr s' \<and>
      io_wf (t_io s') \<and> t_bevs s' = t_bevs s \<and> proxies s' = proxies s"
    using delete_pair [OF pair] io by simp
qed

lemma on_accept_dest:
  assumes wf: "io_wf (t_io s)" and ne: "a \<noteq> q" and d: "has_dest so sock"
    and new: "proxies s a = None" "proxies s q = None"
  shows "on_accept L so a q sock ad slen s = Inl Null_Deref \<or>
    (\<exists>s'. on_accept L so a q sock ad slen s = Inr (False, s') \<and>
      io_wf (t_io s') \<and> t_bevs s' = t_bevs s \<and> proxies s' = proxies s) \<or>
    (\<exists>s'. on_accept L so a q sock ad slen s = Inr (True, s') \<and> t_accepted s a q s')"
proof -
  obtain b io where io: "io_wf io" and n:
    "t_proxy_new a s = Inr (s\<lparr>t_io := io, proxies := (proxies s)(a \<mapsto> blank_proxy b)\<rparr>)" (is "_ = Inr ?s")
    using t_proxy_new_ok [OF wf] by blast
  obtain s3 where half: "t_halfway ?s a q so sock s3"
    and eq: "default_accept_cb L so a q sock ad slen ?s = (case connect_to_upstream L q s3 of Inl f \<Rightarrow> Inl f
        | Inr (False, s) \<Rightarrow> Inr (False, s)
        | Inr (True, s) \<Rightarrow> map_sum id (\<lambda>s. (True, s)) (exec [t_start L a, t_start L q] s))"
    using default_accept_prefix [of ?s a q "blank_proxy b" so sock ad slen] io ne d by auto
  show ?thesis
    using connected [OF half ne d]
  proof (elim disjE exE)
    assume "connect_to_upstream L q s3 = Inl Null_Deref"
    then show ?thesis by (simp add: on_accept_def n eq)
  next
    fix ok s4 pa
    assume A: "connect_to_upstream L q s3 = Inr (ok, s4) \<and> io_wf (t_io s4) \<and> proxies s4 a = Some pa \<and> t_partner pa = Ref q \<and>
      (\<forall>p. p \<noteq> a \<longrightarrow> p \<noteq> q \<longrightarrow> proxies s4 p = proxies ?s p) \<and>
      (t_buffer pa = Null \<and> (\<exists>pq b y. proxies s4 q = Some pq \<and> t_buffer pq = Ref b \<and> t_bevs s4 b = Some y) \<or>
       (\<exists>b pb x y. t_pair s4 a q b pb x y \<and> fresh_bev x \<and> fresh_bev y \<and> t_bevs ?s b = None \<and>
        t_bevs ?s pb = None \<and> t_bevs s4 = (t_bevs ?s)(b \<mapsto> x, pb \<mapsto> y)))"
    then have same: "\<forall>p. p \<noteq> a \<longrightarrow> p \<noteq> q \<longrightarrow> proxies s4 p = proxies s p" by simp
    from A have io: "io_wf (t_io s4)" and c: "connect_to_upstream L q s3 = Inr (ok, s4)" and pa: "proxies s4 a = Some pa" "t_partner pa = Ref q"
      by blast+
    have "on_accept L so a q sock ad slen s = (if ok
        then map_sum id (\<lambda>s. (True, s)) (exec [t_start L a, t_start L q] s4)
        else map_sum id (\<lambda>s. (False, s)) (exec [delete_proxy L (Ref q), delete_proxy L (Ref a)] s4))"
      unfolding on_accept_def n sum.case eq c prod.case using pa
      by (cases ok) (simp_all split: sum.split)
    moreover from A have "exec [t_start L a, t_start L q] s4 = Inl Null_Deref \<and>
        exec [delete_proxy L (Ref q), delete_proxy L (Ref a)] s4 = Inl Null_Deref \<or>
        (\<exists>s'. exec [t_start L a, t_start L q] s4 = Inr s' \<and> t_accepted s a q s') \<and>
        (\<exists>s'. exec [delete_proxy L (Ref q), delete_proxy L (Ref a)] s4 = Inr s' \<and>
          io_wf (t_io s') \<and> t_bevs s' = t_bevs s \<and> proxies s' = proxies s)"
      using accept_end_null [of s4 a pa q] accept_end_pair [OF _ _ _ _ _ _ same new io] ne
      by (elim conjE disjE exE) (simp, fastforce)
    ultimately show ?thesis by (cases ok) auto
  qed
qed

end

interpretation t_ref: t_proxy_lib "libevent_ref c" for c
  by unfold_locales

end
