(* ===== verification/Transparent_Proxy_Correct.thy ===== *)
theory Transparent_Proxy_Correct
  imports Transparent_Proxy
begin

text \<open>
  The properties of \<open>TransparentTcpProxy\<close>, for any library that behaves as the libevent headers
  document (\<open>t_proxy_lib L\<close>) and any answers of \<open>getsockopt\<close>, with concrete states that witness
  them.
\<close>

section \<open>A concrete connection\<close>

abbreviation t_ref_lib :: t_lib where
  "t_ref_lib \<equiv> libevent_ref Null"

definition ex_t_io :: io_context where
  "ex_t_io = \<lparr>threads = 1, chose_io_index = None, base_array = [Some 10],
     listen_on_addr = zero_sockaddr, address = ''0.0.0.0:5001''\<rparr>"

definition ex_t_init :: t_state where
  "ex_t_init = \<lparr>t_bevs = (\<lambda>_. None), proxies = (\<lambda>_. None), t_io = ex_t_io\<rparr>"

definition ex_t_client :: t_bev where
  "ex_t_client = t_link_bev 2 (new_bev Null 10 7)"

definition ex_t_server :: t_bev where
  "ex_t_server = t_link_bev 1 (new_bev Null 10 9)"

definition ex_t_proxy :: "proxy \<Rightarrow> bev \<Rightarrow> evutil_socket_t \<Rightarrow> t_proxy" where
  "ex_t_proxy p b sock = (blank_proxy (Some 10))\<lparr>t_partner := Ref p, t_buffer := Ref b,
     t_fd := Some sock, t_addr := Some zero_sockaddr\<rparr>"

text \<open>The proxies 1 (client, bufferevent 1) and 2 (server, bufferevent 2); the client has sent \<open>d\<close>.\<close>

definition ex_t_pair :: "byte list \<Rightarrow> t_state" where
  "ex_t_pair d = \<lparr>t_bevs = [1 \<mapsto> ex_t_client\<lparr>inbuf := d\<rparr>, 2 \<mapsto> ex_t_server],
     proxies = [1 \<mapsto> ex_t_proxy 2 1 7, 2 \<mapsto> ex_t_proxy 1 2 9], t_io = ex_t_io\<rparr>"

lemma ex_t_pair_pair: "t_pair (ex_t_pair d) 1 2 1 2 (ex_t_client\<lparr>inbuf := d\<rparr>) ex_t_server"
  by (simp add: t_pair_def ex_t_pair_def ex_t_proxy_def)

lemma ex_t_fields:
  "outbuf ex_t_server = []" "bev_cbarg ex_t_server = Ref 1" "bev_writecb ex_t_server = None"
  "inbuf ex_t_server = []"
  by (simp_all add: ex_t_server_def t_link_bev_def new_bev_def)

lemma t_ref_lib_ok: "t_proxy_lib t_ref_lib"
  by (rule t_ref.t_proxy_lib_axioms)

lemma ex_t_io_wf: "io_wf (t_io ex_t_init)"
  by (simp add: io_wf_def ex_t_init_def ex_t_io_def)

definition ex_t_sockopts :: "(evutil_socket_t \<Rightarrow> (sockaddr_storage \<times> nat) option) \<Rightarrow> sockopts" where
  "ex_t_sockopts f = \<lparr>so_original_dst = f, ip_origdstaddr = (\<lambda>_. None)\<rparr>"

section \<open>Properties\<close>

text \<open>
  C16 (accepting a connection). When the original destination is known, accepting a connection has
  three outcomes. Without memory for a bufferevent, a null pointer is used. If the connection to the
  destination cannot be started, the accept handler returns false with every object it made released
  and all others as they were. Otherwise it returns true, with two new proxies that are each other's
  partner, nothing buffered, both read from, and all other connections untouched. The \<open>IoContext\<close>
  stays well formed.
\<close>

theorem transparent_accept_outcome:
  assumes "t_proxy_lib L" and "io_wf (t_io s)" and "a \<noteq> q" and "has_dest so sock"
    and "proxies s a = None" and "proxies s q = None"
  shows "on_accept L so a q sock ad slen s = Inl Null_Deref \<or>
    (\<exists>s'. on_accept L so a q sock ad slen s = Inr (False, s') \<and>
      io_wf (t_io s') \<and> t_bevs s' = t_bevs s \<and> proxies s' = proxies s) \<or>
    (\<exists>s'. on_accept L so a q sock ad slen s = Inr (True, s') \<and> t_accepted s a q s')"
  using t_proxy_lib.on_accept_dest [OF assms] .

theorem transparent_accept_outcome_witness:
  "\<exists>s'. on_accept t_ref_lib (ex_t_sockopts (\<lambda>_. Some (zero_sockaddr, 16))) 1 2 7 zero_sockaddr 16 ex_t_init = Inr (True, s')
    \<and> t_accepted ex_t_init 1 2 s'"
proof -
  let ?r = "on_accept t_ref_lib (ex_t_sockopts (\<lambda>_. Some (zero_sockaddr, 16))) 1 2 7 zero_sockaddr 16 ex_t_init"
  have d: "has_dest (ex_t_sockopts (\<lambda>_. Some (zero_sockaddr, 16))) 7"
    by (simp add: has_dest_def original_dest_def ex_t_sockopts_def)
  have "\<exists>s'. ?r = Inr (True, s')"
    by (simp add: on_accept_def t_proxy_new_def io_base_def array_get_def ex_t_init_def ex_t_io_def
        default_accept_cb_def upd_proxy_def t_socket_new_def deref_def libevent_ref_def alloc_bev_def
        bev_pool_def init_transparent_partner_def ex_t_sockopts_def connect_to_upstream_def ptr_of_def
        upd_bev_def blank_proxy_def t_start_def on_buffer_def on_bevs_def bufferevent_setcb_def
        bufferevent_enable_def on_live_def)
  then show ?thesis
    using transparent_accept_outcome [OF t_ref_lib_ok ex_t_io_wf _ d, where a = 1 and q = 2 and ad = zero_sockaddr and slen = 16]
    by (auto simp: ex_t_init_def)
qed


text \<open>
  Failed \<open>getsockopt\<close>. When neither option gives a destination, the accept handler deletes the
  new partner before its \<open>buffer\<close> was ever written: the destructor passes an uninitialised pointer to
  \<open>bufferevent_free\<close>, whatever the library does.
\<close>

theorem transparent_accept_no_destination:
  assumes "t_proxy_lib L" and "io_wf (t_io s)" and "a \<noteq> q" and "\<not> has_dest so sock"
  shows "on_accept L so a q sock ad slen s = Inl Uninit_Read"
  using t_proxy_lib.on_accept_no_dest [OF assms] .

theorem transparent_accept_no_destination_witness:
  "on_accept t_ref_lib (ex_t_sockopts (\<lambda>_. None)) 1 2 7 zero_sockaddr 16 ex_t_init = Inl Uninit_Read"
  by (rule transparent_accept_no_destination [OF t_ref_lib_ok ex_t_io_wf])
    (simp_all add: has_dest_def original_dest_def ex_t_sockopts_def)

text \<open>
  Forwarding. The read callback of one side of a connection moves its input, in order, to the
  end of the other side's output and keeps the pair linked. Below \<open>MAX_OUTPUT\<close> nothing else changes;
  from there on, reading stops and the other side gets the callback, the argument and the low
  watermark that will start it again.
\<close>

theorem transparent_forwards:
  assumes "t_proxy_lib L" and "t_pair s a p b pb x y"
  shows "\<exists>s' x' y'. t_readcb L b (Ref p) s = Inr s' \<and> t_pair s' a p b pb x' y' \<and>
    inbuf x' = [] \<and> outbuf y' = outbuf y @ inbuf x \<and>
    (if length (outbuf y') < T_MAX_OUTPUT
     then x' = x\<lparr>inbuf := []\<rparr> \<and> y' = y\<lparr>outbuf := outbuf y @ inbuf x\<rparr>
     else \<not> has_flag (enabled x') EV_READ \<and> bev_writecb y' = Some T_Drained_Writecb \<and>
       bev_cbarg y' = Ref a \<and> low (wm_write y') = T_MAX_OUTPUT div 2)"
proof (cases "length (outbuf y @ inbuf x) < T_MAX_OUTPUT")
  case True
  let ?s = "s\<lparr>t_bevs := (t_bevs s)(b \<mapsto> x\<lparr>inbuf := []\<rparr>, pb \<mapsto> y\<lparr>outbuf := outbuf y @ inbuf x\<rparr>)\<rparr>"
  have "t_readcb L b (Ref p) s = Inr ?s" using True t_proxy_lib.t_readcb_pair [OF assms] by simp
  moreover have "t_pair ?s a p b pb (x\<lparr>inbuf := []\<rparr>) (y\<lparr>outbuf := outbuf y @ inbuf x\<rparr>)"
    using t_pair_upd [OF assms(2)] .
  ultimately show ?thesis using True by (intro exI conjI) (assumption, assumption, simp_all)
next
  case False
  let ?x = "x\<lparr>inbuf := [], enabled := clear_flag (enabled x) EV_READ\<rparr>"
  let ?y = "t_full_partner a (inbuf x) y"
  let ?s = "s\<lparr>t_bevs := (t_bevs s)(b \<mapsto> ?x, pb \<mapsto> ?y)\<rparr>"
  have "t_readcb L b (Ref p) s = Inr ?s" using False t_proxy_lib.t_readcb_pair [OF assms] by simp
  moreover have "t_pair ?s a p b pb ?x ?y" using t_pair_upd [OF assms(2)] .
  ultimately show ?thesis using False
    by (intro exI conjI) (assumption, assumption, simp_all add: t_full_partner_def)
qed

theorem transparent_forwards_witness:
  "\<exists>s' x' y'. t_readcb t_ref_lib 1 (Ref 2) (ex_t_pair [104, 105]) = Inr s' \<and> t_pair s' 1 2 1 2 x' y' \<and>
    inbuf x' = [] \<and> outbuf y' = [104, 105]"
  using transparent_forwards [OF t_ref_lib_ok ex_t_pair_pair [of "[104, 105]"]] by (auto simp: ex_t_fields)

text \<open>
  Throttling ends. After the read callback has stopped reading on one side, the write callback
  it installed on the other, run with its installed argument once that side's output is down to any
  contents \<open>d\<close>, turns reading on again, clears itself and keeps the pair and \<open>d\<close>.
\<close>

theorem transparent_throttle_ends:
  assumes "t_proxy_lib L" and "t_pair s a p b pb x y" and "T_MAX_OUTPUT \<le> length (outbuf y @ inbuf x)"
  shows "\<exists>s1 y1. t_readcb L b (Ref p) s = Inr s1 \<and> t_bevs s1 pb = Some y1 \<and>
    bev_writecb y1 = Some T_Drained_Writecb \<and>
    (\<exists>s2 x2 y2. t_drained_writecb L pb (bev_cbarg y1) (s1\<lparr>t_bevs := (t_bevs s1)(pb \<mapsto> y1\<lparr>outbuf := d\<rparr>)\<rparr>) = Inr s2 \<and>
      t_pair s2 a p b pb x2 y2 \<and> has_flag (enabled x2) EV_READ \<and> outbuf y2 = d \<and> bev_writecb y2 = None)"
proof -
  let ?x = "x\<lparr>inbuf := [], enabled := clear_flag (enabled x) EV_READ\<rparr>"
  let ?y = "t_full_partner a (inbuf x) y"
  let ?s1 = "s\<lparr>t_bevs := (t_bevs s)(b \<mapsto> ?x, pb \<mapsto> ?y)\<rparr>"
  let ?s1d = "?s1\<lparr>t_bevs := (t_bevs ?s1)(pb \<mapsto> ?y\<lparr>outbuf := d\<rparr>)\<rparr>"
  have r: "t_readcb L b (Ref p) s = Inr ?s1"
    using assms(3) t_proxy_lib.t_readcb_pair [OF assms(1,2)] by simp
  have "t_pair ?s1d a p b pb ?x (?y\<lparr>outbuf := d\<rparr>)" using t_pair_upd [OF assms(2)] by simp
  then have pair: "t_pair ?s1d p a pb b (?y\<lparr>outbuf := d\<rparr>) ?x" by (rule t_pair_sym)
  have y: "t_bevs ?s1 pb = Some ?y" "bev_writecb ?y = Some T_Drained_Writecb" "bev_cbarg ?y = Ref a"
    by (simp_all add: t_full_partner_def)
  show ?thesis
  proof (rule exI [of _ ?s1], rule exI [of _ ?y], intro conjI r y(1,2))
    obtain s2 x2 y2 where "t_drained_writecb L pb (Ref a) ?s1d = Inr s2" "t_pair s2 p a pb b x2 y2"
      "has_flag (enabled y2) EV_READ" "outbuf x2 = d" "bev_writecb x2 = None"
      using t_proxy_lib.t_drained_resumes [OF assms(1) pair] by auto
    then show "\<exists>s2 x2 y2. t_drained_writecb L pb (bev_cbarg ?y) ?s1d = Inr s2 \<and>
      t_pair s2 a p b pb x2 y2 \<and> has_flag (enabled x2) EV_READ \<and> outbuf y2 = d \<and> bev_writecb y2 = None"
      unfolding y(3) by (blast intro: t_pair_sym)
  qed
qed

theorem transparent_throttle_ends_witness:
  "\<exists>s1 y1. t_readcb t_ref_lib 1 (Ref 2) (ex_t_pair (replicate T_MAX_OUTPUT 0)) = Inr s1 \<and>
    t_bevs s1 2 = Some y1 \<and> bev_writecb y1 = Some T_Drained_Writecb \<and>
    (\<exists>s2 x2 y2. t_drained_writecb t_ref_lib 2 (bev_cbarg y1) (s1\<lparr>t_bevs := (t_bevs s1)(2 \<mapsto> y1\<lparr>outbuf := [0]\<rparr>)\<rparr>) = Inr s2 \<and>
      t_pair s2 1 2 1 2 x2 y2 \<and> has_flag (enabled x2) EV_READ \<and> outbuf y2 = [0] \<and> bev_writecb y2 = None)"
  by (rule transparent_throttle_ends [OF t_ref_lib_ok ex_t_pair_pair]) simp

text \<open>
  End of a connection. On an end or error event of one side the callback releases that side.
  With nothing left for the other side it releases it as well. Otherwise the other side keeps every
  byte, unread input of the ended side included, and once its output is written out, its write
  callback, with the installed argument, releases it too: no object of the connection is left.
\<close>

theorem transparent_flush_then_close:
  assumes "t_proxy_lib L" and "t_pair s a p b pb x y" and "has_flag what (BEV_EVENT_EOF OR BEV_EVENT_ERROR)"
  shows "\<exists>s1. t_eventcb L b what (Ref p) s = Inr s1 \<and> t_bevs s1 b = None \<and> proxies s1 a = None \<and>
    (if outbuf y @ inbuf x = [] then t_bevs s1 pb = None \<and> proxies s1 p = None
     else \<exists>y1 s2. t_bevs s1 pb = Some y1 \<and> outbuf y1 = outbuf y @ inbuf x \<and>
       bev_writecb y1 = Some T_Close_On_Finished_Writecb \<and>
       t_close_on_finished_writecb L pb (bev_cbarg y1)
         (s1\<lparr>t_bevs := (t_bevs s1)(pb \<mapsto> y1\<lparr>outbuf := []\<rparr>)\<rparr>) = Inr s2 \<and>
       t_bevs s2 = (t_bevs s)(b := None, pb := None) \<and> proxies s2 = (proxies s)(a := None, p := None))"
proof (cases "outbuf y @ inbuf x = []")
  case True
  have ne: "a \<noteq> p" "b \<noteq> pb" using assms(2) by (auto simp: t_pair_def)
  show ?thesis unfolding t_proxy_lib.t_eventcb_pair [OF assms]
    by (rule exI, rule conjI, rule refl) (use True ne in simp)
next
  case False
  let ?d = "outbuf y @ inbuf x"
  let ?y = "t_flushing p ?d y"
  let ?s1 = "s\<lparr>t_bevs := (t_bevs s)(b := None, pb \<mapsto> ?y), proxies := (proxies s)(a := None)\<rparr>"
  let ?s1d = "?s1\<lparr>t_bevs := (t_bevs ?s1)(pb \<mapsto> ?y\<lparr>outbuf := []\<rparr>)\<rparr>"
  let ?s2 = "?s1d\<lparr>t_bevs := (t_bevs ?s1d)(pb := None), proxies := (proxies ?s1d)(p := None)\<rparr>"
  have ev: "t_eventcb L b what (Ref p) s = Inr ?s1" using False t_proxy_lib.t_eventcb_pair [OF assms] by auto
  have ne: "a \<noteq> p" "b \<noteq> pb" using assms(2) by (auto simp: t_pair_def)
  have y: "outbuf ?y = ?d" "bev_writecb ?y = Some T_Close_On_Finished_Writecb" "bev_cbarg ?y = Ref p"
    by (simp_all add: t_flushing_def t_closing_partner_def)
  have "t_half ?s1d a p pb (?y\<lparr>outbuf := []\<rparr>)"
    using t_proxy_lib.t_half_after_event [OF assms(1,2) False] by (auto simp: t_half_def)
  then have "t_close_on_finished_writecb L pb (bev_cbarg ?y) ?s1d = Inr ?s2"
    using t_proxy_lib.t_close_half [OF assms(1)] y(3) by simp
  then show ?thesis using False ne y
    by (intro exI [of _ ?s1] conjI ev) (simp_all add: fun_upd_twist)
qed

theorem transparent_flush_then_close_witness:
  "\<exists>s1 y1 s2. t_eventcb t_ref_lib 1 BEV_EVENT_EOF (Ref 2) (ex_t_pair [104, 105]) = Inr s1 \<and>
    t_bevs s1 2 = Some y1 \<and> outbuf y1 = [104, 105] \<and>
    t_close_on_finished_writecb t_ref_lib 2 (bev_cbarg y1)
      (s1\<lparr>t_bevs := (t_bevs s1)(2 \<mapsto> y1\<lparr>outbuf := []\<rparr>)\<rparr>) = Inr s2 \<and>
    t_bevs s2 = (\<lambda>_. None) \<and> proxies s2 = (\<lambda>_. None)"
proof -
  have w: "has_flag BEV_EVENT_EOF (BEV_EVENT_EOF OR BEV_EVENT_ERROR)" by (simp add: has_flag_def)
  have e: "(t_bevs (ex_t_pair [104, 105]))(1 := None, 2 := None) = (\<lambda>_. None)"
    "(proxies (ex_t_pair [104, 105]))(1 := None, 2 := None) = (\<lambda>_. None)"
    by (auto simp: ex_t_pair_def)
  show ?thesis
    using transparent_flush_then_close [OF t_ref_lib_ok ex_t_pair_pair [of "[104, 105]"] w]
    unfolding e by (simp add: ex_t_fields) blast
qed

text \<open>
  C17 (double delete). While a side is flushing, its event callback is still installed, with the
  proxy itself as argument; an end or error event there deletes the other side's proxy, which the
  first event already deleted.
\<close>

theorem transparent_double_delete:
  assumes "t_proxy_lib L" and "t_pair s a p b pb x y" and "outbuf y @ inbuf x \<noteq> []"
    and "has_flag what (BEV_EVENT_EOF OR BEV_EVENT_ERROR)"
    and "has_flag what' (BEV_EVENT_EOF OR BEV_EVENT_ERROR)"
  shows "\<exists>s1 y1. t_eventcb L b what (Ref p) s = Inr s1 \<and> t_bevs s1 pb = Some y1 \<and>
    bev_errorcb y1 = Some T_Eventcb \<and> t_eventcb L pb what' (bev_cbarg y1) s1 = Inl Use_After_Free"
proof -
  let ?y = "t_flushing p (outbuf y @ inbuf x) y"
  let ?s1 = "s\<lparr>t_bevs := (t_bevs s)(b := None, pb \<mapsto> ?y), proxies := (proxies s)(a := None)\<rparr>"
  have "t_eventcb L b what (Ref p) s = Inr ?s1"
    using assms(3) t_proxy_lib.t_eventcb_pair [OF assms(1,2,4)] by auto
  moreover have "bev_errorcb ?y = Some T_Eventcb" "bev_cbarg ?y = Ref p"
    by (simp_all add: t_flushing_def t_closing_partner_def)
  moreover have "t_eventcb L pb what' (Ref p) ?s1 = Inl Use_After_Free"
    using t_proxy_lib.t_eventcb_half [OF assms(1) t_proxy_lib.t_half_after_event [OF assms(1-3)] assms(5)] .
  ultimately show ?thesis by (intro exI [of _ ?s1] exI [of _ ?y]) simp
qed

theorem transparent_double_delete_witness:
  "\<exists>s1 y1. t_eventcb t_ref_lib 1 BEV_EVENT_EOF (Ref 2) (ex_t_pair [104]) = Inr s1 \<and> t_bevs s1 2 = Some y1 \<and>
    bev_errorcb y1 = Some T_Eventcb \<and> t_eventcb t_ref_lib 2 BEV_EVENT_ERROR (bev_cbarg y1) s1 = Inl Use_After_Free"
  by (rule transparent_double_delete [OF t_ref_lib_ok ex_t_pair_pair]) (simp_all add: has_flag_def)

end
