(* ===== verification/Transparent_Run.thy ===== *)
theory Transparent_Run
  imports Transparent_Proxy Le_Proxy
begin

text \<open>
  Whole runs of \<open>TransparentTcpProxy\<close> under the event loop. A state of a run is the state of the
  program with two logs per bufferevent: the bytes that have arrived for it and the bytes sent to its
  socket. A step is one action of the loop (the labels of \<open>Le_Proxy\<close>): bytes move between a socket
  and a buffer, a callback that is installed runs with its installed argument, or a connection is
  accepted.

  The environment is not restricted: any event may reach any bufferevent whose callback is installed,
  and any socket may be accepted. A run ends when a step faults.

  Objects keep their identity: a proxy object is created at an address that no object of the run has
  had before (\<open>t_used\<close>). This is the rule of the language, in which a pointer to a deleted object never
  becomes a pointer to a later one: to use or delete it is undefined also when the allocator gives the
  same address out again, and is a fault here in both cases.

  The invariant \<open>t_good\<close> describes the heap as a disjoint union of connections, each a pair of linked
  proxies or a single proxy that still flushes its output and whose partner is deleted. It holds along
  every run.
\<close>

section \<open>Steps of the event loop\<close>

record t_run =
  t_now :: t_state
  t_arrived :: "bev \<Rightarrow> byte list"
  t_sent :: "bev \<Rightarrow> byte list"
  t_used :: "proxy set"

definition t_data_cb :: "t_cb \<Rightarrow> t_lib \<Rightarrow> bev \<Rightarrow> proxy ptr \<Rightarrow> t_state stmt" where
  "t_data_cb cb = (case cb of T_Readcb \<Rightarrow> t_readcb | T_Drained_Writecb \<Rightarrow> t_drained_writecb
     | T_Close_On_Finished_Writecb \<Rightarrow> t_close_on_finished_writecb
     | T_Eventcb \<Rightarrow> (\<lambda>_ _ _ _. Inl Type_Confusion))"

text \<open>The bufferevent of the proxy that is the callback argument of \<open>x\<close>.\<close>

definition t_peer :: "t_state \<Rightarrow> t_bev \<Rightarrow> bev option" where
  "t_peer s x = (case bev_cbarg x of Ref p \<Rightarrow> (case proxies s p of None \<Rightarrow> None
       | Some pp \<Rightarrow> (case t_buffer pp of Ref pb \<Rightarrow> Some pb | _ \<Rightarrow> None))
     | _ \<Rightarrow> None)"

definition t_after :: "t_run \<Rightarrow> t_state res \<Rightarrow> t_run res" where
  "t_after r = map_sum id (\<lambda>s. r\<lparr>t_now := s\<rparr>)"

text \<open>Accepting creates objects at two new addresses and starts empty logs for the new bufferevents.\<close>

definition t_fresh_log :: "t_heap \<Rightarrow> t_heap \<Rightarrow> (bev \<Rightarrow> byte list) \<Rightarrow> bev \<Rightarrow> byte list" where
  "t_fresh_log h h' l b = (if h b = None \<and> h' b \<noteq> None then [] else l b)"

definition t_after_accept :: "t_run \<Rightarrow> proxy set \<Rightarrow> (bool \<times> t_state) res \<Rightarrow> t_run res" where
  "t_after_accept r new = map_sum id (\<lambda>(ok, s). \<lparr>t_now = s,
     t_arrived = t_fresh_log (t_bevs (t_now r)) (t_bevs s) (t_arrived r),
     t_sent = t_fresh_log (t_bevs (t_now r)) (t_bevs s) (t_sent r),
     t_used = t_used r \<union> new\<rparr>)"

inductive t_step :: "t_lib \<Rightarrow> sockopts \<Rightarrow> t_run \<Rightarrow> le_action \<Rightarrow> t_run res \<Rightarrow> bool"
  for L :: t_lib and so :: sockopts where
  t_sock_read: "t_bevs (t_now r) b = Some x \<Longrightarrow> reading x \<Longrightarrow>
    t_step L so r (Sock_Read b d) (Inr (r\<lparr>
      t_now := (t_now r)\<lparr>t_bevs := (t_bevs (t_now r))(b \<mapsto> x\<lparr>inbuf := inbuf x @ d\<rparr>)\<rparr>,
      t_arrived := log_arrival (t_peer (t_now r) x) d (t_arrived r)\<rparr>))"
| t_sock_write: "t_bevs (t_now r) b = Some x \<Longrightarrow> writing x \<Longrightarrow> outbuf x = d @ rest \<Longrightarrow>
    t_step L so r (Sock_Write b d) (Inr (r\<lparr>
      t_now := (t_now r)\<lparr>t_bevs := (t_bevs (t_now r))(b \<mapsto> x\<lparr>outbuf := rest\<rparr>)\<rparr>,
      t_sent := (t_sent r)(b := t_sent r b @ d)\<rparr>))"
| t_run_readcb: "t_bevs (t_now r) b = Some x \<Longrightarrow> bev_readcb x = Some cb \<Longrightarrow>
    t_step L so r (Run_Readcb b) (t_after r (t_data_cb cb L b (bev_cbarg x) (t_now r)))"
| t_run_writecb: "t_bevs (t_now r) b = Some x \<Longrightarrow> bev_writecb x = Some cb \<Longrightarrow>
    length (outbuf x) \<le> low (wm_write x) \<Longrightarrow>
    t_step L so r (Run_Writecb b) (t_after r (t_data_cb cb L b (bev_cbarg x) (t_now r)))"
| t_run_eventcb: "t_bevs (t_now r) b = Some x \<Longrightarrow> bev_errorcb x = Some T_Eventcb \<Longrightarrow>
    t_step L so r (Run_Eventcb b what) (t_after r (t_eventcb L b what (bev_cbarg x) (t_now r)))"
| t_accept: "a \<noteq> q \<Longrightarrow> a \<notin> t_used r \<Longrightarrow> q \<notin> t_used r \<Longrightarrow>
    t_step L so r (Accept sock) (t_after_accept r {a, q} (on_accept L so a q sock ad slen (t_now r)))"

definition t_start_of :: "t_state \<Rightarrow> t_run" where
  "t_start_of s = \<lparr>t_now = s, t_arrived = (\<lambda>_. []), t_sent = (\<lambda>_. []), t_used = {}\<rparr>"

inductive t_runs :: "t_lib \<Rightarrow> sockopts \<Rightarrow> t_run \<Rightarrow> le_action list \<Rightarrow> t_run \<Rightarrow> bool"
  for L :: t_lib and so :: sockopts where
  t_done: "t_runs L so r [] r"
| t_more: "t_runs L so r as u \<Longrightarrow> t_step L so u act (Inr v) \<Longrightarrow>
    t_runs L so r (as @ [act]) v"

lemma t_runs_write:
  assumes "t_step L so r (Sock_Write b d) (Inr u)" and "t_step L so u (Run_Writecb b) (Inr v)"
  shows "t_runs L so r [Sock_Write b d, Run_Writecb b] v"
  using t_more [OF t_more [OF t_done assms(1)] assms(2)] by simp

definition t_reachable :: "t_lib \<Rightarrow> sockopts \<Rightarrow> t_run \<Rightarrow> bool" where
  "t_reachable L so r \<longleftrightarrow> (\<exists>nb parse bind s0 as. t_main nb parse bind = Inr s0 \<and>
     t_runs L so (t_start_of s0) as r)"

text \<open>
  An end or error event on a side that is flushing: it has no read callback any more, but it still has
  the event callback.
\<close>

definition t_event_fault :: "t_run \<Rightarrow> le_action \<Rightarrow> bool" where
  "t_event_fault r act \<longleftrightarrow> (\<exists>b what x. act = Run_Eventcb b what \<and>
     has_flag what (BEV_EVENT_EOF OR BEV_EVENT_ERROR) \<and> t_bevs (t_now r) b = Some x \<and> bev_readcb x = None)"

section \<open>Connections\<close>

text \<open>
  One direction of a connection: \<open>x\<close> is the bufferevent \<open>b\<close> that writes out what is read from \<open>y\<close>,
  the bufferevent of the proxy \<open>p\<close>. While \<open>y\<close> is read, the output of \<open>x\<close> is below the limit; while it
  is not, \<open>x\<close> has the callback that starts reading again.
\<close>

definition t_throttle :: "t_bev \<Rightarrow> t_bev \<Rightarrow> bool" where
  "t_throttle x y \<longleftrightarrow>
     (if reading y then bev_writecb x = None \<and> length (outbuf x) < T_MAX_OUTPUT
      else bev_writecb x = Some T_Drained_Writecb \<and> low (wm_write x) = T_MAX_OUTPUT div 2)"

definition t_side :: "t_run \<Rightarrow> proxy \<Rightarrow> bev \<Rightarrow> t_bev \<Rightarrow> t_bev \<Rightarrow> bool" where
  "t_side r p b x y \<longleftrightarrow> writing x \<and> bev_errorcb x = Some T_Eventcb \<and> bev_readcb x = Some T_Readcb \<and>
     bev_cbarg x = Ref p \<and> t_throttle x y \<and> t_arrived r b = t_sent r b @ outbuf x @ inbuf y"

definition t_linked :: "t_run \<Rightarrow> proxy \<Rightarrow> proxy \<Rightarrow> bev \<Rightarrow> bev \<Rightarrow> t_bev \<Rightarrow> t_bev \<Rightarrow> bool" where
  "t_linked r a p b pb x y \<longleftrightarrow> t_pair (t_now r) a p b pb x y \<and> t_side r p b x y \<and> t_side r a pb y x"

definition t_owns :: "t_state \<Rightarrow> proxy \<Rightarrow> bev \<Rightarrow> bool" where
  "t_owns s a b \<longleftrightarrow> (\<exists>pa. proxies s a = Some pa \<and> t_buffer pa = Ref b)"

text \<open>The partner of \<open>a\<close> is deleted; the pointer to it is still stored.\<close>

definition t_widow :: "t_run \<Rightarrow> proxy \<Rightarrow> bool" where
  "t_widow r a \<longleftrightarrow> (\<exists>pa c. proxies (t_now r) a = Some pa \<and> t_partner pa = Ref c \<and> c \<noteq> a \<and>
     proxies (t_now r) c = None \<and> c \<in> t_used r)"

text \<open>The proxy \<open>a\<close> only waits for the output of its bufferevent \<open>b\<close> to be written.\<close>

definition t_flush :: "t_run \<Rightarrow> proxy \<Rightarrow> bev \<Rightarrow> t_bev \<Rightarrow> bool" where
  "t_flush r a b x \<longleftrightarrow> t_widow r a \<and> t_owns (t_now r) a b \<and> t_bevs (t_now r) b = Some x \<and> writing x \<and> \<not> reading x \<and>
     bev_errorcb x = Some T_Eventcb \<and> bev_readcb x = None \<and>
     bev_writecb x = Some T_Close_On_Finished_Writecb \<and> bev_cbarg x = Ref a \<and>
     t_arrived r b = t_sent r b @ outbuf x"

definition t_ok :: "t_run \<Rightarrow> proxy \<Rightarrow> bool" where
  "t_ok r a \<longleftrightarrow> (\<exists>p b pb x y. t_linked r a p b pb x y) \<or> (\<exists>b x. t_flush r a b x)"

definition t_good :: "t_run \<Rightarrow> bool" where
  "t_good r \<longleftrightarrow> io_wf (t_io (t_now r)) \<and> dom (proxies (t_now r)) \<subseteq> t_used r \<and>
     (\<forall>a. proxies (t_now r) a \<noteq> None \<longrightarrow> t_ok r a) \<and>
     (\<forall>b. t_bevs (t_now r) b \<noteq> None \<longrightarrow> (\<exists>a. t_owns (t_now r) a b)) \<and>
     (\<forall>a a' b. t_owns (t_now r) a b \<longrightarrow> t_owns (t_now r) a' b \<longrightarrow> a = a')"

lemma t_good_start: "t_main nb parse bind = Inr s \<Longrightarrow> t_good (t_start_of s)"
  using t_main_wf [of nb parse bind s] by (simp add: t_good_def t_start_of_def t_owns_def)

lemma t_linked_sym: "t_linked r a p b pb x y \<Longrightarrow> t_linked r p a pb b y x"
  by (auto simp: t_linked_def dest: t_pair_sym)

lemma t_linkedD:
  assumes "t_linked r a p b pb x y"
  shows "a \<noteq> p" "b \<noteq> pb" "t_owns (t_now r) a b" "t_owns (t_now r) p pb"
    "t_bevs (t_now r) b = Some x" "t_bevs (t_now r) pb = Some y"
    "bev_cbarg x = Ref p" "bev_cbarg y = Ref a" "bev_readcb x = Some T_Readcb" "bev_readcb y = Some T_Readcb"
    "t_side r p b x y" "t_side r a pb y x" "t_pair (t_now r) a p b pb x y"
  using assms by (auto simp: t_linked_def t_pair_def t_owns_def t_side_def)

lemma t_flushD:
  assumes "t_flush r a b x"
  shows "t_owns (t_now r) a b" "t_bevs (t_now r) b = Some x" "bev_cbarg x = Ref a" "bev_readcb x = None"
    "\<not> reading x"
  using assms by (auto simp: t_flush_def)

lemma t_owns_fun: "t_owns s a b \<Longrightarrow> t_owns s a b' \<Longrightarrow> b = b'"
  by (auto simp: t_owns_def)

lemma t_goodD:
  assumes "t_good r"
  shows "io_wf (t_io (t_now r))" "proxies (t_now r) a \<noteq> None \<Longrightarrow> t_ok r a"
    "t_bevs (t_now r) b = Some x \<Longrightarrow> \<exists>a. t_owns (t_now r) a b"
    "t_owns (t_now r) a b \<Longrightarrow> t_owns (t_now r) a' b \<Longrightarrow> a = a'"
    "proxies (t_now r) a = Some pa \<Longrightarrow> a \<in> t_used r"
  using assms unfolding t_good_def by blast+

lemma t_owns_live:
  assumes "t_good r" and "t_owns (t_now r) a b"
  shows "t_bevs (t_now r) b \<noteq> None" "proxies (t_now r) a \<noteq> None"
proof -
  show p: "proxies (t_now r) a \<noteq> None" using assms(2) by (auto simp: t_owns_def)
  have "t_ok r a" by (rule t_goodD(2) [OF assms(1) p])
  then show "t_bevs (t_now r) b \<noteq> None"
    unfolding t_ok_def using t_linkedD(3,5) t_flushD(1,2) t_owns_fun [OF assms(2)] by fastforce
qed

text \<open>The connection a live bufferevent belongs to.\<close>

lemma t_bev_cases:
  assumes good: "t_good r" and b: "t_bevs (t_now r) b = Some x"
  obtains (linked) a p pb y where "t_linked r a p b pb x y" | (flush) a where "t_flush r a b x"
proof -
  obtain a where a: "t_owns (t_now r) a b" using t_goodD(3) [OF good b] by blast
  have "t_ok r a" using t_goodD(2) [OF good t_owns_live(2) [OF good a]] .
  then consider p b' pb x' y where "t_linked r a p b' pb x' y" | b' x' where "t_flush r a b' x'"
    unfolding t_ok_def by blast
  then show thesis
  proof cases
    case 1
    moreover have "b' = b" by (rule t_owns_fun [OF t_linkedD(3) [OF 1] a])
    moreover have "x' = x" using t_linkedD(5) [OF 1] b \<open>b' = b\<close> by simp
    ultimately show thesis using linked by blast
  next
    case 2
    moreover have "b' = b" by (rule t_owns_fun [OF t_flushD(1) [OF 2] a])
    moreover have "x' = x" using t_flushD(2) [OF 2] b \<open>b' = b\<close> by simp
    ultimately show thesis using flush by blast
  qed
qed

section \<open>Changing one connection\<close>

text \<open>
  \<open>A\<close> and \<open>B\<close> are the proxies and the bufferevents of some connections, or unused addresses: what is
  outside does not refer to what is inside.
\<close>

definition t_apart :: "t_run \<Rightarrow> proxy set \<Rightarrow> bev set \<Rightarrow> bool" where
  "t_apart r A B \<longleftrightarrow> (\<forall>c d. t_owns (t_now r) c d \<longrightarrow> (c \<in> A \<longleftrightarrow> d \<in> B)) \<and>
     (\<forall>c p b pb x y. t_linked r c p b pb x y \<longrightarrow> p \<in> A \<longrightarrow> c \<in> A)"

definition t_same_outside :: "proxy set \<Rightarrow> bev set \<Rightarrow> t_run \<Rightarrow> t_run \<Rightarrow> bool" where
  "t_same_outside A B r r' \<longleftrightarrow> (\<forall>c. c \<notin> A \<longrightarrow> proxies (t_now r') c = proxies (t_now r) c) \<and>
     (\<forall>b. b \<notin> B \<longrightarrow> t_bevs (t_now r') b = t_bevs (t_now r) b \<and>
        t_arrived r' b = t_arrived r b \<and> t_sent r' b = t_sent r b) \<and>
     t_used r \<subseteq> t_used r' \<and>
     (\<forall>c. c \<in> t_used r \<longrightarrow> proxies (t_now r) c = None \<longrightarrow> proxies (t_now r') c = None)"

lemma t_apart_linked:
  assumes good: "t_good r" and l: "t_linked r a p b pb x y"
  shows "t_apart r {a, p} {b, pb}"
proof -
  have "c \<in> {a, p} \<longleftrightarrow> d \<in> {b, pb}" if "t_owns (t_now r) c d" for c d
    using that t_linkedD(3,4) [OF l] t_goodD(4) [OF good] t_owns_fun by blast
  moreover have "c \<in> {a, p}" if c: "t_linked r c q d qd z w" and q: "q \<in> {a, p}" for c q d qd z w
    using t_linkedD(13) [OF c] t_linkedD(13) [OF l] q by (auto simp: t_pair_def)
  ultimately show ?thesis unfolding t_apart_def by blast
qed

lemma t_apart_flush:
  assumes good: "t_good r" and f: "t_flush r a b x"
  shows "t_apart r {a} {b}"
proof -
  have "c = a \<longleftrightarrow> d = b" if "t_owns (t_now r) c d" for c d
    using that t_flushD(1) [OF f] t_goodD(4) [OF good] t_owns_fun by blast
  moreover have False if c: "t_linked r c a d qd z w" for c d qd z w
  proof -
    have "qd = b" by (rule t_owns_fun [OF t_linkedD(4) [OF c] t_flushD(1) [OF f]])
    then show False using t_linkedD(6,10) [OF c] t_flushD(2,4) [OF f] by simp
  qed
  ultimately show ?thesis unfolding t_apart_def by blast
qed

lemma t_apart_new:
  assumes good: "t_good r" and "\<And>c. c \<in> A \<Longrightarrow> proxies (t_now r) c = None"
    and "\<And>d. d \<in> B \<Longrightarrow> t_bevs (t_now r) d = None"
  shows "t_apart r A B"
proof -
  have "c \<in> A \<longleftrightarrow> d \<in> B" if "t_owns (t_now r) c d" for c d
    using t_owns_live [OF good that] assms(2) [of c] assms(3) [of d] by auto
  moreover have "c \<in> A" if c: "t_linked r c p b pb x y" and p: "p \<in> A" for c p b pb x y
    using t_owns_live(2) [OF good t_linkedD(4) [OF c]] assms(2) [OF p] by blast
  ultimately show ?thesis unfolding t_apart_def by blast
qed

lemma t_owns_outside:
  "t_same_outside A B r r' \<Longrightarrow> c \<notin> A \<Longrightarrow> t_owns (t_now r') c d = t_owns (t_now r) c d"
  by (simp add: t_same_outside_def t_owns_def)

lemma t_widow_outside:
  assumes "t_same_outside A B r r'" and "c \<notin> A" and "t_widow r c"
  shows "t_widow r' c"
  using assms by (auto simp: t_same_outside_def t_widow_def)

lemma t_ok_outside:
  assumes ap: "t_apart r A B" and same: "t_same_outside A B r r'" and c: "c \<notin> A" and ok: "t_ok r c"
  shows "t_ok r' c"
  using ok unfolding t_ok_def
proof (elim disjE exE)
  fix p b pb x y
  assume l: "t_linked r c p b pb x y"
  have "p \<notin> A" using ap l c unfolding t_apart_def by blast
  moreover have "b \<notin> B" "pb \<notin> B"
    using ap t_linkedD(3,4) [OF l] c \<open>p \<notin> A\<close> unfolding t_apart_def by blast+
  ultimately have "t_linked r' c p b pb x y"
    using l same c by (simp add: t_linked_def t_pair_def t_side_def t_same_outside_def)
  then show "(\<exists>p b pb x y. t_linked r' c p b pb x y) \<or> (\<exists>b x. t_flush r' c b x)" by blast
next
  fix b x
  assume f: "t_flush r c b x"
  have "b \<notin> B" using ap t_flushD(1) [OF f] c unfolding t_apart_def by blast
  then have "t_flush r' c b x"
    using f same t_owns_outside [OF same c] t_widow_outside [OF same c] by (simp add: t_flush_def t_same_outside_def)
  then show "(\<exists>p b pb x y. t_linked r' c p b pb x y) \<or> (\<exists>b x. t_flush r' c b x)" by blast
qed

lemma t_good_upd:
  assumes good: "t_good r" and ap: "t_apart r A B" and same: "t_same_outside A B r r'"
    and io: "io_wf (t_io (t_now r'))"
    and used: "\<And>c. c \<in> A \<Longrightarrow> proxies (t_now r') c \<noteq> None \<Longrightarrow> c \<in> t_used r'"
    and ok: "\<And>c. c \<in> A \<Longrightarrow> proxies (t_now r') c \<noteq> None \<Longrightarrow> t_ok r' c"
    and own: "\<And>c d. c \<in> A \<Longrightarrow> t_owns (t_now r') c d \<Longrightarrow> d \<in> B"
    and inj: "\<And>c c' d. c \<in> A \<Longrightarrow> c' \<in> A \<Longrightarrow> t_owns (t_now r') c d \<Longrightarrow> t_owns (t_now r') c' d \<Longrightarrow> c = c'"
    and live: "\<And>d. d \<in> B \<Longrightarrow> t_bevs (t_now r') d \<noteq> None \<Longrightarrow> \<exists>c\<in>A. t_owns (t_now r') c d"
  shows "t_good r'"
proof -
  have side: "c \<in> A \<longleftrightarrow> d \<in> B" if "t_owns (t_now r') c d" for c d
    using that own t_owns_outside [OF same] ap unfolding t_apart_def by blast
  have "t_ok r' a" if a: "proxies (t_now r') a \<noteq> None" for a
  proof (cases "a \<in> A")
    case False
    then have "t_ok r a" using a same t_goodD(2) [OF good] by (simp add: t_same_outside_def)
    then show ?thesis by (rule t_ok_outside [OF ap same False])
  qed (use ok a in blast)
  moreover have "\<exists>a. t_owns (t_now r') a b" if b: "t_bevs (t_now r') b \<noteq> None" for b
  proof (cases "b \<in> B")
    case False
    then obtain z where "t_bevs (t_now r) b = Some z" using b same by (auto simp: t_same_outside_def)
    then obtain a where a: "t_owns (t_now r) a b" using t_goodD(3) [OF good] by blast
    then have "a \<notin> A" using ap False unfolding t_apart_def by blast
    then show ?thesis using a t_owns_outside [OF same] by blast
  qed (use live b in blast)
  moreover have "a = a'" if "t_owns (t_now r') a b" "t_owns (t_now r') a' b" for a a' b
  proof (cases "b \<in> B")
    case True
    then show ?thesis using that side inj by blast
  next
    case False
    then have "t_owns (t_now r) a b" "t_owns (t_now r) a' b"
      using that side t_owns_outside [OF same] by blast+
    then show ?thesis by (rule t_goodD(4) [OF good])
  qed
  moreover have "dom (proxies (t_now r')) \<subseteq> t_used r'"
  proof
    fix c
    assume c: "c \<in> dom (proxies (t_now r'))"
    show "c \<in> t_used r'"
    proof (cases "c \<in> A")
      case False
      then have "proxies (t_now r) c \<noteq> None" using c same by (auto simp: t_same_outside_def)
      then have "c \<in> t_used r" using t_goodD(5) [OF good] by blast
      then show ?thesis using same by (auto simp: t_same_outside_def)
    qed (use used c in blast)
  qed
  ultimately show ?thesis using io unfolding t_good_def by blast
qed

text \<open>The ways a connection develops: it stays linked, one side goes, or both do.\<close>

lemma t_good_linked:
  assumes good: "t_good r" and l: "t_linked r a p b pb x y"
    and s: "t_now r' = (t_now r)\<lparr>t_bevs := (t_bevs (t_now r))(b \<mapsto> x', pb \<mapsto> y')\<rparr>"
    and log: "\<And>d. d \<noteq> b \<Longrightarrow> d \<noteq> pb \<Longrightarrow> t_arrived r' d = t_arrived r d \<and> t_sent r' d = t_sent r d"
    and u: "t_used r' = t_used r"
    and side: "t_side r' p b x' y'" "t_side r' a pb y' x'"
  shows "t_good r'"
proof (rule t_good_upd [OF good t_apart_linked [OF good l]])
  have o: "t_owns (t_now r') = t_owns (t_now r)" using s by (simp add: t_owns_def fun_eq_iff)
  have l': "t_linked r' a p b pb x' y'"
    using t_pair_upd [OF t_linkedD(13) [OF l]] side by (simp add: t_linked_def s)
  show "t_same_outside {a, p} {b, pb} r r'" using s log u by (simp add: t_same_outside_def)
  show "c \<in> t_used r'" if "proxies (t_now r') c \<noteq> None" for c
    using that s u t_goodD(5) [OF good] by auto
  show "io_wf (t_io (t_now r'))" using s t_goodD(1) [OF good] by simp
  show "t_ok r' c" if "c \<in> {a, p}" for c
    using that l' t_linked_sym [OF l'] unfolding t_ok_def by blast
  show "d \<in> {b, pb}" if "c \<in> {a, p}" "t_owns (t_now r') c d" for c d
    using that t_linkedD(3,4) [OF l] t_owns_fun unfolding o by blast
  show "c = c'" if "t_owns (t_now r') c d" "t_owns (t_now r') c' d" for c c' d
    using that unfolding o by (rule t_goodD(4) [OF good])
  show "\<exists>c\<in>{a, p}. t_owns (t_now r') c d" if "d \<in> {b, pb}" for d
    using that t_linkedD(3,4) [OF l] unfolding o by blast
qed

lemma t_good_gone:
  assumes good: "t_good r" and ap: "t_apart r A B" and same: "t_same_outside A B r r'"
    and io: "t_io (t_now r') = t_io (t_now r)"
    and A: "\<And>c. c \<in> A \<Longrightarrow> proxies (t_now r') c = None" and B: "\<And>d. d \<in> B \<Longrightarrow> t_bevs (t_now r') d = None"
  shows "t_good r'"
  by (rule t_good_upd [OF good ap same])
    (use io A B t_goodD(1) [OF good] in \<open>auto simp: t_owns_def\<close>)

lemma t_good_flush:
  assumes good: "t_good r" and ap: "t_apart r A B" and same: "t_same_outside A B r r'"
    and io: "t_io (t_now r') = t_io (t_now r)"
    and f: "t_flush r' p pb y" and p: "p \<in> A" and pb: "pb \<in> B" and u: "p \<in> t_used r'"
    and A: "\<And>c. c \<in> A \<Longrightarrow> c \<noteq> p \<Longrightarrow> proxies (t_now r') c = None"
    and B: "\<And>d. d \<in> B \<Longrightarrow> d \<noteq> pb \<Longrightarrow> t_bevs (t_now r') d = None"
  shows "t_good r'"
proof (rule t_good_upd [OF good ap same])
  have A': "c = p" if "c \<in> A" "t_owns (t_now r') c d" for c d
    using that A [of c] by (cases "c = p") (auto simp: t_owns_def)
  show "io_wf (t_io (t_now r'))" using io t_goodD(1) [OF good] by simp
  show "c \<in> t_used r'" if "c \<in> A" "proxies (t_now r') c \<noteq> None" for c
    using that A [of c] u by (cases "c = p") auto
  show "t_ok r' c" if "c \<in> A" "proxies (t_now r') c \<noteq> None" for c
    using that A [of c] f by (cases "c = p") (auto simp: t_ok_def)
  show "d \<in> B" if "c \<in> A" "t_owns (t_now r') c d" for c d
    using A' [OF that] that(2) t_flushD(1) [OF f] t_owns_fun pb by blast
  show "c = c'" if "c \<in> A" "c' \<in> A" "t_owns (t_now r') c d" "t_owns (t_now r') c' d" for c c' d
    using A' [OF that(1,3)] A' [OF that(2,4)] by simp
  show "\<exists>c\<in>A. t_owns (t_now r') c d" if "d \<in> B" "t_bevs (t_now r') d \<noteq> None" for d
    using that B [of d] p t_flushD(1) [OF f] by (cases "d = pb") auto
qed

section \<open>Every step keeps the connections\<close>

lemma t_peer_linked: "t_linked r a p b pb x y \<Longrightarrow> t_peer (t_now r) x = Some pb"
  by (auto simp: t_linked_def t_pair_def t_side_def t_peer_def)

lemma t_sideD:
  assumes "t_side r p b x y"
  shows "writing x" "bev_errorcb x = Some T_Eventcb" "bev_readcb x = Some T_Readcb" "bev_cbarg x = Ref p"
    "t_throttle x y" "t_arrived r b = t_sent r b @ outbuf x @ inbuf y"
  using assms by (auto simp: t_side_def)

lemma t_sock_read_good:
  assumes good: "t_good r" and b: "t_bevs (t_now r) b = Some x" and rd: "reading x"
  shows "t_good (r\<lparr>t_now := (t_now r)\<lparr>t_bevs := (t_bevs (t_now r))(b \<mapsto> x\<lparr>inbuf := inbuf x @ d\<rparr>)\<rparr>,
    t_arrived := log_arrival (t_peer (t_now r) x) d (t_arrived r)\<rparr>)" (is "t_good ?r")
  using good b
proof (cases rule: t_bev_cases)
  case (linked a p pb y)
  note D = t_linkedD [OF linked] t_peer_linked [OF linked]
  show ?thesis
  proof (rule t_good_linked [OF good linked])
    show "t_now ?r = (t_now r)\<lparr>t_bevs := (t_bevs (t_now r))(b \<mapsto> x\<lparr>inbuf := inbuf x @ d\<rparr>, pb \<mapsto> y)\<rparr>"
      using D by (simp add: fun_upd_idem)
    show "t_side ?r p b (x\<lparr>inbuf := inbuf x @ d\<rparr>) y" "t_side ?r a pb y (x\<lparr>inbuf := inbuf x @ d\<rparr>)"
      using D by (auto simp: t_side_def t_throttle_def log_arrival_def)
  qed (use D in \<open>auto simp: log_arrival_def\<close>)
next
  case (flush a)
  then show ?thesis using t_flushD(5) rd by blast
qed

lemma t_sock_write_good:
  assumes good: "t_good r" and b: "t_bevs (t_now r) b = Some x" and out: "outbuf x = d @ rest"
  shows "t_good (r\<lparr>t_now := (t_now r)\<lparr>t_bevs := (t_bevs (t_now r))(b \<mapsto> x\<lparr>outbuf := rest\<rparr>)\<rparr>,
    t_sent := (t_sent r)(b := t_sent r b @ d)\<rparr>)" (is "t_good ?r")
  using good b
proof (cases rule: t_bev_cases)
  case (linked a p pb y)
  note D = t_linkedD [OF linked]
  show ?thesis
  proof (rule t_good_linked [OF good linked])
    show "t_now ?r = (t_now r)\<lparr>t_bevs := (t_bevs (t_now r))(b \<mapsto> x\<lparr>outbuf := rest\<rparr>, pb \<mapsto> y)\<rparr>"
      using D by (simp add: fun_upd_idem)
    show "t_side ?r p b (x\<lparr>outbuf := rest\<rparr>) y" "t_side ?r a pb y (x\<lparr>outbuf := rest\<rparr>)"
      using D out by (auto simp: t_side_def t_throttle_def split: if_splits)
  qed (use D in auto)
next
  case (flush a)
  show ?thesis
  proof (rule t_good_flush [OF good t_apart_flush [OF good flush]])
    show "t_flush ?r a b (x\<lparr>outbuf := rest\<rparr>)"
      using flush out by (auto simp: t_flush_def t_owns_def t_widow_def)
  qed (use t_owns_live(2) [OF good t_flushD(1) [OF flush]] t_goodD(5) [OF good] in
      \<open>auto simp: t_same_outside_def\<close>)
qed

lemma t_good_new:
  assumes good: "t_good r" and acc: "t_accepted (t_now r) a q s'"
    and newp: "a \<notin> t_used r" "q \<notin> t_used r"
  shows "t_good \<lparr>t_now = s', t_arrived = t_fresh_log (t_bevs (t_now r)) (t_bevs s') (t_arrived r),
     t_sent = t_fresh_log (t_bevs (t_now r)) (t_bevs s') (t_sent r), t_used = t_used r \<union> {a, q}\<rparr>" (is "t_good ?r")
proof -
  obtain b pb x y where xy: "fresh_bev x" "fresh_bev y" and new: "t_bevs (t_now r) b = None" "t_bevs (t_now r) pb = None"
    and pair: "t_pair s' a q b pb (t_link_bev q x) (t_link_bev a y)"
    and h: "t_bevs s' = (t_bevs (t_now r))(b \<mapsto> t_link_bev q x, pb \<mapsto> t_link_bev a y)"
    and same: "\<forall>p. p \<noteq> a \<longrightarrow> p \<noteq> q \<longrightarrow> proxies s' p = proxies (t_now r) p" and io: "io_wf (t_io s')"
    using acc unfolding t_accepted_def by blast
  have l: "t_linked ?r a q b pb (t_link_bev q x) (t_link_bev a y)"
    using pair xy new T_MAX_OUTPUT_pos(1) h
    by (auto simp: t_linked_def t_side_def t_throttle_def t_link_bev_def fresh_bev_def t_fresh_log_def)
  note D = t_linkedD [OF l]
  have dead: "proxies (t_now r) a = None" "proxies (t_now r) q = None"
    using newp t_goodD(5) [OF good] by (metis option.exhaust)+
  show ?thesis
  proof (rule t_good_upd [OF good t_apart_new [OF good], of "{a, q}" "{b, pb}"])
    show "t_same_outside {a, q} {b, pb} r ?r"
      using same h newp by (auto simp: t_same_outside_def t_fresh_log_def)
    show "t_ok ?r c" if "c \<in> {a, q}" for c
      using that l t_linked_sym [OF l] unfolding t_ok_def by blast
    show "d \<in> {b, pb}" if "c \<in> {a, q}" "t_owns (t_now ?r) c d" for c d
      using that D(3,4) t_owns_fun by blast
    show "c = c'" if "c \<in> {a, q}" "c' \<in> {a, q}" "t_owns (t_now ?r) c d" "t_owns (t_now ?r) c' d" for c c' d
      using that D(2,3,4) t_owns_fun by blast
    show "\<exists>c\<in>{a, q}. t_owns (t_now ?r) c d" if "d \<in> {b, pb}" for d
      using that D(3,4) by blast
  qed (use dead new io in auto)
qed

section \<open>The relay a run implements\<close>

definition t_in_flight :: "t_state \<Rightarrow> bev \<Rightarrow> t_bev \<Rightarrow> byte list" where
  "t_in_flight s b x = outbuf x @ (case t_peer s x of None \<Rightarrow> [] | Some pb \<Rightarrow>
     if pb = b then [] else (case t_bevs s pb of None \<Rightarrow> [] | Some y \<Rightarrow> inbuf y))"

definition t_relay_of :: "t_run \<Rightarrow> relay" where
  "t_relay_of r b = map_option (\<lambda>x. (t_in_flight (t_now r) b x, t_sent r b)) (t_bevs (t_now r) b)"

lemma t_in_flight_linked: "t_linked r a p b pb x y \<Longrightarrow> t_in_flight (t_now r) b x = outbuf x @ inbuf y"
  using t_peer_linked [of r a p b pb x y] t_linkedD(2,6) [of r a p b pb x y]
  by (auto simp: t_in_flight_def)

lemma t_in_flight_flush: "t_flush r a b x \<Longrightarrow> t_in_flight (t_now r) b x = outbuf x"
  by (auto simp: t_flush_def t_owns_def t_in_flight_def t_peer_def)

lemma t_stream:
  assumes good: "t_good r" and b: "t_bevs (t_now r) b = Some x"
  shows "t_arrived r b = t_sent r b @ t_in_flight (t_now r) b x"
  using good b
proof (cases rule: t_bev_cases)
  case (linked a p pb y)
  then show ?thesis using t_in_flight_linked [OF linked] t_sideD(6) [OF t_linkedD(11) [OF linked]] by simp
next
  case (flush a)
  then show ?thesis using t_in_flight_flush [OF flush] by (simp add: t_flush_def)
qed

text \<open>What is on its way to an endpoint is what has arrived for it and is not sent yet.\<close>

lemma t_relay_of_log:
  assumes "t_good r"
  shows "t_relay_of r b = map_option (\<lambda>x. (drop (length (t_sent r b)) (t_arrived r b), t_sent r b)) (t_bevs (t_now r) b)"
  using t_stream [OF assms] by (cases "t_bevs (t_now r) b") (simp_all add: t_relay_of_def)

lemma t_relay_of_callback:
  assumes good: "t_good r" "t_good (r\<lparr>t_now := s'\<rparr>)" and d: "dom (t_bevs s') = dom (t_bevs (t_now r)) - X"
  shows "t_relay_of (r\<lparr>t_now := s'\<rparr>) = (\<lambda>b. if b \<in> X then None else t_relay_of r b)"
proof
  fix b
  have "b \<in> dom (t_bevs s') \<longleftrightarrow> b \<in> dom (t_bevs (t_now r)) \<and> b \<notin> X" using d by blast
  then show "t_relay_of (r\<lparr>t_now := s'\<rparr>) b = (if b \<in> X then None else t_relay_of r b)"
    unfolding t_relay_of_log [OF good(1)] t_relay_of_log [OF good(2)]
    by (cases "t_bevs s' b"; cases "t_bevs (t_now r) b") auto
qed

lemma t_relay_of_some: "t_bevs (t_now r) b = Some x \<Longrightarrow> t_relay_of r b = Some (t_in_flight (t_now r) b x, t_sent r b)"
  by (simp add: t_relay_of_def)

lemma t_sock_read_relay:
  assumes good: "t_good r" and b: "t_bevs (t_now r) b = Some x" and rd: "reading x"
  shows "relay_step (t_relay_of r) (Sock_Read b d) (t_relay_of
    (r\<lparr>t_now := (t_now r)\<lparr>t_bevs := (t_bevs (t_now r))(b \<mapsto> x\<lparr>inbuf := inbuf x @ d\<rparr>)\<rparr>,
    t_arrived := log_arrival (t_peer (t_now r) x) d (t_arrived r)\<rparr>))" (is "relay_step _ _ (t_relay_of ?r)")
  using good b
proof (cases rule: t_bev_cases)
  case (linked a p pb y)
  note D = t_linkedD [OF linked] t_peer_linked [OF linked]
  have good': "t_good ?r" by (rule t_sock_read_good [OF assms])
  have arr: "t_arrived r pb = t_sent r pb @ t_in_flight (t_now r) pb y" by (rule t_stream [OF good D(6)])
  have "t_relay_of ?r c = ((t_relay_of r)(pb \<mapsto> (t_in_flight (t_now r) pb y @ d, t_sent r pb))) c" for c
    unfolding fun_upd_apply t_relay_of_log [OF good] t_relay_of_log [OF good']
    using D b arr by (simp add: log_arrival_def)
  then have "t_relay_of ?r = (t_relay_of r)(pb \<mapsto> (t_in_flight (t_now r) pb y @ d, t_sent r pb))" ..
  then show ?thesis using receive t_relay_of_some [OF D(6)] by metis
next
  case (flush a)
  then show ?thesis using t_flushD(5) rd by blast
qed

lemma t_sock_write_relay:
  assumes good: "t_good r" and b: "t_bevs (t_now r) b = Some x" and out: "outbuf x = d @ rest"
  shows "relay_step (t_relay_of r) (Sock_Write b d) (t_relay_of
    (r\<lparr>t_now := (t_now r)\<lparr>t_bevs := (t_bevs (t_now r))(b \<mapsto> x\<lparr>outbuf := rest\<rparr>)\<rparr>,
    t_sent := (t_sent r)(b := t_sent r b @ d)\<rparr>))" (is "relay_step _ _ (t_relay_of ?r)")
proof -
  have good': "t_good ?r" by (rule t_sock_write_good [OF assms])
  obtain q where q: "t_in_flight (t_now r) b x = d @ q" using out by (simp add: t_in_flight_def)
  have "t_relay_of ?r c = ((t_relay_of r)(b \<mapsto> (q, t_sent r b @ d))) c" for c
    unfolding fun_upd_apply t_relay_of_log [OF good] t_relay_of_log [OF good']
    using b q t_stream [OF good b] by simp
  then have "t_relay_of ?r = (t_relay_of r)(b \<mapsto> (q, t_sent r b @ d))" ..
  then show ?thesis using deliver t_relay_of_some [OF b] q by metis
qed

lemma t_new_relay:
  assumes good: "t_good r" and acc: "t_accepted (t_now r) a q s'"
    and newp: "a \<notin> t_used r" "q \<notin> t_used r"
  shows "relay_step (t_relay_of r) (Accept sock) (t_relay_of
    \<lparr>t_now = s', t_arrived = t_fresh_log (t_bevs (t_now r)) (t_bevs s') (t_arrived r),
     t_sent = t_fresh_log (t_bevs (t_now r)) (t_bevs s') (t_sent r), t_used = t_used r \<union> {a, q}\<rparr>)" (is "relay_step _ _ (t_relay_of ?r)")
proof -
  obtain b pb x y where new: "t_bevs (t_now r) b = None" "t_bevs (t_now r) pb = None" and ne: "b \<noteq> pb"
    and h: "t_bevs s' = (t_bevs (t_now r))(b \<mapsto> x, pb \<mapsto> y)"
    using acc unfolding t_accepted_def t_pair_def by blast
  have good': "t_good ?r" by (rule t_good_new [OF assms])
  have "t_relay_of ?r c = ((t_relay_of r)(b \<mapsto> ([], []), pb \<mapsto> ([], []))) c" for c
    unfolding fun_upd_apply t_relay_of_log [OF good] t_relay_of_log [OF good']
    using h new by (cases "t_bevs (t_now r) c") (auto simp: t_fresh_log_def)
  then have "t_relay_of ?r = (t_relay_of r)(b \<mapsto> ([], []), pb \<mapsto> ([], []))" ..
  then show ?thesis using new ne connect [of "t_relay_of r" b pb sock] by (simp add: t_relay_of_def)
qed

context t_proxy_lib
begin

lemma t_readcb_good:
  assumes good: "t_good r" and l: "t_linked r a p b pb x y"
  shows "\<exists>s'. t_readcb L b (Ref p) (t_now r) = Inr s' \<and> t_good (r\<lparr>t_now := s'\<rparr>) \<and>
    dom (t_bevs s') = dom (t_bevs (t_now r))"
proof -
  note D = t_linkedD [OF l] and run = t_readcb_pair [OF t_linkedD(13) [OF l]]
  have dom: "dom ((t_bevs (t_now r))(b \<mapsto> x', pb \<mapsto> y')) = dom (t_bevs (t_now r))" for x' y'
    using D(5,6) by auto
  show ?thesis
  proof (cases "T_MAX_OUTPUT \<le> length (outbuf y @ inbuf x)")
    case True
    have "t_good (r\<lparr>t_now := (t_now r)\<lparr>t_bevs := (t_bevs (t_now r))(
        b \<mapsto> x\<lparr>inbuf := [], enabled := clear_flag (enabled x) EV_READ\<rparr>, pb \<mapsto> t_full_partner a (inbuf x) y)\<rparr>\<rparr>)"
      using D(11,12) by (intro t_good_linked [OF good l])
        (auto simp: t_side_def t_throttle_def t_full_partner_def)
    with True run dom show ?thesis by simp
  next
    case False
    have "t_good (r\<lparr>t_now := (t_now r)\<lparr>t_bevs := (t_bevs (t_now r))(
        b \<mapsto> x\<lparr>inbuf := []\<rparr>, pb \<mapsto> y\<lparr>outbuf := outbuf y @ inbuf x\<rparr>)\<rparr>\<rparr>)"
      using D(11,12) False by (intro t_good_linked [OF good l])
        (auto simp: t_side_def t_throttle_def)
    with False run dom show ?thesis by simp
  qed
qed

lemma t_drained_good:
  assumes good: "t_good r" and l: "t_linked r a p b pb x y"
    and cb: "bev_writecb x = Some T_Drained_Writecb" and out: "length (outbuf x) \<le> low (wm_write x)"
  shows "\<exists>s'. t_drained_writecb L b (Ref p) (t_now r) = Inr s' \<and> t_good (r\<lparr>t_now := s'\<rparr>) \<and>
    dom (t_bevs s') = dom (t_bevs (t_now r))"
proof -
  note D = t_linkedD [OF l]
  have "length (outbuf x) < T_MAX_OUTPUT"
    using D(11) cb out T_MAX_OUTPUT_pos(2) by (auto simp: t_side_def t_throttle_def split: if_splits)
  then have "t_good (r\<lparr>t_now := (t_now r)\<lparr>t_bevs := (t_bevs (t_now r))(
      b \<mapsto> x\<lparr>bev_readcb := Some T_Readcb, bev_writecb := None, bev_errorcb := Some T_Eventcb,
            bev_cbarg := Ref p, wm_write := \<lparr>low = 0, high = 0\<rparr>\<rparr>,
      pb \<mapsto> y\<lparr>enabled := set_flag (enabled y) EV_READ\<rparr>)\<rparr>\<rparr>)"
    using D(11,12) by (intro t_good_linked [OF good l])
      (auto simp: t_side_def t_throttle_def)
  then show ?thesis using t_drained_pair [OF D(13)] D(5,6) by auto
qed

lemma t_close_eq:
  assumes "t_owns s p pb" and "t_bevs s pb = Some y"
  shows "t_close_on_finished_writecb L pb (Ref p) s = Inr (if outbuf y = []
    then s\<lparr>t_bevs := (t_bevs s)(pb := None), proxies := (proxies s)(p := None)\<rparr> else s)"
  using assms by (auto simp: t_owns_def t_close_on_finished_writecb_def t_api delete_proxy_eq)

lemma t_close_good:
  assumes good: "t_good r" and f: "t_flush r a b x" and nil: "outbuf x = []"
  shows "t_good (r\<lparr>t_now := (t_now r)\<lparr>t_bevs := (t_bevs (t_now r))(b := None),
    proxies := (proxies (t_now r))(a := None)\<rparr>\<rparr>)"
  by (rule t_good_gone [OF good t_apart_flush [OF good f]]) (auto simp: t_same_outside_def)

lemma t_hangup_good:
  assumes good: "t_good r" and l: "t_linked r a p b pb x y"
    and what: "has_flag what (BEV_EVENT_EOF OR BEV_EVENT_ERROR)"
  shows "\<exists>s'. t_eventcb L b what (Ref p) (t_now r) = Inr s' \<and> t_good (r\<lparr>t_now := s'\<rparr>) \<and>
    dom (t_bevs s') = dom (t_bevs (t_now r)) - (if outbuf y @ inbuf x = [] then {b, pb} else {b})"
proof -
  note D = t_linkedD [OF l] and run = t_eventcb_pair [OF t_linkedD(13) [OF l] what]
  note ap = t_apart_linked [OF good l]
  show ?thesis
  proof (cases "outbuf y @ inbuf x = []")
    case True
    have "t_good (r\<lparr>t_now := (t_now r)\<lparr>t_bevs := (t_bevs (t_now r))(b := None, pb := None),
        proxies := (proxies (t_now r))(a := None, p := None)\<rparr>\<rparr>)"
      by (rule t_good_gone [OF good ap]) (auto simp: t_same_outside_def)
    with True run show ?thesis by auto
  next
    case False
    let ?y = "t_flushing p (outbuf y @ inbuf x) y"
    let ?r = "r\<lparr>t_now := (t_now r)\<lparr>t_bevs := (t_bevs (t_now r))(b := None, pb \<mapsto> ?y),
        proxies := (proxies (t_now r))(a := None)\<rparr>\<rparr>"
    have u: "a \<in> t_used r" "p \<in> t_used r" using D(13) t_goodD(5) [OF good] by (auto simp: t_pair_def)
    then have "t_widow ?r p" using D(13) by (auto simp: t_pair_def t_widow_def)
    then have "t_flush ?r p pb ?y"
      using D by (auto simp: t_flush_def t_side_def t_owns_def t_flushing_def t_closing_partner_def)
    then have "t_good ?r"
      by (rule t_good_flush [OF good ap, rotated 2]) (use u in \<open>auto simp: t_same_outside_def\<close>)
    moreover have "t_eventcb L b what (Ref p) (t_now r) = Inr (t_now ?r)" using False run by auto
    moreover have "dom (t_bevs (t_now ?r)) = dom (t_bevs (t_now r)) - {b}" using D(2,6) by auto
    ultimately show ?thesis using False by (intro exI [of _ "t_now ?r"]) auto
  qed
qed

lemma t_eventcb_quiet:
  assumes good: "t_good r" and b: "t_bevs (t_now r) b = Some x"
    and what: "\<not> has_flag what (BEV_EVENT_EOF OR BEV_EVENT_ERROR)"
  shows "t_eventcb L b what (bev_cbarg x) (t_now r) = Inr (t_now r)"
  using good b
proof (cases rule: t_bev_cases)
  case (linked a p pb y)
  then show ?thesis using t_linkedD(4,7) [OF linked] t_eventcb_other [OF what] by (auto simp: t_owns_def)
next
  case (flush a)
  then show ?thesis using t_flushD(1,3) [OF flush] t_eventcb_other [OF what] by (auto simp: t_owns_def)
qed

text \<open>On a flushing side, an end or error event deletes the deleted partner once more.\<close>

lemma t_eventcb_widow:
  assumes f: "t_flush r a b x" and what: "has_flag what (BEV_EVENT_EOF OR BEV_EVENT_ERROR)"
  shows "t_eventcb L b what (bev_cbarg x) (t_now r) = Inl Use_After_Free"
proof -
  obtain c where "t_half (t_now r) c a b x"
    using f by (auto simp: t_flush_def t_widow_def t_owns_def t_half_def)
  then show ?thesis using t_eventcb_half [OF _ what] t_flushD(3) [OF f] by simp
qed

text \<open>
  One step: the program goes on with its connections in order, as the abstract relay does, or it ends
  with one of three faults.
\<close>

lemma t_run_readcb_ok:
  assumes good: "t_good r" and b: "t_bevs (t_now r) b = Some x" and cb: "bev_readcb x = Some cb"
  shows "\<exists>s'. t_data_cb cb L b (bev_cbarg x) (t_now r) = Inr s' \<and> t_good (r\<lparr>t_now := s'\<rparr>) \<and>
    relay_step (t_relay_of r) (Run_Readcb b) (t_relay_of (r\<lparr>t_now := s'\<rparr>))"
  using good b
proof (cases rule: t_bev_cases)
  case (linked a p pb y)
  obtain s' where s': "t_readcb L b (Ref p) (t_now r) = Inr s'" "t_good (r\<lparr>t_now := s'\<rparr>)"
    "dom (t_bevs s') = dom (t_bevs (t_now r)) - {}"
    using t_readcb_good [OF good linked] by auto
  have "t_relay_of (r\<lparr>t_now := s'\<rparr>) = t_relay_of r" using t_relay_of_callback [OF good s'(2,3)] by simp
  then show ?thesis using s' cb t_linkedD(7,9) [OF linked] forward by (simp add: t_data_cb_def)
next
  case (flush a)
  then show ?thesis using t_flushD(4) cb by fastforce
qed

lemma t_run_writecb_ok:
  assumes good: "t_good r" and b: "t_bevs (t_now r) b = Some x" and cb: "bev_writecb x = Some cb"
    and out: "length (outbuf x) \<le> low (wm_write x)"
  shows "\<exists>s'. t_data_cb cb L b (bev_cbarg x) (t_now r) = Inr s' \<and> t_good (r\<lparr>t_now := s'\<rparr>) \<and>
    relay_step (t_relay_of r) (Run_Writecb b) (t_relay_of (r\<lparr>t_now := s'\<rparr>))"
  using good b
proof (cases rule: t_bev_cases)
  case (linked a p pb y)
  have c: "cb = T_Drained_Writecb"
    using t_sideD(5) [OF t_linkedD(11) [OF linked]] cb by (auto simp: t_throttle_def split: if_splits)
  obtain s' where s': "t_drained_writecb L b (Ref p) (t_now r) = Inr s'" "t_good (r\<lparr>t_now := s'\<rparr>)"
    "dom (t_bevs s') = dom (t_bevs (t_now r)) - {}"
    using t_drained_good [OF good linked] cb c out by auto
  have "t_relay_of (r\<lparr>t_now := s'\<rparr>) = t_relay_of r" using t_relay_of_callback [OF good s'(2,3)] by simp
  then show ?thesis using s' c t_linkedD(7) [OF linked] drained by (simp add: t_data_cb_def)
next
  case (flush a)
  have c: "cb = T_Close_On_Finished_Writecb" using flush cb by (simp add: t_flush_def)
  note run = t_close_eq [OF t_flushD(1,2) [OF flush]]
  show ?thesis
  proof (cases "outbuf x = []")
    case True
    let ?s = "(t_now r)\<lparr>t_bevs := (t_bevs (t_now r))(b := None), proxies := (proxies (t_now r))(a := None)\<rparr>"
    have good': "t_good (r\<lparr>t_now := ?s\<rparr>)" by (rule t_close_good [OF good flush True])
    have "t_relay_of (r\<lparr>t_now := ?s\<rparr>) = (t_relay_of r)(b := None)"
      using t_relay_of_callback [OF good good', of "{b}"] by (auto simp: fun_eq_iff)
    moreover have "t_relay_of r b = Some ([], t_sent r b)"
      using t_relay_of_some [OF b] t_in_flight_flush [OF flush] True by simp
    ultimately show ?thesis using good' run True c t_flushD(3) [OF flush] finish
      by (simp add: t_data_cb_def)
  next
    case False
    then show ?thesis using good run c t_flushD(3) [OF flush] drained by (simp add: t_data_cb_def)
  qed
qed

lemma t_run_eventcb_ok:
  assumes good: "t_good r" and b: "t_bevs (t_now r) b = Some x" and calm: "\<not> t_event_fault r (Run_Eventcb b what)"
  shows "\<exists>s'. t_eventcb L b what (bev_cbarg x) (t_now r) = Inr s' \<and> t_good (r\<lparr>t_now := s'\<rparr>) \<and>
    relay_step (t_relay_of r) (Run_Eventcb b what) (t_relay_of (r\<lparr>t_now := s'\<rparr>))"
proof (cases "has_flag what (BEV_EVENT_EOF OR BEV_EVENT_ERROR)")
  case False
  then show ?thesis using good t_eventcb_quiet [OF good b False] no_hangup [OF False] by simp
next
  case what: True
  show ?thesis using good b
  proof (cases rule: t_bev_cases)
    case (linked a p pb y)
    obtain s' where s': "t_eventcb L b what (Ref p) (t_now r) = Inr s'" "t_good (r\<lparr>t_now := s'\<rparr>)"
      and d: "dom (t_bevs s') = dom (t_bevs (t_now r)) - (if outbuf y @ inbuf x = [] then {b, pb} else {b})"
      using t_hangup_good [OF good linked what] by blast
    have "t_relay_of r pb = Some (outbuf y @ inbuf x, t_sent r pb)"
      using t_relay_of_some [OF t_linkedD(6) [OF linked]] t_in_flight_linked [OF t_linked_sym [OF linked]] by simp
    moreover have "t_relay_of (r\<lparr>t_now := s'\<rparr>) =
        (if outbuf y @ inbuf x = [] then (t_relay_of r)(b := None, pb := None) else (t_relay_of r)(b := None))"
      unfolding t_relay_of_callback [OF good s'(2) d] by auto
    ultimately have "relay_step (t_relay_of r) (Run_Eventcb b what) (t_relay_of (r\<lparr>t_now := s'\<rparr>))"
      using hangup [OF what] hangup_both [OF what] by (cases "outbuf y @ inbuf x = []") metis+
    then show ?thesis using s' t_linkedD(7) [OF linked] by simp
  next
    case (flush a)
    then show ?thesis using calm b what t_flushD(4) by (fastforce simp: t_event_fault_def)
  qed
qed

lemma t_accept_ok:
  assumes good: "t_good r" and ne: "a \<noteq> q" and d: "has_dest so sock"
    and new: "a \<notin> t_used r" "q \<notin> t_used r"
  shows "t_after_accept r {a, q} (on_accept L so a q sock ad slen (t_now r)) = Inl Null_Deref \<or>
    (\<exists>r'. t_after_accept r {a, q} (on_accept L so a q sock ad slen (t_now r)) = Inr r' \<and> t_good r' \<and>
      relay_step (t_relay_of r) (Accept sock) (t_relay_of r'))"
proof -
  have dead: "proxies (t_now r) a = None" "proxies (t_now r) q = None"
    using new t_goodD(5) [OF good] by (metis option.exhaust)+
  show ?thesis
    using on_accept_dest [OF t_goodD(1) [OF good] ne d dead, of ad slen]
  proof (elim disjE exE conjE)
    fix s'
    assume ok: "on_accept L so a q sock ad slen (t_now r) = Inr (True, s')" and acc: "t_accepted (t_now r) a q s'"
    then show ?thesis using t_good_new [OF good acc new] t_new_relay [OF good acc new]
      by (simp add: t_after_accept_def)
  next
    fix s'
    assume no: "on_accept L so a q sock ad slen (t_now r) = Inr (False, s')"
      and s': "io_wf (t_io s')" "t_bevs s' = t_bevs (t_now r)" "proxies s' = proxies (t_now r)"
    have l: "t_fresh_log h h f = f" for h f by (auto simp: t_fresh_log_def fun_eq_iff)
    let ?r = "\<lparr>t_now = s', t_arrived = t_arrived r, t_sent = t_sent r, t_used = t_used r \<union> {a, q}\<rparr>"
    have eq: "t_after_accept r {a, q} (on_accept L so a q sock ad slen (t_now r)) = Inr ?r"
      using no s' l by (simp add: t_after_accept_def)
    have "t_good ?r"
      by (rule t_good_upd [OF good, of "{}" "{}"]) (use s' in \<open>auto simp: t_apart_def t_same_outside_def\<close>)
    moreover have "t_relay_of ?r = t_relay_of r"
      by (rule ext, unfold t_relay_of_def t_in_flight_def t_peer_def t_run.simps s'(2,3), rule refl)
    ultimately show ?thesis using eq refuse by simp
  qed (simp add: t_after_accept_def)
qed

lemma t_after_ok:
  "\<exists>s'. c = Inr s' \<and> t_good (r\<lparr>t_now := s'\<rparr>) \<and> relay_step R act (t_relay_of (r\<lparr>t_now := s'\<rparr>)) \<Longrightarrow>
    \<exists>r'. t_after r c = Inr r' \<and> t_good r' \<and> relay_step R act (t_relay_of r')"
  by (auto simp: t_after_def)

lemma t_step_ok:
  assumes step: "t_step L so r act res" and good: "t_good r"
  shows "(\<exists>r'. res = Inr r' \<and> t_good r' \<and> relay_step (t_relay_of r) act (t_relay_of r') \<and> \<not> t_event_fault r act) \<or>
    (\<exists>sock. act = Accept sock \<and> res = Inl (if has_dest so sock then Null_Deref else Uninit_Read)) \<or>
    (t_event_fault r act \<and> res = Inl Use_After_Free)"
  using step
proof cases
  case (t_sock_read b x d)
  then show ?thesis using t_sock_read_good [OF good] t_sock_read_relay [OF good] by (auto simp: t_event_fault_def)
next
  case (t_sock_write b x d rest)
  then show ?thesis using t_sock_write_good [OF good] t_sock_write_relay [OF good] by (auto simp: t_event_fault_def)
next
  case (t_run_readcb b x cb)
  then show ?thesis using t_after_ok [OF t_run_readcb_ok [OF good]] by (auto simp: t_event_fault_def)
next
  case (t_run_writecb b x cb)
  then show ?thesis using t_after_ok [OF t_run_writecb_ok [OF good]] by (auto simp: t_event_fault_def)
next
  case (t_run_eventcb b x what)
  show ?thesis
  proof (cases "t_event_fault r act")
    case True
    then have w: "has_flag what (BEV_EVENT_EOF OR BEV_EVENT_ERROR)" and n: "bev_readcb x = None"
      using t_run_eventcb by (auto simp: t_event_fault_def)
    from good t_run_eventcb(3) have "\<exists>a. t_flush r a b x"
      by (cases rule: t_bev_cases) (use n t_linkedD(9) in \<open>fastforce+\<close>)
    then have "res = Inl Use_After_Free"
      using t_eventcb_widow [OF _ w] t_run_eventcb(2) by (auto simp: t_after_def)
    then show ?thesis using True by blast
  next
    case False
    then show ?thesis using t_run_eventcb t_after_ok [OF t_run_eventcb_ok [OF good, of b x what]] by blast
  qed
next
  case (t_accept a q sock ad slen)
  have n: "\<not> t_event_fault r act" using t_accept(1) by (simp add: t_event_fault_def)
  show ?thesis
  proof (cases "has_dest so sock")
    case True
    then show ?thesis using n t_accept t_accept_ok [OF good t_accept(3) True t_accept(4,5)] by auto
  next
    case False
    then have "res = Inl Uninit_Read"
      using t_accept(2) on_accept_no_dest [OF t_goodD(1) [OF good] t_accept(3) False]
      by (simp add: t_after_accept_def)
    then show ?thesis using False t_accept(1) by auto
  qed
qed

lemma t_runs_good: "t_runs L so r as u \<Longrightarrow> t_good r \<Longrightarrow> t_good u"
  by (induction rule: t_runs.induct) (auto dest: t_step_ok)

lemma t_reachable_good: "t_reachable L so r \<Longrightarrow> t_good r"
  using t_runs_good t_good_start by (auto simp: t_reachable_def)

text \<open>The waits of the proxy can always come to an end.\<close>

lemma t_can_resume:
  assumes good: "t_good r" and l: "t_linked r a p b pb x y" and rd: "\<not> reading y"
  shows "\<exists>u y'. t_runs L so r [Sock_Write b (outbuf x), Run_Writecb b] u \<and> t_bevs (t_now u) pb = Some y' \<and> reading y'"
proof -
  note D = t_linkedD [OF l]
  have cb: "bev_writecb x = Some T_Drained_Writecb" "writing x"
    using t_sideD(5) [OF D(11)] rd t_sideD(1) [OF D(11)] by (simp_all add: t_throttle_def)
  let ?x = "x\<lparr>outbuf := []\<rparr>"
  let ?r = "r\<lparr>t_now := (t_now r)\<lparr>t_bevs := (t_bevs (t_now r))(b \<mapsto> ?x)\<rparr>,
    t_sent := (t_sent r)(b := t_sent r b @ outbuf x)\<rparr>"
  have w: "t_step L so r (Sock_Write b (outbuf x)) (Inr ?r)" by (rule t_sock_write) (use D cb in auto)
  have pair: "t_pair (t_now ?r) a p b pb ?x y"
    using t_pair_upd [OF D(13), of ?x y] D(2,6) by (simp add: fun_upd_idem)
  obtain s2 y2 where s2: "t_drained_writecb L b (Ref p) (t_now ?r) = Inr s2" "t_bevs s2 pb = Some y2" "reading y2"
    using t_drained_resumes [OF pair] unfolding t_pair_def by blast
  have "t_step L so ?r (Run_Writecb b) (Inr (?r\<lparr>t_now := s2\<rparr>))"
    using t_run_writecb [of ?r b ?x T_Drained_Writecb L so] cb D(7) s2 by (simp add: t_data_cb_def t_after_def)
  from t_runs_write [OF w this] s2(2,3) show ?thesis by (intro exI [of _ "?r\<lparr>t_now := s2\<rparr>"]) simp
qed

lemma t_can_finish:
  assumes good: "t_good r" and f: "t_flush r a b x"
  shows "\<exists>u. t_runs L so r [Sock_Write b (outbuf x), Run_Writecb b] u \<and>
    t_bevs (t_now u) = (t_bevs (t_now r))(b := None) \<and> proxies (t_now u) = (proxies (t_now r))(a := None) \<and>
    t_sent u b = t_arrived r b"
proof -
  let ?x = "x\<lparr>outbuf := []\<rparr>"
  let ?r = "r\<lparr>t_now := (t_now r)\<lparr>t_bevs := (t_bevs (t_now r))(b \<mapsto> ?x)\<rparr>,
    t_sent := (t_sent r)(b := t_sent r b @ outbuf x)\<rparr>"
  let ?s2 = "(t_now ?r)\<lparr>t_bevs := (t_bevs (t_now ?r))(b := None), proxies := (proxies (t_now ?r))(a := None)\<rparr>"
  have w: "t_step L so r (Sock_Write b (outbuf x)) (Inr ?r)"
    by (rule t_sock_write) (use f in \<open>auto simp: t_flush_def\<close>)
  have o: "t_owns (t_now ?r) a b" using t_flushD(1) [OF f] by (simp add: t_owns_def)
  have "t_close_on_finished_writecb L b (Ref a) (t_now ?r) = Inr ?s2"
    using t_close_eq [OF o, of ?x] by simp
  then have "t_step L so ?r (Run_Writecb b) (Inr (?r\<lparr>t_now := ?s2\<rparr>))"
    using t_run_writecb [of ?r b ?x T_Close_On_Finished_Writecb L so] f
    by (simp add: t_flush_def t_data_cb_def t_after_def)
  then have "t_runs L so r [Sock_Write b (outbuf x), Run_Writecb b] (?r\<lparr>t_now := ?s2\<rparr>)"
    by (rule t_runs_write [OF w])
  moreover have "t_arrived r b = t_sent r b @ outbuf x" using f by (simp add: t_flush_def)
  ultimately show ?thesis by (intro exI [of _ "?r\<lparr>t_now := ?s2\<rparr>"]) simp
qed

end

end
