(* ===== verification/Transparent_Run_Correct.thy ===== *)
theory Transparent_Run_Correct
  imports Transparent_Run Transparent_Proxy_Correct
begin

text \<open>
  The properties of whole runs of \<open>TransparentTcpProxy\<close>, from the end of \<open>main\<close>'s set-up on, for any
  library that behaves as the libevent headers document, with a concrete run that witnesses them.
\<close>

section \<open>A concrete run\<close>

definition ex_r_opts :: sockopts where
  "ex_r_opts = ex_t_sockopts (\<lambda>_. Some (zero_sockaddr, 16))"

definition ex_r_server :: t_bev where
  "ex_r_server = t_link_bev 1 (new_bev Null 10 102)"

definition ex_r_up :: t_state where
  "ex_r_up = \<lparr>t_bevs = [1 \<mapsto> ex_t_client, 2 \<mapsto> ex_r_server],
     proxies = [1 \<mapsto> (ex_t_proxy 2 1 7)\<lparr>t_src_len := 16\<rparr>, 2 \<mapsto> (ex_t_proxy 1 2 102)\<lparr>t_src_len := 16\<rparr>],
     t_io = ex_t_io\<rparr>"

text \<open>The client has sent \<open>d\<close>; then the read callback has moved it to the server's output; or the
  client has closed its side instead.\<close>

definition ex_r_recv :: "byte list \<Rightarrow> t_run" where
  "ex_r_recv d = \<lparr>t_now = ex_r_up\<lparr>t_bevs := [1 \<mapsto> ex_t_client\<lparr>inbuf := d\<rparr>, 2 \<mapsto> ex_r_server]\<rparr>,
     t_arrived = (\<lambda>_. [])(2 := d), t_sent = (\<lambda>_. []), t_used = {1, 2}\<rparr>"

definition ex_r_full :: t_run where
  "ex_r_full = (let d = replicate T_MAX_OUTPUT 0 in (ex_r_recv d)\<lparr>t_now := ex_r_up\<lparr>t_bevs :=
     [1 \<mapsto> ex_t_client\<lparr>inbuf := [], enabled := clear_flag (enabled ex_t_client) EV_READ\<rparr>,
      2 \<mapsto> t_full_partner 1 d ex_r_server]\<rparr>\<rparr>)"

definition ex_r_closing :: "byte list \<Rightarrow> t_run" where
  "ex_r_closing d = (ex_r_recv d)\<lparr>t_now := ex_r_up\<lparr>t_bevs := [2 \<mapsto> t_flushing 2 d ex_r_server],
     proxies := (proxies ex_r_up)(1 := None)\<rparr>\<rparr>"

lemma ex_r_main: "t_main (\<lambda>_. Some 10) (\<lambda>_. Some (zero_sockaddr, 16)) (\<lambda>_ _ _ _. True) = Inr ex_t_init"
  by (simp add: t_main_def io_context_new_def io_listen_def main_base_def array_get_def ex_t_init_def
      ex_t_io_def Let_def)

lemma ex_r_on_accept: "on_accept t_ref_lib ex_r_opts 1 2 7 zero_sockaddr 16 ex_t_init = Inr (True, ex_r_up)"
  by (simp add: on_accept_def t_proxy_new_def io_base_def array_get_def ex_t_init_def ex_t_io_def
      default_accept_cb_def upd_proxy_def t_socket_new_def deref_def libevent_ref_def alloc_bev_def
      bev_pool_def init_transparent_partner_def ex_t_sockopts_def connect_to_upstream_def ptr_of_def
      upd_bev_def blank_proxy_def t_start_def on_buffer_def on_bevs_def bufferevent_setcb_def
      bufferevent_enable_def on_live_def ex_r_opts_def ex_r_up_def ex_t_client_def ex_r_server_def
      ex_t_proxy_def t_link_bev_def base_arg_def new_bev_def)

lemma ex_r_fields:
  "t_bevs (t_now (ex_r_recv d)) 1 = Some (ex_t_client\<lparr>inbuf := d\<rparr>)"
  "t_bevs (t_now (ex_r_recv d)) 2 = Some ex_r_server"
  "bev_cbarg ex_t_client = Ref 2" "bev_errorcb ex_t_client = Some T_Eventcb" "bev_readcb ex_t_client = Some T_Readcb"
  "reading ex_t_client" "inbuf ex_t_client = []" "outbuf ex_r_server = []" "inbuf ex_r_server = []"
  by (simp_all add: ex_r_recv_def ex_t_client_def ex_r_server_def t_link_bev_def new_bev_def)

lemma ex_r_runs: "t_runs t_ref_lib ex_r_opts (t_start_of ex_t_init) [Accept 7, Sock_Read 1 d] (ex_r_recv d)"
proof -
  let ?r = "\<lparr>t_now = ex_r_up, t_arrived = (\<lambda>_. []), t_sent = (\<lambda>_. []), t_used = {1, 2}\<rparr>"
  have l: "t_fresh_log h h' (\<lambda>_. []) = (\<lambda>_. [])" for h h' by (simp add: t_fresh_log_def fun_eq_iff)
  have "t_step t_ref_lib ex_r_opts (t_start_of ex_t_init) (Accept 7)
      (t_after_accept (t_start_of ex_t_init) {1, 2} (Inr (True, ex_r_up)))"
    using t_accept [of 1 2 "t_start_of ex_t_init" t_ref_lib ex_r_opts 7 zero_sockaddr 16] ex_r_on_accept
    by (simp add: t_start_of_def)
  then have a: "t_step t_ref_lib ex_r_opts (t_start_of ex_t_init) (Accept 7) (Inr ?r)"
    by (simp add: t_after_accept_def t_start_of_def l)
  have b: "t_step t_ref_lib ex_r_opts ?r (Sock_Read 1 d) (Inr (ex_r_recv d))"
    using t_sock_read [of ?r 1 ex_t_client t_ref_lib ex_r_opts d] ex_r_fields
    by (simp add: ex_r_recv_def ex_r_up_def t_peer_def log_arrival_def ex_t_proxy_def fun_upd_twist)
  from t_more [OF t_more [OF t_done a] b] show ?thesis by simp
qed

lemma ex_r_pair: "t_pair (t_now (ex_r_recv d)) 1 2 1 2 (ex_t_client\<lparr>inbuf := d\<rparr>) ex_r_server"
  by (simp add: t_pair_def ex_r_recv_def ex_r_up_def ex_t_proxy_def)

lemma ex_r_reachable: "t_reachable t_ref_lib ex_r_opts (ex_r_recv d)"
  unfolding t_reachable_def using ex_r_main ex_r_runs by blast

lemma ex_r_extend:
  assumes "t_step t_ref_lib ex_r_opts (ex_r_recv d) act (Inr v)"
  shows "t_reachable t_ref_lib ex_r_opts v"
  unfolding t_reachable_def using ex_r_main t_more [OF ex_r_runs assms] by blast

lemma ex_r_full_reachable: "t_reachable t_ref_lib ex_r_opts ex_r_full"
proof (rule ex_r_extend)
  let ?r = "ex_r_recv (replicate T_MAX_OUTPUT 0)"
  have "t_readcb t_ref_lib 1 (Ref 2) (t_now ?r) = Inr (t_now ex_r_full)"
    unfolding t_ref.t_readcb_pair [OF ex_r_pair]
    by (simp add: ex_r_fields ex_r_full_def ex_r_recv_def ex_r_up_def Let_def fun_upd_twist)
  then show "t_step t_ref_lib ex_r_opts ?r (Run_Readcb 1) (Inr ex_r_full)"
    using t_run_readcb [of ?r 1 _ T_Readcb t_ref_lib ex_r_opts, OF ex_r_fields(1)]
    by (simp add: ex_r_fields t_data_cb_def t_after_def ex_r_full_def Let_def)
qed

lemma ex_r_closing_step:
  assumes "d \<noteq> []" and "length d < T_MAX_OUTPUT"
  shows "t_step t_ref_lib ex_r_opts (ex_r_recv d) (Run_Eventcb 1 BEV_EVENT_EOF) (Inr (ex_r_closing d))"
proof -
  have "t_eventcb t_ref_lib 1 BEV_EVENT_EOF (Ref 2) (t_now (ex_r_recv d)) = Inr (t_now (ex_r_closing d))"
    using t_ref.t_eventcb_pair [OF ex_r_pair [of d], of BEV_EVENT_EOF] assms
    by (auto simp: ex_r_fields ex_r_closing_def ex_r_recv_def ex_r_up_def has_flag_def)
  then show ?thesis
    using t_run_eventcb [of "ex_r_recv d" 1 _ t_ref_lib ex_r_opts BEV_EVENT_EOF, OF ex_r_fields(1)]
    by (simp add: ex_r_fields t_after_def ex_r_closing_def)
qed

lemma ex_r_closing_reachable:
  "d \<noteq> [] \<Longrightarrow> length d < T_MAX_OUTPUT \<Longrightarrow> t_reachable t_ref_lib ex_r_opts (ex_r_closing d)"
  by (rule ex_r_extend [OF ex_r_closing_step])

section \<open>Properties\<close>

text \<open>
  C5 (memory safety of runs, exactly). In every state a run can reach, whatever the events and the
  sockets: an end or error event on a side that is flushing deletes a deleted object; any other action
  of the event loop returns, with two exceptions while a connection is accepted: a null pointer is
  dereferenced, which takes a socket with a destination and a library without memory, or the socket
  has no destination and an unwritten pointer is read. No other callback uses or releases an object that is
  already released.
\<close>

theorem transparent_run_safe:
  assumes "t_proxy_lib L" and "t_reachable L so r" and "t_step L so r act res"
  shows "if \<exists>b what x. act = Run_Eventcb b what \<and> has_flag what (BEV_EVENT_EOF OR BEV_EVENT_ERROR) \<and>
        t_bevs (t_now r) b = Some x \<and> bev_readcb x = None
    then res = Inl Use_After_Free
    else (\<exists>r'. res = Inr r') \<or>
      (\<exists>sock. act = Accept sock \<and> res = Inl (if has_dest so sock then Null_Deref else Uninit_Read))"
  using t_proxy_lib.t_step_ok [OF assms(1,3) t_proxy_lib.t_reachable_good [OF assms(1,2)]]
  unfolding t_event_fault_def by (auto split: if_split)

theorem transparent_run_safe_witness:
  "(\<exists>r'. Inr (ex_r_closing [104]) = (Inr r' :: t_run res)) \<and>
   t_after (ex_r_closing [104]) (t_eventcb t_ref_lib 2 BEV_EVENT_EOF (Ref 2) (t_now (ex_r_closing [104]))) =
     Inl Use_After_Free"
proof
  let ?y = "t_flushing 2 [104] ex_r_server"
  have y: "t_bevs (t_now (ex_r_closing [104])) 2 = Some ?y" "bev_readcb ?y = None"
    "bev_errorcb ?y = Some T_Eventcb" "bev_cbarg ?y = Ref 2"
    by (simp_all add: ex_r_closing_def t_flushing_def t_closing_partner_def)
  have w: "has_flag BEV_EVENT_EOF (BEV_EVENT_EOF OR BEV_EVENT_ERROR)" by (simp add: has_flag_def)
  have s: "t_reachable t_ref_lib ex_r_opts (ex_r_closing [104])"
    by (rule ex_r_closing_reachable) (simp_all add: T_MAX_OUTPUT_def)
  note e = t_run_eventcb [OF y(1,3), of t_ref_lib ex_r_opts BEV_EVENT_EOF, unfolded y(4)]
  show "t_after (ex_r_closing [104]) (t_eventcb t_ref_lib 2 BEV_EVENT_EOF (Ref 2) (t_now (ex_r_closing [104]))) =
      Inl Use_After_Free"
    using transparent_run_safe [OF t_ref_lib_ok s e] y(1,2) w by auto
  have c: "t_step t_ref_lib ex_r_opts (ex_r_recv [104]) (Run_Eventcb 1 BEV_EVENT_EOF) (Inr (ex_r_closing [104]))"
    by (rule ex_r_closing_step) (simp_all add: T_MAX_OUTPUT_def)
  show "\<exists>r'. Inr (ex_r_closing [104]) = (Inr r' :: t_run res)"
    using transparent_run_safe [OF t_ref_lib_ok ex_r_reachable c] by blast
qed

text \<open>
  C6 (stream integrity of runs). In every reachable state, the bytes that have arrived for an endpoint
  are exactly the bytes already sent to it followed by what its output and the other side's input
  hold: no byte is lost, duplicated or reordered, also while one side is closing.
\<close>

theorem transparent_stream_integrity:
  assumes "t_proxy_lib L" and "t_reachable L so r" and "t_bevs (t_now r) b = Some x"
  shows "t_arrived r b = t_sent r b @ t_in_flight (t_now r) b x"
  using t_stream [OF t_proxy_lib.t_reachable_good [OF assms(1,2)] assms(3)] .

theorem transparent_stream_integrity_witness:
  "t_arrived (ex_r_recv [104, 105]) 2 = t_sent (ex_r_recv [104, 105]) 2 @
     t_in_flight (t_now (ex_r_recv [104, 105])) 2 ex_r_server \<and> t_arrived (ex_r_recv [104, 105]) 2 = [104, 105]"
  using transparent_stream_integrity [OF t_ref_lib_ok ex_r_reachable ex_r_fields(2), of "[104, 105]"]
  by (simp add: ex_r_recv_def)

text \<open>
  C7 (refinement of runs). Every step that returns, from every reachable state, seen through the map that forgets the proxy objects, the
  buffers' layout, callbacks and watermarks, is the step of the abstract relay with the same label:
  the transparent proxy and \<open>le_proxy\<close> implement the same specification.
\<close>

theorem transparent_refines_relay:
  assumes "t_proxy_lib L" and "t_reachable L so r" and "t_step L so r act (Inr r')"
  shows "relay_step (t_relay_of r) act (t_relay_of r')"
  using t_proxy_lib.t_step_ok [OF assms(1,3) t_proxy_lib.t_reachable_good [OF assms(1,2)]] by blast

theorem transparent_refines_relay_witness:
  "relay_step (t_relay_of (ex_r_recv [104, 105])) (Run_Eventcb 1 BEV_EVENT_EOF) (t_relay_of (ex_r_closing [104, 105]))"
  by (rule transparent_refines_relay [OF t_ref_lib_ok ex_r_reachable ex_r_closing_step])
    (simp_all add: T_MAX_OUTPUT_def)

text \<open>
  C12 (no leak, no sharing). In every reachable state each live bufferevent belongs to exactly one live
  proxy object, and each live proxy object has a live bufferevent: whatever a connection allocated is
  released with it.
\<close>

theorem transparent_no_leak:
  assumes "t_proxy_lib L" and "t_reachable L so r"
  shows "(\<forall>b. (\<exists>x. t_bevs (t_now r) b = Some x) \<longleftrightarrow> (\<exists>!a. t_owns (t_now r) a b)) \<and>
    (\<forall>a. (\<exists>pa. proxies (t_now r) a = Some pa) \<longleftrightarrow> (\<exists>!b. t_owns (t_now r) a b))"
proof -
  have good: "t_good r" by (rule t_proxy_lib.t_reachable_good [OF assms])
  have "(\<exists>x. t_bevs (t_now r) b = Some x) \<longleftrightarrow> (\<exists>!a. t_owns (t_now r) a b)" for b
    using t_goodD(3,4) [OF good] t_owns_live(1) [OF good] by auto
  moreover have "\<exists>b. t_owns (t_now r) a b" if "proxies (t_now r) a = Some pa" for a pa
    using t_goodD(2) [OF good, of a] that t_linkedD(3) t_flushD(1) unfolding t_ok_def by fastforce
  then have "(\<exists>pa. proxies (t_now r) a = Some pa) \<longleftrightarrow> (\<exists>!b. t_owns (t_now r) a b)" for a
    using t_owns_fun t_owns_live(2) [OF good] by blast
  ultimately show ?thesis by blast
qed

theorem transparent_no_leak_witness:
  "(\<forall>b. (\<exists>x. t_bevs (t_now (ex_r_recv [104])) b = Some x) \<longleftrightarrow> (\<exists>!a. t_owns (t_now (ex_r_recv [104])) a b)) \<and>
   (\<forall>a. (\<exists>pa. proxies (t_now (ex_r_recv [104])) a = Some pa) \<longleftrightarrow> (\<exists>!b. t_owns (t_now (ex_r_recv [104])) a b))"
  by (rule transparent_no_leak [OF t_ref_lib_ok ex_r_reachable])

text \<open>
  C27 (back pressure of runs). In every reachable state, an endpoint that still has its read callback
  and is read has a peer whose output is below \<open>MAX_OUTPUT\<close>; if it is not read, writing out the
  peer's output and running the peer's write callback makes it read again.
\<close>

theorem transparent_backpressure:
  assumes "t_proxy_lib L" and "t_reachable L so r" and "t_bevs (t_now r) b = Some x" and "bev_readcb x \<noteq> None"
  shows "\<exists>pb y. t_peer (t_now r) x = Some pb \<and> t_bevs (t_now r) pb = Some y \<and>
    (if reading x then length (outbuf y) < T_MAX_OUTPUT
     else \<exists>u x'. t_runs L so r [Sock_Write pb (outbuf y), Run_Writecb pb] u \<and>
       t_bevs (t_now u) b = Some x' \<and> reading x')"
proof -
  have good: "t_good r" by (rule t_proxy_lib.t_reachable_good [OF assms(1,2)])
  show ?thesis using good assms(3)
  proof (cases rule: t_bev_cases)
    case (linked a p pb y)
    note D = t_linkedD [OF linked] t_peer_linked [OF linked]
    have "if reading x then length (outbuf y) < T_MAX_OUTPUT
      else \<exists>u x'. t_runs L so r [Sock_Write pb (outbuf y), Run_Writecb pb] u \<and>
       t_bevs (t_now u) b = Some x' \<and> reading x'"
      using t_proxy_lib.t_can_resume [OF assms(1) good t_linked_sym [OF linked]] t_sideD(5) [OF D(12)]
      by (auto simp: t_throttle_def split: if_splits)
    then show ?thesis using D by blast
  qed (use assms(4) t_flushD(4) in fastforce)
qed

theorem transparent_backpressure_witness:
  "\<exists>pb y u x'. t_peer (t_now ex_r_full) (ex_t_client\<lparr>inbuf := [], enabled := clear_flag (enabled ex_t_client) EV_READ\<rparr>) = Some pb \<and>
    t_bevs (t_now ex_r_full) pb = Some y \<and>
    t_runs t_ref_lib ex_r_opts ex_r_full [Sock_Write pb (outbuf y), Run_Writecb pb] u \<and>
    t_bevs (t_now u) 1 = Some x' \<and> reading x'"
proof -
  let ?x = "ex_t_client\<lparr>inbuf := [], enabled := clear_flag (enabled ex_t_client) EV_READ\<rparr>"
  have x: "t_bevs (t_now ex_r_full) 1 = Some ?x" "bev_readcb ?x \<noteq> None" "\<not> reading ?x"
    by (simp_all add: ex_r_full_def Let_def ex_r_fields)
  show ?thesis
    using transparent_backpressure [OF t_ref_lib_ok ex_r_full_reachable x(1,2)] x(3) by simp
qed

text \<open>
  C13 (flush before close, in runs). In every reachable state, a bufferevent whose connection has lost
  its other side (it has no read callback any more) can be written out and closed: the two actions
  leave every byte that arrived for it sent, and its bufferevent and its proxy object released.
\<close>

theorem transparent_run_flushes:
  assumes "t_proxy_lib L" and "t_reachable L so r" and "t_bevs (t_now r) b = Some x" and "bev_readcb x = None"
  shows "\<exists>u a. t_runs L so r [Sock_Write b (outbuf x), Run_Writecb b] u \<and> t_sent u b = t_arrived r b \<and>
    t_owns (t_now r) a b \<and> t_bevs (t_now u) = (t_bevs (t_now r))(b := None) \<and>
    proxies (t_now u) = (proxies (t_now r))(a := None)"
proof -
  have good: "t_good r" by (rule t_proxy_lib.t_reachable_good [OF assms(1,2)])
  show ?thesis using good assms(3)
  proof (cases rule: t_bev_cases)
    case (flush a)
    then show ?thesis using t_proxy_lib.t_can_finish [OF assms(1) good flush] t_flushD(1) by blast
  qed (use assms(4) t_linkedD(9) in fastforce)
qed

theorem transparent_run_flushes_witness:
  "\<exists>u a. t_runs t_ref_lib ex_r_opts (ex_r_closing [104]) [Sock_Write 2 [104], Run_Writecb 2] u \<and>
    t_sent u 2 = t_arrived (ex_r_closing [104]) 2 \<and> t_owns (t_now (ex_r_closing [104])) a 2 \<and>
    t_bevs (t_now u) = (t_bevs (t_now (ex_r_closing [104])))(2 := None) \<and>
    proxies (t_now u) = (proxies (t_now (ex_r_closing [104])))(a := None)"
proof -
  let ?y = "t_flushing 2 [104] ex_r_server"
  have r: "t_reachable t_ref_lib ex_r_opts (ex_r_closing [104])"
    by (rule ex_r_closing_reachable) (simp_all add: T_MAX_OUTPUT_def)
  have y: "t_bevs (t_now (ex_r_closing [104])) 2 = Some ?y" "bev_readcb ?y = None" "outbuf ?y = [104]"
    by (simp_all add: ex_r_closing_def t_flushing_def t_closing_partner_def)
  show ?thesis using transparent_run_flushes [OF t_ref_lib_ok r y(1,2)] unfolding y(3) .
qed

end
