(* ===== verification/Tcp_Proxy.thy ===== *)
theory Tcp_Proxy
  imports IoContext
begin

text \<open>
  \<open>TcpProxy\<close>, \<open>EvContext\<close>, \<open>TcpProxyConnection\<close> and \<open>TcpProxyHolder\<close> of \<open>source/tcp/tcp_proxy\<close>.
  One proxy object owns both bufferevents of a connection and two contexts, \<open>in\<close> (target 0, the
  client's bufferevent \<open>b_in\<close>) and \<open>out\<close> (target 1, the server's bufferevent \<open>b_out\<close>); a context is
  the callback argument. The argument is a \<open>void *\<close>, so it also holds what the code passes there by
  mistake: \<open>default_write_cb\<close> passes a bufferevent, which the next callback casts to a context.

  \<open>set_origin_dest_addr\<close> and \<open>default_accept_cb\<close> end without a \<open>return\<close>, which the language leaves
  undefined. What their caller sees is the argument \<open>off_end\<close>: \<open>Inl Missing_Return\<close> is the reading of
  the language, and the one the property of the accept callback is stated for; \<open>Inr b\<close> describes
  compiled code that happens to leave \<open>b\<close> in the result register and goes on.
\<close>

section \<open>Objects\<close>

datatype tp_cb = Ev_Read_Cb | Ev_Write_Cb | Ev_Event_Cb | Close_On_Finished_Cb

type_synonym tcp_addr = nat

text \<open>A context is named by its owner and the member that holds it.\<close>

datatype ctx_member = Ctx_In | Ctx_Out

datatype tp_arg = Ctx_Ptr ctx_member tcp_addr | Bev_Ptr bev | Null_Ptr

type_synonym tp_heap = "(tp_cb, tp_arg) heap"
type_synonym tp_lib = "(tp_cb, tp_arg) libevent"
type_synonym tp_bev = "(tp_cb, tp_arg) bufferevent"

record ev_context =
  target :: int
  ctx_proxy :: "tcp_addr ptr"

record tcp_connection =
  src_addr :: sockaddr_storage
  src_len :: int
  in_fd :: evutil_socket_t
  origin_dst :: "(sockaddr_storage \<times> nat) option"
  dst :: "(sockaddr_storage \<times> nat) option"

record tcp_proxy =
  b_out :: "bev ptr"
  b_in :: "bev ptr"
  ctx_in :: "ev_context option"
  ctx_out :: "ev_context option"
  proxyConnection :: "tcp_connection option"

text \<open>\<open>hmap\<close> is the map of the holder: the proxies it owns, by their address.\<close>

record tp_state =
  tp_bevs :: tp_heap
  tcp_proxies :: "tcp_addr \<Rightarrow> tcp_proxy option"
  tp_io :: io_context
  hmap :: "int \<Rightarrow> tcp_addr option"

definition TP_MAX_OUTPUT :: nat where
  "TP_MAX_OUTPUT = 4 * 1024 * 1024"

definition tp_on_bevs :: "tp_heap stmt \<Rightarrow> tp_state stmt" where
  "tp_on_bevs c s = map_sum id (\<lambda>h. s\<lparr>tp_bevs := h\<rparr>) (c (tp_bevs s))"

definition tp_with_length :: "tp_lib \<Rightarrow> evbuffer \<Rightarrow> (nat \<Rightarrow> tp_state stmt) \<Rightarrow> tp_state stmt" where
  "tp_with_length L eb k s =
     (if buf_live (tp_bevs s) eb then k (le_get_length L eb (tp_bevs s)) s else Inl Use_After_Free)"

abbreviation with_tcp_proxy :: "tcp_addr ptr \<Rightarrow> (tcp_addr \<Rightarrow> tcp_proxy \<Rightarrow> tp_state \<Rightarrow> 'r res) \<Rightarrow> tp_state \<Rightarrow> 'r res" where
  "with_tcp_proxy \<equiv> deref tcp_proxies"

section \<open>Contexts\<close>

definition ctx_of :: "ctx_member \<Rightarrow> tcp_proxy \<Rightarrow> ev_context option" where
  "ctx_of m p = (case m of Ctx_In \<Rightarrow> ctx_in p | Ctx_Out \<Rightarrow> ctx_out p)"

text \<open>A callback argument cast to \<open>EvContext *\<close> and followed.\<close>

definition with_ctx :: "tp_arg \<Rightarrow> (ev_context \<Rightarrow> tp_state \<Rightarrow> 'r res) \<Rightarrow> tp_state \<Rightarrow> 'r res" where
  "with_ctx arg k s = (case arg of
      Null_Ptr \<Rightarrow> Inl Null_Deref
    | Bev_Ptr b \<Rightarrow> Inl Type_Confusion
    | Ctx_Ptr m a \<Rightarrow> (case tcp_proxies s a of None \<Rightarrow> Inl Use_After_Free
        | Some p \<Rightarrow> (case ctx_of m p of None \<Rightarrow> Inl Use_After_Free | Some c \<Rightarrow> k c s)))"

definition get_target_buffer :: "ev_context \<Rightarrow> (bev ptr \<Rightarrow> tp_state \<Rightarrow> 'r res) \<Rightarrow> tp_state \<Rightarrow> 'r res" where
  "get_target_buffer c k = (if ctx_proxy c = Null then k Null
     else with_tcp_proxy (ctx_proxy c) (\<lambda>_ p. k (if target c \<noteq> 0 then b_out p else b_in p)))"

definition get_partner :: "ev_context \<Rightarrow> (tp_arg \<Rightarrow> tp_state \<Rightarrow> 'r res) \<Rightarrow> tp_state \<Rightarrow> 'r res" where
  "get_partner c k = (if ctx_proxy c = Null then k Null_Ptr
     else with_tcp_proxy (ctx_proxy c) (\<lambda>a p.
       if target c \<noteq> 0 then k (if ctx_out p = None then Null_Ptr else Ctx_Ptr Ctx_Out a)
       else k (if ctx_in p = None then Null_Ptr else Ctx_Ptr Ctx_In a)))"

section \<open>Callbacks\<close>

definition default_read_cb :: "tp_lib \<Rightarrow> bev \<Rightarrow> tp_arg \<Rightarrow> tp_state stmt" where
  "default_read_cb L bev arg = with_ctx arg (\<lambda>ctx. get_target_buffer ctx (\<lambda>partner.
     tp_with_length L (Input_Of bev) (\<lambda>len. case partner of
       Undef \<Rightarrow> (\<lambda>s. Inl Uninit_Read)
     | Null \<Rightarrow> tp_on_bevs (evbuffer_drain L (Input_Of bev) len)
     | Ref pb \<Rightarrow> exec
        [tp_on_bevs (evbuffer_add_buffer L (Output_Of pb) (Input_Of bev)),
         tp_with_length L (Output_Of pb) (\<lambda>n. when_stmt (n \<ge> TP_MAX_OUTPUT)
           [get_partner ctx (\<lambda>c. tp_on_bevs (bufferevent_setcb L pb (Some Ev_Read_Cb) (Some Ev_Write_Cb)
              (Some Ev_Event_Cb) c)),
            tp_on_bevs (bufferevent_setwatermark L pb EV_WRITE (TP_MAX_OUTPUT div 2) TP_MAX_OUTPUT),
            tp_on_bevs (bufferevent_disable L bev EV_READ)])])))"

definition default_write_cb :: "tp_lib \<Rightarrow> bev \<Rightarrow> tp_arg \<Rightarrow> tp_state stmt" where
  "default_write_cb L bev arg = with_ctx arg (\<lambda>ctx. get_target_buffer ctx (\<lambda>partner. case partner of
       Undef \<Rightarrow> (\<lambda>s. Inl Uninit_Read)
     | Null \<Rightarrow> exec
        [tp_on_bevs (bufferevent_setcb L bev (Some Ev_Read_Cb) None (Some Ev_Event_Cb) Null_Ptr),
         tp_on_bevs (bufferevent_setwatermark L bev EV_WRITE 0 0)]
     | Ref pb \<Rightarrow> exec
        [tp_on_bevs (bufferevent_setcb L bev (Some Ev_Read_Cb) None (Some Ev_Event_Cb) (Bev_Ptr pb)),
         tp_on_bevs (bufferevent_setwatermark L bev EV_WRITE 0 0),
         tp_on_bevs (bufferevent_enable L pb EV_READ)]))"

definition default_event_cb :: "bev \<Rightarrow> flags \<Rightarrow> tp_arg \<Rightarrow> tp_state stmt" where
  "default_event_cb bev what arg = exec []"

text \<open>The callbacks given to libevent go through the context's proxy to its member functions.\<close>

definition ev_read_cb :: "tp_lib \<Rightarrow> bev \<Rightarrow> tp_arg \<Rightarrow> tp_state stmt" where
  "ev_read_cb L bev arg = with_ctx arg (\<lambda>c. with_tcp_proxy (ctx_proxy c) (\<lambda>_ _. default_read_cb L bev arg))"

definition ev_write_cb :: "tp_lib \<Rightarrow> bev \<Rightarrow> tp_arg \<Rightarrow> tp_state stmt" where
  "ev_write_cb L bev arg = with_ctx arg (\<lambda>c. with_tcp_proxy (ctx_proxy c) (\<lambda>_ _. default_write_cb L bev arg))"

definition close_on_finished_cb :: "tp_lib \<Rightarrow> bev \<Rightarrow> tp_state stmt" where
  "close_on_finished_cb L bev =
     tp_with_length L (Output_Of bev) (\<lambda>n. when_stmt (n = 0) [tp_on_bevs (bufferevent_free L bev)])"

definition ev_event_cb :: "tp_lib \<Rightarrow> bev \<Rightarrow> flags \<Rightarrow> tp_arg \<Rightarrow> tp_state stmt" where
  "ev_event_cb L bev what arg = exec
     [with_ctx arg (\<lambda>c. with_tcp_proxy (ctx_proxy c) (\<lambda>_ _. default_event_cb bev what arg)),
      with_ctx arg (\<lambda>ctx. get_target_buffer ctx (\<lambda>partner.
        when_stmt (has_flag what (BEV_EVENT_EOF OR BEV_EVENT_ERROR))
          [case partner of
             Undef \<Rightarrow> (\<lambda>s. Inl Uninit_Read)
           | Null \<Rightarrow> exec []
           | Ref pb \<Rightarrow> exec
              [ev_read_cb L bev arg,
               tp_with_length L (Output_Of pb) (\<lambda>n.
                 if n \<noteq> 0 then exec
                   [tp_on_bevs (bufferevent_setcb L pb None (Some Close_On_Finished_Cb) (Some Ev_Event_Cb) arg),
                    tp_on_bevs (bufferevent_disable L pb EV_READ)]
                 else tp_on_bevs (bufferevent_free L pb))],
           tp_on_bevs (bufferevent_free L bev)]))]"

section \<open>Construction, destruction and ownership\<close>

definition blank_tcp_proxy :: tcp_proxy where
  "blank_tcp_proxy = \<lparr>b_out = Undef, b_in = Undef, ctx_in = None, ctx_out = None, proxyConnection = None\<rparr>"

definition tcp_proxy_new :: "tcp_addr \<Rightarrow> tp_state stmt" where
  "tcp_proxy_new a s = Inr (s\<lparr>tcp_proxies := (tcp_proxies s)(a \<mapsto> blank_tcp_proxy)\<rparr>)"

definition free_bev_ptr :: "tp_lib \<Rightarrow> bev ptr \<Rightarrow> tp_state stmt" where
  "free_bev_ptr L p = (\<lambda>s. case p of Undef \<Rightarrow> Inl Uninit_Read | Null \<Rightarrow> Inl Null_Deref
     | Ref b \<Rightarrow> tp_on_bevs (bufferevent_free L b) s)"

definition tcp_proxy_delete :: "tp_lib \<Rightarrow> tcp_addr \<Rightarrow> tp_state stmt" where
  "tcp_proxy_delete L a = with_tcp_proxy (Ref a) (\<lambda>_ p. exec
     [free_bev_ptr L (b_out p), free_bev_ptr L (b_in p),
      (\<lambda>s. Inr (s\<lparr>tcp_proxies := (tcp_proxies s)(a := None)\<rparr>))])"

definition holder_append :: "tp_lib \<Rightarrow> tcp_addr \<Rightarrow> tp_state stmt" where
  "holder_append L a = with_tcp_proxy (Ref a) (\<lambda>_ _ s. case hmap s (int a) of
      None \<Rightarrow> Inr (s\<lparr>hmap := (hmap s)(int a \<mapsto> a)\<rparr>)
    | Some _ \<Rightarrow> tcp_proxy_delete L a s)"

definition holder_remove :: "tp_lib \<Rightarrow> int \<Rightarrow> tp_state stmt" where
  "holder_remove L i s = (case hmap s i of
      None \<Rightarrow> Inr s
    | Some a \<Rightarrow> exec [tcp_proxy_delete L a, (\<lambda>s. Inr (s\<lparr>hmap := (hmap s)(i := None)\<rparr>))] s)"

section \<open>Accepting a connection\<close>

definition tcp_connection_new :: "sockaddr_storage \<Rightarrow> int \<Rightarrow> evutil_socket_t \<Rightarrow> tcp_connection" where
  "tcp_connection_new ad len sock = \<lparr>src_addr = ad, src_len = len, in_fd = sock, origin_dst = None, dst = None\<rparr>"

text \<open>
  \<open>origdst\<close> is the answer of \<open>getsockopt\<close> for \<open>IP_ORIGDSTADDR\<close>. The length is passed by reference and
  read by the kernel first: \<open>origin_len\<close> is a member that nothing has written before this call, so
  the answer is asked for with the length \<open>None\<close>.
\<close>

definition set_origin_dest_addr :: "bool res \<Rightarrow> (evutil_socket_t \<Rightarrow> nat option \<Rightarrow> (sockaddr_storage \<times> nat) option) \<Rightarrow>
    tcp_connection \<Rightarrow> (bool \<times> tcp_connection) res" where
  "set_origin_dest_addr off_end origdst c =
     (let c' = (case origdst (in_fd c) (map_option snd (origin_dst c)) of None \<Rightarrow> c | Some d \<Rightarrow> c\<lparr>origin_dst := Some d, dst := Some d\<rparr>)
      in map_sum id (\<lambda>r. (r, c')) off_end)"

definition TP_OPTS :: flags where
  "TP_OPTS = BEV_OPT_CLOSE_ON_FREE OR BEV_OPT_DEFER_CALLBACKS"

definition upd_tcp_proxy :: "tcp_addr \<Rightarrow> (tcp_proxy \<Rightarrow> tcp_proxy) \<Rightarrow> tp_state stmt" where
  "upd_tcp_proxy a f s = (case tcp_proxies s a of None \<Rightarrow> Inl Use_After_Free
     | Some p \<Rightarrow> Inr (s\<lparr>tcp_proxies := (tcp_proxies s)(a \<mapsto> f p)\<rparr>))"

text \<open>\<open>bufferevent_socket_new(ioContext->io_base(), fd, ...)\<close>, stored by \<open>put\<close> in the proxy \<open>a\<close>.\<close>

definition tp_socket_new :: "tp_lib \<Rightarrow> tcp_addr \<Rightarrow> (bev ptr \<Rightarrow> tcp_proxy \<Rightarrow> tcp_proxy) \<Rightarrow> evutil_socket_t \<Rightarrow>
    tp_state stmt" where
  "tp_socket_new L a put sock s = (case io_base (tp_io s) of
      Inl f \<Rightarrow> Inl f
    | Inr (base, io) \<Rightarrow> (case le_socket_new L (case base of None \<Rightarrow> 0 | Some e \<Rightarrow> e) sock TP_OPTS (tp_bevs s) of
        (r, h) \<Rightarrow> upd_tcp_proxy a (put (case r of None \<Rightarrow> Null | Some b \<Rightarrow> Ref b)) (s\<lparr>tp_bevs := h, tp_io := io\<rparr>)))"

text \<open>The last part of \<open>default_accept_cb\<close>: the contexts, the callbacks and \<open>bufferevent_enable\<close>.\<close>

definition tp_link :: "tp_lib \<Rightarrow> tcp_addr \<Rightarrow> bev \<Rightarrow> bev \<Rightarrow> tp_state stmt" where
  "tp_link L a bi bo = exec
     [upd_tcp_proxy a (\<lambda>p. p\<lparr>ctx_out := Some \<lparr>target = 1, ctx_proxy = Ref a\<rparr>\<rparr>),
      upd_tcp_proxy a (\<lambda>p. p\<lparr>ctx_in := Some \<lparr>target = 0, ctx_proxy = Ref a\<rparr>\<rparr>),
      tp_on_bevs (bufferevent_setcb L bi (Some Ev_Read_Cb) None (Some Ev_Event_Cb) (Ctx_Ptr Ctx_Out a)),
      tp_on_bevs (bufferevent_setcb L bo (Some Ev_Read_Cb) None (Some Ev_Event_Cb) (Ctx_Ptr Ctx_In a)),
      tp_on_bevs (bufferevent_enable L bi (EV_READ OR EV_WRITE)),
      tp_on_bevs (bufferevent_enable L bo (EV_READ OR EV_WRITE))]"

definition tp_default_accept_cb :: "tp_lib \<Rightarrow> bool res \<Rightarrow> (evutil_socket_t \<Rightarrow> nat option \<Rightarrow> (sockaddr_storage \<times> nat) option) \<Rightarrow>
    tcp_addr \<Rightarrow> evutil_socket_t \<Rightarrow> sockaddr_storage \<Rightarrow> int \<Rightarrow> tp_state \<Rightarrow> (bool \<times> tp_state) res" where
  "tp_default_accept_cb L off_end origdst a sock ad slen s = (case exec
     [tp_socket_new L a (\<lambda>r p. p\<lparr>b_in := r\<rparr>) sock,
      tp_socket_new L a (\<lambda>r p. p\<lparr>b_out := r\<rparr>) (- 1)] s of
     Inl f \<Rightarrow> Inl f
   | Inr s \<Rightarrow> with_tcp_proxy (Ref a) (\<lambda>_ p s. case (b_in p, b_out p) of
       (Ref bi, Ref bo) \<Rightarrow>
         (case set_origin_dest_addr off_end origdst (tcp_connection_new ad slen sock) of
            Inl f \<Rightarrow> Inl f
          | Inr (False, c) \<Rightarrow> map_sum id (\<lambda>s. (False, s)) (upd_tcp_proxy a (\<lambda>p. p\<lparr>proxyConnection := Some c\<rparr>) s)
          | Inr (True, c) \<Rightarrow> (case upd_tcp_proxy a (\<lambda>p. p\<lparr>proxyConnection := Some c\<rparr>) s of
              Inl f \<Rightarrow> Inl f
            | Inr s \<Rightarrow> (case dst c of
                None \<Rightarrow> Inl Uninit_Read
              | Some (to, len) \<Rightarrow> (case le_socket_connect L bo to (tp_bevs s) of (rc, h) \<Rightarrow>
                  if rc < 0 then Inr (False, s\<lparr>tp_bevs := h\<rparr>)
                  else (case tp_link L a bi bo (s\<lparr>tp_bevs := h\<rparr>) of
                      Inl f \<Rightarrow> Inl f
                    | Inr s \<Rightarrow> map_sum id (\<lambda>r. (r, s)) off_end)))))
     | _ \<Rightarrow> Inl Assert_Failed) s)"

section \<open>A linked connection\<close>

text \<open>
  The proxy \<open>a\<close> with its two contexts and its live bufferevents: \<open>bi\<close> (state \<open>x\<close>) for the client,
  \<open>bo\<close> (state \<open>y\<close>) for the server.
\<close>

definition tp_owned :: "tp_state \<Rightarrow> tcp_addr \<Rightarrow> bev \<Rightarrow> bev \<Rightarrow> bool" where
  "tp_owned s a bi bo \<longleftrightarrow> bi \<noteq> bo \<and> (\<exists>p. tcp_proxies s a = Some p \<and> b_in p = Ref bi \<and> b_out p = Ref bo \<and>
     ctx_out p = Some \<lparr>target = 1, ctx_proxy = Ref a\<rparr> \<and> ctx_in p = Some \<lparr>target = 0, ctx_proxy = Ref a\<rparr>)"

definition tp_linked :: "tp_state \<Rightarrow> tcp_addr \<Rightarrow> bev \<Rightarrow> bev \<Rightarrow> tp_bev \<Rightarrow> tp_bev \<Rightarrow> bool" where
  "tp_linked s a bi bo x y \<longleftrightarrow> tp_owned s a bi bo \<and> tp_bevs s bi = Some x \<and> tp_bevs s bo = Some y"

text \<open>The bufferevent that a context of \<open>a\<close> sends to.\<close>

definition side_bev :: "ctx_member \<Rightarrow> bev \<Rightarrow> bev \<Rightarrow> bev" where
  "side_bev m bi bo = (case m of Ctx_In \<Rightarrow> bi | Ctx_Out \<Rightarrow> bo)"

lemma side_bev_simps [simp]: "side_bev Ctx_In bi bo = bi" "side_bev Ctx_Out bi bo = bo"
  by (simp_all add: side_bev_def)

lemma tp_owned_ctx:
  assumes "tp_owned s a bi bo"
  shows "with_ctx (Ctx_Ptr m a) (\<lambda>c. with_tcp_proxy (ctx_proxy c) (\<lambda>_ _. k)) s = k s"
    and "with_ctx (Ctx_Ptr m a) (\<lambda>c. get_target_buffer c k') s = k' (Ref (side_bev m bi bo)) s"
    and "with_ctx (Ctx_Ptr m a) (\<lambda>c. get_target_buffer c (k'' c)) s =
      k'' \<lparr>target = (if m = Ctx_Out then 1 else 0), ctx_proxy = Ref a\<rparr> (Ref (side_bev m bi bo)) s"
    and "get_partner \<lparr>target = (if m = Ctx_Out then 1 else 0), ctx_proxy = Ref a\<rparr> k3 s = k3 (Ctx_Ptr m a) s"
  using assms
  by (cases m; auto simp: tp_owned_def with_ctx_def ctx_of_def get_target_buffer_def get_partner_def)+

lemma tp_owned_bevs [simp]: "tp_owned (s\<lparr>tp_bevs := h\<rparr>) a bi bo = tp_owned s a bi bo"
  by (simp add: tp_owned_def)

text \<open>The end of one side: what it still had to send is kept for the other one.\<close>

definition tp_closing :: "ctx_member \<Rightarrow> tcp_addr \<Rightarrow> tp_bev \<Rightarrow> tp_bev" where
  "tp_closing m a y = y\<lparr>bev_readcb := None, bev_writecb := Some Close_On_Finished_Cb,
     bev_errorcb := Some Ev_Event_Cb, bev_cbarg := Ctx_Ptr m a, enabled := clear_flag (enabled y) EV_READ\<rparr>"

definition tp_linked_bev :: "ctx_member \<Rightarrow> tcp_addr \<Rightarrow> tp_bev \<Rightarrow> tp_bev" where
  "tp_linked_bev m a x = x\<lparr>bev_readcb := Some Ev_Read_Cb, bev_writecb := None, bev_errorcb := Some Ev_Event_Cb,
     bev_cbarg := Ctx_Ptr m a, enabled := set_flag (enabled x) (EV_READ OR EV_WRITE)\<rparr>"

definition tp_ready :: "tp_state \<Rightarrow> tcp_addr \<Rightarrow> bool" where
  "tp_ready s a \<longleftrightarrow> (\<exists>bi bo x y. fresh_bev x \<and> fresh_bev y \<and>
     tp_linked s a bi bo (tp_linked_bev Ctx_Out a x) (tp_linked_bev Ctx_In a y))"

locale tcp_proxy_lib = libevent_lib L for L :: tp_lib
begin

lemma tp_length_eq:
  "tp_with_length L (Output_Of b) k s = (case tp_bevs s b of None \<Rightarrow> Inl Use_After_Free
     | Some x \<Rightarrow> k (length (outbuf x)) s)"
  "tp_with_length L (Input_Of b) k s = (case tp_bevs s b of None \<Rightarrow> Inl Use_After_Free
     | Some x \<Rightarrow> k (length (inbuf x)) s)"
  by (auto simp: tp_with_length_def get_length buf_live_def buf_contents_def split: option.split)

lemmas tp_api = api_simps tp_length_eq tp_on_bevs_def

lemma close_on_finished_cb_eq:
  "close_on_finished_cb L b s = (case tp_bevs s b of None \<Rightarrow> Inl Use_After_Free
     | Some x \<Rightarrow> Inr (if outbuf x = [] then s\<lparr>tp_bevs := (tp_bevs s)(b := None)\<rparr> else s))"
  by (auto simp: close_on_finished_cb_def tp_api split: option.split)

text \<open>
  The read callback of the bufferevent \<open>b\<close> with a context of \<open>a\<close>, which sends to \<open>side_bev m bi bo\<close>.
\<close>

lemma ev_read_cb_eq:
  assumes own: "tp_owned s a bi bo" and pb: "side_bev m bi bo = pb" "pb \<noteq> b"
    and x: "tp_bevs s b = Some x" and y: "tp_bevs s pb = Some y"
  shows "ev_read_cb L b (Ctx_Ptr m a) s = Inr (s\<lparr>tp_bevs :=
    (if TP_MAX_OUTPUT \<le> length (outbuf y @ inbuf x)
     then (tp_bevs s)(b \<mapsto> x\<lparr>inbuf := [], enabled := clear_flag (enabled x) EV_READ\<rparr>,
       pb \<mapsto> y\<lparr>outbuf := outbuf y @ inbuf x, bev_readcb := Some Ev_Read_Cb, bev_writecb := Some Ev_Write_Cb,
         bev_errorcb := Some Ev_Event_Cb, bev_cbarg := Ctx_Ptr m a,
         wm_write := \<lparr>low = TP_MAX_OUTPUT div 2, high = TP_MAX_OUTPUT\<rparr>\<rparr>)
     else (tp_bevs s)(b \<mapsto> x\<lparr>inbuf := []\<rparr>, pb \<mapsto> y\<lparr>outbuf := outbuf y @ inbuf x\<rparr>))\<rparr>)"
proof -
  have "default_read_cb L b (Ctx_Ptr m a) s = exec
        [tp_on_bevs (evbuffer_add_buffer L (Output_Of pb) (Input_Of b)),
         tp_with_length L (Output_Of pb) (\<lambda>n. when_stmt (n \<ge> TP_MAX_OUTPUT)
           [get_partner \<lparr>target = (if m = Ctx_Out then 1 else 0), ctx_proxy = Ref a\<rparr> (\<lambda>c. tp_on_bevs (bufferevent_setcb L pb (Some Ev_Read_Cb) (Some Ev_Write_Cb)
              (Some Ev_Event_Cb) c)),
            tp_on_bevs (bufferevent_setwatermark L pb EV_WRITE (TP_MAX_OUTPUT div 2) TP_MAX_OUTPUT),
            tp_on_bevs (bufferevent_disable L b EV_READ)])] s"
    unfolding default_read_cb_def tp_owned_ctx(3) [OF own] using pb x by (simp add: tp_api)
  then show ?thesis
    unfolding ev_read_cb_def tp_owned_ctx(1) [OF own]
    using pb x y own by (auto simp: tp_api tp_owned_ctx(4) fun_upd_twist)
qed

text \<open>With a context that sends to \<open>b\<close> itself, the input of \<open>b\<close> goes to its own output.\<close>

lemma ev_read_cb_self:
  assumes own: "tp_owned s a bi bo" and b: "side_bev m bi bo = b" and x: "tp_bevs s b = Some x"
  shows "\<exists>x'. ev_read_cb L b (Ctx_Ptr m a) s = Inr (s\<lparr>tp_bevs := (tp_bevs s)(b \<mapsto> x')\<rparr>) \<and>
    inbuf x' = [] \<and> outbuf x' = outbuf x @ inbuf x"
proof -
  have "default_read_cb L b (Ctx_Ptr m a) s = exec
        [tp_on_bevs (evbuffer_add_buffer L (Output_Of b) (Input_Of b)),
         tp_with_length L (Output_Of b) (\<lambda>n. when_stmt (n \<ge> TP_MAX_OUTPUT)
           [get_partner \<lparr>target = (if m = Ctx_Out then 1 else 0), ctx_proxy = Ref a\<rparr> (\<lambda>c. tp_on_bevs (bufferevent_setcb L b (Some Ev_Read_Cb) (Some Ev_Write_Cb)
              (Some Ev_Event_Cb) c)),
            tp_on_bevs (bufferevent_setwatermark L b EV_WRITE (TP_MAX_OUTPUT div 2) TP_MAX_OUTPUT),
            tp_on_bevs (bufferevent_disable L b EV_READ)])] s"
    unfolding default_read_cb_def tp_owned_ctx(3) [OF own] using b x by (simp add: tp_api)
  then show ?thesis
    unfolding ev_read_cb_def tp_owned_ctx(1) [OF own]
    using x own by (auto simp: tp_api tp_owned_ctx(4) when_stmt_def)
qed

lemma ev_write_cb_self:
  assumes own: "tp_owned s a bi bo" and b: "side_bev m bi bo = b" and x: "tp_bevs s b = Some x"
  shows "ev_write_cb L b (Ctx_Ptr m a) s = Inr (s\<lparr>tp_bevs := (tp_bevs s)(b \<mapsto>
    x\<lparr>bev_readcb := Some Ev_Read_Cb, bev_writecb := None, bev_errorcb := Some Ev_Event_Cb,
      bev_cbarg := Bev_Ptr b, wm_write := \<lparr>low = 0, high = 0\<rparr>, enabled := set_flag (enabled x) EV_READ\<rparr>)\<rparr>)"
  unfolding ev_write_cb_def tp_owned_ctx(1) [OF own] default_write_cb_def tp_owned_ctx(2) [OF own]
  using b x by (simp add: tp_api)

lemma ev_read_cb_confused: "ev_read_cb L b (Bev_Ptr p) s = Inl Type_Confusion"
  by (simp add: ev_read_cb_def with_ctx_def)

lemma ev_event_cb_run:
  assumes own: "tp_owned s a bi bo" and what: "has_flag what (BEV_EVENT_EOF OR BEV_EVENT_ERROR)"
    and pb: "side_bev m bi bo = pb"
  shows "ev_event_cb L b what (Ctx_Ptr m a) s = exec
    [ev_read_cb L b (Ctx_Ptr m a),
     tp_with_length L (Output_Of pb) (\<lambda>n.
       if n \<noteq> 0 then exec
         [tp_on_bevs (bufferevent_setcb L pb None (Some Close_On_Finished_Cb) (Some Ev_Event_Cb) (Ctx_Ptr m a)),
          tp_on_bevs (bufferevent_disable L pb EV_READ)]
       else tp_on_bevs (bufferevent_free L pb)),
     tp_on_bevs (bufferevent_free L b)] s"
  unfolding ev_event_cb_def exec.simps tp_owned_ctx(1) [OF own] default_event_cb_def sum.case
    tp_owned_ctx(2) [OF own] pb ptr.case using what by (simp split: sum.split)

lemma ev_event_cb_linked:
  assumes own: "tp_owned s a bi bo" and what: "has_flag what (BEV_EVENT_EOF OR BEV_EVENT_ERROR)"
    and pb: "side_bev m bi bo = pb" "pb \<noteq> b" and x: "tp_bevs s b = Some x" and y: "tp_bevs s pb = Some y"
  shows "\<exists>w. ev_event_cb L b what (Ctx_Ptr m a) s = Inr (s\<lparr>tp_bevs := (if outbuf y @ inbuf x = []
    then (tp_bevs s)(b := None, pb := None)
    else (tp_bevs s)(b := None, pb \<mapsto> tp_closing m a (y\<lparr>outbuf := outbuf y @ inbuf x, wm_write := w\<rparr>)))\<rparr>)"
proof (cases "TP_MAX_OUTPUT \<le> length (outbuf y @ inbuf x)")
  case True
  then have "outbuf y @ inbuf x \<noteq> []" by (auto simp: TP_MAX_OUTPUT_def)
  then show ?thesis
    unfolding ev_event_cb_run [OF own what pb(1)] exec.simps ev_read_cb_eq [OF own pb x y]
    using True pb(2) by (auto simp: tp_api tp_closing_def fun_upd_twist)
next
  case False
  then show ?thesis
    unfolding ev_event_cb_run [OF own what pb(1)] exec.simps ev_read_cb_eq [OF own pb x y]
    using pb(2) by (cases y) (auto simp: tp_api tp_closing_def fun_upd_twist)
qed

text \<open>An event on the side that is left, whose context sends to itself.\<close>

lemma ev_event_cb_self:
  assumes own: "tp_owned s a bi bo" and what: "has_flag what (BEV_EVENT_EOF OR BEV_EVENT_ERROR)"
    and b: "side_bev m bi bo = b" and x: "tp_bevs s b = Some x"
  shows "ev_event_cb L b what (Ctx_Ptr m a) s =
    (if outbuf x @ inbuf x = [] then Inl Use_After_Free else Inr (s\<lparr>tp_bevs := (tp_bevs s)(b := None)\<rparr>))"
proof -
  obtain x' where r: "ev_read_cb L b (Ctx_Ptr m a) s = Inr (s\<lparr>tp_bevs := (tp_bevs s)(b \<mapsto> x')\<rparr>)"
    "outbuf x' = outbuf x @ inbuf x"
    using ev_read_cb_self [OF own b x] by blast
  show ?thesis
    unfolding ev_event_cb_run [OF own what b] exec.simps r(1) using r(2) by (auto simp: tp_api)
qed

lemma tcp_proxy_delete_eq:
  assumes "tp_linked s a bi bo x y"
  shows "tcp_proxy_delete L a s = Inr (s\<lparr>tp_bevs := (tp_bevs s)(bo := None, bi := None),
    tcp_proxies := (tcp_proxies s)(a := None)\<rparr>)"
  using assms by (auto simp: tp_linked_def tp_owned_def tcp_proxy_delete_def free_bev_ptr_def tp_api)

lemma tcp_proxy_delete_dangling:
  assumes "tp_owned s a bi bo" and "tp_bevs s bi = None \<or> tp_bevs s bo = None"
  shows "tcp_proxy_delete L a s = Inl Use_After_Free"
  using assms by (auto simp: tp_owned_def tcp_proxy_delete_def free_bev_ptr_def tp_api split: option.split)

text \<open>Accepting: the two bufferevents, then the connection.\<close>

lemma tp_socket_new_eq:
  assumes wf: "io_wf (tp_io s)" and p: "tcp_proxies s a = Some p"
  shows "\<exists>io r h. io_wf io \<and> tp_socket_new L a put sock s =
      Inr (s\<lparr>tp_bevs := h, tp_io := io, tcp_proxies := (tcp_proxies s)(a \<mapsto> put r p)\<rparr>) \<and>
    (r = Null \<and> h = tp_bevs s \<or>
      (\<exists>b x. r = Ref b \<and> tp_bevs s b = None \<and> fresh_bev x \<and> h = (tp_bevs s)(b \<mapsto> x)))"
proof -
  obtain base io where io: "io_base (tp_io s) = Inr (base, io)" "io_wf io"
    using io_base_wf [OF wf] by blast
  obtain r h where n: "le_socket_new L (case base of None \<Rightarrow> 0 | Some e \<Rightarrow> e) sock TP_OPTS (tp_bevs s) = (r, h)"
    by fastforce
  have eq: "tp_socket_new L a put sock s = Inr (s\<lparr>tp_bevs := h, tp_io := io,
      tcp_proxies := (tcp_proxies s)(a \<mapsto> put (case r of None \<Rightarrow> Null | Some b \<Rightarrow> Ref b) p)\<rparr>)"
    unfolding tp_socket_new_def using io n p by (simp add: upd_tcp_proxy_def)
  show ?thesis
  proof (cases r)
    case None
    then have "h = tp_bevs s" using socket_new_none n by blast
    then show ?thesis using eq io(2) None
      by (intro exI [of _ io] exI [of _ Null] exI [of _ "tp_bevs s"]) simp
  next
    case (Some b)
    then obtain x where "tp_bevs s b = None" "fresh_bev x" "h = (tp_bevs s)(b \<mapsto> x)"
      using socket_new_some n by blast
    then show ?thesis using eq io(2) Some
      by (intro exI [of _ io] exI [of _ "Ref b"] exI [of _ h]) auto
  qed
qed

lemma tp_accept_sockets:
  assumes wf: "io_wf (tp_io s)" and p: "tcp_proxies s a = Some p"
  shows "\<exists>s2 p2. exec [tp_socket_new L a (\<lambda>r p. p\<lparr>b_in := r\<rparr>) sock,
      tp_socket_new L a (\<lambda>r p. p\<lparr>b_out := r\<rparr>) (- 1)] s = Inr s2 \<and> tcp_proxies s2 a = Some p2 \<and>
    (b_in p2 = Null \<or> (\<exists>bi. b_in p2 = Ref bi \<and> b_out p2 = Null) \<or>
     (\<exists>bi bo x y. b_in p2 = Ref bi \<and> b_out p2 = Ref bo \<and> bi \<noteq> bo \<and>
       tp_bevs s2 bi = Some x \<and> tp_bevs s2 bo = Some y \<and> fresh_bev x \<and> fresh_bev y))"
proof -
  obtain s1 r1 where 1: "tp_socket_new L a (\<lambda>r p. p\<lparr>b_in := r\<rparr>) sock s = Inr s1" "io_wf (tp_io s1)"
    "tcp_proxies s1 a = Some (p\<lparr>b_in := r1\<rparr>)"
    "r1 = Null \<or> (\<exists>b x. r1 = Ref b \<and> fresh_bev x \<and> tp_bevs s1 b = Some x)"
    using tp_socket_new_eq [OF wf p, of "\<lambda>r p. p\<lparr>b_in := r\<rparr>" sock] by force
  obtain s2 r2 h2 where 2: "tp_socket_new L a (\<lambda>r p. p\<lparr>b_out := r\<rparr>) (- 1) s1 = Inr s2"
    "tcp_proxies s2 a = Some (p\<lparr>b_in := r1, b_out := r2\<rparr>)" "tp_bevs s2 = h2"
    "r2 = Null \<and> h2 = tp_bevs s1 \<or>
     (\<exists>b x. r2 = Ref b \<and> tp_bevs s1 b = None \<and> fresh_bev x \<and> h2 = (tp_bevs s1)(b \<mapsto> x))"
    using tp_socket_new_eq [OF 1(2,3), of "\<lambda>r p. p\<lparr>b_out := r\<rparr>" "- 1"] by force
  show ?thesis
    by (intro exI [of _ s2] exI [of _ "p\<lparr>b_in := r1, b_out := r2\<rparr>"] conjI)
      (use 1 2 in \<open>auto split: if_splits\<close>)
qed

lemma tp_link_ok:
  assumes "tcp_proxies s a = Some p" and "b_in p = Ref bi" and "b_out p = Ref bo" and "bi \<noteq> bo"
    and "tp_bevs s bi = Some x" and "tp_bevs s bo = Some y"
  shows "\<exists>s'. tp_link L a bi bo s = Inr s' \<and> tp_linked s' a bi bo (tp_linked_bev Ctx_Out a x) (tp_linked_bev Ctx_In a y)"
  using assms by (simp add: tp_link_def upd_tcp_proxy_def tp_api tp_linked_def tp_owned_def tp_linked_bev_def)

lemma tp_accept_faults:
  assumes "io_wf (tp_io s)" and "tcp_proxies s a = Some p"
  shows "tp_default_accept_cb L (Inl Missing_Return) origdst a sock ad slen s \<in> {Inl Missing_Return, Inl Assert_Failed}"
proof -
  obtain s2 p2 where 2: "exec [tp_socket_new L a (\<lambda>r p. p\<lparr>b_in := r\<rparr>) sock,
      tp_socket_new L a (\<lambda>r p. p\<lparr>b_out := r\<rparr>) (- 1)] s = Inr s2" "tcp_proxies s2 a = Some p2"
    "b_in p2 = Null \<or> (\<exists>bi. b_in p2 = Ref bi \<and> b_out p2 = Null) \<or> (\<exists>bi bo. b_in p2 = Ref bi \<and> b_out p2 = Ref bo)"
    using tp_accept_sockets [OF assms] by blast
  then show ?thesis
    unfolding tp_default_accept_cb_def 2(1) by (auto simp: set_origin_dest_addr_def Let_def)
qed

lemma tp_accept_eq:
  assumes "exec [tp_socket_new L a (\<lambda>r p. p\<lparr>b_in := r\<rparr>) sock,
      tp_socket_new L a (\<lambda>r p. p\<lparr>b_out := r\<rparr>) (- 1)] s = Inr s2" and "tcp_proxies s2 a = Some p2"
    and "b_in p2 = Ref bi" and "b_out p2 = Ref bo" and "origdst sock None = Some (to, len)"
    and "le_socket_connect L bo to (tp_bevs s2) = (rc, h)"
  shows "\<exists>c. tp_default_accept_cb L (Inr True) origdst a sock ad slen s =
    (let s3 = s2\<lparr>tcp_proxies := (tcp_proxies s2)(a \<mapsto> p2\<lparr>proxyConnection := Some c\<rparr>), tp_bevs := h\<rparr>
     in if rc < 0 then Inr (False, s3) else map_sum id (\<lambda>s. (True, s)) (tp_link L a bi bo s3))"
  unfolding tp_default_accept_cb_def assms(1) using assms(2-)
  by (intro exI [of _ "(tcp_connection_new ad slen sock)\<lparr>origin_dst := Some (to, len), dst := Some (to, len)\<rparr>"])
    (simp add: set_origin_dest_addr_def tcp_connection_new_def upd_tcp_proxy_def Let_def split: sum.split)

lemma tp_accept_returning:
  assumes "io_wf (tp_io s)" and "tcp_proxies s a = Some p"
  shows "tp_default_accept_cb L (Inr True) origdst a sock ad slen s = Inl Assert_Failed \<or>
    (case origdst sock None of
       None \<Rightarrow> tp_default_accept_cb L (Inr True) origdst a sock ad slen s = Inl Uninit_Read
     | Some d \<Rightarrow> \<exists>ok s'. tp_default_accept_cb L (Inr True) origdst a sock ad slen s = Inr (ok, s') \<and>
         (ok \<longrightarrow> tp_ready s' a))"
proof -
  obtain s2 p2 where 2: "exec [tp_socket_new L a (\<lambda>r p. p\<lparr>b_in := r\<rparr>) sock,
      tp_socket_new L a (\<lambda>r p. p\<lparr>b_out := r\<rparr>) (- 1)] s = Inr s2" "tcp_proxies s2 a = Some p2"
    "b_in p2 = Null \<or> (\<exists>bi. b_in p2 = Ref bi \<and> b_out p2 = Null) \<or>
     (\<exists>bi bo x y. b_in p2 = Ref bi \<and> b_out p2 = Ref bo \<and> bi \<noteq> bo \<and>
       tp_bevs s2 bi = Some x \<and> tp_bevs s2 bo = Some y \<and> fresh_bev x \<and> fresh_bev y)"
    using tp_accept_sockets [OF assms] by blast
  from 2(3) show ?thesis
  proof (elim disjE exE conjE)
    fix bi bo x y
    assume p2: "b_in p2 = Ref bi" "b_out p2 = Ref bo" "bi \<noteq> bo" "tp_bevs s2 bi = Some x" "tp_bevs s2 bo = Some y"
      and f: "fresh_bev x" "fresh_bev y"
    show ?thesis
    proof (cases "origdst sock None")
      case None
      then show ?thesis unfolding tp_default_accept_cb_def 2(1) using 2(2) p2
        by (simp add: set_origin_dest_addr_def tcp_connection_new_def upd_tcp_proxy_def)
    next
      case (Some d)
      obtain rc fd where c: "le_socket_connect L bo (fst d) (tp_bevs s2) = (rc, (tp_bevs s2)(bo \<mapsto> y\<lparr>bev_fd := fd\<rparr>))"
        using socket_connect [of "tp_bevs s2" bo y "fst d"] p2(5) by blast
      obtain c' where eq: "tp_default_accept_cb L (Inr True) origdst a sock ad slen s =
        (let s3 = s2\<lparr>tcp_proxies := (tcp_proxies s2)(a \<mapsto> p2\<lparr>proxyConnection := Some c'\<rparr>),
              tp_bevs := (tp_bevs s2)(bo \<mapsto> y\<lparr>bev_fd := fd\<rparr>)\<rparr>
         in if rc < 0 then Inr (False, s3) else map_sum id (\<lambda>s. (True, s)) (tp_link L a bi bo s3))"
        (is "_ = (let s3 = ?s3 in _)")
        using tp_accept_eq [OF 2(1,2) p2(1,2) _ c, where len = "snd d" and origdst = origdst and ad = ad and slen = slen] Some by auto
      obtain s4 where s4: "tp_link L a bi bo ?s3 = Inr s4"
        "tp_linked s4 a bi bo (tp_linked_bev Ctx_Out a x) (tp_linked_bev Ctx_In a (y\<lparr>bev_fd := fd\<rparr>))"
        using tp_link_ok [of ?s3 a _ bi bo x "y\<lparr>bev_fd := fd\<rparr>"] p2 by auto
      have fy: "fresh_bev (y\<lparr>bev_fd := fd\<rparr>)" using f by (simp add: fresh_bev_def)
      have r: "tp_default_accept_cb L (Inr True) origdst a sock ad slen s =
          (if rc < 0 then Inr (False, ?s3) else Inr (True, s4))"
        unfolding eq Let_def s4(1) by simp
      have link: "tp_ready s4 a" unfolding tp_ready_def using f(1) fy s4(2) by blast
      show ?thesis unfolding r Some option.case
        by (intro disjI2 exI [of _ "\<not> rc < 0"] exI [of _ "if rc < 0 then ?s3 else s4"]) (simp add: link)
    qed
  qed (use 2 in \<open>auto simp: tp_default_accept_cb_def\<close>)
qed

end

interpretation tp_ref: tcp_proxy_lib "libevent_ref c" for c
  by unfold_locales

end
