(* ===== verification/Tcp_Proxy_Correct.thy ===== *)
theory Tcp_Proxy_Correct
  imports Tcp_Proxy
begin

text \<open>
  The properties of \<open>TcpProxy\<close> and its holder, for any library that behaves as the libevent headers
  document (\<open>tcp_proxy_lib L\<close>), with a concrete connection that witnesses them.
\<close>

section \<open>A concrete connection\<close>

abbreviation tp_ref_lib :: tp_lib where
  "tp_ref_lib \<equiv> libevent_ref Null_Ptr"

lemma tp_ref_lib_ok: "tcp_proxy_lib tp_ref_lib"
  by (rule tp_ref.tcp_proxy_lib_axioms)

definition ex_tp_io :: io_context where
  "ex_tp_io = \<lparr>threads = 1, chose_io_index = None, base_array = [Some 10],
     listen_on_addr = zero_sockaddr, address = []\<rparr>"

text \<open>The proxy 1 just after its constructor, not yet in a holder.\<close>

definition ex_tp_new :: tp_state where
  "ex_tp_new = \<lparr>tp_bevs = (\<lambda>_. None), tcp_proxies = [1 \<mapsto> blank_tcp_proxy], tp_io = ex_tp_io,
     hmap = (\<lambda>_. None)\<rparr>"

definition ex_tp_client :: tp_bev where
  "ex_tp_client = tp_linked_bev Ctx_Out 1 (new_bev Null_Ptr 10 7)"

definition ex_tp_server :: tp_bev where
  "ex_tp_server = tp_linked_bev Ctx_In 1 (new_bev Null_Ptr 10 9)"

text \<open>The proxy 1 with the client's bufferevent 1, which has received \<open>d\<close>, and the server's 2.\<close>

definition ex_tp_linked :: "byte list \<Rightarrow> tp_state" where
  "ex_tp_linked d = \<lparr>tp_bevs = [1 \<mapsto> ex_tp_client\<lparr>inbuf := d\<rparr>, 2 \<mapsto> ex_tp_server],
     tcp_proxies = [1 \<mapsto> \<lparr>b_out = Ref 2, b_in = Ref 1, ctx_in = Some \<lparr>target = 0, ctx_proxy = Ref 1\<rparr>,
       ctx_out = Some \<lparr>target = 1, ctx_proxy = Ref 1\<rparr>, proxyConnection = None\<rparr>],
     tp_io = ex_tp_io, hmap = [1 \<mapsto> 1]\<rparr>"

lemma ex_tp_linked_ok: "tp_linked (ex_tp_linked d) 1 1 2 (ex_tp_client\<lparr>inbuf := d\<rparr>) ex_tp_server"
  by (simp add: tp_linked_def tp_owned_def ex_tp_linked_def)

lemma ex_tp_io_wf: "io_wf (tp_io ex_tp_new)"
  by (simp add: io_wf_def ex_tp_new_def ex_tp_io_def)

lemma ex_tp_new_proxy: "tcp_proxies ex_tp_new 1 = Some blank_tcp_proxy"
  by (simp add: ex_tp_new_def)

lemma ex_tp_fields: "outbuf ex_tp_server = []" "inbuf ex_tp_server = []" "outbuf ex_tp_client = []"
  by (simp_all add: ex_tp_server_def ex_tp_client_def tp_linked_bev_def new_bev_def)

section \<open>Properties\<close>



text \<open>
  In compiled code in which running off the end happens to give true, accepting fails the
  assertion (no bufferevent), uses an address that was never written (no original destination),
  returns false (the connection could not be started), or links the connection: both contexts made,
  nothing buffered, both sides read from, each with the context that sends to the other.
\<close>

theorem tcp_accept_outcome:
  assumes "tcp_proxy_lib L" and "io_wf (tp_io s)" and "tcp_proxies s a = Some p"
  shows "tp_default_accept_cb L (Inr True) origdst a sock ad slen s = Inl Assert_Failed \<or>
    (case origdst sock None of
       None \<Rightarrow> tp_default_accept_cb L (Inr True) origdst a sock ad slen s = Inl Uninit_Read
     | Some d \<Rightarrow> \<exists>ok s'. tp_default_accept_cb L (Inr True) origdst a sock ad slen s = Inr (ok, s') \<and>
         (ok \<longrightarrow> tp_ready s' a))"
  using tcp_proxy_lib.tp_accept_returning [OF assms] .

theorem tcp_accept_outcome_witness:
  "\<exists>s'. tp_default_accept_cb tp_ref_lib (Inr True) (\<lambda>_ _. Some (zero_sockaddr, 16)) 1 7 zero_sockaddr 16 ex_tp_new =
     Inr (True, s') \<and> tp_ready s' 1"
proof -
  have "\<exists>s'. tp_default_accept_cb tp_ref_lib (Inr True) (\<lambda>_ _. Some (zero_sockaddr, 16)) 1 7 zero_sockaddr 16 ex_tp_new =
     Inr (True, s')"
    by (simp add: tp_default_accept_cb_def tp_socket_new_def ex_tp_new_def ex_tp_io_def io_base_def array_get_def
        libevent_ref_def alloc_bev_def bev_pool_def upd_tcp_proxy_def blank_tcp_proxy_def
        set_origin_dest_addr_def tcp_connection_new_def upd_bev_def tp_link_def tp_on_bevs_def
        bufferevent_setcb_def bufferevent_enable_def on_live_def)
  then show ?thesis
    using tcp_accept_outcome [OF tp_ref_lib_ok ex_tp_io_wf ex_tp_new_proxy,
        where origdst = "\<lambda>_ _. Some (zero_sockaddr, 16)" and sock = 7 and ad = zero_sockaddr and slen = 16] by auto
qed



text \<open>
  C19 (throttling misroutes). On either side of a linked connection, when the other side's output is
  full, the read callback stops reading and installs on the other side a context that sends to that
  other side itself. While it holds, what the other side sends is queued to be sent back to it. When
  the output is drained, the write callback installed there turns on reading on the other side
  instead of the throttled one, which it leaves stopped, and installs a bufferevent as the callback
  argument, which the next read callback casts to a context.
\<close>

theorem tcp_throttle_misroutes:
  assumes "tcp_proxy_lib L" and "tp_linked s a bi bo x y"
    and "m = Ctx_Out \<and> b = bi \<and> z = x \<and> w = y \<or> m = Ctx_In \<and> b = bo \<and> z = y \<and> w = x"
    and "TP_MAX_OUTPUT \<le> length (outbuf w @ inbuf z)"
  shows "\<exists>s1 z1 w1. ev_read_cb L b (Ctx_Ptr m a) s = Inr s1 \<and>
    tp_bevs s1 b = Some z1 \<and> \<not> has_flag (enabled z1) EV_READ \<and>
    tp_bevs s1 (side_bev m bi bo) = Some w1 \<and> bev_writecb w1 = Some Ev_Write_Cb \<and>
    (\<exists>s2 w2. ev_read_cb L (side_bev m bi bo) (bev_cbarg w1)
        (s1\<lparr>tp_bevs := (tp_bevs s1)(side_bev m bi bo \<mapsto> w1\<lparr>inbuf := d\<rparr>)\<rparr>) = Inr s2 \<and>
      tp_bevs s2 (side_bev m bi bo) = Some w2 \<and> outbuf w2 = outbuf w1 @ d \<and> tp_bevs s2 b = tp_bevs s1 b) \<and>
    (\<exists>s3 w3. ev_write_cb L (side_bev m bi bo) (bev_cbarg w1)
        (s1\<lparr>tp_bevs := (tp_bevs s1)(side_bev m bi bo \<mapsto> w1\<lparr>outbuf := rest\<rparr>)\<rparr>) = Inr s3 \<and>
      tp_bevs s3 b = Some z1 \<and> tp_bevs s3 (side_bev m bi bo) = Some w3 \<and>
      bev_readcb w3 = Some Ev_Read_Cb \<and> has_flag (enabled w3) EV_READ \<and>
      ev_read_cb L (side_bev m bi bo) (bev_cbarg w3) s3 = Inl Type_Confusion)"
proof -
  let ?pb = "side_bev m bi bo"
  have own: "tp_owned s a bi bo" and ne: "?pb \<noteq> b" and z: "tp_bevs s b = Some z" and w: "tp_bevs s ?pb = Some w"
    using assms(2,3) by (auto simp: tp_linked_def tp_owned_def)
  obtain s1 z1 w1 where 1: "ev_read_cb L b (Ctx_Ptr m a) s = Inr s1" "tp_owned s1 a bi bo"
    "tp_bevs s1 b = Some z1" "\<not> has_flag (enabled z1) EV_READ" "tp_bevs s1 ?pb = Some w1"
    "bev_writecb w1 = Some Ev_Write_Cb" "bev_cbarg w1 = Ctx_Ptr m a"
    using tcp_proxy_lib.ev_read_cb_eq [OF assms(1) own refl ne z w] assms(4) own ne by fastforce
  let ?s1 = "s1\<lparr>tp_bevs := (tp_bevs s1)(?pb \<mapsto> w1\<lparr>inbuf := d\<rparr>)\<rparr>"
  let ?r1 = "s1\<lparr>tp_bevs := (tp_bevs s1)(?pb \<mapsto> w1\<lparr>outbuf := rest\<rparr>)\<rparr>"
  obtain w2 where 2: "ev_read_cb L ?pb (Ctx_Ptr m a) ?s1 = Inr (?s1\<lparr>tp_bevs := (tp_bevs ?s1)(?pb \<mapsto> w2)\<rparr>)"
    "outbuf w2 = outbuf w1 @ d"
    using tcp_proxy_lib.ev_read_cb_self [OF assms(1), of ?s1 a bi bo m ?pb] 1(2) by auto
  have 3: "\<exists>s3 w3. ev_write_cb L ?pb (Ctx_Ptr m a) ?r1 = Inr s3 \<and> tp_bevs s3 b = Some z1 \<and>
      tp_bevs s3 ?pb = Some w3 \<and> bev_readcb w3 = Some Ev_Read_Cb \<and> has_flag (enabled w3) EV_READ \<and>
      ev_read_cb L ?pb (bev_cbarg w3) s3 = Inl Type_Confusion"
    using tcp_proxy_lib.ev_write_cb_self [OF assms(1), of ?r1 a bi bo m ?pb "w1\<lparr>outbuf := rest\<rparr>"] 1(2,3) ne
    by (auto simp: tcp_proxy_lib.ev_read_cb_confused [OF assms(1)])
  show ?thesis using 1 2 3 ne by (intro exI [of _ s1] exI [of _ z1] exI [of _ w1]) auto
qed

theorem tcp_throttle_misroutes_witness:
  "\<exists>s1 s3 w1 w3. ev_read_cb tp_ref_lib 1 (Ctx_Ptr Ctx_Out 1) (ex_tp_linked (replicate TP_MAX_OUTPUT 0)) = Inr s1 \<and>
    tp_bevs s1 2 = Some w1 \<and>
    ev_write_cb tp_ref_lib 2 (bev_cbarg w1) (s1\<lparr>tp_bevs := (tp_bevs s1)(2 \<mapsto> w1\<lparr>outbuf := []\<rparr>)\<rparr>) = Inr s3 \<and>
    tp_bevs s3 2 = Some w3 \<and> has_flag (enabled w3) EV_READ \<and>
    ev_read_cb tp_ref_lib 2 (bev_cbarg w3) s3 = Inl Type_Confusion"
  using tcp_throttle_misroutes [OF tp_ref_lib_ok ex_tp_linked_ok [of "replicate TP_MAX_OUTPUT 0"],
      of Ctx_Out 1 _ ex_tp_server "[104]" "[]"]
  unfolding side_bev_simps by (simp add: ex_tp_fields) blast



text \<open>
  The holder. A connection put into the holder is found under its address and nothing else
  changes; removing that address destroys the proxy and releases both of its bufferevents, and
  leaves the other proxies, bufferevents and entries alone. Removing an address that is not there
  does nothing.
\<close>

theorem tcp_holder_owns:
  assumes "tcp_proxy_lib L" and "tp_linked s a bi bo x y" and "hmap s (int a) = None"
  shows "\<exists>s1. holder_append L a s = Inr s1 \<and> hmap s1 (int a) = Some a \<and>
    holder_remove L (int a) s1 = Inr (s\<lparr>tp_bevs := (tp_bevs s)(bo := None, bi := None),
      tcp_proxies := (tcp_proxies s)(a := None)\<rparr>) \<and>
    holder_remove L (int a) s = Inr s"
proof -
  let ?s1 = "s\<lparr>hmap := (hmap s)(int a \<mapsto> a)\<rparr>"
  obtain p where p: "tcp_proxies s a = Some p" using assms(2) by (auto simp: tp_linked_def tp_owned_def)
  have app: "holder_append L a s = Inr ?s1" using p assms(3) by (simp add: holder_append_def)
  have "tp_linked ?s1 a bi bo x y" using assms(2) by (simp add: tp_linked_def tp_owned_def)
  then have "tcp_proxy_delete L a ?s1 = Inr (?s1\<lparr>tp_bevs := (tp_bevs s)(bo := None, bi := None),
      tcp_proxies := (tcp_proxies s)(a := None)\<rparr>)"
    using tcp_proxy_lib.tcp_proxy_delete_eq [OF assms(1), of ?s1] by simp
  then have "holder_remove L (int a) ?s1 = Inr (s\<lparr>tp_bevs := (tp_bevs s)(bo := None, bi := None),
      tcp_proxies := (tcp_proxies s)(a := None)\<rparr>)"
    using assms(3) by (cases s) (simp add: holder_remove_def fun_upd_idem)
  then show ?thesis using app assms(3) by (simp add: holder_remove_def)
qed

theorem tcp_holder_owns_witness:
  "\<exists>s1. holder_append tp_ref_lib 1 ((ex_tp_linked [])\<lparr>hmap := (\<lambda>_. None)\<rparr>) = Inr s1 \<and>
    hmap s1 1 = Some 1 \<and> (\<exists>s2. holder_remove tp_ref_lib 1 s1 = Inr s2 \<and> tp_bevs s2 = (\<lambda>_. None))"
proof -
  have l: "tp_linked ((ex_tp_linked [])\<lparr>hmap := (\<lambda>_. None)\<rparr>) 1 1 2 (ex_tp_client\<lparr>inbuf := []\<rparr>) ex_tp_server"
    using ex_tp_linked_ok [of "[]"] by (simp add: tp_linked_def tp_owned_def)
  have e: "(tp_bevs ((ex_tp_linked [])\<lparr>hmap := (\<lambda>_. None)\<rparr>))(2 := None, 1 := None) = (\<lambda>_. None)"
    by (auto simp: ex_tp_linked_def)
  show ?thesis using tcp_holder_owns [OF tp_ref_lib_ok l] unfolding e by auto
qed

end
