(* ===== verification/Epoll_Handler.thy ===== *)
theory Epoll_Handler
  imports C_Lib
begin

text \<open>
  The epoll event loop of \<open>source/tcp/epoll_handler\<close>: \<open>IOLoop\<close> with its table of handlers, the two
  echo handlers and the listening \<open>ServerHandler\<close>, and the programs \<open>epoll_echo\<close> and
  \<open>splice_epoll_echo\<close> that run it.

  The state is the table \<open>handlers_\<close>, the handler objects by address, and the part of the operating
  system the code acts on: the interest set of the epoll instance, the open descriptors, the bytes
  in each pipe and, per connection, the bytes taken from and given to its socket. What a system call
  answers is an argument (\<open>os_env\<close>); a failing call that the code does not look at is a value here
  too. \<open>bad_closes\<close> counts the calls of \<open>close\<close> on a descriptor that is not open.
\<close>

section \<open>State\<close>

type_synonym fd = int
type_synonym events = "32 word"
type_synonym handler_addr = nat

abbreviation EPOLLIN :: events where "EPOLLIN \<equiv> 1"
abbreviation EPOLLOUT :: events where "EPOLLOUT \<equiv> 4"
abbreviation EPOLLERR :: events where "EPOLLERR \<equiv> 8"
abbreviation EPOLLHUP :: events where "EPOLLHUP \<equiv> 0x10"
abbreviation EPOLLET :: events where "EPOLLET \<equiv> 0x80000000"

definition ev_has :: "events \<Rightarrow> events \<Rightarrow> bool" where
  "ev_has e m \<longleftrightarrow> e AND m \<noteq> 0"

definition BUFFER_SIZE :: nat where
  "BUFFER_SIZE = 1024"

definition data_len :: nat where
  "data_len = 4 * 1024 * 1024"

text \<open>A cell of \<open>buffer\<close> is \<open>None\<close> until it is written.\<close>

record echo_handler =
  e_received :: int
  e_buffer :: "byte option list"

record splice_handler =
  sp_received :: int
  sp_pipefd :: "(fd \<times> fd) option"

text \<open>A \<open>ServerHandler\<close> lives on the stack of \<open>main\<close>; the others are made by \<open>new\<close>.\<close>

datatype handler =
    Echo_Handler echo_handler
  | Server_Handler
  | Splice_Echo_Handler splice_handler

record loop_state =
  handlers :: "fd \<Rightarrow> handler_addr ptr option"
  objs :: "handler_addr \<Rightarrow> handler option"
  interest :: "fd \<Rightarrow> events option"
  open_fds :: "fd set"
  bad_closes :: nat
  pipe_data :: "fd \<Rightarrow> byte list"
  taken :: "fd \<Rightarrow> byte list"
  given :: "fd \<Rightarrow> byte list"

text \<open>The answers of the system to the calls one handler may make.\<close>

record os_env =
  os_recv :: "byte list option"        \<comment> \<open>the bytes read, \<open>None\<close> for -1\<close>
  os_send :: int
  os_splice_out :: int                 \<comment> \<open>pipe to socket\<close>
  os_splice_in :: "byte list option"   \<comment> \<open>socket to pipe: the bytes moved, \<open>None\<close> for -1\<close>
  os_accept :: int
  os_pipe :: "(fd \<times> fd) option"
  os_new :: handler_addr               \<comment> \<open>the address that \<open>new\<close> returns\<close>
  os_ctl_add :: bool                   \<comment> \<open>whether \<open>EPOLL_CTL_ADD\<close> of a descriptor that is not watched succeeds\<close>
  os_ctl_mod :: bool                   \<comment> \<open>whether \<open>EPOLL_CTL_MOD\<close> of a watched descriptor succeeds\<close>

section \<open>IOLoop\<close>

definition io_loop_new :: "int \<Rightarrow> loop_state res" where
  "io_loop_new epfd = (if epfd < 0 then Inl (Exit 1)
     else Inr \<lparr>handlers = (\<lambda>_. None), objs = (\<lambda>_. None), interest = (\<lambda>_. None), open_fds = {},
       bad_closes = 0, pipe_data = (\<lambda>_. []), taken = (\<lambda>_. []), given = (\<lambda>_. [])\<rparr>)"

definition close_fd :: "fd \<Rightarrow> loop_state stmt" where
  "close_fd f s = Inr (if f \<in> open_fds s
     then s\<lparr>open_fds := open_fds s - {f}, interest := (interest s)(f := None)\<rparr>
     else s\<lparr>bad_closes := bad_closes s + 1\<rparr>)"

text \<open>
  \<open>epoll_ctl\<close> with \<open>EPOLL_CTL_ADD\<close> fails on a descriptor that is watched already, and may fail otherwise (no memory, too many
  watches), \<open>ctl\<close>; \<open>addHandler\<close> only prints a message then, with the handler in the table. With \<open>EPOLL_CTL_MOD\<close> it
  fails on one that is not watched, and may fail otherwise.
\<close>

definition addHandler :: "bool \<Rightarrow> fd \<Rightarrow> handler_addr \<Rightarrow> events \<Rightarrow> loop_state stmt" where
  "addHandler ctl f a ev s = Inr (s\<lparr>handlers := (handlers s)(f \<mapsto> Ref a),
     interest := (if ctl \<and> interest s f = None then (interest s)(f \<mapsto> ev) else interest s)\<rparr>)"

definition modifyHandler :: "bool \<Rightarrow> fd \<Rightarrow> events \<Rightarrow> loop_state stmt" where
  "modifyHandler ctl f ev s = Inr (if \<not> ctl \<or> interest s f = None then s else s\<lparr>interest := (interest s)(f \<mapsto> ev)\<rparr>)"

definition delete_handler :: "handler_addr ptr \<Rightarrow> loop_state stmt" where
  "delete_handler p = (if p = Null then exec [] else deref objs p (\<lambda>a h. case h of
      Server_Handler \<Rightarrow> (\<lambda>s. Inl Use_After_Free)
    | Echo_Handler e \<Rightarrow> (\<lambda>s. Inr (s\<lparr>objs := (objs s)(a := None)\<rparr>))
    | Splice_Echo_Handler sp \<Rightarrow> (case sp_pipefd sp of
        None \<Rightarrow> (\<lambda>s. Inl Uninit_Read)
      | Some (r, w) \<Rightarrow> exec [close_fd r, close_fd w, (\<lambda>s. Inr (s\<lparr>objs := (objs s)(a := None)\<rparr>))])))"

text \<open>\<open>handlers_[fd]\<close> on a missing key adds a null pointer, which \<open>erase\<close> then takes out again.\<close>

definition removeHandler :: "fd \<Rightarrow> loop_state stmt" where
  "removeHandler f s = (let p = (case handlers s f of None \<Rightarrow> Null | Some p \<Rightarrow> p) in exec
     [(\<lambda>s. Inr (s\<lparr>handlers := (handlers s)(f := None)\<rparr>)),
      delete_handler p,
      (\<lambda>s. Inr (s\<lparr>interest := (interest s)(f := None)\<rparr>)),
      close_fd f] s)"

text \<open>The destructor deletes every handler of the table, in its order (a list of the keys).\<close>

definition io_loop_delete :: "fd list \<Rightarrow> loop_state stmt" where
  "io_loop_delete fs s = exec (map (\<lambda>f. delete_handler (case handlers s f of None \<Rightarrow> Null | Some p \<Rightarrow> p)) fs) s"

section \<open>EchoHandler\<close>

definition echo_new :: echo_handler where
  "echo_new = \<lparr>e_received = 0, e_buffer = replicate BUFFER_SIZE None\<rparr>"

definition with_echo :: "handler_addr \<Rightarrow> (echo_handler \<Rightarrow> loop_state stmt) \<Rightarrow> loop_state stmt" where
  "with_echo a k = deref objs (Ref a) (\<lambda>_ h. case h of Echo_Handler e \<Rightarrow> k e | _ \<Rightarrow> (\<lambda>s. Inl Type_Confusion))"

definition set_obj :: "handler_addr \<Rightarrow> handler \<Rightarrow> loop_state stmt" where
  "set_obj a h s = Inr (s\<lparr>objs := (objs s)(a \<mapsto> h)\<rparr>)"

text \<open>\<open>send\<close> takes the first \<open>max 0 n\<close> bytes of what it is given, \<open>n\<close> being its result.\<close>

definition echo_write :: "os_env \<Rightarrow> fd \<Rightarrow> handler_addr \<Rightarrow> loop_state stmt" where
  "echo_write env f a = with_echo a (\<lambda>e. when_stmt (e_received e > 0)
     [if None \<in> set (take (nat (e_received e)) (e_buffer e)) then (\<lambda>s. Inl Uninit_Read)
      else (\<lambda>s. Inr (s\<lparr>given := (given s)(f := given s f @
        take (nat (os_send env)) (map the (take (nat (e_received e)) (e_buffer e))))\<rparr>))])"

definition echo_read :: "os_env \<Rightarrow> fd \<Rightarrow> handler_addr \<Rightarrow> loop_state stmt" where
  "echo_read env f a = exec
     [with_echo a (\<lambda>e. case os_recv env of
         None \<Rightarrow> set_obj a (Echo_Handler (e\<lparr>e_received := - 1\<rparr>))
       | Some d \<Rightarrow> exec
          [set_obj a (Echo_Handler (e\<lparr>e_received := int (length d),
             e_buffer := map Some d @ drop (length d) (e_buffer e)\<rparr>)),
           (\<lambda>s. Inr (s\<lparr>taken := (taken s)(f := taken s f @ d)\<rparr>))]),
      with_echo a (\<lambda>e. when_stmt (e_received e > 0)
        [if nat (e_received e) < length (e_buffer e)
         then set_obj a (Echo_Handler (e\<lparr>e_buffer := (e_buffer e)[nat (e_received e) := Some 0]\<rparr>))
         else (\<lambda>s. Inl Out_Of_Bounds)]),
      with_echo a (\<lambda>e. if e_received e > 0 then modifyHandler (os_ctl_mod env) f EPOLLOUT else removeHandler f)]"

definition echo_handle :: "os_env \<Rightarrow> events \<Rightarrow> fd \<Rightarrow> handler_addr \<Rightarrow> loop_state stmt" where
  "echo_handle env ev f a =
     (if ev_has ev EPOLLHUP then removeHandler f
      else if ev_has ev EPOLLERR then exec []
      else exec
        [when_stmt (ev_has ev EPOLLOUT) [echo_write env f a, modifyHandler (os_ctl_mod env) f EPOLLIN],
         when_stmt (ev_has ev EPOLLIN) [echo_read env f a]])"

section \<open>SpliceEchoHandler\<close>

definition with_splice :: "handler_addr \<Rightarrow> (splice_handler \<Rightarrow> loop_state stmt) \<Rightarrow> loop_state stmt" where
  "with_splice a k =
     deref objs (Ref a) (\<lambda>_ h. case h of Splice_Echo_Handler e \<Rightarrow> k e | _ \<Rightarrow> (\<lambda>s. Inl Type_Confusion))"

text \<open>\<open>received -= splice(pipefd[0], NULL, fd, NULL, received, ...)\<close>\<close>

definition splice_out :: "os_env \<Rightarrow> fd \<Rightarrow> handler_addr \<Rightarrow> loop_state stmt" where
  "splice_out env f a = with_splice a (\<lambda>h. case sp_pipefd h of
      None \<Rightarrow> (\<lambda>s. Inl Uninit_Read)
    | Some (r, w) \<Rightarrow> (\<lambda>s. let n = os_splice_out env in Inr (s\<lparr>
        objs := (objs s)(a \<mapsto> Splice_Echo_Handler (h\<lparr>sp_received := sp_received h - n\<rparr>)),
        given := (given s)(f := given s f @ take (nat n) (pipe_data s r)),
        pipe_data := (pipe_data s)(r := drop (nat n) (pipe_data s r))\<rparr>)))"

text \<open>\<open>received += splice(fd, NULL, pipefd[1], NULL, _data_len, ...)\<close>; a pipe is known by its read end.\<close>

definition splice_in :: "os_env \<Rightarrow> fd \<Rightarrow> handler_addr \<Rightarrow> loop_state stmt" where
  "splice_in env f a = with_splice a (\<lambda>h. case sp_pipefd h of
      None \<Rightarrow> (\<lambda>s. Inl Uninit_Read)
    | Some (r, w) \<Rightarrow> (\<lambda>s.
        let n = (case os_splice_in env of None \<Rightarrow> - 1 | Some d \<Rightarrow> int (length d));
            d = (case os_splice_in env of None \<Rightarrow> [] | Some d \<Rightarrow> d) in Inr (s\<lparr>
        objs := (objs s)(a \<mapsto> Splice_Echo_Handler (h\<lparr>sp_received := sp_received h + n\<rparr>)),
        taken := (taken s)(f := taken s f @ d),
        pipe_data := (pipe_data s)(r := pipe_data s r @ d)\<rparr>)))"

definition splice_echo_handle :: "os_env \<Rightarrow> events \<Rightarrow> fd \<Rightarrow> handler_addr \<Rightarrow> loop_state stmt" where
  "splice_echo_handle env ev f a =
     (if ev_has ev EPOLLHUP then exec [removeHandler f, close_fd f]
      else if ev_has ev EPOLLERR then exec [removeHandler f, close_fd f]
      else exec
        [when_stmt (ev_has ev EPOLLOUT)
           [splice_out env f a, modifyHandler (os_ctl_mod env) f (EPOLLIN OR EPOLLET OR EPOLLHUP OR EPOLLERR)],
         when_stmt (ev_has ev EPOLLIN)
           [splice_in env f a,
            with_splice a (\<lambda>h. if sp_received h < 0 then removeHandler f
              else if sp_received h = 0 then removeHandler f
              else modifyHandler (os_ctl_mod env) f (EPOLLOUT OR EPOLLET OR EPOLLHUP OR EPOLLERR))]])"

section \<open>ServerHandler\<close>

text \<open>
  The constructor: \<open>sock\<close> and \<open>listening\<close> are the results of \<open>socket\<close> and \<open>listen\<close>, and \<open>bind_port\<close>
  that of \<open>bind\<close> to a port (in network order) of any address; \<open>ctl\<close> is that of \<open>epoll_ctl\<close>.
\<close>

definition server_handler_new :: "fd \<Rightarrow> (16 word \<Rightarrow> int) \<Rightarrow> int \<Rightarrow> bool \<Rightarrow> handler_addr \<Rightarrow> int \<Rightarrow> loop_state stmt" where
  "server_handler_new sock bind_port listening ctl a port s =
     (if sock < 0 then Inl (Exit 1)
      else if bind_port (htons (word_of_int port)) < 0 then Inl (Exit 1)
      else if listening < 0 then Inl (Exit 1)
      else exec [set_obj a Server_Handler, addHandler ctl sock a EPOLLIN] (s\<lparr>open_fds := insert sock (open_fds s)\<rparr>))"

text \<open>
  A new descriptor starts with nothing taken or given, and a new pipe empty. When \<open>pipe\<close> fails, its
  result is not looked at and \<open>pipefd\<close> stays unwritten; the constructor's next statement passes \<open>pipefd[1]\<close> to \<open>fcntl\<close>.
\<close>

definition splice_echo_new :: "os_env \<Rightarrow> loop_state stmt" where
  "splice_echo_new env s = (case os_pipe env of
      None \<Rightarrow> Inl Uninit_Read
    | Some (r, w) \<Rightarrow> set_obj (os_new env) (Splice_Echo_Handler \<lparr>sp_received = 0, sp_pipefd = Some (r, w)\<rparr>)
        (s\<lparr>open_fds := insert r (insert w (open_fds s)), pipe_data := (pipe_data s)(r := [])\<rparr>))"

definition server_handle :: "os_env \<Rightarrow> fd \<Rightarrow> handler_addr \<Rightarrow> loop_state stmt" where
  "server_handle env f this = (let client = os_accept env in exec
     [(\<lambda>s. Inr (if client < 0 then s else s\<lparr>open_fds := insert client (open_fds s),
         taken := (taken s)(client := []), given := (given s)(client := [])\<rparr>)),
      addHandler (os_ctl_add env) f this EPOLLIN,
      when_stmt (\<not> client < 0)
        [splice_echo_new env,
         addHandler (os_ctl_add env) client (os_new env) (EPOLLIN OR EPOLLOUT OR EPOLLHUP OR EPOLLERR)]])"

section \<open>The loop\<close>

definition handle :: "os_env \<Rightarrow> events \<Rightarrow> fd \<Rightarrow> handler_addr ptr \<Rightarrow> loop_state stmt" where
  "handle env ev f p = deref objs p (\<lambda>a h. case h of
      Echo_Handler _ \<Rightarrow> echo_handle env ev f a
    | Server_Handler \<Rightarrow> server_handle env f a
    | Splice_Echo_Handler _ \<Rightarrow> splice_echo_handle env ev f a)"

text \<open>One iteration of the inner loop of \<open>start\<close>.\<close>

definition dispatch_event :: "os_env \<Rightarrow> fd \<times> events \<Rightarrow> loop_state stmt" where
  "dispatch_event env e s = (case e of (f, ev) \<Rightarrow> (case handlers s f of
      None \<Rightarrow> handle env ev f Null (s\<lparr>handlers := (handlers s)(f \<mapsto> Null)\<rparr>)
    | Some p \<Rightarrow> handle env ev f p s))"

definition MAX_EVENTS :: nat where
  "MAX_EVENTS = 10"

text \<open>What \<open>epoll_wait\<close> documents: at most \<open>MAX_EVENTS\<close> ready descriptors of the interest set, each once.\<close>

definition epoll_batch :: "loop_state \<Rightarrow> (fd \<times> events) list \<Rightarrow> bool" where
  "epoll_batch s es \<longleftrightarrow> es \<noteq> [] \<and> length es \<le> MAX_EVENTS \<and> distinct (map fst es) \<and>
     (\<forall>(f, ev) \<in> set es. \<exists>m. interest s f = Some m \<and> ev \<noteq> 0 \<and> ev AND NOT (m OR EPOLLERR OR EPOLLHUP) = 0)"

text \<open>
  The two programs up to the call of \<open>start\<close>: the loop is created by the first \<open>Instance()\<close>, in the
  constructor of the server's handler.
\<close>

definition epoll_echo_main :: "int \<Rightarrow> fd \<Rightarrow> (16 word \<Rightarrow> int) \<Rightarrow> int \<Rightarrow> bool \<Rightarrow> handler_addr \<Rightarrow> loop_state res" where
  "epoll_echo_main epfd sock bind_port listening ctl a = (case io_loop_new epfd of
      Inl f \<Rightarrow> Inl f | Inr s \<Rightarrow> server_handler_new sock bind_port listening ctl a 8899 s)"

definition splice_epoll_echo_main :: "string list \<Rightarrow> int \<Rightarrow> fd \<Rightarrow> (16 word \<Rightarrow> int) \<Rightarrow> int \<Rightarrow> bool \<Rightarrow> handler_addr \<Rightarrow> loop_state res" where
  "splice_epoll_echo_main args epfd sock bind_port listening ctl a = (case args of
      [] \<Rightarrow> Inl Assert_Failed
    | port # _ \<Rightarrow> (case io_loop_new epfd of
        Inl f \<Rightarrow> Inl f | Inr s \<Rightarrow> server_handler_new sock bind_port listening ctl a (atoi port) s))"

text \<open>
  What the manual pages document of the calls a handler makes: \<open>accept\<close>, \<open>pipe\<close> and \<open>new\<close> return
  descriptors and addresses that are not in use; \<open>splice\<close> moves at most what is asked for and what
  the pipe holds.
\<close>

definition os_accept_ok :: "loop_state \<Rightarrow> os_env \<Rightarrow> bool" where
  "os_accept_ok s env \<longleftrightarrow> os_accept env < 0 \<or>
     (os_accept env \<notin> open_fds s \<and> objs s (os_new env) = None \<and>
      (case os_pipe env of None \<Rightarrow> True
       | Some (r, w) \<Rightarrow> r \<notin> open_fds s \<and> w \<notin> open_fds s \<and> r \<noteq> w \<and> r \<noteq> os_accept env \<and> w \<noteq> os_accept env))"

definition os_splice_ok :: "loop_state \<Rightarrow> handler_addr \<Rightarrow> os_env \<Rightarrow> bool" where
  "os_splice_ok s a env \<longleftrightarrow> (case objs s a of
      Some (Splice_Echo_Handler h) \<Rightarrow> (case sp_pipefd h of None \<Rightarrow> True
        | Some (r, w) \<Rightarrow> os_splice_out env = - 1 \<or> (0 \<le> os_splice_out env \<and>
            os_splice_out env \<le> sp_received h \<and> os_splice_out env \<le> int (length (pipe_data s r))))
    | _ \<Rightarrow> True) \<and>
    (case os_splice_in env of None \<Rightarrow> True | Some d \<Rightarrow> length d \<le> data_len)"

definition os_ok :: "loop_state \<Rightarrow> fd \<Rightarrow> os_env \<Rightarrow> bool" where
  "os_ok s f env \<longleftrightarrow> os_accept_ok s env \<and>
     (case handlers s f of Some (Ref a) \<Rightarrow> os_splice_ok s a env | _ \<Rightarrow> True)"

end
