(* ===== verification/Event_Batch.thy ===== *)
theory Event_Batch
  imports Net_Prelude
begin

text \<open>
  The contract between an \<open>epoll\<close> loop and the code that handles one event. A batch reports every
  descriptor at most once; handling an event may stop watching its own descriptor and may start
  watching others, but must not stop watching another one, whose event may still be in the batch.
  From that, a loop may handle a batch that was reported once without asking again.
\<close>

definition batch_ok :: "'f set \<Rightarrow> ('f \<times> 'e) list \<Rightarrow> bool" where
  "batch_ok W es \<longleftrightarrow> distinct (map fst es) \<and> fst ` set es \<subseteq> W"

lemma batch_ok_Nil [simp]: "batch_ok W []"
  by (simp add: batch_ok_def)

lemma batch_ok_tail:
  assumes "batch_ok W ((f, ev) # es)" and "W - {f} \<subseteq> W'"
  shows "f \<in> W" and "batch_ok W' es"
  using assms by (auto simp: batch_ok_def)

text \<open>The events of a batch in order, each with the answers the system gives while it is handled.\<close>

fun run_batch :: "('env \<Rightarrow> 'f \<times> 'e \<Rightarrow> 's stmt) \<Rightarrow> ('env \<times> 'f \<times> 'e) list \<Rightarrow> 's stmt" where
  "run_batch dispatch [] s = Inr s"
| "run_batch dispatch ((env, e) # es) s =
     (case dispatch env e s of Inl x \<Rightarrow> Inl x | Inr s' \<Rightarrow> run_batch dispatch es s')"

locale batch_loop =
  fixes dispatch :: "'env \<Rightarrow> 'f \<times> 'e \<Rightarrow> 's stmt"
    and watched :: "'s \<Rightarrow> 'f set"
    and inv :: "'s \<Rightarrow> bool"
    and env_ok :: "'s \<Rightarrow> 'f \<Rightarrow> 'env \<Rightarrow> bool"
  assumes dispatch_keeps: "inv s \<Longrightarrow> f \<in> watched s \<Longrightarrow> env_ok s f env \<Longrightarrow>
    \<exists>s'. dispatch env (f, ev) s = Inr s' \<and> inv s' \<and> watched s - {f} \<subseteq> watched s'"
begin

lemma run_first:
  assumes "inv s" and "batch_ok (watched s) ((f, ev) # es)" and "env_ok s f env"
  shows "\<exists>s'. dispatch env (f, ev) s = Inr s' \<and> inv s' \<and> batch_ok (watched s') es"
proof -
  have "f \<in> watched s" using assms(2) by (auto simp: batch_ok_def)
  then obtain s' where "dispatch env (f, ev) s = Inr s'" "inv s'" "watched s - {f} \<subseteq> watched s'"
    using dispatch_keeps assms(1,3) by blast
  then show ?thesis using batch_ok_tail(2) [OF assms(2)] by blast
qed

text \<open>A whole batch, when the answers are always ones the system may give.\<close>

lemma run_all:
  assumes "inv s" and "batch_ok (watched s) (map snd es)"
    and "\<And>s env f ev. (env, f, ev) \<in> set es \<Longrightarrow> inv s \<Longrightarrow> env_ok s f env"
  shows "\<exists>s'. run_batch dispatch es s = Inr s' \<and> inv s'"
  using assms
proof (induction es arbitrary: s)
  case Nil
  then show ?case by simp
next
  case (Cons x es)
  obtain env f ev where x: "x = (env, f, ev)" by (cases x)
  have "env_ok s f env" by (rule Cons.prems(3) [of env f ev]) (simp_all add: x Cons.prems(1))
  moreover have "batch_ok (watched s) ((f, ev) # map snd es)" using Cons.prems(2) x by simp
  ultimately obtain s' where s': "dispatch env (f, ev) s = Inr s'" "inv s'" "batch_ok (watched s') (map snd es)"
    using run_first Cons.prems(1) by blast
  then have "\<exists>s''. run_batch dispatch es s' = Inr s'' \<and> inv s''"
    using Cons.prems(3) by (intro Cons.IH) auto
  then show ?case using s'(1) x by simp
qed

end

end
