(* ===== verification/Epoll_Loop.thy ===== *)
theory Epoll_Loop
  imports Epoll_Handler Event_Batch
begin

text \<open>
  Runs of the epoll loop as the program has it: a listening \<open>ServerHandler\<close> and one
  \<open>SpliceEchoHandler\<close> per accepted connection. A step is either a call of \<open>epoll_wait\<close>, which gives
  the next batch of events, or the handling of the first event of the batch. The invariant ties the
  table, the objects, the interest set, the open descriptors and the pipes of all connections
  together; it is kept whatever the system calls answer, as long as the program goes on: with a failing \<open>pipe\<close> it
  does not.
\<close>

section \<open>Runs\<close>

type_synonym loop_config = "loop_state \<times> (fd \<times> events) list"

text \<open>\<open>clean\<close> restricts runs to those in which no \<open>splice\<close> fails.\<close>

definition env_clean :: "os_env \<Rightarrow> bool" where
  "env_clean env \<longleftrightarrow> os_splice_out env \<noteq> - 1 \<and> os_splice_in env \<noteq> None"

inductive ep_step :: "bool \<Rightarrow> loop_config \<Rightarrow> loop_config res \<Rightarrow> bool" for clean where
  ep_wait: "epoll_batch s es \<Longrightarrow> ep_step clean (s, []) (Inr (s, es))"
| ep_run: "os_ok s (fst e) env \<Longrightarrow> (clean \<longrightarrow> env_clean env) \<Longrightarrow>
    ep_step clean (s, e # es) (map_sum id (\<lambda>s'. (s', es)) (dispatch_event env e s))"

inductive_cases ep_step_nilE: "ep_step clean (s, []) r"
inductive_cases ep_step_consE: "ep_step clean (s, e # es) r"

text \<open>States of a loop that starts with the listening socket \<open>lfd\<close> and its handler at \<open>srv\<close>.\<close>

inductive ep_reach :: "bool \<Rightarrow> fd \<Rightarrow> handler_addr \<Rightarrow> loop_config \<Rightarrow> bool" for clean lfd srv where
  ep_start: "io_loop_new epfd = Inr s0 \<Longrightarrow> server_handler_new lfd bind_port listening ctl srv port s0 = Inr s \<Longrightarrow>
    ep_reach clean lfd srv (s, [])"
| ep_next: "ep_reach clean lfd srv c \<Longrightarrow> ep_step clean c (Inr c') \<Longrightarrow> ep_reach clean lfd srv c'"

section \<open>Invariant\<close>

text \<open>The connections: for each descriptor, the address of its handler and the ends of its pipe.\<close>

type_synonym conns = "fd \<Rightarrow> (handler_addr \<times> fd \<times> fd) option"

fun conn_wf :: "fd \<Rightarrow> handler_addr \<Rightarrow> conns \<Rightarrow> handler_addr \<times> fd \<times> fd \<Rightarrow> bool" where
  "conn_wf lfd srv C (a, r, w) \<longleftrightarrow> a \<noteq> srv \<and> r \<noteq> w \<and> r \<noteq> lfd \<and> w \<noteq> lfd \<and> C r = None \<and> C w = None"

fun conn_apart :: "handler_addr \<times> fd \<times> fd \<Rightarrow> handler_addr \<times> fd \<times> fd \<Rightarrow> bool" where
  "conn_apart (a, r, w) (a', r', w') \<longleftrightarrow> a \<noteq> a' \<and> r \<noteq> r' \<and> r \<noteq> w' \<and> w \<noteq> r' \<and> w \<noteq> w'"

definition conns_ok :: "fd \<Rightarrow> handler_addr \<Rightarrow> conns \<Rightarrow> bool" where
  "conns_ok lfd srv C \<longleftrightarrow> C lfd = None \<and> (\<forall>f c. C f = Some c \<longrightarrow> conn_wf lfd srv C c) \<and>
     (\<forall>f g c d. C f = Some c \<longrightarrow> C g = Some d \<longrightarrow> f \<noteq> g \<longrightarrow> conn_apart c d)"

definition pipe_ends :: "conns \<Rightarrow> fd set" where
  "pipe_ends C = {x. \<exists>f a r w. C f = Some (a, r, w) \<and> (x = r \<or> x = w)}"

definition conn_table :: "fd \<Rightarrow> handler_addr \<Rightarrow> conns \<Rightarrow> fd \<Rightarrow> handler_addr ptr option" where
  "conn_table lfd srv C f = (if f = lfd then Some (Ref srv) else map_option (\<lambda>c. Ref (fst c)) (C f))"

definition splice_obj :: "int \<Rightarrow> fd \<Rightarrow> fd \<Rightarrow> handler" where
  "splice_obj n r w = Splice_Echo_Handler \<lparr>sp_received = n, sp_pipefd = Some (r, w)\<rparr>"

definition ep_struct :: "fd \<Rightarrow> handler_addr \<Rightarrow> conns \<Rightarrow> loop_state \<Rightarrow> bool" where
  "ep_struct lfd srv C s \<longleftrightarrow> conns_ok lfd srv C \<and> handlers s = conn_table lfd srv C \<and>
     objs s srv = Some Server_Handler \<and>
     (\<forall>f a r w. C f = Some (a, r, w) \<longrightarrow> (\<exists>n. objs s a = Some (splice_obj n r w))) \<and>
     dom (interest s) \<subseteq> insert lfd (dom C) \<and> open_fds s = insert lfd (dom C \<union> pipe_ends C)"

text \<open>The data of one connection: what it took is what it gave and what its pipe holds.\<close>

definition conn_data :: "bool \<Rightarrow> loop_state \<Rightarrow> fd \<Rightarrow> handler_addr \<times> fd \<times> fd \<Rightarrow> bool" where
  "conn_data clean s f c \<longleftrightarrow> (case c of (a, r, w) \<Rightarrow> \<exists>n. objs s a = Some (splice_obj n r w) \<and> 0 \<le> n \<and>
     taken s f = given s f @ pipe_data s r \<and> (clean \<longrightarrow> n = int (length (pipe_data s r))))"

definition ep_inv :: "bool \<Rightarrow> fd \<Rightarrow> handler_addr \<Rightarrow> conns \<Rightarrow> loop_state \<Rightarrow> bool" where
  "ep_inv clean lfd srv C s \<longleftrightarrow> ep_struct lfd srv C s \<and> (\<forall>f c. C f = Some c \<longrightarrow> conn_data clean s f c)"

lemma conns_ok_lfd: "conns_ok lfd srv C \<Longrightarrow> C lfd = None"
  unfolding conns_ok_def by blast

lemma conns_ok_wf: "conns_ok lfd srv C \<Longrightarrow> C f = Some c \<Longrightarrow> conn_wf lfd srv C c"
  unfolding conns_ok_def by blast

lemma conns_ok_apart: "conns_ok lfd srv C \<Longrightarrow> C f = Some c \<Longrightarrow> C g = Some d \<Longrightarrow> f \<noteq> g \<Longrightarrow> conn_apart c d"
  unfolding conns_ok_def by blast

lemma conns_okD:
  assumes "conns_ok lfd srv C" and "C f = Some (a, r, w)"
  shows "f \<noteq> lfd" "a \<noteq> srv" "r \<noteq> w" "r \<noteq> lfd" "w \<noteq> lfd" "C r = None" "C w = None" "r \<noteq> f" "w \<noteq> f"
proof -
  have wf: "conn_wf lfd srv C (a, r, w)" and "C lfd = None" using conns_ok_wf conns_ok_lfd assms by blast+
  then show "f \<noteq> lfd" "a \<noteq> srv" "r \<noteq> w" "r \<noteq> lfd" "w \<noteq> lfd" "C r = None" "C w = None" "r \<noteq> f" "w \<noteq> f"
    using assms(2) by auto
qed

lemma conns_ok_other:
  assumes "conns_ok lfd srv C" and "C f = Some (a, r, w)" and "C g = Some (a', r', w')" and "g \<noteq> f"
  shows "a' \<noteq> a" "r' \<noteq> r" "r' \<noteq> w" "w' \<noteq> r" "w' \<noteq> w"
proof -
  have "conn_apart (a', r', w') (a, r, w)" using conns_ok_apart assms by blast
  then show "a' \<noteq> a" "r' \<noteq> r" "r' \<noteq> w" "w' \<noteq> r" "w' \<noteq> w" by auto
qed

lemma conns_ok_remove:
  assumes "conns_ok lfd srv C"
  shows "conns_ok lfd srv (C(f := None))"
proof -
  have sub: "C g = Some c" "g \<noteq> f" if "(C(f := None)) g = Some c" for g c
    using that by (auto split: if_splits)
  have "conn_wf lfd srv C c \<Longrightarrow> conn_wf lfd srv (C(f := None)) c" for c by (cases c) auto
  moreover have "(C(f := None)) lfd = None" using conns_ok_lfd [OF assms] by simp
  ultimately show ?thesis
    using conns_ok_wf [OF assms] conns_ok_apart [OF assms] sub
    unfolding conns_ok_def by blast
qed

text \<open>A connection whose descriptors and handler are new.\<close>

lemma conns_ok_add:
  assumes ok: "conns_ok lfd srv C" and f: "f \<notin> insert lfd (dom C \<union> pipe_ends C)"
    and r: "r \<notin> insert lfd (dom C \<union> pipe_ends C)" and w: "w \<notin> insert lfd (dom C \<union> pipe_ends C)"
    and ne: "r \<noteq> w" "r \<noteq> f" "w \<noteq> f" "a \<noteq> srv" and a: "\<forall>g a' r' w'. C g = Some (a', r', w') \<longrightarrow> a' \<noteq> a"
  shows "conns_ok lfd srv (C(f \<mapsto> (a, r, w)))"
proof -
  let ?C = "C(f \<mapsto> (a, r, w))"
  have old: "conn_wf lfd srv ?C c" "conn_apart c (a, r, w)" "conn_apart (a, r, w) c" if "C g = Some c" for g c
  proof -
    obtain a' r' w' where c: "c = (a', r', w')" by (cases c)
    have "conn_wf lfd srv C c" using conns_ok_wf [OF ok that] .
    moreover have "r' \<in> pipe_ends C" "w' \<in> pipe_ends C" using that c by (auto simp: pipe_ends_def)
    moreover have "a' \<noteq> a" using a that c by blast
    ultimately show "conn_wf lfd srv ?C c" "conn_apart c (a, r, w)" "conn_apart (a, r, w) c"
      using f r w c by auto
  qed
  have new: "conn_wf lfd srv ?C (a, r, w)" using f r w ne by auto
  have apart: "conn_apart c d" if "C g = Some c" "C g' = Some d" "g \<noteq> g'" for g g' c d
    using conns_ok_apart [OF ok] that by blast
  show ?thesis unfolding conns_ok_def
  proof (intro conjI allI impI)
    show "?C lfd = None" using conns_ok_lfd [OF ok] f by simp
    show "conn_wf lfd srv ?C c" if "?C g = Some c" for g c
      using that old(1) new by (cases "g = f") auto
    show "conn_apart c d" if "?C g = Some c" "?C g' = Some d" "g \<noteq> g'" for g g' c d
      using that old(2,3) apart by (cases "g = f"; cases "g' = f") auto
  qed
qed

lemma conn_data_frame:
  assumes "conns_ok lfd srv C" and "C f = Some (a, r, w)" and "C g = Some c" and "g \<noteq> f"
    and "conn_data clean s g c"
    and "\<And>b. b \<noteq> a \<Longrightarrow> objs s' b = objs s b" and "\<And>p. p \<noteq> r \<Longrightarrow> pipe_data s' p = pipe_data s p"
    and "taken s' g = taken s g" and "given s' g = given s g"
  shows "conn_data clean s' g c"
proof -
  obtain a' r' w' where c: "c = (a', r', w')" by (cases c)
  then have "a' \<noteq> a" "r' \<noteq> r" using conns_ok_other [OF assms(1,2)] assms(3,4) by blast+
  then show ?thesis using assms(5-) by (auto simp: conn_data_def c)
qed

lemma pipe_endsI: "C f = Some (a, r, w) \<Longrightarrow> r \<in> pipe_ends C" "C f = Some (a, r, w) \<Longrightarrow> w \<in> pipe_ends C"
  unfolding pipe_ends_def by blast+

lemma pipe_endsE:
  assumes "x \<in> pipe_ends C"
  obtains f a r w where "C f = Some (a, r, w)" and "x = r \<or> x = w"
  using assms unfolding pipe_ends_def by blast

section \<open>The operations keep the invariant\<close>

lemma ep_structD:
  assumes "ep_struct lfd srv C s"
  shows "conns_ok lfd srv C" "handlers s = conn_table lfd srv C" "objs s srv = Some Server_Handler"
    "dom (interest s) \<subseteq> insert lfd (dom C)" "open_fds s = insert lfd (dom C \<union> pipe_ends C)"
  using assms by (simp_all add: ep_struct_def)

lemma ep_struct_obj:
  assumes "ep_struct lfd srv C s" and "C f = Some (a, r, w)"
  obtains n where "objs s a = Some (splice_obj n r w)"
  using assms unfolding ep_struct_def by blast

lemma ep_structI:
  assumes "conns_ok lfd srv C" "handlers s = conn_table lfd srv C" "objs s srv = Some Server_Handler"
    "dom (interest s) \<subseteq> insert lfd (dom C)" "open_fds s = insert lfd (dom C \<union> pipe_ends C)"
    "\<And>f a r w. C f = Some (a, r, w) \<Longrightarrow> \<exists>n. objs s a = Some (splice_obj n r w)"
  shows "ep_struct lfd srv C s"
  using assms unfolding ep_struct_def by blast

text \<open>A change of one connection's handler, data and events.\<close>

lemma ep_struct_upd:
  assumes st: "ep_struct lfd srv C s" and f: "C f = Some (a, r, w)"
    and "handlers s' = handlers s" and o: "objs s' = (objs s)(a \<mapsto> splice_obj n r w)"
    and "dom (interest s') = dom (interest s)" and "open_fds s' = open_fds s"
  shows "ep_struct lfd srv C s'"
proof (rule ep_structI)
  note ok = ep_structD(1) [OF st]
  show "objs s' srv = Some Server_Handler" using conns_okD(2) [OF ok f] ep_structD(3) [OF st] o by simp
  fix g a' r' w'
  assume g: "C g = Some (a', r', w')"
  obtain m where "objs s a' = Some (splice_obj m r' w')" using ep_struct_obj [OF st g] .
  then show "\<exists>n. objs s' a' = Some (splice_obj n r' w')"
    using conns_ok_other [OF ok f g] f g o by (cases "g = f") auto
qed (use assms ep_structD [OF st] in simp_all)

lemma ep_inv_upd:
  assumes inv: "ep_inv clean lfd srv C s" and f: "C f = Some (a, r, w)"
    and "handlers s' = handlers s" and o: "objs s' = (objs s)(a \<mapsto> splice_obj n r w)"
    and "dom (interest s') = dom (interest s)" and "open_fds s' = open_fds s"
    and p: "pipe_data s' = (pipe_data s)(r := P)" and t: "taken s' = (taken s)(f := T)"
    and g: "given s' = (given s)(f := G)"
    and "0 \<le> n" and "T = G @ P" and "clean \<longrightarrow> n = int (length P)"
  shows "ep_inv clean lfd srv C s'"
proof -
  have st: "ep_struct lfd srv C s" using inv by (simp add: ep_inv_def)
  have "conn_data clean s' h c" if "C h = Some c" for h c
  proof (cases "h = f")
    case True
    then show ?thesis using that f assms(10-) by (auto simp: conn_data_def o p t g)
  next
    case False
    have "conn_data clean s h c" using inv that unfolding ep_inv_def by blast
    then show ?thesis
      using conn_data_frame [OF ep_structD(1) [OF st] f that False] o p t g False by simp
  qed
  then show ?thesis using ep_struct_upd [OF st f assms(3-6)] by (simp add: ep_inv_def)
qed

definition ep_removed :: "fd \<Rightarrow> handler_addr \<Rightarrow> fd \<Rightarrow> fd \<Rightarrow> loop_state \<Rightarrow> loop_state" where
  "ep_removed f a r w s = s\<lparr>handlers := (handlers s)(f := None), objs := (objs s)(a := None),
     open_fds := open_fds s - {r, w, f}, interest := (interest s)(f := None)\<rparr>"

lemma close_fd_open: "f \<in> open_fds s \<Longrightarrow> interest s f = None \<Longrightarrow>
  close_fd f s = Inr (s\<lparr>open_fds := open_fds s - {f}\<rparr>)"
  by (cases s) (simp add: close_fd_def fun_upd_idem)

lemma delete_splice_eq:
  assumes "objs s a = Some (splice_obj n r w)" and "r \<in> open_fds s" and "w \<in> open_fds s" and "r \<noteq> w"
    and "interest s r = None" and "interest s w = None"
  shows "delete_handler (Ref a) s = Inr (s\<lparr>objs := (objs s)(a := None), open_fds := open_fds s - {r, w}\<rparr>)"
proof -
  have "open_fds s - {r} - {w} = open_fds s - {r, w}" by blast
  then show ?thesis using assms by (simp add: delete_handler_def splice_obj_def close_fd_open)
qed

lemma removeHandler_eq:
  assumes st: "ep_struct lfd srv C s" and f: "C f = Some (a, r, w)"
  shows "removeHandler f s = Inr (ep_removed f a r w s)"
proof -
  note ok = ep_structD(1) [OF st]
  note ne = conns_okD [OF ok f]
  have h: "handlers s f = Some (Ref a)" using ep_structD(2) [OF st] f ne(1) by (simp add: conn_table_def)
  obtain n where o: "objs s a = Some (splice_obj n r w)" using ep_struct_obj [OF st f] .
  have open3: "r \<in> open_fds s" "w \<in> open_fds s" "f \<in> open_fds s"
    unfolding ep_structD(5) [OF st] using f pipe_endsI [of C f a r w] by auto
  have "r \<notin> dom (interest s)" "w \<notin> dom (interest s)"
    using ep_structD(4) [OF st] ne(4-7) by auto
  then have i: "interest s r = None" "interest s w = None" by auto
  let ?s1 = "s\<lparr>handlers := (handlers s)(f := None)\<rparr>"
  let ?s2 = "?s1\<lparr>objs := (objs s)(a := None), open_fds := open_fds s - {r, w}\<rparr>"
  have d: "delete_handler (Ref a) ?s1 = Inr ?s2"
    using delete_splice_eq [of ?s1 a n r w] o open3 i ne(3) by simp
  have e: "open_fds s - {r, w} - {f} = open_fds s - {r, w, f}" by blast
  show ?thesis
    unfolding removeHandler_def Let_def exec.simps sum.case h option.case d
    using open3(3) ne(8,9) by (simp add: close_fd_def ep_removed_def e)
qed

lemma pipe_ends_remove:
  assumes ok: "conns_ok lfd srv C" and f: "C f = Some (a, r, w)"
  shows "pipe_ends (C(f := None)) = pipe_ends C - {r, w}"
proof -
  have "x \<in> pipe_ends (C(f := None)) \<longleftrightarrow> x \<in> pipe_ends C \<and> x \<noteq> r \<and> x \<noteq> w" for x
  proof
    assume "x \<in> pipe_ends (C(f := None))"
    then obtain g a' r' w' where "(C(f := None)) g = Some (a', r', w')" and x: "x = r' \<or> x = w'"
      by (rule pipe_endsE)
    then have g: "C g = Some (a', r', w')" "g \<noteq> f" by (auto split: if_splits)
    then show "x \<in> pipe_ends C \<and> x \<noteq> r \<and> x \<noteq> w"
      using conns_ok_other [OF ok f g] pipe_endsI [of C g a' r' w'] g(1) x by blast
  next
    assume x: "x \<in> pipe_ends C \<and> x \<noteq> r \<and> x \<noteq> w"
    then obtain g a' r' w' where g: "C g = Some (a', r', w')" "x = r' \<or> x = w'" by (blast elim: pipe_endsE)
    then have "(C(f := None)) g = Some (a', r', w')" using x f by auto
    then show "x \<in> pipe_ends (C(f := None))" using g(2) pipe_endsI by blast
  qed
  then show ?thesis by blast
qed

lemma pipe_ends_dom:
  assumes "conns_ok lfd srv C" and "x \<in> pipe_ends C"
  shows "x \<notin> insert lfd (dom C)"
  using assms(2)
proof (rule pipe_endsE)
  fix f a r w
  assume f: "C f = Some (a, r, w)" and x: "x = r \<or> x = w"
  show ?thesis using conns_okD(4-7) [OF assms(1) f] x by auto
qed

lemma ep_removed_inv:
  assumes st: "ep_struct lfd srv C s" and f: "C f = Some (a, r, w)"
    and data: "\<And>g c. C g = Some c \<Longrightarrow> g \<noteq> f \<Longrightarrow> conn_data clean s g c"
  shows "ep_inv clean lfd srv (C(f := None)) (ep_removed f a r w s)"
  unfolding ep_inv_def
proof (intro conjI allI impI)
  note ok = ep_structD(1) [OF st]
  note ne = conns_okD [OF ok f]
  have out: "r \<notin> insert lfd (dom C)" "w \<notin> insert lfd (dom C)" "f \<notin> pipe_ends C"
    using ne pipe_ends_dom [OF ok] f by auto
  show "ep_struct lfd srv (C(f := None)) (ep_removed f a r w s)"
  proof (rule ep_structI)
    show "open_fds (ep_removed f a r w s) = insert lfd (dom (C(f := None)) \<union> pipe_ends (C(f := None)))"
      unfolding pipe_ends_remove [OF ok f] using ep_structD(5) [OF st] ne out by (auto simp: ep_removed_def)
    show "handlers (ep_removed f a r w s) = conn_table lfd srv (C(f := None))"
      using ep_structD(2) [OF st] ne(1) by (auto simp: ep_removed_def conn_table_def fun_eq_iff)
    show "dom (interest (ep_removed f a r w s)) \<subseteq> insert lfd (dom (C(f := None)))"
      using ep_structD(4) [OF st] ne(1) by (auto simp: ep_removed_def)
    fix g a' r' w'
    assume "(C(f := None)) g = Some (a', r', w')"
    then have g: "C g = Some (a', r', w')" "g \<noteq> f" by (auto split: if_splits)
    obtain n where "objs s a' = Some (splice_obj n r' w')" using ep_struct_obj [OF st g(1)] .
    then show "\<exists>n. objs (ep_removed f a r w s) a' = Some (splice_obj n r' w')"
      using conns_ok_other [OF ok f g] by (auto simp: ep_removed_def)
  qed (use ok ne ep_structD(3) [OF st] conns_ok_remove in \<open>auto simp: ep_removed_def\<close>)
  show "conn_data clean (ep_removed f a r w s) g c" if "(C(f := None)) g = Some c" for g c
  proof -
    have g: "C g = Some c" "g \<noteq> f" using that by (auto split: if_splits)
    then show ?thesis using conn_data_frame [OF ok f g data [OF g]] by (simp add: ep_removed_def)
  qed
qed

lemma ep_invE:
  assumes "ep_inv clean lfd srv C s" and "C f = Some (a, r, w)"
  obtains n where "objs s a = Some (splice_obj n r w)" and "0 \<le> n"
    and "taken s f = given s f @ pipe_data s r" and "clean \<longrightarrow> n = int (length (pipe_data s r))"
proof -
  have "conn_data clean s f (a, r, w)" using assms unfolding ep_inv_def by blast
  then show thesis using that by (auto simp: conn_data_def)
qed

lemma ep_inv_struct: "ep_inv clean lfd srv C s \<Longrightarrow> ep_struct lfd srv C s"
  by (simp add: ep_inv_def)

lemma ep_inv_interest:
  assumes "ep_inv clean lfd srv C s" and "dom (interest s') = dom (interest s)"
    and "handlers s' = handlers s" "objs s' = objs s" "open_fds s' = open_fds s" "pipe_data s' = pipe_data s"
    "taken s' = taken s" "given s' = given s"
  shows "ep_inv clean lfd srv C s'"
  using assms unfolding ep_inv_def ep_struct_def conn_data_def by simp

lemma modifyHandler_inv:
  assumes "ep_inv clean lfd srv C s"
  shows "\<exists>s'. modifyHandler ctl f ev s = Inr s' \<and> ep_inv clean lfd srv C s' \<and> dom (interest s') = dom (interest s)"
proof (cases "\<not> ctl \<or> interest s f = None")
  case True
  then show ?thesis using assms by (auto simp: modifyHandler_def)
next
  case False
  then have d: "dom ((interest s)(f \<mapsto> ev)) = dom (interest s)" by auto
  have "modifyHandler ctl f ev s = Inr (s\<lparr>interest := (interest s)(f \<mapsto> ev)\<rparr>)" using False by (auto simp: modifyHandler_def)
  moreover have "ep_inv clean lfd srv C (s\<lparr>interest := (interest s)(f \<mapsto> ev)\<rparr>)"
    by (rule ep_inv_interest [OF assms]) (use d in simp_all)
  ultimately show ?thesis using d by auto
qed

lemma splice_out_eq:
  assumes "objs s a = Some (splice_obj n r w)"
  shows "splice_out env f a s = Inr (s\<lparr>
    objs := (objs s)(a \<mapsto> splice_obj (n - os_splice_out env) r w),
    given := (given s)(f := given s f @ take (nat (os_splice_out env)) (pipe_data s r)),
    pipe_data := (pipe_data s)(r := drop (nat (os_splice_out env)) (pipe_data s r))\<rparr>)"
  using assms by (simp add: splice_out_def with_splice_def splice_obj_def Let_def)

lemma splice_out_inv:
  assumes inv: "ep_inv clean lfd srv C s" and f: "C f = Some (a, r, w)"
    and os: "os_splice_ok s a env" and cl: "clean \<longrightarrow> env_clean env"
  shows "\<exists>s'. splice_out env f a s = Inr s' \<and> ep_inv clean lfd srv C s' \<and> interest s' = interest s"
proof -
  obtain n where n: "objs s a = Some (splice_obj n r w)" "0 \<le> n"
    "taken s f = given s f @ pipe_data s r" "clean \<longrightarrow> n = int (length (pipe_data s r))"
    using ep_invE [OF inv f] .
  let ?k = "os_splice_out env"
  have k: "?k = - 1 \<or> 0 \<le> ?k \<and> ?k \<le> n \<and> ?k \<le> int (length (pipe_data s r))"
    using os n(1) by (simp add: os_splice_ok_def splice_obj_def)
  have "ep_inv clean lfd srv C (s\<lparr>
    objs := (objs s)(a \<mapsto> splice_obj (n - ?k) r w),
    given := (given s)(f := given s f @ take (nat ?k) (pipe_data s r)),
    pipe_data := (pipe_data s)(r := drop (nat ?k) (pipe_data s r))\<rparr>)"
    by (rule ep_inv_upd [OF inv f, where n = "n - ?k" and P = "drop (nat ?k) (pipe_data s r)"
          and T = "taken s f" and G = "given s f @ take (nat ?k) (pipe_data s r)"])
      (use n k cl in \<open>auto simp: env_clean_def\<close>)
  then show ?thesis using splice_out_eq [OF n(1)] by simp
qed

definition splice_got :: "os_env \<Rightarrow> byte list" where
  "splice_got env = (case os_splice_in env of None \<Rightarrow> [] | Some d \<Rightarrow> d)"

definition splice_ret :: "os_env \<Rightarrow> int" where
  "splice_ret env = (case os_splice_in env of None \<Rightarrow> - 1 | Some d \<Rightarrow> int (length d))"

lemma splice_in_eq:
  assumes "objs s a = Some (splice_obj n r w)"
  shows "splice_in env f a s = Inr (s\<lparr>
    objs := (objs s)(a \<mapsto> splice_obj (n + splice_ret env) r w),
    taken := (taken s)(f := taken s f @ splice_got env),
    pipe_data := (pipe_data s)(r := pipe_data s r @ splice_got env)\<rparr>)"
  using assms
  by (simp add: splice_in_def with_splice_def splice_obj_def Let_def splice_got_def splice_ret_def)

text \<open>An event of a connection leaves it in the table and watched as before, or takes it out of both.\<close>

definition watch_step :: "fd \<Rightarrow> conns \<Rightarrow> loop_state \<Rightarrow> conns \<Rightarrow> loop_state \<Rightarrow> bool" where
  "watch_step f C s C' s' \<longleftrightarrow> C' = C \<and> dom (interest s') = dom (interest s) \<or>
     C' = C(f := None) \<and> dom (interest s') = dom (interest s) - {f}"

text \<open>The read branch: the connection goes on when bytes are pending, and is closed otherwise.\<close>

lemma splice_read_inv:
  assumes inv: "ep_inv clean lfd srv C s" and f: "C f = Some (a, r, w)" and cl: "clean \<longrightarrow> env_clean env"
  shows "\<exists>s' C'. exec [splice_in env f a, with_splice a (\<lambda>h. if sp_received h < 0 then removeHandler f
              else if sp_received h = 0 then removeHandler f
              else modifyHandler (os_ctl_mod env) f (EPOLLOUT OR EPOLLET OR EPOLLHUP OR EPOLLERR))] s = Inr s' \<and>
    ep_inv clean lfd srv C' s' \<and> watch_step f C s C' s'"
proof -
  obtain n where n: "objs s a = Some (splice_obj n r w)" "0 \<le> n"
    "taken s f = given s f @ pipe_data s r" "clean \<longrightarrow> n = int (length (pipe_data s r))"
    using ep_invE [OF inv f] .
  define s1 where "s1 = s\<lparr>
    objs := (objs s)(a \<mapsto> splice_obj (n + splice_ret env) r w),
    taken := (taken s)(f := taken s f @ splice_got env),
    pipe_data := (pipe_data s)(r := pipe_data s r @ splice_got env)\<rparr>"
  have in1: "splice_in env f a s = Inr s1" using splice_in_eq [OF n(1)] s1_def by simp
  have o1: "objs s1 a = Some (splice_obj (n + splice_ret env) r w)" by (simp add: s1_def)
  note st = ep_inv_struct [OF inv]
  have st1: "ep_struct lfd srv C s1" by (rule ep_struct_upd [OF st f]) (simp_all add: s1_def)
  have rest: "conn_data clean s1 g c" if "C g = Some c" "g \<noteq> f" for g c
  proof -
    have "conn_data clean s g c" using inv that(1) unfolding ep_inv_def by blast
    then show ?thesis using conn_data_frame [OF ep_structD(1) [OF st] f that] that(2) by (simp add: s1_def)
  qed
  show ?thesis
  proof (cases "n + splice_ret env > 0")
    case True
    have "ep_inv clean lfd srv C s1"
      by (rule ep_inv_upd [OF inv f, where n = "n + splice_ret env" and P = "pipe_data s r @ splice_got env"
            and T = "taken s f @ splice_got env" and G = "given s f"])
        (use n cl True in \<open>auto simp: s1_def env_clean_def splice_ret_def splice_got_def\<close>)
    then obtain s2 where "modifyHandler (os_ctl_mod env) f (EPOLLOUT OR EPOLLET OR EPOLLHUP OR EPOLLERR) s1 = Inr s2"
      "ep_inv clean lfd srv C s2" "dom (interest s2) = dom (interest s1)"
      using modifyHandler_inv by blast
    then show ?thesis using True in1 o1
      by (intro exI [of _ s2] exI [of _ C]) (simp add: with_splice_def splice_obj_def watch_step_def s1_def)
  next
    case False
    have "removeHandler f s1 = Inr (ep_removed f a r w s1)" using removeHandler_eq [OF st1 f] .
    moreover have "ep_inv clean lfd srv (C(f := None)) (ep_removed f a r w s1)"
      using ep_removed_inv [OF st1 f rest] .
    moreover have "watch_step f C s (C(f := None)) (ep_removed f a r w s1)" by (simp add: watch_step_def ep_removed_def s1_def)
    ultimately show ?thesis using False in1 o1
      by (intro exI [of _ "ep_removed f a r w s1"] exI [of _ "C(f := None)"])
        (simp add: with_splice_def splice_obj_def)
  qed
qed

lemma splice_write_inv:
  assumes inv: "ep_inv clean lfd srv C s" and f: "C f = Some (a, r, w)"
    and os: "os_splice_ok s a env" and cl: "clean \<longrightarrow> env_clean env"
  shows "\<exists>s'. when_stmt b [splice_out env f a, modifyHandler ctl f ev] s = Inr s' \<and> ep_inv clean lfd srv C s' \<and>
    dom (interest s') = dom (interest s)"
proof (cases b)
  case True
  obtain s1 where 1: "splice_out env f a s = Inr s1" "ep_inv clean lfd srv C s1" "interest s1 = interest s"
    using splice_out_inv [OF assms] by blast
  then obtain s2 where "modifyHandler ctl f ev s1 = Inr s2" "ep_inv clean lfd srv C s2" "dom (interest s2) = dom (interest s1)"
    using modifyHandler_inv [OF 1(2)] by blast
  then show ?thesis using True 1 by simp
next
  case False
  then show ?thesis using inv by simp
qed

lemma splice_hup_inv:
  assumes inv: "ep_inv clean lfd srv C s" and f: "C f = Some (a, r, w)"
  shows "\<exists>s'. exec [removeHandler f, close_fd f] s = Inr s' \<and> ep_inv clean lfd srv (C(f := None)) s' \<and>
    watch_step f C s (C(f := None)) s'"
proof -
  note st = ep_inv_struct [OF inv]
  let ?s1 = "ep_removed f a r w s"
  have rm: "removeHandler f s = Inr ?s1" using removeHandler_eq [OF st f] .
  have inv1: "ep_inv clean lfd srv (C(f := None)) ?s1"
    using inv unfolding ep_inv_def by (intro ep_removed_inv [OF st f, unfolded ep_inv_def]) blast
  have "f \<notin> open_fds ?s1" by (simp add: ep_removed_def)
  then have "close_fd f ?s1 = Inr (?s1\<lparr>bad_closes := bad_closes s + 1\<rparr>)"
    by (simp add: close_fd_def) (simp add: ep_removed_def)
  moreover have "ep_inv clean lfd srv (C(f := None)) (?s1\<lparr>bad_closes := bad_closes s + 1\<rparr>)"
    by (rule ep_inv_interest [OF inv1]) simp_all
  ultimately show ?thesis using rm by (simp add: watch_step_def ep_removed_def)
qed

lemma splice_echo_handle_run:
  assumes "\<not> (ev_has ev EPOLLHUP \<or> ev_has ev EPOLLERR)"
  shows "splice_echo_handle env ev f a s = exec
        [when_stmt (ev_has ev EPOLLOUT)
           [splice_out env f a, modifyHandler (os_ctl_mod env) f (EPOLLIN OR EPOLLET OR EPOLLHUP OR EPOLLERR)],
         when_stmt (ev_has ev EPOLLIN)
           [splice_in env f a,
            with_splice a (\<lambda>h. if sp_received h < 0 then removeHandler f
              else if sp_received h = 0 then removeHandler f
              else modifyHandler (os_ctl_mod env) f (EPOLLOUT OR EPOLLET OR EPOLLHUP OR EPOLLERR))]] s"
  using assms unfolding splice_echo_handle_def by (simp only: de_Morgan_disj if_False simp_thms)

lemma splice_echo_handle_inv:
  assumes inv: "ep_inv clean lfd srv C s" and f: "C f = Some (a, r, w)"
    and os: "os_splice_ok s a env" and cl: "clean \<longrightarrow> env_clean env"
  shows "\<exists>s' C'. splice_echo_handle env ev f a s = Inr s' \<and> ep_inv clean lfd srv C' s' \<and> watch_step f C s C' s'"
proof (cases "ev_has ev EPOLLHUP \<or> ev_has ev EPOLLERR")
  case True
  then have "splice_echo_handle env ev f a s = exec [removeHandler f, close_fd f] s"
    unfolding splice_echo_handle_def by auto
  then show ?thesis using splice_hup_inv [OF inv f] by auto
next
  case False
  obtain s1 where 1: "when_stmt (ev_has ev EPOLLOUT)
      [splice_out env f a, modifyHandler (os_ctl_mod env) f (EPOLLIN OR EPOLLET OR EPOLLHUP OR EPOLLERR)] s = Inr s1"
    "ep_inv clean lfd srv C s1" "dom (interest s1) = dom (interest s)"
    using splice_write_inv [OF assms] by blast
  show ?thesis
  proof (cases "ev_has ev EPOLLIN")
    case True
    obtain s2 C' where 2: "exec [splice_in env f a, with_splice a (\<lambda>h. if sp_received h < 0 then removeHandler f
              else if sp_received h = 0 then removeHandler f
              else modifyHandler (os_ctl_mod env) f (EPOLLOUT OR EPOLLET OR EPOLLHUP OR EPOLLERR))] s1 = Inr s2"
      "ep_inv clean lfd srv C' s2 \<and> watch_step f C s1 C' s2"
      using splice_read_inv [OF 1(2) f cl] by blast
    note 3 = 2(1) [folded when_stmt_simps(1), folded eqTrueI [OF True]]
    have "splice_echo_handle env ev f a s = Inr s2"
      unfolding splice_echo_handle_run [OF False] exec.simps 1(1) sum.case 3 ..
    then show ?thesis using 2(2) 1(3) by (auto simp: watch_step_def)
  next
    case no_in: False
    have "splice_echo_handle env ev f a s = Inr s1"
      unfolding splice_echo_handle_run [OF False] exec.simps 1(1) sum.case using no_in by simp
    then show ?thesis using 1(2,3) by (auto simp: watch_step_def)
  qed
qed

lemma conn_table_add: "f \<noteq> lfd \<Longrightarrow> (conn_table lfd srv C)(f \<mapsto> Ref a) = conn_table lfd srv (C(f \<mapsto> (a, r, w)))"
  by (auto simp: conn_table_def fun_eq_iff)

lemma pipe_ends_add:
  assumes "C f = None"
  shows "pipe_ends (C(f \<mapsto> (a, r, w))) = insert r (insert w (pipe_ends C))"
proof -
  have "x \<in> pipe_ends (C(f \<mapsto> (a, r, w))) \<longleftrightarrow> x = r \<or> x = w \<or> x \<in> pipe_ends C" for x
  proof
    assume "x \<in> pipe_ends (C(f \<mapsto> (a, r, w)))"
    then obtain g a' r' w' where g: "(C(f \<mapsto> (a, r, w))) g = Some (a', r', w')" "x = r' \<or> x = w'" by (rule pipe_endsE)
    then show "x = r \<or> x = w \<or> x \<in> pipe_ends C" using pipe_endsI [of C g a' r' w'] by (cases "g = f") auto
  next
    assume x: "x = r \<or> x = w \<or> x \<in> pipe_ends C"
    have new: "r \<in> pipe_ends (C(f \<mapsto> (a, r, w)))" "w \<in> pipe_ends (C(f \<mapsto> (a, r, w)))"
      using pipe_endsI [of "C(f \<mapsto> (a, r, w))" f a r w] by auto
    have "x \<in> pipe_ends (C(f \<mapsto> (a, r, w)))" if "x \<in> pipe_ends C"
      using that
    proof (rule pipe_endsE)
      fix g a' r' w'
      assume g: "C g = Some (a', r', w')" "x = r' \<or> x = w'"
      then have "(C(f \<mapsto> (a, r, w))) g = Some (a', r', w')" using assms by auto
      then show ?thesis using g(2) pipe_endsI by blast
    qed
    then show "x \<in> pipe_ends (C(f \<mapsto> (a, r, w)))" using x new by blast
  qed
  then show ?thesis by blast
qed

text \<open>A new connection \<open>f\<close>, with its handler \<open>a\<close> and the pipe \<open>r\<close>, \<open>w\<close>.\<close>

definition ep_accepted :: "bool \<Rightarrow> fd \<Rightarrow> handler_addr \<Rightarrow> fd \<Rightarrow> fd \<Rightarrow> loop_state \<Rightarrow> loop_state" where
  "ep_accepted ctl f a r w s = s\<lparr>handlers := (handlers s)(f \<mapsto> Ref a), objs := (objs s)(a \<mapsto> splice_obj 0 r w),
     interest := (if ctl then (interest s)(f \<mapsto> EPOLLIN OR EPOLLOUT OR EPOLLHUP OR EPOLLERR) else interest s),
     open_fds := insert r (insert w (insert f (open_fds s))), pipe_data := (pipe_data s)(r := []),
     taken := (taken s)(f := []), given := (given s)(f := [])\<rparr>"

lemma ep_accepted_inv:
  assumes inv: "ep_inv clean lfd srv C s" and f: "f \<notin> open_fds s" and r: "r \<notin> open_fds s" and w: "w \<notin> open_fds s"
    and ne: "r \<noteq> w" "r \<noteq> f" "w \<noteq> f" and a: "objs s a = None"
  shows "ep_inv clean lfd srv (C(f \<mapsto> (a, r, w))) (ep_accepted ctl f a r w s)"
  unfolding ep_inv_def
proof (intro conjI allI impI)
  note st = ep_inv_struct [OF inv]
  note ok = ep_structD(1) [OF st]
  have out: "f \<notin> insert lfd (dom C \<union> pipe_ends C)" "r \<notin> insert lfd (dom C \<union> pipe_ends C)"
    "w \<notin> insert lfd (dom C \<union> pipe_ends C)"
    using f r w unfolding ep_structD(5) [OF st] by blast+
  have srv: "a \<noteq> srv" using ep_structD(3) [OF st] a by auto
  have old: "a' \<noteq> a \<and> r' \<noteq> r" if g: "C g = Some (a', r', w')" for g a' r' w'
  proof -
    obtain n where "objs s a' = Some (splice_obj n r' w')" using ep_struct_obj [OF st g] .
    then show ?thesis using a out(2) pipe_endsI [of C g a' r' w'] g by auto
  qed
  have Cf: "C f = None" using out(1) by auto
  show "ep_struct lfd srv (C(f \<mapsto> (a, r, w))) (ep_accepted ctl f a r w s)"
  proof (rule ep_structI)
    show "conns_ok lfd srv (C(f \<mapsto> (a, r, w)))" using conns_ok_add [OF ok out ne srv] old by blast
    show "handlers (ep_accepted ctl f a r w s) = conn_table lfd srv (C(f \<mapsto> (a, r, w)))"
      using conn_table_add [of f lfd] out(1) ep_structD(2) [OF st] by (auto simp: ep_accepted_def)
    show "open_fds (ep_accepted ctl f a r w s) =
        insert lfd (dom (C(f \<mapsto> (a, r, w))) \<union> pipe_ends (C(f \<mapsto> (a, r, w))))"
      using pipe_ends_add [of C f a r w] Cf ep_structD(5) [OF st] by (auto simp: ep_accepted_def)
    fix g a' r' w'
    assume g: "(C(f \<mapsto> (a, r, w))) g = Some (a', r', w')"
    show "\<exists>n. objs (ep_accepted ctl f a r w s) a' = Some (splice_obj n r' w')"
    proof (cases "g = f")
      case True
      then show ?thesis using g by (auto simp: ep_accepted_def)
    next
      case False
      then have g': "C g = Some (a', r', w')" using g by simp
      then obtain n where "objs s a' = Some (splice_obj n r' w')" using ep_struct_obj [OF st] by blast
      then show ?thesis using old [OF g'] by (auto simp: ep_accepted_def)
    qed
  qed (use ep_structD(3,4) [OF st] srv in \<open>auto simp: ep_accepted_def\<close>)
  show "conn_data clean (ep_accepted ctl f a r w s) g c" if "(C(f \<mapsto> (a, r, w))) g = Some c" for g c
  proof (cases "g = f")
    case True
    then show ?thesis using that by (auto simp: conn_data_def ep_accepted_def)
  next
    case False
    then have g: "C g = Some c" using that by simp
    then have "conn_data clean s g c" using inv unfolding ep_inv_def by blast
    then show ?thesis using old g False by (cases c) (auto simp: conn_data_def ep_accepted_def)
  qed
qed

text \<open>What an event leaves unwatched: with a working \<open>epoll_ctl\<close> nothing new.\<close>

definition unwatched :: "loop_state \<Rightarrow> fd set" where
  "unwatched s = dom (handlers s) - dom (interest s)"

definition pipe_fails :: "fd \<Rightarrow> fd \<Rightarrow> os_env \<Rightarrow> bool" where
  "pipe_fails lfd f env \<longleftrightarrow> f = lfd \<and> 0 \<le> os_accept env \<and> os_pipe env = None"

definition watch_kept :: "os_env \<Rightarrow> fd \<Rightarrow> loop_state \<Rightarrow> loop_state \<Rightarrow> bool" where
  "watch_kept env f s s' \<longleftrightarrow> dom (interest s) - {f} \<subseteq> dom (interest s') \<and> (os_ctl_add env \<longrightarrow> unwatched s' \<subseteq> unwatched s)"

lemma handlers_dom: "ep_struct lfd srv C s \<Longrightarrow> dom (handlers s) = insert lfd (dom C)"
  unfolding ep_structD(2) by (auto simp: conn_table_def)

lemma ep_struct_live:
  assumes st: "ep_struct lfd srv C s" and f: "f \<in> dom (interest s)"
  shows "\<exists>a h. handlers s f = Some (Ref a) \<and> objs s a = Some h"
proof (cases "f = lfd")
  case True
  then show ?thesis using ep_structD(2,3) [OF st] by (auto simp: conn_table_def)
next
  case False
  then obtain a r w where c: "C f = Some (a, r, w)" using f ep_structD(4) [OF st] by auto
  obtain n where "objs s a = Some (splice_obj n r w)" using ep_struct_obj [OF st c] .
  then show ?thesis using ep_structD(2) [OF st] False c by (auto simp: conn_table_def)
qed

lemma watch_step_kept:
  assumes "ep_struct lfd srv C s" and "ep_struct lfd srv C' s'" and "watch_step f C s C' s'"
    and "f \<in> dom (interest s)" and "f \<noteq> lfd"
  shows "watch_kept env f s s'"
  using assms(3-5) unfolding watch_kept_def unwatched_def handlers_dom [OF assms(1)] handlers_dom [OF assms(2)]
  by (auto simp: watch_step_def split: if_splits)

lemma server_handle_inv:
  assumes inv: "ep_inv clean lfd srv C s" and os: "os_accept_ok s env" and i: "interest s lfd \<noteq> None"
    and p: "os_accept env < 0 \<or> os_pipe env \<noteq> None"
  shows "\<exists>s' C'. server_handle env lfd srv s = Inr s' \<and> ep_inv clean lfd srv C' s' \<and> watch_kept env lfd s s'"
proof -
  note st = ep_inv_struct [OF inv]
  have h: "handlers s lfd = Some (Ref srv)" using ep_structD(2) [OF st] by (simp add: conn_table_def)
  have same: "(handlers s)(lfd \<mapsto> Ref srv) = handlers s" using h by (simp add: fun_upd_idem)
  show ?thesis
  proof (cases "os_accept env < 0")
    case True
    then have "server_handle env lfd srv s = Inr s" using i same
      by (cases s) (auto simp: server_handle_def addHandler_def)
    then show ?thesis using inv by (auto simp: watch_kept_def)
  next
    case False
    obtain r w where rw: "os_pipe env = Some (r, w)" using p False by auto
    let ?f = "os_accept env" and ?a = "os_new env"
    let ?s = "ep_accepted (os_ctl_add env) ?f ?a r w s"
    have new: "?f \<notin> open_fds s" "objs s ?a = None" "r \<notin> open_fds s" "w \<notin> open_fds s" "r \<noteq> w" "r \<noteq> ?f" "w \<noteq> ?f"
      using os False rw by (auto simp: os_accept_ok_def)
    have "?f \<noteq> lfd" "interest s ?f = None"
      using new(1) ep_structD(4,5) [OF st] by auto
    then have "server_handle env lfd srv s = Inr ?s" using False rw i same
      unfolding server_handle_def Let_def
      by (auto simp: addHandler_def splice_echo_new_def set_obj_def ep_accepted_def splice_obj_def)
    moreover have "watch_kept env lfd s ?s" by (auto simp: watch_kept_def unwatched_def ep_accepted_def)
    ultimately show ?thesis using ep_accepted_inv [OF inv new(1,3-7,2)] by blast
  qed
qed

lemma server_handle_no_pipe:
  assumes "0 \<le> os_accept env" and "os_pipe env = None"
  shows "server_handle env f a s = Inl Uninit_Read"
  using assms by (simp add: server_handle_def addHandler_def splice_echo_new_def Let_def)

section \<open>Every run\<close>

lemma dispatch_cases:
  assumes inv: "ep_inv clean lfd srv C s" and f: "f \<in> dom (interest s)"
    and os: "os_ok s f env" and cl: "clean \<longrightarrow> env_clean env"
  shows "if pipe_fails lfd f env then dispatch_event env (f, ev) s = Inl Uninit_Read
    else \<exists>s' C'. dispatch_event env (f, ev) s = Inr s' \<and> ep_inv clean lfd srv C' s' \<and> watch_kept env f s s'"
proof (cases "f = lfd")
  case True
  note st = ep_inv_struct [OF inv]
  have "handlers s f = Some (Ref srv)" "objs s srv = Some Server_Handler"
    using ep_structD(2,3) [OF st] True by (simp_all add: conn_table_def)
  then have d: "dispatch_event env (f, ev) s = server_handle env lfd srv s"
    using True by (simp add: dispatch_event_def handle_def)
  have "os_accept_ok s env" "interest s lfd \<noteq> None" using os f True by (auto simp: os_ok_def)
  then show ?thesis unfolding d pipe_fails_def
    using server_handle_inv [OF inv] server_handle_no_pipe [of env lfd srv s] True by auto
next
  case False
  note st = ep_inv_struct [OF inv]
  obtain a r w where c: "C f = Some (a, r, w)" using f False ep_structD(4) [OF st] by auto
  obtain n where o: "objs s a = Some (splice_obj n r w)" using ep_struct_obj [OF st c] .
  have h: "handlers s f = Some (Ref a)" using ep_structD(2) [OF st] False c by (simp add: conn_table_def)
  have d: "dispatch_event env (f, ev) s = splice_echo_handle env ev f a s"
    using h o by (simp add: dispatch_event_def handle_def splice_obj_def)
  have "os_splice_ok s a env" using os h by (simp add: os_ok_def)
  then obtain s' C' where "splice_echo_handle env ev f a s = Inr s'" "ep_inv clean lfd srv C' s'" "watch_step f C s C' s'"
    using splice_echo_handle_inv [OF inv c _ cl, of ev] by blast
  then show ?thesis unfolding d pipe_fails_def
    using watch_step_kept [OF st ep_inv_struct _ f False] False by auto
qed

text \<open>The loop may handle a batch of events: the contract of \<open>batch_loop\<close>.\<close>

interpretation ep: batch_loop dispatch_event "\<lambda>s. dom (interest s)" "\<lambda>s. \<exists>C. ep_inv clean lfd srv C s"
    "\<lambda>s f env. os_ok s f env \<and> \<not> pipe_fails lfd f env \<and> (clean \<longrightarrow> env_clean env)" for clean lfd srv
proof
  fix s f env ev
  assume "\<exists>C. ep_inv clean lfd srv C s" and f: "f \<in> dom (interest s)"
    and env: "os_ok s f env \<and> \<not> pipe_fails lfd f env \<and> (clean \<longrightarrow> env_clean env)"
  then obtain C where inv: "ep_inv clean lfd srv C s" by blast
  show "\<exists>s'. dispatch_event env (f, ev) s = Inr s' \<and> (\<exists>C. ep_inv clean lfd srv C s') \<and>
      dom (interest s) - {f} \<subseteq> dom (interest s')"
    using dispatch_cases [OF inv f, of env ev] env by (auto simp: watch_kept_def)
qed

definition loop_good :: "bool \<Rightarrow> fd \<Rightarrow> handler_addr \<Rightarrow> loop_config \<Rightarrow> bool" where
  "loop_good clean lfd srv c \<longleftrightarrow> batch_ok (dom (interest (fst c))) (snd c) \<and> (\<exists>C. ep_inv clean lfd srv C (fst c))"

lemma ep_step_good:
  assumes step: "ep_step clean c (Inr c')" and good: "loop_good clean lfd srv c"
  shows "loop_good clean lfd srv c'"
  using step
proof cases
  case (ep_wait s es)
  then show ?thesis using good
    by (auto simp: loop_good_def batch_ok_def epoll_batch_def)
next
  case (ep_run s e env es)
  obtain f ev where e: "e = (f, ev)" by (cases e)
  obtain s' where s': "dispatch_event env (f, ev) s = Inr s'" "c' = (s', es)"
    using ep_run(2) e by (cases "dispatch_event env e s") auto
  have f: "f \<in> dom (interest s)" using good ep_run(1) e by (auto simp: loop_good_def batch_ok_def)
  obtain C where inv: "ep_inv clean lfd srv C s" using good ep_run(1) by (auto simp: loop_good_def)
  have np: "\<not> pipe_fails lfd f env"
    using dispatch_cases [OF inv f, of env ev] ep_run(3,4) e s'(1) by (auto split: if_splits)
  have "\<exists>s'. dispatch_event env (f, ev) s = Inr s' \<and> (\<exists>C. ep_inv clean lfd srv C s') \<and> batch_ok (dom (interest s')) es"
    using good ep_run np e by (intro ep.run_first) (simp_all add: loop_good_def)
  then show ?thesis using s' by (auto simp: loop_good_def)
qed

lemma server_start_good:
  assumes "io_loop_new epfd = Inr s0" and "server_handler_new lfd bind_port listening ctl srv port s0 = Inr s"
  shows "loop_good clean lfd srv (s, [])"
proof -
  have "ep_inv clean lfd srv (\<lambda>_. None) s"
    using assms
    by (auto simp: io_loop_new_def server_handler_new_def set_obj_def addHandler_def ep_inv_def ep_struct_def
        conns_ok_def conn_table_def pipe_ends_def fun_eq_iff split: if_splits)
  then show ?thesis by (auto simp: loop_good_def)
qed

lemma ep_reach_good: "ep_reach clean lfd srv c \<Longrightarrow> loop_good clean lfd srv c"
proof (induction rule: ep_reach.induct)
  case (ep_start epfd s0 bind_port listening ctl port s)
  then show ?case by (rule server_start_good)
next
  case (ep_next c c')
  then show ?case using ep_step_good by blast
qed

text \<open>The first event of the batch in a reachable state.\<close>

lemma ep_reach_event:
  assumes "ep_reach clean lfd srv (s, (f, ev) # es)"
  shows "f \<in> dom (interest s)" and "\<exists>C. ep_inv clean lfd srv C s"
  using ep_reach_good [OF assms] by (auto simp: loop_good_def batch_ok_def)

lemma ep_reachE:
  assumes "ep_reach clean lfd srv (s, es)"
  obtains C where "ep_inv clean lfd srv C s"
  using ep_reach_good [OF assms] by (auto simp: loop_good_def)

section \<open>What the table says of a connection\<close>

lemma table_conn:
  assumes st: "ep_struct lfd srv C s" and h: "handlers s f = Some (Ref a)"
    and o: "objs s a = Some (Splice_Echo_Handler h')"
  shows "\<exists>r w. C f = Some (a, r, w) \<and> sp_pipefd h' = Some (r, w)"
proof -
  have "f \<noteq> lfd" using h o ep_structD(2,3) [OF st] by (auto simp: conn_table_def)
  then obtain r w where c: "C f = Some (a, r, w)"
    using h ep_structD(2) [OF st] by (auto simp: conn_table_def)
  obtain n where "objs s a = Some (splice_obj n r w)" using ep_struct_obj [OF st c] .
  then show ?thesis using c o by (auto simp: splice_obj_def)
qed

lemma conn_in_table:
  assumes st: "ep_struct lfd srv C s" and c: "C f = Some (a, r, w)"
  shows "handlers s f = Some (Ref a)"
    "\<exists>h. objs s a = Some (Splice_Echo_Handler h) \<and> sp_pipefd h = Some (r, w)"
proof -
  show "handlers s f = Some (Ref a)"
    using conns_okD(1) [OF ep_structD(1) [OF st] c] ep_structD(2) [OF st] c by (simp add: conn_table_def)
  obtain n where "objs s a = Some (splice_obj n r w)" using ep_struct_obj [OF st c] .
  then show "\<exists>h. objs s a = Some (Splice_Echo_Handler h) \<and> sp_pipefd h = Some (r, w)" by (auto simp: splice_obj_def)
qed

lemma pipe_ends_table:
  assumes st: "ep_struct lfd srv C s"
  shows "pipe_ends C = {x. \<exists>f a h r w. handlers s f = Some (Ref a) \<and>
      objs s a = Some (Splice_Echo_Handler h) \<and> sp_pipefd h = Some (r, w) \<and> (x = r \<or> x = w)}" (is "_ = ?R")
proof (intro subset_antisym subsetI)
  fix x assume "x \<in> pipe_ends C"
  then obtain f a r w where c: "C f = Some (a, r, w)" "x = r \<or> x = w" by (rule pipe_endsE)
  then show "x \<in> ?R" using conn_in_table [OF st c(1)] by blast
next
  fix x assume "x \<in> ?R"
  then obtain f a h r w where h: "handlers s f = Some (Ref a)" "objs s a = Some (Splice_Echo_Handler h)"
    "sp_pipefd h = Some (r, w)" "x = r \<or> x = w"
    by blast
  then have "C f = Some (a, r, w)" using table_conn [OF st h(1,2)] by auto
  then show "x \<in> pipe_ends C" using h(4) pipe_endsI by blast
qed

lemma read_only: "\<not> (ev_has EPOLLIN EPOLLHUP \<or> ev_has EPOLLIN EPOLLERR)" "\<not> ev_has EPOLLIN EPOLLOUT" "ev_has EPOLLIN EPOLLIN"
  by (simp_all add: ev_has_def)

text \<open>A \<open>splice\<close> from the socket that returns 0.\<close>

lemma splice_eof:
  assumes st: "ep_struct lfd srv C s" and f: "C f = Some (a, r, w)" and o: "objs s a = Some (splice_obj n r w)"
    and eof: "os_splice_in env = Some []" and n: "0 \<le> n"
  shows "\<exists>s'. splice_echo_handle env EPOLLIN f a s = Inr s' \<and> (handlers s' f = None \<longleftrightarrow> n = 0)"
proof -
  have same: "(objs s)(a \<mapsto> splice_obj n r w) = objs s" using o by (simp add: fun_upd_idem)
  have "splice_in env f a s = Inr s"
    using splice_in_eq [OF o, of env f] eof same by (cases s) (simp add: splice_ret_def splice_got_def)
  then have run: "splice_echo_handle env EPOLLIN f a s =
      (if n = 0 then removeHandler f s else modifyHandler (os_ctl_mod env) f (EPOLLOUT OR EPOLLET OR EPOLLHUP OR EPOLLERR) s)"
    unfolding splice_echo_handle_run [OF read_only(1)] using read_only(2,3) o n
    by (simp add: with_splice_def splice_obj_def split: sum.split)
  have "handlers s f = Some (Ref a)" using conn_in_table(1) [OF st f] .
  then show ?thesis unfolding run using removeHandler_eq [OF st f]
    by (auto simp: ep_removed_def modifyHandler_def)
qed

section \<open>Single events\<close>

lemma write_only: "\<not> (ev_has EPOLLOUT EPOLLHUP \<or> ev_has EPOLLOUT EPOLLERR)" "\<not> ev_has EPOLLOUT EPOLLIN" "ev_has EPOLLOUT EPOLLOUT"
  by (simp_all add: ev_has_def)

abbreviation READ_INTEREST :: events where
  "READ_INTEREST \<equiv> EPOLLIN OR EPOLLET OR EPOLLHUP OR EPOLLERR"

abbreviation WRITE_INTEREST :: events where
  "WRITE_INTEREST \<equiv> EPOLLOUT OR EPOLLET OR EPOLLHUP OR EPOLLERR"

lemma splice_write_event:
  assumes o: "objs s a = Some (splice_obj n r w)" and i: "interest s f \<noteq> None" "os_ctl_mod env"
  shows "splice_echo_handle env EPOLLOUT f a s = Inr (s\<lparr>
    objs := (objs s)(a \<mapsto> splice_obj (n - os_splice_out env) r w),
    given := (given s)(f := given s f @ take (nat (os_splice_out env)) (pipe_data s r)),
    pipe_data := (pipe_data s)(r := drop (nat (os_splice_out env)) (pipe_data s r)),
    interest := (interest s)(f \<mapsto> READ_INTEREST)\<rparr>)"
  unfolding splice_echo_handle_run [OF write_only(1)]
  using write_only(2,3) splice_out_eq [OF o] i by (auto simp: modifyHandler_def)

lemma splice_read_event:
  assumes o: "objs s a = Some (splice_obj n r w)" and i: "interest s f \<noteq> None" "os_ctl_mod env" and d: "os_splice_in env = Some d"
    and n: "0 < n + int (length d)"
  shows "splice_echo_handle env EPOLLIN f a s = Inr (s\<lparr>
    objs := (objs s)(a \<mapsto> splice_obj (n + int (length d)) r w),
    taken := (taken s)(f := taken s f @ d), pipe_data := (pipe_data s)(r := pipe_data s r @ d),
    interest := (interest s)(f \<mapsto> WRITE_INTEREST)\<rparr>)"
  unfolding splice_echo_handle_run [OF read_only(1)]
  using read_only(2,3) splice_in_eq [OF o, of env f] i d n
  by (auto simp: modifyHandler_def with_splice_def splice_obj_def splice_ret_def splice_got_def)

lemma echo_read_event:
  assumes o: "objs s a = Some (Echo_Handler e)" and l: "length (e_buffer e) = BUFFER_SIZE" and i: "interest s f \<noteq> None" "os_ctl_mod env"
    and d: "os_recv env = Some d" "d \<noteq> []" "length d < BUFFER_SIZE"
  shows "\<exists>e'. echo_handle env EPOLLIN f a s = Inr (s\<lparr>objs := (objs s)(a \<mapsto> Echo_Handler e'),
      taken := (taken s)(f := taken s f @ d), interest := (interest s)(f \<mapsto> EPOLLOUT)\<rparr>) \<and>
    length (e_buffer e') = BUFFER_SIZE \<and> e_received e' = int (length d) \<and> take (length d) (e_buffer e') = map Some d"
proof -
  let ?e = "e\<lparr>e_received := int (length d), e_buffer := (map Some d @ drop (length d) (e_buffer e))[length d := Some 0]\<rparr>"
  have "echo_handle env EPOLLIN f a s = Inr (s\<lparr>objs := (objs s)(a \<mapsto> Echo_Handler ?e),
      taken := (taken s)(f := taken s f @ d), interest := (interest s)(f \<mapsto> EPOLLOUT)\<rparr>)"
    using assms read_only
    by (auto simp: echo_handle_def echo_read_def with_echo_def set_obj_def modifyHandler_def BUFFER_SIZE_def)
  then show ?thesis using l d(3) by (intro exI [of _ ?e]) (auto simp: BUFFER_SIZE_def)
qed

lemma echo_write_event:
  assumes o: "objs s a = Some (Echo_Handler e)" and i: "interest s f \<noteq> None" "os_ctl_mod env" and k: "os_send env = int k"
    and e: "e_received e = int (length d)" "take (length d) (e_buffer e) = map Some d" "d \<noteq> []"
  shows "echo_handle env EPOLLOUT f a s = Inr (s\<lparr>given := (given s)(f := given s f @ take k d),
    interest := (interest s)(f \<mapsto> EPOLLIN)\<rparr>)"
proof -
  have "map the (map Some d) = d" by (simp add: comp_def)
  then show ?thesis using assms write_only
    by (auto simp: echo_handle_def echo_write_def with_echo_def modifyHandler_def)
qed

lemma echo_read_overflow:
  assumes "objs s a = Some (Echo_Handler e)" and "length (e_buffer e) = BUFFER_SIZE"
    and "os_recv env = Some d" and "length d = BUFFER_SIZE"
  shows "echo_handle env EPOLLIN f a s = Inl Out_Of_Bounds"
  using assms read_only
  by (auto simp: echo_handle_def echo_read_def with_echo_def set_obj_def BUFFER_SIZE_def)

text \<open>Reported events are the watched ones, errors and hang-ups.\<close>

lemma no_extra_event:
  fixes ev :: events
  assumes "ev AND NOT (READ_INTEREST OR EPOLLERR OR EPOLLHUP) = 0"
  shows "\<not> ev_has ev EPOLLOUT"
proof -
  have "ev AND EPOLLOUT = (ev AND NOT (READ_INTEREST OR EPOLLERR OR EPOLLHUP)) AND EPOLLOUT"
    by (simp add: and.assoc)
  then show ?thesis using assms by (simp add: ev_has_def)
qed

lemma some_event:
  fixes ev :: events
  assumes "ev AND (EPOLLHUP OR EPOLLERR OR EPOLLOUT OR EPOLLIN) \<noteq> 0"
  shows "ev_has ev EPOLLHUP \<or> ev_has ev EPOLLERR \<or> ev_has ev EPOLLOUT \<or> ev_has ev EPOLLIN"
  using assms unfolding ev_has_def bit.conj_disj_distrib by (auto simp: or_eq_0_iff)

end
