(* ===== verification/Epoll_Correct.thy ===== *)
theory Epoll_Correct
  imports Epoll_Loop
begin

text \<open>
  The properties of the epoll loop and its handlers. Those on runs hold for every sequence of event
  batches and every answer of the system calls, failing ones included; a concrete run of two batches witnesses them.
\<close>

section \<open>A concrete run\<close>

definition ex_os :: os_env where
  "ex_os = \<lparr>os_recv = None, os_send = - 1, os_splice_out = 0, os_splice_in = Some [104, 105],
     os_accept = 5, os_pipe = Some (6, 7), os_new = 2, os_ctl_add = True, os_ctl_mod = True\<rparr>"

text \<open>The same answers with no connection to accept.\<close>

definition ex_os_idle :: os_env where
  "ex_os_idle = ex_os\<lparr>os_accept := - 1\<rparr>"

definition ex_empty :: loop_state where
  "ex_empty = \<lparr>handlers = (\<lambda>_. None), objs = (\<lambda>_. None), interest = (\<lambda>_. None), open_fds = {},
     bad_closes = 0, pipe_data = (\<lambda>_. []), taken = (\<lambda>_. []), given = (\<lambda>_. [])\<rparr>"

text \<open>The listening socket is 3, its handler is at 1.\<close>

definition ex_listening :: loop_state where
  "ex_listening = \<lparr>handlers = [3 \<mapsto> Ref 1], objs = [1 \<mapsto> Server_Handler], interest = [3 \<mapsto> EPOLLIN],
     open_fds = {3}, bad_closes = 0, pipe_data = (\<lambda>_. []), taken = (\<lambda>_. []), given = (\<lambda>_. [])\<rparr>"

text \<open>The connection 5 is accepted, with its handler at 2 and the pipe 6, 7.\<close>

definition ex_connected :: loop_state where
  "ex_connected = ep_accepted True 5 2 6 7 ex_listening"

text \<open>The same with an \<open>EchoHandler\<close>.\<close>

definition ex_echo :: loop_state where
  "ex_echo = ex_connected\<lparr>objs := (objs ex_connected)(2 \<mapsto> Echo_Handler echo_new)\<rparr>"

text \<open>It has read two bytes into its pipe.\<close>

definition ex_reading :: loop_state where
  "ex_reading = ex_connected\<lparr>objs := (objs ex_connected)(2 \<mapsto> splice_obj 2 6 7),
     taken := (taken ex_connected)(5 := [104, 105]), pipe_data := (pipe_data ex_connected)(6 := [104, 105]),
     interest := (interest ex_connected)(5 \<mapsto> EPOLLOUT OR EPOLLET OR EPOLLHUP OR EPOLLERR)\<rparr>"

lemma ex_start: "ep_reach clean 3 1 (ex_listening, [])"
proof (rule ep_start)
  show "io_loop_new 4 = Inr ex_empty" by (simp add: io_loop_new_def ex_empty_def)
  show "server_handler_new 3 (\<lambda>_. 0) 0 True 1 8899 ex_empty = Inr ex_listening"
    by (simp add: server_handler_new_def set_obj_def addHandler_def ex_listening_def ex_empty_def)
qed

lemma ex_accept_event: "dispatch_event ex_os (3, EPOLLIN) ex_listening = Inr ex_connected"
  by (auto simp: dispatch_event_def handle_def server_handle_def ex_os_def ex_listening_def addHandler_def
      splice_echo_new_def set_obj_def ex_connected_def ep_accepted_def splice_obj_def fun_eq_iff)

lemma ex_os_ok: "os_ok ex_listening 3 ex_os" "os_ok ex_connected 5 ex_os_idle"
  "env_clean ex_os" "env_clean ex_os_idle"
  by (simp_all add: ex_os_idle_def os_ok_def os_accept_ok_def os_splice_ok_def ex_os_def ex_listening_def env_clean_def
      ex_connected_def ep_accepted_def splice_obj_def data_len_def)

lemma ex_accept_step: "ep_step clean (ex_listening, [(3, EPOLLIN)]) (Inr (ex_connected, []))"
  using ep_run [of ex_listening "(3, EPOLLIN)" ex_os clean "[]"] ex_accept_event ex_os_ok by simp

lemma ex_read_event: "dispatch_event ex_os_idle (5, EPOLLIN) ex_connected = Inr ex_reading"
proof -
  have "handlers ex_connected 5 = Some (Ref 2)" and o: "objs ex_connected 2 = Some (splice_obj 0 6 7)"
    by (simp_all add: ex_connected_def ep_accepted_def)
  then have "dispatch_event ex_os_idle (5, EPOLLIN) ex_connected = splice_echo_handle ex_os_idle EPOLLIN 5 2 ex_connected"
    by (simp add: dispatch_event_def handle_def splice_obj_def)
  also have "\<dots> = Inr ex_reading"
    unfolding splice_echo_handle_run [of EPOLLIN, unfolded ev_has_def, simplified]
    using splice_in_eq [OF o]
    by (auto simp: with_splice_def splice_obj_def modifyHandler_def splice_ret_def splice_got_def ex_os_idle_def ex_os_def
        ex_reading_def ex_connected_def ep_accepted_def ex_listening_def)
  finally show ?thesis .
qed

lemma ex_read_step: "ep_step clean (ex_connected, [(5, EPOLLIN)]) (Inr (ex_reading, []))"
  using ep_run [of ex_connected "(5, EPOLLIN)" ex_os_idle clean "[]"] ex_read_event ex_os_ok by simp

lemma ex_waits: "ep_step clean (ex_listening, []) (Inr (ex_listening, [(3, EPOLLIN)]))"
  "ep_step clean (ex_connected, []) (Inr (ex_connected, [(5, EPOLLIN)]))"
  by (rule ep_wait; simp add: epoll_batch_def MAX_EVENTS_def ex_listening_def ex_connected_def ep_accepted_def)+

lemma ex_reached:
  "ep_reach clean 3 1 (ex_connected, [(5, EPOLLIN)])" "ep_reach clean 3 1 (ex_reading, [])"
proof -
  have "ep_reach clean 3 1 (ex_connected, [])"
    by (rule ep_next [OF ep_next [OF ex_start ex_waits(1)] ex_accept_step])
  then show r: "ep_reach clean 3 1 (ex_connected, [(5, EPOLLIN)])" by (rule ep_next [OF _ ex_waits(2)])
  show "ep_reach clean 3 1 (ex_reading, [])" by (rule ep_next [OF r ex_read_step])
qed

section \<open>Runs of the loop\<close>

text \<open>
  C4 (memory safety). In every run, whatever events come and whatever the system calls answer, the
  handler found for the next event of a batch is a live object, and handling it returns: no handler is used or
  deleted twice, although a handler deletes itself in the middle of its own \<open>handle\<close>. There is one exception: when a
  connection is accepted and \<open>pipe\<close> fails, the constructor of its handler uses the unwritten \<open>pipefd\<close>.
\<close>

theorem epoll_loop_safe:
  assumes "ep_reach False lfd srv (s, (f, ev) # es)" and "os_ok s f env"
  shows "(\<exists>a h. handlers s f = Some (Ref a) \<and> objs s a = Some h) \<and>
    (if f = lfd \<and> 0 \<le> os_accept env \<and> os_pipe env = None then dispatch_event env (f, ev) s = Inl Uninit_Read
     else \<exists>s'. dispatch_event env (f, ev) s = Inr s')"
proof -
  obtain C where inv: "ep_inv False lfd srv C s" using ep_reach_event(2) [OF assms(1)] by blast
  have f: "f \<in> dom (interest s)" using ep_reach_event(1) [OF assms(1)] .
  have "\<exists>a h. handlers s f = Some (Ref a) \<and> objs s a = Some h" using ep_struct_live [OF ep_inv_struct [OF inv] f] .
  moreover note dispatch_cases [OF inv f assms(2), of ev, unfolded pipe_fails_def]
  ultimately show ?thesis by (auto split: if_splits)
qed

theorem epoll_loop_safe_witness:
  "ep_reach False 3 1 (ex_connected, [(5, EPOLLIN)]) \<and> os_ok ex_connected 5 ex_os_idle \<and>
   (\<exists>s'. dispatch_event ex_os_idle (5, EPOLLIN) ex_connected = Inr s')"
  using epoll_loop_safe [OF ex_reached(1) ex_os_ok(2)] ex_reached(1) ex_os_ok(2) by simp

text \<open>
  C11 (no descriptor leaks). In every reachable state the open descriptors are the listening socket
  and, for each connection in the table, its socket and the two ends of its pipe; the interest set
  of the epoll instance is within the table. A descriptor of the table that is not watched is one for which
  \<open>epoll_ctl\<close> failed: handling an event leaves no other one unwatched.
\<close>

theorem epoll_no_fd_leak:
  assumes "ep_reach False lfd srv (s, es)"
  shows "dom (interest s) \<subseteq> dom (handlers s) \<and>
    open_fds s = dom (handlers s) \<union> {x. \<exists>f a h r w. handlers s f = Some (Ref a) \<and>
      objs s a = Some (Splice_Echo_Handler h) \<and> sp_pipefd h = Some (r, w) \<and> (x = r \<or> x = w)} \<and>
    (\<forall>f ev es' env s'. es = (f, ev) # es' \<and> os_ok s f env \<and> os_ctl_add env \<and> dispatch_event env (f, ev) s = Inr s' \<longrightarrow>
       dom (handlers s') - dom (interest s') \<subseteq> dom (handlers s) - dom (interest s))"
proof -
  obtain C where inv: "ep_inv False lfd srv C s" using ep_reachE [OF assms] .
  then have st: "ep_struct lfd srv C s" by (rule ep_inv_struct)
  have ends: "pipe_ends C = {x. \<exists>f a h r w. handlers s f = Some (Ref a) \<and>
      objs s a = Some (Splice_Echo_Handler h) \<and> sp_pipefd h = Some (r, w) \<and> (x = r \<or> x = w)}"
    using pipe_ends_table [OF st] .
  have "dom (handlers s') - dom (interest s') \<subseteq> dom (handlers s) - dom (interest s)"
    if e: "es = (f, ev) # es'" "os_ok s f env" "os_ctl_add env" "dispatch_event env (f, ev) s = Inr s'" for f ev es' env s'
  proof -
    have "f \<in> dom (interest s)" using ep_reach_event(1) assms e(1) by blast
    then have "watch_kept env f s s'" using dispatch_cases [OF inv _ e(2), of ev] e(4) by (auto split: if_splits)
    then show ?thesis using e(3) by (simp add: watch_kept_def unwatched_def)
  qed
  moreover have "open_fds s = dom (handlers s) \<union> pipe_ends C" "dom (interest s) \<subseteq> dom (handlers s)"
    using ep_structD(4,5) [OF st] handlers_dom [OF st] by auto
  ultimately show ?thesis unfolding ends by blast
qed

theorem epoll_no_fd_leak_witness:
  "dom (interest ex_reading) \<subseteq> dom (handlers ex_reading) \<and>
   open_fds ex_reading = dom (handlers ex_reading) \<union> {x. \<exists>f a h r w. handlers ex_reading f = Some (Ref a) \<and>
      objs ex_reading a = Some (Splice_Echo_Handler h) \<and> sp_pipefd h = Some (r, w) \<and> (x = r \<or> x = w)}"
  using epoll_no_fd_leak [OF ex_reached(2)] by blast

text \<open>
  C10 (stream integrity). In every reachable state, whatever went wrong before, the bytes taken from
  a connection's socket are the bytes given back to it followed by the bytes in its pipe: nothing is
  lost, duplicated, reordered or sent to another connection.
\<close>

theorem epoll_stream_integrity:
  assumes "ep_reach clean lfd srv (s, es)" and "handlers s f = Some (Ref a)"
    and "objs s a = Some (Splice_Echo_Handler h)" and "sp_pipefd h = Some (r, w)"
  shows "taken s f = given s f @ pipe_data s r"
proof -
  obtain C where inv: "ep_inv clean lfd srv C s" using ep_reachE [OF assms(1)] .
  have "C f = Some (a, r, w)" using table_conn [OF ep_inv_struct [OF inv] assms(2,3)] assms(4) by auto
  then show ?thesis using ep_invE [OF inv] by blast
qed

theorem epoll_stream_integrity_witness:
  "taken ex_reading 5 = given ex_reading 5 @ pipe_data ex_reading 6 \<and> taken ex_reading 5 = [104, 105]"
proof -
  have "taken ex_reading 5 = given ex_reading 5 @ pipe_data ex_reading 6"
    by (rule epoll_stream_integrity [OF ex_reached(2) [of True], where a = 2 and w = 7
          and h = "\<lparr>sp_received = 2, sp_pipefd = Some (6, 7)\<rparr>"])
      (simp_all add: ex_reading_def ex_connected_def ep_accepted_def splice_obj_def)
  then show ?thesis by (simp add: ex_reading_def)
qed

text \<open>
  C15 (the counter). In every run in which no \<open>splice\<close> fails, \<open>received\<close> is the number of bytes in the
  pipe; so an end of file (a \<open>splice\<close> of no bytes) is taken for a reason to go on writing exactly
  when bytes are still to be echoed, and closes the connection exactly when none are.
\<close>

theorem epoll_received_counts_pipe:
  assumes "ep_reach True lfd srv (s, es)" and "handlers s f = Some (Ref a)"
    and "objs s a = Some (Splice_Echo_Handler h)" and "sp_pipefd h = Some (r, w)"
    and "os_splice_in env = Some []"
  shows "sp_received h = int (length (pipe_data s r)) \<and>
    (\<exists>s'. splice_echo_handle env EPOLLIN f a s = Inr s' \<and> (handlers s' f = None \<longleftrightarrow> pipe_data s r = []))"
proof -
  obtain C where inv: "ep_inv True lfd srv C s" using ep_reachE [OF assms(1)] .
  have f: "C f = Some (a, r, w)" using table_conn [OF ep_inv_struct [OF inv] assms(2,3)] assms(4) by auto
  obtain n where n: "objs s a = Some (splice_obj n r w)" "n = int (length (pipe_data s r))"
    using ep_invE [OF inv f] by blast
  then have h: "sp_received h = n" using assms(3) by (auto simp: splice_obj_def)
  have "\<exists>s'. splice_echo_handle env EPOLLIN f a s = Inr s' \<and> (handlers s' f = None \<longleftrightarrow> n = 0)"
    using splice_eof [OF ep_inv_struct [OF inv] f n(1) assms(5)] n(2) by simp
  then show ?thesis using h n(2) by simp
qed

theorem epoll_received_counts_pipe_witness:
  "\<exists>s'. splice_echo_handle (ex_os\<lparr>os_splice_in := Some []\<rparr>) EPOLLIN 5 2 ex_reading = Inr s' \<and> handlers s' 5 \<noteq> None"
proof -
  have "\<exists>s'. splice_echo_handle (ex_os\<lparr>os_splice_in := Some []\<rparr>) EPOLLIN 5 2 ex_reading = Inr s' \<and>
      (handlers s' 5 = None \<longleftrightarrow> pipe_data ex_reading 6 = [])"
    by (rule conjunct2 [OF epoll_received_counts_pipe [OF ex_reached(2), where w = 7
          and h = "\<lparr>sp_received = 2, sp_pipefd = Some (6, 7)\<rparr>"]])
      (simp_all add: ex_reading_def ex_connected_def ep_accepted_def splice_obj_def)
  then show ?thesis by (auto simp: ex_reading_def)
qed

section \<open>Single connections\<close>

text \<open>
  C34 (a failed \<open>splice\<close> counts). A \<open>splice\<close> to the socket that fails adds one to \<open>received\<close>. Once more
  bytes came in and all of them were echoed, an end of file no longer closes the connection: it
  stays in the table, with an empty pipe, waiting to write.
\<close>

theorem splice_failure_hides_eof:
  assumes "objs s a = Some (splice_obj n r w)" and "n = int (length (pipe_data s r))" and "interest s f \<noteq> None"
    and "os_ctl_mod e1" "os_ctl_mod e2" "os_ctl_mod e3" "os_ctl_mod e4"
    and "os_splice_out e1 = - 1" and "os_splice_in e2 = Some d"
    and "os_splice_out e3 = int (length (pipe_data s r @ d))" and "os_splice_in e4 = Some []"
  shows "\<exists>s'. exec [splice_echo_handle e1 EPOLLOUT f a, splice_echo_handle e2 EPOLLIN f a,
      splice_echo_handle e3 EPOLLOUT f a, splice_echo_handle e4 EPOLLIN f a] s = Inr s' \<and>
    given s' f = given s f @ pipe_data s r @ d \<and> pipe_data s' r = [] \<and> handlers s' f = handlers s f \<and>
    interest s' f = Some WRITE_INTEREST \<and> objs s' a = Some (splice_obj 1 r w)"
  using assms
  by (simp add: splice_write_event [where r = r and w = w] splice_read_event [where r = r and w = w])

theorem splice_failure_hides_eof_witness:
  "\<exists>s'. exec [splice_echo_handle (ex_os\<lparr>os_splice_out := - 1\<rparr>) EPOLLOUT 5 2, splice_echo_handle ex_os EPOLLIN 5 2,
      splice_echo_handle (ex_os\<lparr>os_splice_out := 2\<rparr>) EPOLLOUT 5 2,
      splice_echo_handle (ex_os\<lparr>os_splice_in := Some []\<rparr>) EPOLLIN 5 2] ex_connected = Inr s' \<and>
    given s' 5 = given ex_connected 5 @ pipe_data ex_connected 6 @ [104, 105] \<and> pipe_data s' 6 = [] \<and>
    handlers s' 5 = handlers ex_connected 5 \<and> interest s' 5 = Some WRITE_INTEREST \<and> objs s' 2 = Some (splice_obj 1 6 7)"
  by (rule splice_failure_hides_eof [where n = 0])
    (simp_all add: ex_connected_def ep_accepted_def ex_os_def)

text \<open>
  C36 (a partial write stalls). When \<open>splice\<close> writes only part of the pipe, the rest stays there and
  the descriptor is no longer watched for writing: no batch that \<open>epoll_wait\<close> may report in the state
  reached has it writable.
\<close>

theorem splice_partial_write_stalls:
  assumes "objs s a = Some (splice_obj n r w)" and "interest s f \<noteq> None" and "os_ctl_mod env"
    and "os_splice_out env = int k" and "k < length (pipe_data s r)"
  shows "\<exists>s'. splice_echo_handle env EPOLLOUT f a s = Inr s' \<and> pipe_data s' r \<noteq> [] \<and>
    (\<forall>es ev. epoll_batch s' es \<longrightarrow> (f, ev) \<in> set es \<longrightarrow> \<not> ev_has ev EPOLLOUT)"
proof -
  let ?s = "s\<lparr>objs := (objs s)(a \<mapsto> splice_obj (n - int k) r w),
    given := (given s)(f := given s f @ take k (pipe_data s r)),
    pipe_data := (pipe_data s)(r := drop k (pipe_data s r)), interest := (interest s)(f \<mapsto> READ_INTEREST)\<rparr>"
  have "splice_echo_handle env EPOLLOUT f a s = Inr ?s"
    using splice_write_event [OF assms(1-3)] assms(4) by simp
  moreover have "\<not> ev_has ev EPOLLOUT" if "epoll_batch ?s es" "(f, ev) \<in> set es" for es ev
  proof -
    have "ev AND NOT (READ_INTEREST OR EPOLLERR OR EPOLLHUP) = 0" using that by (fastforce simp: epoll_batch_def)
    then show ?thesis by (rule no_extra_event)
  qed
  ultimately show ?thesis using assms(5) by (intro exI [of _ ?s]) simp
qed

theorem splice_partial_write_stalls_witness:
  "\<exists>s'. splice_echo_handle (ex_os\<lparr>os_splice_out := 1\<rparr>) EPOLLOUT 5 2 ex_reading = Inr s' \<and> pipe_data s' 6 \<noteq> [] \<and>
    (\<forall>es ev. epoll_batch s' es \<longrightarrow> (5, ev) \<in> set es \<longrightarrow> \<not> ev_has ev EPOLLOUT)"
  by (rule splice_partial_write_stalls [where n = 2 and w = 7 and k = 1])
    (simp_all add: ex_reading_def ex_connected_def ep_accepted_def ex_os_def)

text \<open>
  C35 (hang-up). In every run, on a hang-up or error of a connection its handler is deleted, its socket and pipe
  are closed and its entry is gone, and then \<open>close\<close> is called once more on the closed descriptor.
\<close>

theorem splice_hangup_closes_twice:
  assumes "ep_reach clean lfd srv (s, es)" and "handlers s f = Some (Ref a)"
    and "objs s a = Some (Splice_Echo_Handler h)" and "sp_pipefd h = Some (r, w)"
    and "ev_has ev EPOLLHUP \<or> ev_has ev EPOLLERR"
  shows "\<exists>s'. splice_echo_handle env ev f a s = Inr s' \<and> handlers s' f = None \<and> objs s' a = None \<and>
    open_fds s' = open_fds s - {r, w, f} \<and> bad_closes s' = bad_closes s + 1"
proof -
  obtain C where inv: "ep_inv clean lfd srv C s" using ep_reachE [OF assms(1)] .
  have f: "C f = Some (a, r, w)" using table_conn [OF ep_inv_struct [OF inv] assms(2,3)] assms(4) by auto
  have "splice_echo_handle env ev f a s = exec [removeHandler f, close_fd f] s"
    using assms(5) unfolding splice_echo_handle_def by auto
  also have "\<dots> = Inr ((ep_removed f a r w s)\<lparr>bad_closes := bad_closes s + 1\<rparr>)"
    using removeHandler_eq [OF ep_inv_struct [OF inv] f] by (simp add: close_fd_def ep_removed_def)
  finally show ?thesis by (simp add: ep_removed_def)
qed

theorem splice_hangup_closes_twice_witness:
  "\<exists>s'. splice_echo_handle ex_os EPOLLHUP 5 2 ex_reading = Inr s' \<and> handlers s' 5 = None \<and> objs s' 2 = None \<and>
    open_fds s' = open_fds ex_reading - {6, 7, 5} \<and> bad_closes s' = bad_closes ex_reading + 1"
  by (rule splice_hangup_closes_twice [OF ex_reached(2) [of True], where h = "\<lparr>sp_received = 2, sp_pipefd = Some (6, 7)\<rparr>"])
    (simp_all add: ex_reading_def ex_connected_def ep_accepted_def splice_obj_def ev_has_def)

text \<open>
  A failed \<open>epoll_ctl\<close>. When \<open>epoll_ctl\<close> fails for an accepted connection, its handler, socket and pipe stay allocated, and no
  batch ever reports an event of it that could release them.
\<close>

theorem unwatched_connection_stays:
  assumes "os_accept env = c" and "0 \<le> c" and "os_pipe env = Some (r, w)" and "\<not> os_ctl_add env" and "interest s c = None"
  shows "\<exists>s'. server_handle env lfd srv s = Inr s' \<and> handlers s' c = Some (Ref (os_new env)) \<and> {c, r, w} \<subseteq> open_fds s' \<and>
    (\<forall>es ev. epoll_batch s' es \<longrightarrow> (c, ev) \<notin> set es)"
  using assms by (auto simp: server_handle_def Let_def addHandler_def splice_echo_new_def set_obj_def epoll_batch_def)

theorem unwatched_connection_stays_witness:
  "\<exists>s'. server_handle (ex_os\<lparr>os_ctl_add := False\<rparr>) 3 1 ex_listening = Inr s' \<and> handlers s' 5 = Some (Ref 2) \<and> {5, 6, 7} \<subseteq> open_fds s'"
  using unwatched_connection_stays [of "ex_os\<lparr>os_ctl_add := False\<rparr>" 5 6 7 ex_listening 3 1]
  by (auto simp: ex_os_def ex_listening_def)

text \<open>
  Echo. \<open>EchoHandler\<close> gives back what it read, in order, when it is less than its buffer: on the
  next writable event it sends the bytes it received, and then waits for more. If \<open>send\<close> takes only
  \<open>k\<close> of them, the others are dropped.
\<close>

theorem echo_roundtrip:
  assumes "objs s a = Some (Echo_Handler e)" and "length (e_buffer e) = BUFFER_SIZE" and "interest s f \<noteq> None"
    and "os_ctl_mod e1" and "os_ctl_mod e2" and "os_recv e1 = Some d" and "d \<noteq> []" and "length d < BUFFER_SIZE" and "os_send e2 = int k"
  shows "\<exists>s' e'. exec [echo_handle e1 EPOLLIN f a, echo_handle e2 EPOLLOUT f a] s = Inr s' \<and>
    given s' f = given s f @ take k d \<and> taken s' f = taken s f @ d \<and> interest s' f = Some EPOLLIN \<and>
    objs s' a = Some (Echo_Handler e') \<and> length (e_buffer e') = BUFFER_SIZE"
proof -
  obtain e' where 1: "echo_handle e1 EPOLLIN f a s = Inr (s\<lparr>objs := (objs s)(a \<mapsto> Echo_Handler e'),
      taken := (taken s)(f := taken s f @ d), interest := (interest s)(f \<mapsto> EPOLLOUT)\<rparr>)" (is "_ = Inr ?s1")
    "length (e_buffer e') = BUFFER_SIZE" "e_received e' = int (length d)" "take (length d) (e_buffer e') = map Some d"
    using echo_read_event [OF assms(1-4,6-8)] by blast
  have "echo_handle e2 EPOLLOUT f a ?s1 = Inr (?s1\<lparr>given := (given ?s1)(f := given ?s1 f @ take k d),
      interest := (interest ?s1)(f \<mapsto> EPOLLIN)\<rparr>)"
    by (rule echo_write_event) (use 1 assms(5,7,9) in simp_all)
  then show ?thesis using 1 by simp
qed

theorem echo_roundtrip_witness:
  "\<exists>s' e'. exec [echo_handle (ex_os\<lparr>os_recv := Some [1, 2, 3]\<rparr>) EPOLLIN 5 2,
      echo_handle (ex_os\<lparr>os_send := 3\<rparr>) EPOLLOUT 5 2] ex_echo = Inr s' \<and>
    given s' 5 = given ex_echo 5 @ take 3 [1, 2, 3] \<and> taken s' 5 = taken ex_echo 5 @ [1, 2, 3] \<and>
    interest s' 5 = Some EPOLLIN \<and> objs s' 2 = Some (Echo_Handler e') \<and> length (e_buffer e') = BUFFER_SIZE"
  by (rule echo_roundtrip [where e = echo_new])
    (simp_all add: ex_os_def ex_echo_def ex_connected_def ep_accepted_def echo_new_def BUFFER_SIZE_def)

text \<open>
  Buffer overrun. A read that fills the whole buffer makes \<open>EchoHandler\<close> write the terminating
  zero one cell behind it.
\<close>

theorem echo_full_read_overruns:
  assumes "objs s a = Some (Echo_Handler e)" and "length (e_buffer e) = BUFFER_SIZE"
    and "os_recv env = Some d" and "length d = BUFFER_SIZE"
  shows "echo_handle env EPOLLIN f a s = Inl Out_Of_Bounds"
  using echo_read_overflow [OF assms] .

theorem echo_full_read_overruns_witness:
  "echo_handle (ex_os\<lparr>os_recv := Some (replicate 1024 65)\<rparr>) EPOLLIN 5 2 ex_echo = Inl Out_Of_Bounds"
  by (rule echo_full_read_overruns [where e = echo_new and d = "replicate 1024 65"])
    (simp_all add: ex_echo_def echo_new_def BUFFER_SIZE_def)

end
