(* ===== verification/Virtual_Listener.thy ===== *)
theory Virtual_Listener
  imports C_Lib Event_Batch
begin

text \<open>
  The upper-case echo server of \<open>source/exe/virtual_listerner.c\<close>: \<open>str_toupper\<close>, which computes
  \<open>strlen\<close> anew in every round of its loop, and the body of the \<open>epoll\<close> loop of \<open>main\<close> with its one
  global buffer. Connections are watched edge-triggered: an event is reported once for each arrival
  of data, not for data that is left unread. The state therefore has, per descriptor, the bytes not
  yet read, whether an arrival has not been reported yet, and the bytes written. The start of \<open>main\<close>,
  with the answers of the system calls as an argument, gives the first state of a run.
\<close>

section \<open>Strings in arrays\<close>

text \<open>\<open>strlen\<close> of a string at the start of an array; \<open>None\<close> when it would run past its end.\<close>

definition strlen :: "byte list \<Rightarrow> nat option" where
  "strlen buf = (let n = length (takeWhile (\<lambda>c. c \<noteq> 0) buf) in if n < length buf then Some n else None)"

lemma strlen_bound: "strlen buf = Some n \<Longrightarrow> n < length buf"
  by (auto simp: strlen_def Let_def split: if_splits)

function str_toupper_from :: "nat \<Rightarrow> byte list \<Rightarrow> byte list res" where
  "str_toupper_from i str = (case strlen str of
      None \<Rightarrow> Inl Out_Of_Bounds
    | Some n \<Rightarrow> if i < n then str_toupper_from (i + 1) (str[i := toupper (str ! i)]) else Inr str)"
  by auto

termination
  by (relation "measure (\<lambda>(i, str). length str - i)") (auto dest: strlen_bound)

declare str_toupper_from.simps [simp del]

definition str_toupper :: "byte list \<Rightarrow> byte list res" where
  "str_toupper str = str_toupper_from 0 str"

section \<open>The server\<close>

definition BUFFER_MAX_LEN :: nat where
  "BUFFER_MAX_LEN = 4096"

definition READ_LEN :: nat where
  "READ_LEN = 5"

record vl_state =
  vl_buffer :: "byte list"
  vl_watched :: "int set"
  vl_open :: "int set"
  vl_rx :: "int \<Rightarrow> byte list"
  vl_edge :: "int \<Rightarrow> bool"
  vl_tx :: "int \<Rightarrow> byte list"
  vl_client_len :: "nat option"
  vl_printed :: nat

text \<open>Data arrives on a connection.\<close>

definition vl_arrive :: "int \<Rightarrow> byte list \<Rightarrow> vl_state \<Rightarrow> vl_state" where
  "vl_arrive f d s = s\<lparr>vl_rx := (vl_rx s)(f := vl_rx s f @ d), vl_edge := (vl_edge s)(f := True)\<rparr>"


text \<open>
  What the system answers while an event is handled: \<open>accept\<close>, given the length in \<open>client_len\<close>, which
  nobody writes before the first call; \<open>getsockopt\<close>, given \<open>origin_dest_addr_len\<close>, which nobody writes at all;
  \<open>epoll_ctl\<close> for the new connection; whether the peer has ended its stream and whether \<open>read\<close> fails; and the
  result of \<open>write\<close> for a number of bytes.
\<close>

record vl_answers =
  an_accept :: "nat option \<Rightarrow> int \<times> nat"
  an_origdst :: "nat option \<Rightarrow> int"
  an_add :: int
  an_eof :: bool
  an_read_error :: bool
  an_write :: "nat \<Rightarrow> int"

text \<open>
  The result of \<open>read(client_fd, buffer, 5)\<close>: an error, what is there, the end of file, or again an error
  when there is nothing.
\<close>

datatype read_result = Read_Error | Read_Eof | Read_Bytes "byte list"

definition vl_read :: "vl_answers \<Rightarrow> byte list \<Rightarrow> read_result" where
  "vl_read a rx =
     (if an_read_error a then Read_Error
      else if rx = [] then (if an_eof a then Read_Eof else Read_Error)
      else Read_Bytes (take READ_LEN rx))"

text \<open>What \<open>write\<close> takes of a text: nothing when it fails, and a first part when its result is short.\<close>

definition vl_written :: "vl_answers \<Rightarrow> byte list \<Rightarrow> byte list" where
  "vl_written a d = take (nat (an_write a (length d))) d"

text \<open>
  The statements after a successful read: \<open>printf\<close> reads the string too, before it is ended, and the
  result of \<open>write\<close> is not looked at.
\<close>

definition vl_reply :: "vl_answers \<Rightarrow> int \<Rightarrow> byte list \<Rightarrow> vl_state stmt" where
  "vl_reply a f d s =
     (let buf = d @ drop (length d) ((vl_buffer s)[0 := 0]) in
      if strlen buf = None then Inl Out_Of_Bounds
      else if \<not> length d < length buf then Inl Out_Of_Bounds
      else case str_toupper (buf[length d := 0]) of
        Inl e \<Rightarrow> Inl e
      | Inr up \<Rightarrow> (case strlen up of
          None \<Rightarrow> Inl Out_Of_Bounds
        | Some n \<Rightarrow> Inr (s\<lparr>vl_tx := (vl_tx s)(f := vl_tx s f @ vl_written a (take n up)),
            vl_buffer := replicate BUFFER_MAX_LEN 0\<rparr>)))"

definition vl_client_event :: "vl_answers \<Rightarrow> int \<Rightarrow> vl_state stmt" where
  "vl_client_event a f s0 =
     (let s = s0\<lparr>vl_edge := (vl_edge s0)(f := False)\<rparr> in
      case vl_read a (vl_rx s f) of
        Read_Error \<Rightarrow> Inr (s\<lparr>vl_buffer := (vl_buffer s)[0 := 0]\<rparr>)
      | Read_Eof \<Rightarrow> Inr (s\<lparr>vl_buffer := (vl_buffer s)[0 := 0], vl_watched := vl_watched s - {f}, vl_open := vl_open s - {f}\<rparr>)
      | Read_Bytes d \<Rightarrow> vl_reply a f d (s\<lparr>vl_rx := (vl_rx s)(f := drop (length d) (vl_rx s f))\<rparr>))"

text \<open>
  The original destination is only printed, when it is found; \<open>vl_printed\<close> counts these lines. The result of the last \<open>epoll_ctl\<close> is not looked at: when it fails, the connection stays open and
  is not watched.
\<close>

definition vl_accept_event :: "vl_answers \<Rightarrow> vl_state stmt" where
  "vl_accept_event a s = (case an_accept a (vl_client_len s) of (client, len) \<Rightarrow> Inr
     (if client < 0 then s
      else let s1 = s\<lparr>vl_client_len := Some len, vl_open := insert client (vl_open s),
                 vl_rx := (vl_rx s)(client := []), vl_tx := (vl_tx s)(client := []), vl_edge := (vl_edge s)(client := False)\<rparr>;
               s2 = (if an_origdst a None = 0 then s1\<lparr>vl_printed := vl_printed s1 + 1\<rparr> else s1)
           in if an_add a = 0 then s2\<lparr>vl_watched := insert client (vl_watched s2)\<rparr> else s2))"

text \<open>One event of a batch.\<close>

definition vl_event :: "int \<Rightarrow> vl_answers \<Rightarrow> int \<times> 32 word \<Rightarrow> vl_state stmt" where
  "vl_event listen_fd a e s = (case e of (f, ev) \<Rightarrow>
     if f = listen_fd then vl_accept_event a s
     else if ev AND 1 \<noteq> 0 then vl_client_event a f s
     else Inr s)"

text \<open>The loop over the events of one \<open>epoll_wait\<close>.\<close>

definition vl_batch :: "int \<Rightarrow> (vl_answers \<times> int \<times> 32 word) list \<Rightarrow> vl_state stmt" where
  "vl_batch listen_fd = run_batch (vl_event listen_fd)"

section \<open>The start of the program and its runs\<close>

definition SERVER_PORT :: "16 word" where
  "SERVER_PORT = 7778"

definition EPOLL_MAX_NUM :: nat where
  "EPOLL_MAX_NUM = 2048"

text \<open>
  The answers of \<open>socket\<close>, \<open>bind\<close> to a port in network order, \<open>listen\<close>, \<open>epoll_create\<close> and of
  \<open>epoll_ctl\<close> for the listening socket; \<open>vl_free_port\<close> is the port a socket that is not bound gets from
  \<open>listen\<close>.
\<close>

record vl_env =
  vl_socket :: int
  vl_bind :: "16 word \<Rightarrow> int"
  vl_listen :: int
  vl_free_port :: "16 word"
  vl_epoll_create :: int
  vl_epoll_add :: int

text \<open>
  The port, in network order, on which the socket listens after \<open>bind\<close> and \<open>listen\<close>, whose results are
  not looked at.
\<close>

definition vl_listen_port :: "vl_env \<Rightarrow> 16 word option" where
  "vl_listen_port env =
     (let bound = vl_bind env (htons SERVER_PORT) = 0 in
      if vl_listen env \<noteq> 0 then None
      else Some (if bound then htons SERVER_PORT else vl_free_port env))"

text \<open>\<open>main\<close> up to the loop; \<open>None\<close> when it goes to \<open>END\<close>.\<close>

definition vl_main :: "vl_env \<Rightarrow> (16 word option \<times> vl_state) option" where
  "vl_main env =
     (if vl_epoll_create env < 0 then None
      else if vl_epoll_add env < 0 then None
      else Some (vl_listen_port env,
        \<lparr>vl_buffer = replicate BUFFER_MAX_LEN 0, vl_watched = {}, vl_open = {vl_socket env, vl_epoll_create env},
         vl_rx = (\<lambda>_. []), vl_edge = (\<lambda>_. False), vl_tx = (\<lambda>_. []), vl_client_len = None, vl_printed = 0\<rparr>))"

text \<open>Runs: data arrives on watched connections, and batches are handled.\<close>

inductive vl_reach :: "vl_env \<Rightarrow> vl_state \<Rightarrow> bool" for env where
  vl_start: "vl_main env = Some (port, s) \<Longrightarrow> vl_reach env s"
| vl_data: "vl_reach env s \<Longrightarrow> f \<in> vl_watched s \<Longrightarrow> vl_reach env (vl_arrive f d s)"
| vl_wait: "vl_reach env s \<Longrightarrow> batch_ok (insert (vl_socket env) (vl_watched s)) (map snd es) \<Longrightarrow>
    length es \<le> EPOLL_MAX_NUM \<Longrightarrow> vl_batch (vl_socket env) es s = Inr s' \<Longrightarrow> vl_reach env s'"

section \<open>Upper case\<close>

definition upper_prefix :: "nat \<Rightarrow> byte list \<Rightarrow> byte list" where
  "upper_prefix i s = map toupper (take i s) @ drop i s"

lemma upper_prefix_nth: "j < length s \<Longrightarrow> upper_prefix i s ! j = (if j < i then toupper (s ! j) else s ! j)"
  by (auto simp: upper_prefix_def nth_append)

lemma length_upper_prefix [simp]: "length (upper_prefix i s) = length s"
  by (simp add: upper_prefix_def)

lemma upper_prefix_step:
  assumes "i < length s"
  shows "(upper_prefix i s)[i := toupper (upper_prefix i s ! i)] = upper_prefix (Suc i) s"
  by (rule nth_equalityI) (use assms in \<open>auto simp: upper_prefix_nth nth_list_update\<close>)

text \<open>Converting letters does not move the end of the string.\<close>

lemma takeWhile_upper_prefix:
  "length (takeWhile (\<lambda>c. c \<noteq> 0) (upper_prefix i s)) = length (takeWhile (\<lambda>c. c \<noteq> 0) s)"
proof (induction s arbitrary: i)
  case (Cons c s)
  then show ?case by (cases i) (auto simp: upper_prefix_def toupper_eq_0_iff)
qed (simp add: upper_prefix_def)

lemma strlen_upper_prefix: "strlen (upper_prefix i s) = strlen s"
  by (simp add: strlen_def takeWhile_upper_prefix)

lemma str_toupper_from_eq:
  assumes "strlen s = Some n" and "i \<le> n"
  shows "str_toupper_from i (upper_prefix i s) = Inr (upper_prefix n s)"
  using assms(2)
proof (induction "n - i" arbitrary: i)
  case 0
  then show ?case using assms(1) by (subst str_toupper_from.simps) (simp add: strlen_upper_prefix)
next
  case (Suc k)
  then have i: "i < n" "i < length s" using strlen_bound [OF assms(1)] by auto
  have "str_toupper_from (Suc i) (upper_prefix (Suc i) s) = Inr (upper_prefix n s)"
    using Suc.hyps(1) [of "Suc i"] Suc.hyps(2) i(1) by simp
  then show ?case using assms(1) i upper_prefix_step [OF i(2)]
    by (subst str_toupper_from.simps) (simp add: strlen_upper_prefix)
qed

lemma str_toupper_eq:
  assumes "strlen s = Some n"
  shows "str_toupper s = Inr (map toupper (take n s) @ drop n s)"
  using str_toupper_from_eq [OF assms, of 0] by (simp add: str_toupper_def upper_prefix_def)

section \<open>Invariant and properties\<close>

text \<open>Between events the global buffer is all zeros.\<close>

definition vl_inv :: "vl_state \<Rightarrow> bool" where
  "vl_inv s \<longleftrightarrow> vl_buffer s = replicate BUFFER_MAX_LEN 0"

lemma takeWhile_zero: "takeWhile (\<lambda>c. c \<noteq> 0) (d @ replicate n (0 :: byte)) = takeWhile (\<lambda>c. c \<noteq> 0) d"
  by (induction d) (auto simp: takeWhile_replicate)

lemma strlen_padded: "0 < n \<Longrightarrow> strlen (d @ replicate n 0) = Some (length (takeWhile (\<lambda>c. c \<noteq> 0) d))"
  using length_takeWhile_le [of "\<lambda>c. c \<noteq> 0" d] by (simp add: strlen_def takeWhile_zero)

lemma vl_reply_eq:
  assumes inv: "vl_inv s" and d: "length d < BUFFER_MAX_LEN"
  shows "vl_reply a f d s = Inr (s\<lparr>vl_tx := (vl_tx s)(f := vl_tx s f @ vl_written a (map toupper (takeWhile (\<lambda>c. c \<noteq> 0) d)))\<rparr>)"
proof -
  let ?k = "BUFFER_MAX_LEN - length d"
  let ?buf = "d @ replicate ?k 0"
  let ?n = "length (takeWhile (\<lambda>c. c \<noteq> 0) d)"
  let ?up = "map toupper (take ?n ?buf) @ drop ?n ?buf"
  have z: "(vl_buffer s)[0 := 0] = replicate BUFFER_MAX_LEN 0"
    using inv by (auto simp: vl_inv_def list_eq_iff_nth_eq nth_list_update)
  have b: "d @ drop (length d) ((vl_buffer s)[0 := 0]) = ?buf" using z by simp
  have e: "?buf[length d := 0] = ?buf" using d by (auto simp: list_eq_iff_nth_eq nth_list_update nth_append)
  have n: "strlen ?buf = Some ?n" using strlen_padded d by simp
  then have up: "str_toupper ?buf = Inr ?up" using str_toupper_eq by blast
  have "strlen ?up = Some ?n" using n strlen_upper_prefix [of ?n ?buf] by (simp add: upper_prefix_def)
  moreover have "take ?n ?up = map toupper (takeWhile (\<lambda>c. c \<noteq> 0) d)"
    using length_takeWhile_le [of "\<lambda>c. c \<noteq> 0" d] by (simp add: takeWhile_eq_take [symmetric] take_map)
  ultimately show ?thesis
    unfolding vl_reply_def Let_def b e up sum.case using n d inv by (cases s) (simp add: vl_inv_def)
qed

text \<open>A system on which every call succeeds, and a run in which connection 7 has been accepted.\<close>

definition ex_vl_env :: vl_env where
  "ex_vl_env = \<lparr>vl_socket = 3, vl_bind = (\<lambda>_. 0), vl_listen = 0, vl_free_port = 0, vl_epoll_create = 4, vl_epoll_add = 0\<rparr>"

definition ex_ans :: vl_answers where
  "ex_ans = \<lparr>an_accept = (\<lambda>_. (7, 16)), an_origdst = (\<lambda>_. - 1), an_add = 0, an_eof = False, an_read_error = False,
     an_write = int\<rparr>"

definition ex_vl :: vl_state where
  "ex_vl = \<lparr>vl_buffer = replicate BUFFER_MAX_LEN 0, vl_watched = {7}, vl_open = {7, 3, 4}, vl_rx = (\<lambda>_. []),
     vl_edge = (\<lambda>_. False), vl_tx = (\<lambda>_. []), vl_client_len = Some 16, vl_printed = 0\<rparr>"

lemma ex_vl_reach: "vl_reach ex_vl_env ex_vl"
proof -
  let ?s = "ex_vl\<lparr>vl_watched := {}, vl_open := {3, 4}, vl_client_len := None\<rparr>"
  have "vl_reach ex_vl_env ?s"
    by (rule vl_start [of _ "vl_listen_port ex_vl_env"]) (simp add: vl_main_def ex_vl_env_def ex_vl_def)
  then show ?thesis
    by (rule vl_wait [where es = "[(ex_ans, 3, 1)]"])
      (simp_all add: vl_batch_def vl_event_def vl_accept_event_def ex_ans_def ex_vl_env_def ex_vl_def batch_ok_def
        EPOLL_MAX_NUM_def fun_upd_idem)
qed

text \<open>What one event of a connection writes and reads.\<close>

definition vl_answer :: "vl_answers \<Rightarrow> byte list \<Rightarrow> byte list" where
  "vl_answer a rx = vl_written a (map toupper (takeWhile (\<lambda>c. c \<noteq> 0) (take READ_LEN rx)))"

lemma vl_answer_Nil [simp]: "vl_answer a [] = []"
  by (simp add: vl_answer_def vl_written_def)

lemma vl_client_event_inv:
  assumes inv: "vl_inv s"
  shows "\<exists>s'. vl_client_event a f s = Inr s' \<and> vl_inv s' \<and> vl_edge s' = (vl_edge s)(f := False) \<and>
    vl_tx s' = (if an_read_error a then vl_tx s else (vl_tx s)(f := vl_tx s f @ vl_answer a (vl_rx s f))) \<and>
    vl_rx s' = (if an_read_error a then vl_rx s else (vl_rx s)(f := drop READ_LEN (vl_rx s f))) \<and>
    vl_watched s' = (if vl_read a (vl_rx s f) = Read_Eof then vl_watched s - {f} else vl_watched s) \<and>
    vl_open s' = (if vl_read a (vl_rx s f) = Read_Eof then vl_open s - {f} else vl_open s)"
proof (cases "an_read_error a \<or> vl_rx s f = []")
  case True
  have "(vl_buffer s)[0 := 0] = vl_buffer s"
    using inv by (auto simp: vl_inv_def list_eq_iff_nth_eq nth_list_update)
  then show ?thesis using True inv
    by (auto simp: vl_client_event_def vl_read_def Let_def vl_inv_def fun_upd_idem)
next
  case False
  let ?d = "take READ_LEN (vl_rx s f)"
  let ?s = "s\<lparr>vl_edge := (vl_edge s)(f := False), vl_rx := (vl_rx s)(f := drop (length ?d) (vl_rx s f))\<rparr>"
  have "vl_inv ?s" "length ?d < BUFFER_MAX_LEN" using inv by (auto simp: vl_inv_def READ_LEN_def BUFFER_MAX_LEN_def)
  then have "vl_reply a f ?d ?s = Inr (?s\<lparr>vl_tx := (vl_tx s)(f := vl_tx s f @ vl_answer a (vl_rx s f))\<rparr>)"
    using vl_reply_eq by (simp add: vl_answer_def)
  moreover have "drop (length ?d) (vl_rx s f) = drop READ_LEN (vl_rx s f)" by (simp add: min_def)
  ultimately show ?thesis using False \<open>vl_inv ?s\<close>
    by (simp add: vl_client_event_def vl_read_def Let_def vl_inv_def)
qed

text \<open>A batch is handled to its end: the loop is an instance of the contract in \<open>Event_Batch\<close>.\<close>

interpretation vl: batch_loop "vl_event listen_fd" "\<lambda>s. insert listen_fd (vl_watched s)" vl_inv "\<lambda>s f a. True"
  for listen_fd
proof unfold_locales
  fix s f a ev
  assume "vl_inv s"
  then have "\<exists>s'. vl_event listen_fd a (f, ev) s = Inr s' \<and> vl_inv s' \<and> vl_watched s - {f} \<subseteq> vl_watched s'"
    using vl_client_event_inv [of s a f]
    by (auto simp: vl_event_def vl_accept_event_def vl_inv_def Let_def split: prod.split)
  then show "\<exists>s'. vl_event listen_fd a (f, ev) s = Inr s' \<and> vl_inv s' \<and>
      insert listen_fd (vl_watched s) - {f} \<subseteq> insert listen_fd (vl_watched s')"
    by auto
qed

lemma vl_batch_runs:
  assumes "vl_inv s" and "batch_ok (insert listen_fd (vl_watched s)) (map snd es)"
  shows "\<exists>s'. vl_batch listen_fd es s = Inr s' \<and> vl_inv s'"
  using vl.run_all [OF assms] by (simp add: vl_batch_def)

lemma vl_reach_inv: "vl_reach env s \<Longrightarrow> vl_inv s"
proof (induction rule: vl_reach.induct)
  case (vl_start port s)
  then show ?case by (auto simp: vl_main_def vl_inv_def split: if_splits)
next
  case (vl_data s f d)
  then show ?case by (simp add: vl_inv_def vl_arrive_def)
next
  case (vl_wait s es s')
  then show ?case using vl_batch_runs by fastforce
qed

text \<open>
  C22 (\<open>str_toupper\<close>). On a terminated string, the loop that asks for \<open>strlen\<close> in every round ends
  and converts exactly the characters before the terminator; without one it reads past the array.
\<close>

theorem str_toupper_correct:
  "str_toupper s = (case strlen s of None \<Rightarrow> Inl Out_Of_Bounds
     | Some n \<Rightarrow> Inr (map toupper (take n s) @ drop n s))"
  by (auto simp: str_toupper_eq split: option.split) (subst str_toupper_def, subst str_toupper_from.simps, simp)

text \<open>
  C23 (an event of a connection). In every run from \<open>main\<close>, whatever batches, data and answers of the system came
  before, a batch is handled to its end. Handling a readable connection answers what it read, at most five
  bytes and only up to the first zero byte, in upper case: all of it if \<open>write\<close> takes all of it, otherwise
  the part that \<open>write\<close> took, and the rest is lost. The rest of the five bytes is dropped, and what is
  behind them stays unread. At the end of file the connection is closed; a \<open>read\<close> that fails changes nothing.
\<close>

theorem vl_run_replies:
  assumes "vl_reach env s"
  shows "(batch_ok (insert (vl_socket env) (vl_watched s)) (map snd es) \<longrightarrow> (\<exists>s'. vl_batch (vl_socket env) es s = Inr s')) \<and>
    (f \<noteq> vl_socket env \<and> ev AND 1 \<noteq> 0 \<longrightarrow> (\<exists>s'. vl_event (vl_socket env) a (f, ev) s = Inr s' \<and>
      (let reply = map toupper (takeWhile (\<lambda>c. c \<noteq> 0) (take READ_LEN (vl_rx s f))) in
       if an_read_error a then vl_tx s' = vl_tx s \<and> vl_rx s' = vl_rx s \<and> vl_open s' = vl_open s
       else vl_tx s' = (vl_tx s)(f := vl_tx s f @ vl_written a reply) \<and>
         (int (length reply) \<le> an_write a (length reply) \<longrightarrow> vl_tx s' = (vl_tx s)(f := vl_tx s f @ reply)) \<and>
         vl_rx s' = (vl_rx s)(f := drop READ_LEN (vl_rx s f)) \<and>
         (f \<in> vl_open s' \<longleftrightarrow> f \<in> vl_open s \<and> \<not> (vl_rx s f = [] \<and> an_eof a)))))"
proof (intro conjI impI)
  note inv = vl_reach_inv [OF assms]
  show "\<exists>s'. vl_batch (vl_socket env) es s = Inr s'"
    if "batch_ok (insert (vl_socket env) (vl_watched s)) (map snd es)"
    using vl_batch_runs [OF inv that] by blast
  let ?r = "map toupper (takeWhile (\<lambda>c. c \<noteq> 0) (take READ_LEN (vl_rx s f)))"
  have w: "vl_written a ?r = ?r" if "int (length ?r) \<le> an_write a (length ?r)"
    using that by (simp add: vl_written_def nat_le_iff le_nat_iff)
  assume "f \<noteq> vl_socket env \<and> ev AND 1 \<noteq> 0"
  then have "vl_event (vl_socket env) a (f, ev) s = vl_client_event a f s" by (auto simp: vl_event_def)
  then show "\<exists>s'. vl_event (vl_socket env) a (f, ev) s = Inr s' \<and>
      (let reply = ?r in
       if an_read_error a then vl_tx s' = vl_tx s \<and> vl_rx s' = vl_rx s \<and> vl_open s' = vl_open s
       else vl_tx s' = (vl_tx s)(f := vl_tx s f @ vl_written a reply) \<and>
         (int (length reply) \<le> an_write a (length reply) \<longrightarrow> vl_tx s' = (vl_tx s)(f := vl_tx s f @ reply)) \<and>
         vl_rx s' = (vl_rx s)(f := drop READ_LEN (vl_rx s f)) \<and>
         (f \<in> vl_open s' \<longleftrightarrow> f \<in> vl_open s \<and> \<not> (vl_rx s f = [] \<and> an_eof a)))"
    using vl_client_event_inv [OF inv, of a f] w
    by (cases "an_read_error a") (auto simp: Let_def vl_answer_def vl_read_def)
qed

theorem vl_run_replies_witness:
  "(\<exists>s'. vl_batch 3 [(ex_ans, 7, 1), (ex_ans, 3, 1)] (vl_arrive 7 [104, 105, 0, 106, 107, 108] ex_vl) = Inr s') \<and>
   (\<exists>s'. vl_event 3 ex_ans (7, 1) (vl_arrive 7 [104, 105, 0, 106, 107, 108] ex_vl) = Inr s' \<and>
    vl_tx s' 7 = [72, 73] \<and> vl_rx s' 7 = [108])"
proof -
  have s: "vl_socket ex_vl_env = 3" by (simp add: ex_vl_env_def)
  have r: "vl_reach ex_vl_env (vl_arrive 7 [104, 105, 0, 106, 107, 108] ex_vl)"
    by (rule vl_data [OF ex_vl_reach]) (simp add: ex_vl_def)
  show ?thesis
    using vl_run_replies [OF r, of "[(ex_ans, 7, 1), (ex_ans, 3, 1)]" 7 1 ex_ans]
    by (auto simp: s batch_ok_def vl_arrive_def ex_vl_def ex_ans_def READ_LEN_def toupper_def vl_written_def Let_def)
qed



end
