(* ===== verification/Echo_Server.thy ===== *)
theory Echo_Server
  imports Libevent
begin

text \<open>
  The libevent echo server of \<open>test/zero_copy/echo_server.cpp\<close>: the accept callback, the read
  callback that moves a connection's input to its own output, the write callback that ends
  throttling, and the event callback. Runs are a step relation in which libevent reads, writes and
  calls the installed callbacks; \<open>es_taken\<close> and \<open>es_given\<close> record the bytes read from and written to
  each connection.
\<close>

section \<open>Callbacks\<close>

datatype es_cb = Es_Read | Es_Drained | Es_Event

text \<open>The callback argument: the event base, a bufferevent or null. No callback uses it.\<close>

datatype es_arg = Es_Base event_base | Es_Bev bev | Es_Null

type_synonym es_heap = "(es_cb, es_arg) heap"
type_synonym es_lib = "(es_cb, es_arg) libevent"
type_synonym es_bev = "(es_cb, es_arg) bufferevent"

definition ES_MAX_OUTPUT :: nat where
  "ES_MAX_OUTPUT = 4 * 1024 * 1024"

definition accept_cb2 :: "es_lib \<Rightarrow> event_base \<Rightarrow> evutil_socket_t \<Rightarrow> es_heap \<Rightarrow> (bev \<times> es_heap) res" where
  "accept_cb2 L base sockfd h = (case le_socket_new L base sockfd BEV_OPT_CLOSE_ON_FREE h of
      (None, h) \<Rightarrow> Inl Null_Deref
    | (Some b, h) \<Rightarrow> map_sum id (\<lambda>h. (b, h)) (exec
        [bufferevent_setcb L b (Some Es_Read) None (Some Es_Event) (Es_Base base),
         bufferevent_enable L b (EV_READ OR EV_PERSIST)] h))"

definition es_drained_writecb :: "es_lib \<Rightarrow> bev \<Rightarrow> es_heap stmt" where
  "es_drained_writecb L b = exec
     [bufferevent_setcb L b (Some Es_Read) None (Some Es_Event) Es_Null,
      bufferevent_setwatermark L b EV_WRITE 0 0,
      bufferevent_enable L b EV_READ]"

definition sockert_read_cb2 :: "es_lib \<Rightarrow> bev \<Rightarrow> es_heap stmt" where
  "sockert_read_cb2 L b = exec
     [evbuffer_add_buffer L (Output_Of b) (Input_Of b),
      with_length L (Output_Of b) (\<lambda>n. when_stmt (n \<ge> ES_MAX_OUTPUT)
        [bufferevent_setcb L b None (Some Es_Drained) (Some Es_Event) (Es_Bev b),
         bufferevent_setwatermark L b EV_WRITE (ES_MAX_OUTPUT div 2) ES_MAX_OUTPUT,
         bufferevent_disable L b EV_READ])]"

definition event_cb2 :: "es_lib \<Rightarrow> bev \<Rightarrow> flags \<Rightarrow> es_heap stmt" where
  "event_cb2 L b event = bufferevent_free L b"

text \<open>\<open>tcp_server_init2\<close> with the results of \<open>socket\<close>, \<open>bind\<close> and \<open>listen\<close>: the listener, and the closed descriptor.\<close>

definition tcp_server_init2 :: "evutil_socket_t \<Rightarrow> int \<Rightarrow> int \<Rightarrow> evutil_socket_t \<times> evutil_socket_t option" where
  "tcp_server_init2 sock bound listening =
     (if sock = - 1 then (- 1, None)
      else if bound < 0 then (- 1, Some sock)
      else if listening < 0 then (- 1, Some sock)
      else (sock, None))"

section \<open>Runs\<close>

record es_state =
  es_bevs :: es_heap
  es_taken :: "bev \<Rightarrow> byte list"
  es_given :: "bev \<Rightarrow> byte list"

datatype es_action = Es_In bev "byte list" | Es_Out bev "byte list" | Es_Run_Read bev | Es_Run_Write bev
  | Es_Run_Event bev flags | Es_Accept evutil_socket_t

definition es_after :: "es_state \<Rightarrow> es_heap res \<Rightarrow> es_state res" where
  "es_after s r = map_sum id (\<lambda>h. s\<lparr>es_bevs := h\<rparr>) r"

definition es_new :: "es_state \<Rightarrow> (bev \<times> es_heap) res \<Rightarrow> es_state res" where
  "es_new s r = map_sum id (\<lambda>(b, h). s\<lparr>es_bevs := h, es_taken := (es_taken s)(b := []),
     es_given := (es_given s)(b := [])\<rparr>) r"

inductive es_step :: "es_lib \<Rightarrow> es_state \<Rightarrow> es_action \<Rightarrow> es_state res \<Rightarrow> bool" for L where
  es_in: "es_bevs s b = Some x \<Longrightarrow> has_flag (enabled x) EV_READ \<Longrightarrow>
    es_step L s (Es_In b d) (Inr (s\<lparr>es_bevs := (es_bevs s)(b \<mapsto> x\<lparr>inbuf := inbuf x @ d\<rparr>),
      es_taken := (es_taken s)(b := es_taken s b @ d)\<rparr>))"
| es_out: "es_bevs s b = Some x \<Longrightarrow> outbuf x = d @ rest \<Longrightarrow>
    es_step L s (Es_Out b d) (Inr (s\<lparr>es_bevs := (es_bevs s)(b \<mapsto> x\<lparr>outbuf := rest\<rparr>),
      es_given := (es_given s)(b := es_given s b @ d)\<rparr>))"
| es_run_read: "es_bevs s b = Some x \<Longrightarrow> bev_readcb x = Some Es_Read \<Longrightarrow>
    es_step L s (Es_Run_Read b) (es_after s (sockert_read_cb2 L b (es_bevs s)))"
| es_run_write: "es_bevs s b = Some x \<Longrightarrow> bev_writecb x = Some Es_Drained \<Longrightarrow>
    length (outbuf x) \<le> low (wm_write x) \<Longrightarrow>
    es_step L s (Es_Run_Write b) (es_after s (es_drained_writecb L b (es_bevs s)))"
| es_run_event: "es_bevs s b = Some x \<Longrightarrow> bev_errorcb x = Some Es_Event \<Longrightarrow>
    es_step L s (Es_Run_Event b what) (es_after s (event_cb2 L b what (es_bevs s)))"
| es_accept: "es_step L s (Es_Accept sockfd) (es_new s (accept_cb2 L base sockfd (es_bevs s)))"

definition es_init :: es_state where
  "es_init = \<lparr>es_bevs = (\<lambda>_. None), es_taken = (\<lambda>_. []), es_given = (\<lambda>_. [])\<rparr>"

inductive es_reachable :: "es_lib \<Rightarrow> es_state \<Rightarrow> bool" for L where
  es_start: "es_reachable L es_init"
| es_next: "es_reachable L s \<Longrightarrow> es_step L s a (Inr s') \<Longrightarrow> es_reachable L s'"

section \<open>Invariant\<close>

text \<open>A connection is read with its output below the bound, or it is throttled with no input left.\<close>

definition es_reading :: "es_bev \<Rightarrow> bool" where
  "es_reading x \<longleftrightarrow> has_flag (enabled x) EV_READ \<and> bev_readcb x = Some Es_Read \<and> bev_writecb x = None \<and>
     length (outbuf x) < ES_MAX_OUTPUT"

definition es_throttled :: "es_bev \<Rightarrow> bool" where
  "es_throttled x \<longleftrightarrow> \<not> has_flag (enabled x) EV_READ \<and> bev_readcb x = None \<and> bev_writecb x = Some Es_Drained \<and>
     inbuf x = [] \<and> low (wm_write x) = ES_MAX_OUTPUT div 2"

definition es_conn :: "es_state \<Rightarrow> bev \<Rightarrow> es_bev \<Rightarrow> bool" where
  "es_conn s b x \<longleftrightarrow> bev_errorcb x = Some Es_Event \<and> (es_reading x \<or> es_throttled x) \<and>
     es_taken s b = es_given s b @ outbuf x @ inbuf x"

definition es_inv :: "es_state \<Rightarrow> bool" where
  "es_inv s \<longleftrightarrow> (\<forall>b x. es_bevs s b = Some x \<longrightarrow> es_conn s b x)"

lemma es_inv_upd:
  assumes "es_inv s" and "es_conn s' b x" and "es_bevs s' = (es_bevs s)(b \<mapsto> x)"
    and "\<And>c. c \<noteq> b \<Longrightarrow> es_taken s' c = es_taken s c \<and> es_given s' c = es_given s c"
  shows "es_inv s'"
  using assms unfolding es_inv_def es_conn_def by (auto split: if_splits)

lemma es_conn_bevs [simp]: "es_conn (s\<lparr>es_bevs := h\<rparr>) b x = es_conn s b x"
  by (simp add: es_conn_def)

lemma es_inv_heap: "es_inv s \<Longrightarrow> es_conn s b x \<Longrightarrow> es_inv (s\<lparr>es_bevs := (es_bevs s)(b \<mapsto> x)\<rparr>)"
  by (rule es_inv_upd [where b = b and x = x]) simp_all

text \<open>What the two callbacks make of a connection.\<close>

definition es_after_read :: "bev \<Rightarrow> es_bev \<Rightarrow> es_bev" where
  "es_after_read b x = (if ES_MAX_OUTPUT \<le> length (outbuf x @ inbuf x)
     then x\<lparr>outbuf := outbuf x @ inbuf x, inbuf := [], bev_readcb := None, bev_writecb := Some Es_Drained,
       bev_errorcb := Some Es_Event, bev_cbarg := Es_Bev b,
       wm_write := \<lparr>low = ES_MAX_OUTPUT div 2, high = ES_MAX_OUTPUT\<rparr>, enabled := clear_flag (enabled x) EV_READ\<rparr>
     else x\<lparr>outbuf := outbuf x @ inbuf x, inbuf := []\<rparr>)"

definition es_after_drained :: "es_bev \<Rightarrow> es_bev" where
  "es_after_drained x = x\<lparr>bev_readcb := Some Es_Read, bev_writecb := None,
    bev_errorcb := Some Es_Event, bev_cbarg := Es_Null, wm_write := \<lparr>low = 0, high = 0\<rparr>,
    enabled := set_flag (enabled x) EV_READ\<rparr>"

definition es_accepted_bev :: "event_base \<Rightarrow> es_bev \<Rightarrow> es_bev" where
  "es_accepted_bev base x = x\<lparr>bev_readcb := Some Es_Read, bev_errorcb := Some Es_Event,
     bev_cbarg := Es_Base base, enabled := set_flag (enabled x) (EV_READ OR EV_PERSIST)\<rparr>"

lemma es_inv_accepted:
  assumes inv: "es_inv s" and x: "fresh_bev x"
  shows "es_inv (s\<lparr>es_bevs := (es_bevs s)(b \<mapsto> es_accepted_bev base x), es_taken := (es_taken s)(b := []),
     es_given := (es_given s)(b := [])\<rparr>)" (is "es_inv ?s")
proof (rule es_inv_upd [OF inv, where b = b and x = "es_accepted_bev base x"])
  have "has_flag (EV_READ OR EV_PERSIST) EV_READ" by (simp add: has_flag_def)
  moreover have "0 < ES_MAX_OUTPUT" by (simp add: ES_MAX_OUTPUT_def)
  ultimately show "es_conn ?s b (es_accepted_bev base x)"
    using x by (simp add: es_conn_def es_reading_def es_accepted_bev_def fresh_bev_def has_set_flag)
qed simp_all

lemma es_conn_after_read: "es_conn s b x \<Longrightarrow> bev_readcb x = Some Es_Read \<Longrightarrow> es_conn s b (es_after_read b x)"
  by (auto simp: es_conn_def es_after_read_def es_reading_def es_throttled_def)

lemma es_conn_after_drained:
  assumes "es_conn s b x" and "bev_writecb x = Some Es_Drained" and "length (outbuf x) \<le> low (wm_write x)"
  shows "es_conn s b (es_after_drained x)"
proof -
  have "ES_MAX_OUTPUT div 2 < ES_MAX_OUTPUT" by (simp add: ES_MAX_OUTPUT_def)
  then show ?thesis using assms
    by (auto simp: es_conn_def es_after_drained_def es_reading_def es_throttled_def)
qed

locale echo_lib = libevent_lib L for L :: es_lib
begin

lemma read_eq: "h b = Some x \<Longrightarrow> sockert_read_cb2 L b h = Inr (h(b \<mapsto> es_after_read b x))"
  by (auto simp: sockert_read_cb2_def api_simps es_after_read_def)

lemma drained_eq: "h b = Some x \<Longrightarrow> es_drained_writecb L b h = Inr (h(b \<mapsto> es_after_drained x))"
  by (auto simp: es_drained_writecb_def api_simps es_after_drained_def)

lemma accept_eq:
  "accept_cb2 L base sockfd h = Inl Null_Deref \<or>
   (\<exists>b x. h b = None \<and> fresh_bev x \<and> accept_cb2 L base sockfd h = Inr (b, h(b \<mapsto> es_accepted_bev base x)))"
proof -
  obtain r h' where n: "le_socket_new L base sockfd BEV_OPT_CLOSE_ON_FREE h = (r, h')" by fastforce
  show ?thesis
  proof (cases r)
    case None
    then show ?thesis using n by (simp add: accept_cb2_def)
  next
    case (Some b)
    then obtain x where x: "h b = None" "fresh_bev x" "h' = h(b \<mapsto> x)" using socket_new_some n by blast
    then have w: "bev_writecb x = None" by (simp add: fresh_bev_def)
    have "accept_cb2 L base sockfd h = Inr (b, h(b \<mapsto> es_accepted_bev base x))"
      using n Some x w by (cases x) (simp add: accept_cb2_def api_simps es_accepted_bev_def)
    then show ?thesis using x by blast
  qed
qed

lemma event_eq: "h b = Some x \<Longrightarrow> event_cb2 L b what h = Inr (h(b := None))"
  by (simp add: event_cb2_def api_simps)

lemma step_inv:
  assumes step: "es_step L s a r" and inv: "es_inv s"
  shows "(\<exists>s'. r = Inr s' \<and> es_inv s') \<or> (r = Inl Null_Deref \<and> (\<exists>fd. a = Es_Accept fd))"
  using step
proof cases
  case (es_in b x d)
  have "es_conn s b x" using inv es_in by (simp add: es_inv_def)
  then show ?thesis using es_in
    by (auto intro!: es_inv_upd [OF inv] simp: es_conn_def es_reading_def es_throttled_def)
next
  case (es_out b x d rest)
  have "es_conn s b x" using inv es_out by (simp add: es_inv_def)
  then show ?thesis using es_out
    by (auto intro!: es_inv_upd [OF inv, where b = b and x = "x\<lparr>outbuf := rest\<rparr>"]
        simp: es_conn_def es_reading_def es_throttled_def)
next
  case (es_run_read b x)
  have "es_conn s b (es_after_read b x)" using inv es_run_read es_conn_after_read by (simp add: es_inv_def)
  then show ?thesis using es_run_read read_eq [of "es_bevs s" b x] es_inv_heap [OF inv] by (simp add: es_after_def)
next
  case (es_run_write b x)
  have "es_conn s b (es_after_drained x)" using inv es_run_write es_conn_after_drained by (simp add: es_inv_def)
  then show ?thesis using es_run_write drained_eq [of "es_bevs s" b x] es_inv_heap [OF inv] by (simp add: es_after_def)
next
  case (es_run_event b x what)
  then have "r = Inr (s\<lparr>es_bevs := (es_bevs s)(b := None)\<rparr>)" by (simp add: es_after_def event_cb2_def api_simps)
  then show ?thesis using inv by (auto simp: es_inv_def es_conn_def)
next
  case (es_accept sockfd base)
  then show ?thesis using accept_eq [of base sockfd "es_bevs s"] es_inv_accepted [OF inv]
    by (auto simp: es_new_def)
qed

lemma reachable_inv: "es_reachable L s \<Longrightarrow> es_inv s"
proof (induction rule: es_reachable.induct)
  case es_start
  then show ?case by (simp add: es_inv_def es_init_def)
next
  case (es_next s a s')
  then show ?case using step_inv by blast
qed

lemma map_sum_InrE: "Inr y = map_sum f g r \<Longrightarrow> (\<And>z. r = Inr z \<Longrightarrow> y = g z \<Longrightarrow> P) \<Longrightarrow> P"
  by (cases r) auto

text \<open>What was given to a connection is a part of what was taken from it, also once it is released.\<close>

lemma step_prefix:
  assumes step: "es_step L s a (Inr s')" and inv: "es_inv s" and pre: "\<exists>rest. es_taken s b = es_given s b @ rest"
  shows "\<exists>rest. es_taken s' b = es_given s' b @ rest"
  using step
proof cases
  case (es_out c x d rest)
  then have "es_taken s c = es_given s c @ d @ rest @ inbuf x" using inv by (auto simp: es_inv_def es_conn_def)
  then show ?thesis using es_out pre by auto
qed (use pre in \<open>auto simp: es_after_def es_new_def elim!: map_sum_InrE\<close>)

lemma reachable_prefix: "es_reachable L s \<Longrightarrow> \<exists>rest. es_taken s b = es_given s b @ rest"
proof (induction rule: es_reachable.induct)
  case es_start
  then show ?case by (simp add: es_init_def)
next
  case (es_next s a s')
  then show ?case using step_prefix reachable_inv by blast
qed

end

interpretation es_ref: echo_lib "libevent_ref c" for c
  by unfold_locales

section \<open>Properties\<close>

abbreviation es_ref_lib :: es_lib where
  "es_ref_lib \<equiv> libevent_ref Es_Null"

definition ex_es_conn :: es_bev where
  "ex_es_conn = es_accepted_bev 10 (new_bev Es_Null 10 7)"

text \<open>One connection, which has sent two bytes; then the read callback has run.\<close>

definition ex_es_accepted :: es_state where
  "ex_es_accepted = \<lparr>es_bevs = [1 \<mapsto> ex_es_conn], es_taken = (\<lambda>_. [])(1 := []), es_given = (\<lambda>_. [])(1 := [])\<rparr>"

definition ex_es_received :: es_state where
  "ex_es_received = \<lparr>es_bevs = [1 \<mapsto> ex_es_conn\<lparr>inbuf := [104, 105]\<rparr>],
     es_taken = (\<lambda>_. [])(1 := [104, 105]), es_given = (\<lambda>_. [])(1 := [])\<rparr>"

definition ex_es_echoed :: es_state where
  "ex_es_echoed = ex_es_received\<lparr>es_bevs := [1 \<mapsto> ex_es_conn\<lparr>inbuf := [], outbuf := [104, 105]\<rparr>]\<rparr>"

lemma es_ref_lib_ok: "echo_lib es_ref_lib"
  by (rule es_ref.echo_lib_axioms)

lemma ex_es_fields: "inbuf ex_es_conn = []" "outbuf ex_es_conn = []" "has_flag (enabled ex_es_conn) EV_READ"
  "bev_readcb ex_es_conn = Some Es_Read" "bev_errorcb ex_es_conn = Some Es_Event"
  by (simp_all add: ex_es_conn_def es_accepted_bev_def new_bev_def set_flag_def has_flag_def)

lemma ex_es_reachable: "es_reachable es_ref_lib ex_es_echoed"
proof -
  have "accept_cb2 es_ref_lib 10 7 (es_bevs es_init) = Inr (1, [1 \<mapsto> ex_es_conn])"
    by (simp add: accept_cb2_def es_init_def libevent_ref_def alloc_bev_def bev_pool_def bufferevent_setcb_def
        bufferevent_enable_def on_live_def upd_bev_def ex_es_conn_def es_accepted_bev_def new_bev_def)
  then have "es_step es_ref_lib es_init (Es_Accept 7) (Inr ex_es_accepted)"
    using es_accept [of es_ref_lib es_init 7 10] by (simp add: es_new_def ex_es_accepted_def es_init_def)
  then have a: "es_reachable es_ref_lib ex_es_accepted" using es_next [OF es_start] by blast
  have "es_step es_ref_lib ex_es_accepted (Es_In 1 [104, 105]) (Inr ex_es_received)"
    using es_in [of ex_es_accepted 1 ex_es_conn es_ref_lib "[104, 105]"] ex_es_fields
    by (simp add: ex_es_accepted_def ex_es_received_def)
  then have r: "es_reachable es_ref_lib ex_es_received" using es_next [OF a] by blast
  have x: "es_bevs ex_es_received 1 = Some (ex_es_conn\<lparr>inbuf := [104, 105]\<rparr>)" by (simp add: ex_es_received_def)
  have "es_after_read 1 (ex_es_conn\<lparr>inbuf := [104, 105]\<rparr>) = ex_es_conn\<lparr>inbuf := [], outbuf := [104, 105]\<rparr>"
    by (simp add: es_after_read_def ex_es_fields ES_MAX_OUTPUT_def)
  then have "es_step es_ref_lib ex_es_received (Es_Run_Read 1) (Inr ex_es_echoed)"
    using es_run_read [of ex_es_received 1 _ es_ref_lib, OF x] es_ref.read_eq [of "es_bevs ex_es_received" 1, OF x] ex_es_fields
    by (simp add: es_after_def ex_es_echoed_def) (simp add: ex_es_received_def)
  then show ?thesis using es_next [OF r] by blast
qed

text \<open>
  C24 (echo server: integrity and back pressure). In every reachable state, what was given back to a
  connection is the beginning of what was taken from it, also after it was released. While it is not
  released, the rest is exactly its output followed by its input; if it is read, it has less than
  \<open>MAX_OUTPUT\<close> bytes of output, and if not, it has the callback and the low watermark that start reading
  again.
\<close>

theorem echo_server_integrity:
  assumes "echo_lib L" and "es_reachable L s"
  shows "case es_bevs s b of
      None \<Rightarrow> \<exists>rest. es_taken s b = es_given s b @ rest
    | Some x \<Rightarrow> es_taken s b = es_given s b @ outbuf x @ inbuf x \<and>
        (if has_flag (enabled x) EV_READ then length (outbuf x) < ES_MAX_OUTPUT
         else bev_writecb x = Some Es_Drained \<and> low (wm_write x) = ES_MAX_OUTPUT div 2)"
proof (cases "es_bevs s b")
  case None
  then show ?thesis using echo_lib.reachable_prefix [OF assms] by simp
next
  case (Some x)
  then have "es_conn s b x" using echo_lib.reachable_inv [OF assms] by (simp add: es_inv_def)
  then show ?thesis using Some by (auto simp: es_conn_def es_reading_def es_throttled_def)
qed

theorem echo_server_integrity_witness:
  "\<exists>x. es_bevs ex_es_echoed 1 = Some x \<and> es_taken ex_es_echoed 1 = es_given ex_es_echoed 1 @ outbuf x @ inbuf x \<and>
    es_taken ex_es_echoed 1 = [104, 105]"
proof -
  have x: "es_bevs ex_es_echoed 1 = Some (ex_es_conn\<lparr>inbuf := [], outbuf := [104, 105]\<rparr>)" by (simp add: ex_es_echoed_def)
  show ?thesis using x echo_server_integrity [OF es_ref_lib_ok ex_es_reachable, of 1]
    by (simp add: ex_es_echoed_def ex_es_received_def)
qed

text \<open>
  Echo server: end of file. The event callback releases the connection at once: the bytes that
  were taken but not given back, of which there are any whenever a buffer is not empty, are never
  sent.
\<close>

theorem echo_server_eof_drops:
  assumes "echo_lib L" and "es_reachable L s" and "es_bevs s b = Some x" and "outbuf x @ inbuf x \<noteq> []"
  shows "\<exists>s'. es_step L s (Es_Run_Event b BEV_EVENT_EOF) (Inr s') \<and> es_bevs s' b = None \<and>
    length (es_given s' b) < length (es_taken s' b)"
proof -
  have c: "es_conn s b x" using echo_lib.reachable_inv [OF assms(1,2)] assms(3) by (simp add: es_inv_def)
  have "event_cb2 L b BEV_EVENT_EOF (es_bevs s) = Inr ((es_bevs s)(b := None))"
    using echo_lib.event_eq [OF assms(1), of "es_bevs s" b x] assms(3) by simp
  then have "es_step L s (Es_Run_Event b BEV_EVENT_EOF) (Inr (s\<lparr>es_bevs := (es_bevs s)(b := None)\<rparr>))"
    using es_run_event [of s b x L BEV_EVENT_EOF] assms(3) c by (simp add: es_after_def es_conn_def)
  then show ?thesis using c assms(4)
    by (intro exI [of _ "s\<lparr>es_bevs := (es_bevs s)(b := None)\<rparr>"]) (auto simp: es_conn_def)
qed

theorem echo_server_eof_drops_witness:
  "\<exists>s'. es_step es_ref_lib ex_es_echoed (Es_Run_Event 1 BEV_EVENT_EOF) (Inr s') \<and> es_bevs s' 1 = None \<and>
    length (es_given s' 1) < length (es_taken s' 1)"
  by (rule echo_server_eof_drops [OF es_ref_lib_ok ex_es_reachable, where x = "ex_es_conn\<lparr>inbuf := [], outbuf := [104, 105]\<rparr>"])
    (simp_all add: ex_es_echoed_def)

end
