(* ===== verification/Splice_Echo.thy ===== *)
theory Splice_Echo
  imports C_Lib
begin

text \<open>
  The blocking \<open>splice\<close> echo program of \<open>test/event/splice_echo.cpp\<close>: one connection, one pipe, and a
  loop that moves up to \<open>LEN\<close> bytes into the pipe and then asks for as many to be moved out, without
  looking at how many were. The loop runs over the answers of the two calls, one pair per round, so
  that a run of any length is a list.
\<close>

section \<open>The program\<close>

definition SE_LEN :: nat where
  "SE_LEN = 655"

record se_state =
  se_pipe :: "byte list"
  se_taken :: "byte list"
  se_given :: "byte list"
  se_open :: "int set"

text \<open>The answers in one round: the bytes moved in (\<open>None\<close> for -1) and the result of moving out.\<close>

type_synonym se_round = "byte list option \<times> int"

definition se_close :: "int \<Rightarrow> se_state \<Rightarrow> se_state" where
  "se_close f s = s\<lparr>se_open := se_open s - {f}\<rparr>"

definition se_move :: "byte list \<Rightarrow> int \<Rightarrow> se_state \<Rightarrow> se_state" where
  "se_move d k s = (let p = se_pipe s @ d in
     s\<lparr>se_taken := se_taken s @ d, se_given := se_given s @ take (nat k) p, se_pipe := drop (nat k) p\<rparr>)"

text \<open>The loop, with the descriptors \<open>r\<close>, \<open>w\<close>, \<open>conn\<close>, \<open>sock\<close>: whether it has ended, and the state.\<close>

fun se_loop :: "int \<Rightarrow> int \<Rightarrow> int \<Rightarrow> int \<Rightarrow> se_round list \<Rightarrow> se_state \<Rightarrow> (bool \<times> se_state) res" where
  "se_loop r w conn sock [] s = Inr (False, s)"
| "se_loop r w conn sock ((n, k) # rounds) s = (case n of
      None \<Rightarrow> Inl (Exit 1)
    | Some d \<Rightarrow> if length d > 0 then se_loop r w conn sock rounds (se_move d k s)
        else Inr (True, se_close sock (se_close conn (se_close w (se_close r s)))))"

text \<open>
  \<open>main\<close>: the results of \<open>socket\<close>, \<open>bind\<close>, \<open>accept\<close> and \<open>pipe\<close>, then the loop. A failed \<open>pipe\<close>, whose result
  is not looked at, leaves \<open>pipefd\<close> unwritten, and the first \<open>splice\<close> of the loop reads it.
\<close>

definition se_main :: "string list \<Rightarrow> int \<Rightarrow> int \<Rightarrow> int \<Rightarrow> (int \<times> int) option \<Rightarrow> se_round list \<Rightarrow> (bool \<times> se_state) res" where
  "se_main args sock bound conn pipefd rounds =
     (if length args + 1 < 3 then Inl (Exit 1)
      else if bound = - 1 then Inl (Exit 1)
      else if conn = - 1 then Inl (Exit 1)
      else case pipefd of None \<Rightarrow> Inl Uninit_Read | Some (r, w) \<Rightarrow> se_loop r w conn sock rounds
        \<lparr>se_pipe = [], se_taken = [], se_given = [], se_open = {sock, conn, r, w}\<rparr>)"

section \<open>What \<open>splice\<close> documents\<close>

definition se_round_ok :: "se_round \<Rightarrow> bool" where
  "se_round_ok rd = (case rd of (n, k) \<Rightarrow> (case n of None \<Rightarrow> False
     | Some d \<Rightarrow> length d \<le> SE_LEN \<and> (k = - 1 \<or> 0 \<le> k \<and> k \<le> int (length d))))"

text \<open>All that was asked for is moved out.\<close>

definition se_round_full :: "se_round \<Rightarrow> bool" where
  "se_round_full rd = (case rd of (n, k) \<Rightarrow> k = int (case n of None \<Rightarrow> 0 | Some d \<Rightarrow> length d))"

definition se_eof :: "se_round list \<Rightarrow> bool" where
  "se_eof rounds \<longleftrightarrow> Some [] \<in> set (map fst rounds)"

section \<open>Runs\<close>

lemma se_move_stream:
  "se_taken s = se_given s @ se_pipe s \<Longrightarrow> se_taken (se_move d k s) = se_given (se_move d k s) @ se_pipe (se_move d k s)"
  by (simp add: se_move_def Let_def del: take_append drop_append)

lemma se_loop_runs:
  assumes "\<forall>rd \<in> set rounds. se_round_ok rd" and "se_taken s = se_given s @ se_pipe s"
    and "se_open s = {sock, conn, r, w}"
  shows "\<exists>s'. se_loop r w conn sock rounds s = Inr (se_eof rounds, s') \<and>
    se_taken s' = se_given s' @ se_pipe s' \<and> se_open s' = (if se_eof rounds then {} else {sock, conn, r, w}) \<and>
    ((\<forall>rd \<in> set rounds. se_round_full rd) \<and> se_pipe s = [] \<longrightarrow> se_pipe s' = [])"
  using assms
proof (induction rounds arbitrary: s)
  case Nil
  then show ?case by (simp add: se_eof_def)
next
  case (Cons rd rounds)
  obtain n k where rd: "rd = (n, k)" by (cases rd)
  obtain d where n: "n = Some d" using Cons.prems(1) rd by (auto simp: se_round_ok_def split: option.splits)
  show ?case
  proof (cases "d = []")
    case True
    then show ?thesis using Cons.prems rd n by (auto simp: se_eof_def se_close_def)
  next
    case False
    let ?s = "se_move d k s"
    have "se_open ?s = {sock, conn, r, w}" using Cons.prems(3) by (simp add: se_move_def Let_def)
    then obtain s' where s': "se_loop r w conn sock rounds ?s = Inr (se_eof rounds, s')"
      "se_taken s' = se_given s' @ se_pipe s'" "se_open s' = (if se_eof rounds then {} else {sock, conn, r, w})"
      "(\<forall>rd \<in> set rounds. se_round_full rd) \<and> se_pipe ?s = [] \<longrightarrow> se_pipe s' = []"
      using Cons.IH [of ?s] Cons.prems se_move_stream by auto
    have "se_eof (rd # rounds) = se_eof rounds" using False rd n by (auto simp: se_eof_def)
    moreover have "se_pipe ?s = []" if "se_round_full rd" "se_pipe s = []"
      using that rd n by (simp add: se_move_def Let_def se_round_full_def)
    ultimately show ?thesis using s' False rd n by auto
  qed
qed

section \<open>Properties\<close>

text \<open>
  C25 (blocking echo). As long as no \<open>splice\<close> from the socket fails, the loop goes on exactly until the
  client closes; then every descriptor is closed. At any time what was taken is what was given back
  followed by what is in the pipe, and if every \<open>splice\<close> to the socket moves all it was asked for,
  nothing is left in the pipe. A shorter one leaves bytes there, which the end of the program drops.
  When \<open>pipe\<close> fails, the program goes on with descriptors that nobody has written.
\<close>

theorem splice_echo_runs:
  assumes "\<forall>rd \<in> set rounds. se_round_ok rd" and "2 \<le> length args" and "bound \<noteq> - 1" and "conn \<noteq> - 1"
  shows "(\<exists>s. se_main args sock bound conn (Some (r, w)) rounds = Inr (se_eof rounds, s) \<and>
    se_taken s = se_given s @ se_pipe s \<and> (se_eof rounds \<longrightarrow> se_open s = {}) \<and>
    ((\<forall>rd \<in> set rounds. se_round_full rd) \<longrightarrow> se_given s = se_taken s)) \<and>
    se_main args sock bound conn None rounds = Inl Uninit_Read"
  using assms(2-) se_loop_runs [OF assms(1), of "\<lparr>se_pipe = [], se_taken = [], se_given = [], se_open = {sock, conn, r, w}\<rparr>" sock conn r w]
  by (auto simp: se_main_def)

theorem splice_echo_runs_witness:
  "\<exists>s. se_main [''127.0.0.1'', ''5000''] 3 0 4 (Some (5, 6)) [(Some [1, 2], 2), (Some [3], 1), (Some [], 0)] = Inr (True, s) \<and>
    se_taken s = [1, 2, 3] \<and> se_given s = [1, 2, 3] \<and> se_open s = {}"
proof -
  let ?rounds = "[(Some [1, 2], 2), (Some [3], 1), (Some [], 0)] :: se_round list"
  have ok: "\<forall>rd \<in> set ?rounds. se_round_ok rd" by (simp add: se_round_ok_def SE_LEN_def)
  have full: "\<forall>rd \<in> set ?rounds. se_round_full rd" by (simp add: se_round_full_def)
  have eof: "se_eof ?rounds" by (simp add: se_eof_def)
  have "\<exists>s. se_main [''127.0.0.1'', ''5000''] 3 0 4 (Some (5, 6)) ?rounds = Inr (True, s) \<and> se_taken s = [1, 2, 3]"
    by (simp add: se_main_def se_move_def se_close_def Let_def)
  then show ?thesis
    using splice_echo_runs [OF ok, of "[''127.0.0.1'', ''5000'']" 0 4 3 5 6] full eof by auto
qed

end
