(* ===== verification/Load_Client.thy ===== *)
theory Load_Client
  imports Libevent
begin

text \<open>
  The load generator of \<open>test/zero_copy/load_client.cpp\<close>: the callbacks that keep a connection's
  output filled with a block of 4 MB and throw away what comes back, and \<open>init_client\<close>, which each
  thread runs. The event loop that \<open>init_client\<close> enters is an argument.
\<close>

section \<open>Callbacks\<close>

datatype lc_cb = Lc_Readcb | Lc_Writecb | Lc_Write_Data | Lc_Eventcb

type_synonym lc_heap = "(lc_cb, event_base) heap"
type_synonym lc_lib = "(lc_cb, event_base) libevent"
type_synonym lc_bev = "(lc_cb, event_base) bufferevent"

definition lc_data_len :: nat where
  "lc_data_len = 4 * 1024 * 1024"

text \<open>The block: \<open>'0'\<close> characters, the last of them replaced by a zero byte.\<close>

definition lc_data :: "byte list" where
  "lc_data = (replicate lc_data_len 48)[lc_data_len - 1 := 0]"

definition lc_writecb :: "lc_lib \<Rightarrow> bev \<Rightarrow> lc_heap stmt" where
  "lc_writecb L b = evbuffer_add L (Output_Of b) lc_data"

definition lc_readcb :: "lc_lib \<Rightarrow> bev \<Rightarrow> lc_heap stmt" where
  "lc_readcb L b = with_length L (Input_Of b) (\<lambda>n. evbuffer_drain L (Input_Of b) n)"

definition write_data :: "lc_lib \<Rightarrow> bev \<Rightarrow> event_base \<Rightarrow> lc_heap stmt" where
  "write_data L b base = exec
     [evbuffer_add L (Output_Of b) lc_data,
      bufferevent_setcb L b (Some Lc_Readcb) (Some Lc_Writecb) None base,
      bufferevent_setwatermark L b EV_WRITE (lc_data_len div 2) lc_data_len]"

definition lc_eventcb :: "lc_lib \<Rightarrow> bev \<Rightarrow> flags \<Rightarrow> event_base \<Rightarrow> lc_heap stmt" where
  "lc_eventcb L b what ctx = when_stmt (has_flag what BEV_EVENT_CONNECTED) [write_data L b ctx]"

section \<open>A client\<close>

text \<open>The size of the \<open>struct sockaddr\<close> that is allocated for the address.\<close>

definition SOCKADDR_SIZE :: nat where
  "SOCKADDR_SIZE = 16"

text \<open>
  \<open>init_client\<close>: \<open>base\<close> is the result of \<open>event_base_new\<close>, \<open>len\<close> the length stored by
  \<open>evutil_parse_sockaddr_port\<close>, which is copied to the allocated address. The function returns null
  when the connection cannot be started, and ends without a \<open>return\<close> otherwise.
\<close>

definition init_client :: "lc_lib \<Rightarrow> event_base option \<Rightarrow> sockaddr_storage \<Rightarrow> nat \<Rightarrow> lc_heap stmt \<Rightarrow> lc_heap stmt" where
  "init_client L base addr len event_base_loop h = (case base of
      None \<Rightarrow> Inl (Exit 1)
    | Some e \<Rightarrow> (case le_socket_new L e (- 1) BEV_OPT_CLOSE_ON_FREE h of (r, h) \<Rightarrow>
        if SOCKADDR_SIZE < len then Inl Out_Of_Bounds
        else (case r of None \<Rightarrow> Inl Null_Deref
          | Some b \<Rightarrow> (case le_socket_connect L b addr h of (rc, h) \<Rightarrow>
              if rc < 0 then bufferevent_free L b h
              else exec
                [bufferevent_setcb L b (Some Lc_Readcb) (Some Lc_Write_Data) (Some Lc_Eventcb) e,
                 bufferevent_enable L b (EV_WRITE OR EV_READ OR EV_PERSIST OR EV_ET),
                 event_base_loop,
                 (\<lambda>h. Inl Missing_Return)] h))))"

text \<open>
  \<open>main\<close>: the returned code and the clients it starts, one thread per processor. \<open>parse\<close> is
  \<open>evutil_parse_sockaddr_port\<close>.
\<close>

definition lc_main :: "(string \<Rightarrow> (sockaddr_storage \<times> nat) option) \<Rightarrow> nat \<Rightarrow> string list \<Rightarrow>
    (int \<times> (sockaddr_storage \<times> nat) list) res" where
  "lc_main parse ncpu args = (case args of
      a # secs # _ \<Rightarrow> (case parse a of None \<Rightarrow> Inr (1, []) | Some addr \<Rightarrow> Inr (0, replicate ncpu addr))
    | _ \<Rightarrow> Inl Assert_Failed)"

section \<open>Behaviour\<close>

lemma length_lc_data: "length lc_data = lc_data_len"
  by (simp add: lc_data_def)

locale load_lib = libevent_lib L for L :: lc_lib
begin

lemma lc_writecb_eq: "h b = Some x \<Longrightarrow> lc_writecb L b h = Inr (h(b \<mapsto> x\<lparr>outbuf := outbuf x @ lc_data\<rparr>))"
  by (simp add: lc_writecb_def api_simps)

lemma lc_readcb_eq: "h b = Some x \<Longrightarrow> lc_readcb L b h = Inr (h(b \<mapsto> x\<lparr>inbuf := []\<rparr>))"
  by (simp add: lc_readcb_def api_simps)

lemma write_data_eq:
  "h b = Some x \<Longrightarrow> write_data L b base h = Inr (h(b \<mapsto> x\<lparr>outbuf := outbuf x @ lc_data,
     bev_readcb := Some Lc_Readcb, bev_writecb := Some Lc_Writecb, bev_errorcb := None, bev_cbarg := base,
     wm_write := \<lparr>low = lc_data_len div 2, high = lc_data_len\<rparr>\<rparr>))"
  by (simp add: write_data_def api_simps)

text \<open>No thread returns normally from a started connection, and an IPv6 address overruns the copy.\<close>

lemma init_client_overflow:
  "SOCKADDR_SIZE < len \<Longrightarrow> init_client L (Some e) addr len loop h = Inl Out_Of_Bounds"
  by (simp add: init_client_def split: prod.split)

lemma init_client_no_return:
  assumes "le_socket_new L e (- 1) BEV_OPT_CLOSE_ON_FREE h = (Some b, h1)" and "len \<le> SOCKADDR_SIZE"
    and "le_socket_connect L b addr h1 = (rc, h2)" and "0 \<le> rc" and "\<And>h. \<exists>h'. loop h = Inr h'"
  shows "init_client L (Some e) addr len loop h = Inl Missing_Return"
proof -
  obtain x where x: "h1 b = Some x" using socket_new_some [OF assms(1)] by auto
  obtain rc' f where "le_socket_connect L b addr h1 = (rc', h1(b \<mapsto> x\<lparr>bev_fd := f\<rparr>))"
    using socket_connect [of h1 b x addr] x by blast
  then have h2: "h2 b = Some (x\<lparr>bev_fd := f\<rparr>)" using assms(3) by auto
  obtain h3 where h3: "bufferevent_setcb L b (Some Lc_Readcb) (Some Lc_Write_Data) (Some Lc_Eventcb) e h2 = Inr h3"
    "h3 b \<noteq> None" using h2 by (simp add: api_simps)
  then obtain h4 where "bufferevent_enable L b (EV_WRITE OR EV_READ OR EV_PERSIST OR EV_ET) h3 = Inr h4"
    by (auto simp: api_simps)
  moreover obtain h5 where "loop h4 = Inr h5" using assms(5) by blast
  ultimately show ?thesis using assms(1-4) h3 by (simp add: init_client_def)
qed

end

interpretation lc_ref: load_lib "libevent_ref c" for c
  by unfold_locales

section \<open>Properties\<close>

abbreviation lc_ref_lib :: lc_lib where
  "lc_ref_lib \<equiv> libevent_ref 0"

text \<open>
  The load. When the connection is made, one block is queued and the event callback is taken
  out, so the end of the connection is not noticed. From then on, whenever the output is at or below
  the low watermark the write callback adds one block: the output never holds more than one and a
  half.
\<close>

theorem load_client_refills:
  assumes "load_lib L" and "h b = Some x" and "outbuf x = []" and "has_flag what BEV_EVENT_CONNECTED"
  shows "\<exists>x'. lc_eventcb L b what base h = Inr (h(b \<mapsto> x')) \<and> outbuf x' = lc_data \<and> bev_errorcb x' = None \<and>
    bev_writecb x' = Some Lc_Writecb \<and>
    (\<forall>rest. length rest \<le> low (wm_write x') \<longrightarrow> (\<exists>y. lc_writecb L b (h(b \<mapsto> x'\<lparr>outbuf := rest\<rparr>)) = Inr (h(b \<mapsto> y)) \<and>
       outbuf y = rest @ lc_data \<and> length (outbuf y) \<le> lc_data_len + lc_data_len div 2))"
proof -
  let ?x = "x\<lparr>outbuf := lc_data, bev_readcb := Some Lc_Readcb, bev_writecb := Some Lc_Writecb, bev_errorcb := None,
    bev_cbarg := base, wm_write := \<lparr>low = lc_data_len div 2, high = lc_data_len\<rparr>\<rparr>"
  have "lc_eventcb L b what base h = Inr (h(b \<mapsto> ?x))"
    using load_lib.write_data_eq [OF assms(1), of h b x base] assms(2-4) by (simp add: lc_eventcb_def)
  moreover have "lc_writecb L b (h(b \<mapsto> ?x\<lparr>outbuf := rest\<rparr>)) = Inr (h(b \<mapsto> ?x\<lparr>outbuf := rest @ lc_data\<rparr>))" for rest
    using load_lib.lc_writecb_eq [OF assms(1), of "h(b \<mapsto> ?x\<lparr>outbuf := rest\<rparr>)" b] by simp
  ultimately show ?thesis by (intro exI [of _ ?x]) (auto simp: length_lc_data)
qed

theorem load_client_refills_witness:
  "\<exists>x'. lc_eventcb lc_ref_lib 1 BEV_EVENT_CONNECTED 10 [1 \<mapsto> new_bev 0 10 7] = Inr ([1 \<mapsto> new_bev 0 10 7, 1 \<mapsto> x']) \<and>
    outbuf x' = lc_data \<and> bev_errorcb x' = None"
  using load_client_refills [OF lc_ref.load_lib_axioms, of "[1 \<mapsto> new_bev 0 10 7]" 1 "new_bev 0 10 7" BEV_EVENT_CONNECTED 0 10]
  by (auto simp: new_bev_def has_flag_def)

end
