(* ===== verification/Event_Config.thy ===== *)
theory Event_Config
  imports Main "HOL-Library.Sublist"
begin

text \<open>
  The configuration with which the shipped libevent was built, \<open>lib/libevent/event2/event-config.h\<close>.
  The other headers choose between alternatives by its macros, so the file is data: a list of its
  lines and what the preprocessor does with them. A macro environment maps the names that are
  defined to their values.
\<close>

section \<open>The preprocessor\<close>

text \<open>A value: a number, a string literal, other tokens, or a macro with parameters, whose meaning is modelled elsewhere.\<close>

datatype pp_value = PP_Int int | PP_String string | PP_Tokens string | PP_Macro

text \<open>
  A \<open>#define\<close>, a \<open>#define\<close> inside an \<open>#ifndef\<close> of the same name, and a commented out \<open>#undef\<close>, which is
  what \<open>configure\<close> leaves for a macro it does not define.
\<close>

datatype pp_line =
    Define string pp_value
  | Define_Unless string pp_value
  | Undef_Comment string

type_synonym macros = "string \<Rightarrow> pp_value option"

fun pp_step :: "pp_line \<Rightarrow> macros \<Rightarrow> macros" where
  "pp_step (Define x v) m = m(x \<mapsto> v)"
| "pp_step (Define_Unless x v) m = (if m x = None then m(x \<mapsto> v) else m)"
| "pp_step (Undef_Comment x) m = m"

fun pp_run :: "pp_line list \<Rightarrow> macros \<Rightarrow> macros" where
  "pp_run [] m = m"
| "pp_run (l # ls) m = pp_run ls (pp_step l m)"

text \<open>\<open>#ifdef\<close> and the value of a name in an \<open>#if\<close>: a name that is not defined counts as 0.\<close>

definition defd :: "macros \<Rightarrow> string \<Rightarrow> bool" where
  "defd m x \<longleftrightarrow> m x \<noteq> None"

definition pp_int :: "macros \<Rightarrow> string \<Rightarrow> int" where
  "pp_int m x = (case m x of Some (PP_Int i) \<Rightarrow> i | _ \<Rightarrow> 0)"

section \<open>The file\<close>

definition config_a :: "pp_line list" where
  "config_a = [
    Undef_Comment ''EVENT__DISABLE_DEBUG_MODE'', Undef_Comment ''EVENT__DISABLE_MM_REPLACEMENT'',
    Undef_Comment ''EVENT__DISABLE_THREAD_SUPPORT'', Define ''EVENT__HAVE_ACCEPT4'' (PP_Int 1),
    Undef_Comment ''EVENT__HAVE_AFUNIX_H'', Undef_Comment ''EVENT__HAVE_ARC4RANDOM'',
    Undef_Comment ''EVENT__HAVE_ARC4RANDOM_ADDRANDOM'', Undef_Comment ''EVENT__HAVE_ARC4RANDOM_BUF'',
    Define ''EVENT__HAVE_ARPA_INET_H'' (PP_Int 1), Define ''EVENT__HAVE_CLOCK_GETTIME'' (PP_Int 1),
    Undef_Comment ''EVENT__HAVE_DECL_CTL_KERN'', Undef_Comment ''EVENT__HAVE_DECL_KERN_ARND'',
    Undef_Comment ''EVENT__HAVE_DEVPOLL'', Define ''EVENT__HAVE_DLFCN_H'' (PP_Int 1),
    Define ''EVENT__HAVE_EPOLL'' (PP_Int 1), Define ''EVENT__HAVE_EPOLL_CREATE1'' (PP_Int 1),
    Define ''EVENT__HAVE_EPOLL_CTL'' (PP_Int 1), Define ''EVENT__HAVE_ERRNO_H'' (PP_Int 1),
    Define ''EVENT__HAVE_EVENTFD'' (PP_Int 1), Undef_Comment ''EVENT__HAVE_EVENT_PORTS'',
    Define ''EVENT__HAVE_FCNTL'' (PP_Int 1), Define ''EVENT__HAVE_FCNTL_H'' (PP_Int 1),
    Define ''EVENT__HAVE_FD_MASK'' (PP_Int 1), Define ''EVENT__HAVE_GETADDRINFO'' (PP_Int 1),
    Define ''EVENT__HAVE_GETEGID'' (PP_Int 1), Define ''EVENT__HAVE_GETEUID'' (PP_Int 1),
    Undef_Comment ''EVENT__HAVE_GETHOSTBYNAME_R'', Undef_Comment ''EVENT__HAVE_GETHOSTBYNAME_R_3_ARG'',
    Undef_Comment ''EVENT__HAVE_GETHOSTBYNAME_R_5_ARG'', Undef_Comment ''EVENT__HAVE_GETHOSTBYNAME_R_6_ARG'',
    Define ''EVENT__HAVE_GETIFADDRS'' (PP_Int 1), Define ''EVENT__HAVE_GETNAMEINFO'' (PP_Int 1),
    Define ''EVENT__HAVE_GETPROTOBYNUMBER'' (PP_Int 1), Define ''EVENT__HAVE_GETRANDOM'' (PP_Int 1),
    Define ''EVENT__HAVE_GETSERVBYNAME'' (PP_Int 1), Define ''EVENT__HAVE_GETTIMEOFDAY'' (PP_Int 1),
    Define ''EVENT__HAVE_IFADDRS_H'' (PP_Int 1), Define ''EVENT__HAVE_INET_NTOP'' (PP_Int 1),
    Define ''EVENT__HAVE_INET_PTON'' (PP_Int 1), Define ''EVENT__HAVE_INTTYPES_H'' (PP_Int 1),
    Undef_Comment ''EVENT__HAVE_ISSETUGID'', Undef_Comment ''EVENT__HAVE_KQUEUE'',
    Undef_Comment ''EVENT__HAVE_LIBWS2_32'', Define ''EVENT__HAVE_LIBZ'' (PP_Int 1),
    Undef_Comment ''EVENT__HAVE_MACH_ABSOLUTE_TIME'', Undef_Comment ''EVENT__HAVE_MACH_MACH_H'',
    Undef_Comment ''EVENT__HAVE_MACH_MACH_TIME_H'', Define ''EVENT__HAVE_MEMORY_H'' (PP_Int 1),
    Define ''EVENT__HAVE_MMAP'' (PP_Int 1)]"

definition config_b :: "pp_line list" where
  "config_b = [
    Define ''EVENT__HAVE_NANOSLEEP'' (PP_Int 1), Define ''EVENT__HAVE_NETDB_H'' (PP_Int 1),
    Undef_Comment ''EVENT__HAVE_NETINET_IN6_H'', Define ''EVENT__HAVE_NETINET_IN_H'' (PP_Int 1),
    Define ''EVENT__HAVE_NETINET_TCP_H'' (PP_Int 1), Define ''EVENT__HAVE_OPENSSL'' (PP_Int 1),
    Define ''EVENT__HAVE_OPENSSL_SSL_H'' (PP_Int 1), Define ''EVENT__HAVE_PIPE'' (PP_Int 1),
    Define ''EVENT__HAVE_PIPE2'' (PP_Int 1), Define ''EVENT__HAVE_POLL'' (PP_Int 1),
    Define ''EVENT__HAVE_POLL_H'' (PP_Int 1), Undef_Comment ''EVENT__HAVE_PORT_CREATE'',
    Undef_Comment ''EVENT__HAVE_PORT_H'', Undef_Comment ''EVENT__HAVE_PTHREAD'',
    Define ''EVENT__HAVE_PTHREADS'' (PP_Int 1), Define ''EVENT__HAVE_PUTENV'' (PP_Int 1),
    Define ''EVENT__HAVE_SA_FAMILY_T'' (PP_Int 1), Define ''EVENT__HAVE_SELECT'' (PP_Int 1),
    Define ''EVENT__HAVE_SENDFILE'' (PP_Int 1), Define ''EVENT__HAVE_SETENV'' (PP_Int 1),
    Define ''EVENT__HAVE_SETFD'' (PP_Int 1), Define ''EVENT__HAVE_SETRLIMIT'' (PP_Int 1),
    Define ''EVENT__HAVE_SIGACTION'' (PP_Int 1), Define ''EVENT__HAVE_SIGNAL'' (PP_Int 1),
    Define ''EVENT__HAVE_SPLICE'' (PP_Int 1), Define ''EVENT__HAVE_STDARG_H'' (PP_Int 1),
    Define ''EVENT__HAVE_STDDEF_H'' (PP_Int 1), Define ''EVENT__HAVE_STDINT_H'' (PP_Int 1),
    Define ''EVENT__HAVE_STDLIB_H'' (PP_Int 1), Define ''EVENT__HAVE_STRINGS_H'' (PP_Int 1),
    Define ''EVENT__HAVE_STRING_H'' (PP_Int 1), Undef_Comment ''EVENT__HAVE_STRLCPY'',
    Define ''EVENT__HAVE_STRSEP'' (PP_Int 1), Define ''EVENT__HAVE_STRTOK_R'' (PP_Int 1),
    Define ''EVENT__HAVE_STRTOLL'' (PP_Int 1), Define ''EVENT__HAVE_STRUCT_ADDRINFO'' (PP_Int 1),
    Define ''EVENT__HAVE_STRUCT_IN6_ADDR'' (PP_Int 1),
    Define ''EVENT__HAVE_STRUCT_IN6_ADDR_S6_ADDR16'' (PP_Int 1),
    Define ''EVENT__HAVE_STRUCT_IN6_ADDR_S6_ADDR32'' (PP_Int 1),
    Define ''EVENT__HAVE_STRUCT_LINGER'' (PP_Int 1), Define ''EVENT__HAVE_STRUCT_SOCKADDR_IN6'' (PP_Int 1),
    Undef_Comment ''EVENT__HAVE_STRUCT_SOCKADDR_IN6_SIN6_LEN'',
    Undef_Comment ''EVENT__HAVE_STRUCT_SOCKADDR_IN_SIN_LEN'',
    Define ''EVENT__HAVE_STRUCT_SOCKADDR_STORAGE'' (PP_Int 1),
    Define ''EVENT__HAVE_STRUCT_SOCKADDR_STORAGE_SS_FAMILY'' (PP_Int 1),
    Undef_Comment ''EVENT__HAVE_STRUCT_SOCKADDR_STORAGE___SS_FAMILY'',
    Define ''EVENT__HAVE_STRUCT_SOCKADDR_UN'' (PP_Int 1), Define ''EVENT__HAVE_SYSCTL'' (PP_Int 1),
    Undef_Comment ''EVENT__HAVE_SYS_DEVPOLL_H'', Define ''EVENT__HAVE_SYS_EPOLL_H'' (PP_Int 1)]"

definition config_c :: "pp_line list" where
  "config_c = [
    Define ''EVENT__HAVE_SYS_EVENTFD_H'' (PP_Int 1), Undef_Comment ''EVENT__HAVE_SYS_EVENT_H'',
    Define ''EVENT__HAVE_SYS_IOCTL_H'' (PP_Int 1), Define ''EVENT__HAVE_SYS_MMAN_H'' (PP_Int 1),
    Define ''EVENT__HAVE_SYS_PARAM_H'' (PP_Int 1), Define ''EVENT__HAVE_SYS_QUEUE_H'' (PP_Int 1),
    Define ''EVENT__HAVE_SYS_RANDOM_H'' (PP_Int 1), Define ''EVENT__HAVE_SYS_RESOURCE_H'' (PP_Int 1),
    Define ''EVENT__HAVE_SYS_SELECT_H'' (PP_Int 1), Define ''EVENT__HAVE_SYS_SENDFILE_H'' (PP_Int 1),
    Define ''EVENT__HAVE_SYS_SOCKET_H'' (PP_Int 1), Define ''EVENT__HAVE_SYS_STAT_H'' (PP_Int 1),
    Undef_Comment ''EVENT__HAVE_SYS_SYSCTL_H'', Define ''EVENT__HAVE_SYS_TIMERFD_H'' (PP_Int 1),
    Define ''EVENT__HAVE_SYS_TIME_H'' (PP_Int 1), Define ''EVENT__HAVE_SYS_TYPES_H'' (PP_Int 1),
    Define ''EVENT__HAVE_SYS_UIO_H'' (PP_Int 1), Define ''EVENT__HAVE_SYS_UN_H'' (PP_Int 1),
    Define ''EVENT__HAVE_SYS_WAIT_H'' (PP_Int 1), Define ''EVENT__HAVE_TAILQFOREACH'' (PP_Int 1),
    Define ''EVENT__HAVE_TIMERADD'' (PP_Int 1), Define ''EVENT__HAVE_TIMERCLEAR'' (PP_Int 1),
    Define ''EVENT__HAVE_TIMERCMP'' (PP_Int 1), Define ''EVENT__HAVE_TIMERFD_CREATE'' (PP_Int 1),
    Define ''EVENT__HAVE_TIMERISSET'' (PP_Int 1), Define ''EVENT__HAVE_UINT16_T'' (PP_Int 1),
    Define ''EVENT__HAVE_UINT32_T'' (PP_Int 1), Define ''EVENT__HAVE_UINT64_T'' (PP_Int 1),
    Define ''EVENT__HAVE_UINT8_T'' (PP_Int 1), Define ''EVENT__HAVE_UINTPTR_T'' (PP_Int 1),
    Define ''EVENT__HAVE_UMASK'' (PP_Int 1), Define ''EVENT__HAVE_UNISTD_H'' (PP_Int 1),
    Define ''EVENT__HAVE_UNSETENV'' (PP_Int 1), Define ''EVENT__HAVE_USLEEP'' (PP_Int 1),
    Define ''EVENT__HAVE_VASPRINTF'' (PP_Int 1), Undef_Comment ''EVENT__HAVE_WORKING_KQUEUE'',
    Define ''EVENT__HAVE_ZLIB_H'' (PP_Int 1), Undef_Comment ''EVENT__HAVE__GMTIME64'',
    Undef_Comment ''EVENT__HAVE__GMTIME64_S'', Define ''EVENT__HAVE___FUNCTION__'' (PP_Int 1),
    Define ''EVENT__HAVE___func__'' (PP_Int 1), Define ''EVENT__LT_OBJDIR'' (PP_String ''.libs/''),
    Define ''EVENT__NUMERIC_VERSION'' (PP_Int 0x02010c00), Define ''EVENT__PACKAGE'' (PP_String ''libevent''),
    Define ''EVENT__PACKAGE_BUGREPORT'' (PP_String ''''),
    Define ''EVENT__PACKAGE_NAME'' (PP_String ''libevent''),
    Define ''EVENT__PACKAGE_STRING'' (PP_String ''libevent 2.1.12-stable''),
    Define ''EVENT__PACKAGE_TARNAME'' (PP_String ''libevent''),
    Define ''EVENT__PACKAGE_URL'' (PP_String ''''),
    Define ''EVENT__PACKAGE_VERSION'' (PP_String ''2.1.12-stable'')]"

definition config_d :: "pp_line list" where
  "config_d = [
    Undef_Comment ''EVENT__PTHREAD_CREATE_JOINABLE'', Define ''EVENT__SIZEOF_INT'' (PP_Int 4),
    Define ''EVENT__SIZEOF_LONG'' (PP_Int 8), Define ''EVENT__SIZEOF_LONG_LONG'' (PP_Int 8),
    Define ''EVENT__SIZEOF_OFF_T'' (PP_Int 8), Define ''EVENT__SIZEOF_PTHREAD_T'' (PP_Int 8),
    Define ''EVENT__SIZEOF_SHORT'' (PP_Int 2), Define ''EVENT__SIZEOF_SIZE_T'' (PP_Int 8),
    Define ''EVENT__SIZEOF_TIME_T'' (PP_Int 8), Define ''EVENT__SIZEOF_VOID_P'' (PP_Int 8),
    Define ''STDC_HEADERS'' (PP_Int 1), Define ''EVENT__TIME_WITH_SYS_TIME'' (PP_Int 1),
    Define_Unless ''_ALL_SOURCE'' (PP_Int 1), Define_Unless ''_GNU_SOURCE'' (PP_Int 1),
    Define_Unless ''_POSIX_PTHREAD_SEMANTICS'' (PP_Int 1), Define_Unless ''_TANDEM_SOURCE'' (PP_Int 1),
    Define_Unless ''__EXTENSIONS__'' (PP_Int 1), Define ''EVENT__VERSION'' (PP_String ''2.1.12-stable''),
    Define_Unless ''_DARWIN_USE_64_BIT_INODE'' (PP_Int 1), Undef_Comment ''_FILE_OFFSET_BITS'',
    Undef_Comment ''_LARGE_FILES'', Undef_Comment ''_MINIX'', Undef_Comment ''_POSIX_1_SOURCE'',
    Undef_Comment ''_POSIX_SOURCE'', Undef_Comment ''const'', Undef_Comment ''inline'',
    Undef_Comment ''pid_t'', Undef_Comment ''size_t'', Undef_Comment ''socklen_t'',
    Undef_Comment ''ssize_t'']"

definition event_config_h :: "pp_line list" where
  "event_config_h = config_a @ config_b @ config_c @ config_d"

section \<open>What the file defines\<close>

fun line_name :: "pp_line \<Rightarrow> string" where
  "line_name (Define x v) = x"
| "line_name (Define_Unless x v) = x"
| "line_name (Undef_Comment x) = x"

fun forced :: "pp_line \<Rightarrow> bool" where
  "forced (Define x v) = True"
| "forced (Define_Unless x v) = False"
| "forced (Undef_Comment x) = False"

text \<open>What becomes of one name, without the rest of the environment.\<close>

fun pp_lookup :: "pp_line list \<Rightarrow> string \<Rightarrow> pp_value option \<Rightarrow> pp_value option" where
  "pp_lookup [] x v = v"
| "pp_lookup (l # ls) x v = pp_lookup ls x (if line_name l = x then
     (case l of Define _ w \<Rightarrow> Some w | Define_Unless _ w \<Rightarrow> (if v = None then Some w else v) | Undef_Comment _ \<Rightarrow> v)
     else v)"

lemma pp_step_lookup: "pp_step l m x = pp_lookup [l] x (m x)"
  by (cases l) auto

lemma pp_run_lookup: "pp_run ls m x = pp_lookup ls x (m x)"
proof (induction ls arbitrary: m)
  case (Cons l ls)
  then show ?case using pp_step_lookup [of l m x] by simp
qed simp

end
