(* ===== verification/Ev_Util.thy ===== *)
theory Ev_Util
  imports Event_Config Net_Prelude
begin

text \<open>
  The macros of \<open>lib/libevent/event2/util.h\<close>: which C type stands behind each portable integer type,
  the limits of these types, the arithmetic on \<open>struct timeval\<close> and the error codes and flags of
  \<open>evutil_getaddrinfo\<close>. Conditional definitions are functions of the macro environment, in the order
  of the \<open>#if\<close> branches; \<open>#error\<close> is \<open>None\<close>.
\<close>

abbreviation WIN32 :: string where "WIN32 \<equiv> ''_WIN32''"
abbreviation DOXYGEN :: string where "DOXYGEN \<equiv> ''EVENT_IN_DOXYGEN_''"

section \<open>Integer types\<close>

text \<open>
  The types the macros expand to; the flag says whether the type is signed. \<open>Macro_Type\<close> is a type named
  by another macro, \<open>Ellipsis\<close> the placeholder in the documentation.
\<close>

datatype ctype =
    Stdint bool nat
  | MS_int64 bool
  | C_char bool
  | C_short bool
  | C_int bool
  | C_long bool
  | C_long_long bool
  | C_intptr bool
  | C_ssize_t
  | C_off_t
  | C_socklen_t
  | Macro_Type string
  | Ellipsis

text \<open>The unsigned and the signed type of one width.\<close>

definition both :: "(bool \<Rightarrow> ctype) \<Rightarrow> (ctype \<times> ctype) option" where
  "both t = Some (t False, t True)"

definition ev_int64_types :: "macros \<Rightarrow> (ctype \<times> ctype) option" where
  "ev_int64_types m =
     (if defd m ''EVENT__HAVE_UINT64_T'' then both (\<lambda>s. Stdint s 64)
      else if defd m WIN32 then both MS_int64
      else if pp_int m ''EVENT__SIZEOF_LONG_LONG'' = 8 then both C_long_long
      else if pp_int m ''EVENT__SIZEOF_LONG'' = 8 then both C_long
      else if defd m DOXYGEN then both (\<lambda>_. Ellipsis)
      else None)"

definition ev_int32_types :: "macros \<Rightarrow> (ctype \<times> ctype) option" where
  "ev_int32_types m =
     (if defd m ''EVENT__HAVE_UINT32_T'' then both (\<lambda>s. Stdint s 32)
      else if defd m WIN32 then both C_int
      else if pp_int m ''EVENT__SIZEOF_LONG'' = 4 then both C_long
      else if pp_int m ''EVENT__SIZEOF_INT'' = 4 then both C_int
      else if defd m DOXYGEN then both (\<lambda>_. Ellipsis)
      else None)"

definition ev_int16_types :: "macros \<Rightarrow> (ctype \<times> ctype) option" where
  "ev_int16_types m =
     (if defd m ''EVENT__HAVE_UINT16_T'' then both (\<lambda>s. Stdint s 16)
      else if defd m WIN32 then both C_short
      else if pp_int m ''EVENT__SIZEOF_INT'' = 2 then both C_int
      else if pp_int m ''EVENT__SIZEOF_SHORT'' = 2 then both C_short
      else if defd m DOXYGEN then both (\<lambda>_. Ellipsis)
      else None)"

definition ev_int8_types :: "macros \<Rightarrow> (ctype \<times> ctype) option" where
  "ev_int8_types m =
     (if defd m ''EVENT__HAVE_UINT8_T'' then both (\<lambda>s. Stdint s 8)
      else if defd m DOXYGEN then both (\<lambda>_. Ellipsis)
      else both C_char)"

text \<open>The older name of the macro for the size of a pointer is taken when the newer one is missing.\<close>

definition sizeof_void_p :: "macros \<Rightarrow> int" where
  "sizeof_void_p m =
     (if defd m ''EVENT__SIZEOF_VOID__'' \<and> \<not> defd m ''EVENT__SIZEOF_VOID_P''
      then pp_int m ''EVENT__SIZEOF_VOID__'' else pp_int m ''EVENT__SIZEOF_VOID_P'')"

definition ev_intptr_types :: "macros \<Rightarrow> (ctype \<times> ctype) option" where
  "ev_intptr_types m =
     (if defd m ''EVENT__HAVE_UINTPTR_T'' then both C_intptr
      else if sizeof_void_p m \<le> 4 then ev_int32_types m
      else if sizeof_void_p m \<le> 8 then ev_int64_types m
      else if defd m DOXYGEN then both (\<lambda>_. Ellipsis)
      else None)"

definition ev_ssize_t :: "macros \<Rightarrow> ctype" where
  "ev_ssize_t m = (if defd m ''EVENT__ssize_t'' then Macro_Type ''EVENT__ssize_t'' else C_ssize_t)"

definition ev_off_t :: "macros \<Rightarrow> ctype option" where
  "ev_off_t m =
     (if defd m WIN32 then map_option snd (ev_int64_types m)
      else if pp_int m ''EVENT__SIZEOF_OFF_T'' = 8 then map_option snd (ev_int64_types m)
      else if pp_int m ''EVENT__SIZEOF_OFF_T'' = 4 then map_option snd (ev_int32_types m)
      else if defd m DOXYGEN then Some Ellipsis
      else Some C_off_t)"

definition ev_socklen_t :: "macros \<Rightarrow> ctype" where
  "ev_socklen_t m = (if defd m WIN32 then C_int True
     else if defd m ''EVENT__socklen_t'' then Macro_Type ''EVENT__socklen_t'' else C_socklen_t)"

definition evutil_socket_type :: "macros \<Rightarrow> ctype" where
  "evutil_socket_type m = (if defd m WIN32 then C_intptr True else C_int True)"

section \<open>Limits\<close>

record int_limits =
  EV_UINT64_MAX :: int
  EV_INT64_MAX :: int
  EV_INT64_MIN :: int
  EV_UINT32_MAX :: int
  EV_INT32_MAX :: int
  EV_INT32_MIN :: int
  EV_UINT16_MAX :: int
  EV_INT16_MAX :: int
  EV_INT16_MIN :: int
  EV_UINT8_MAX :: int
  EV_INT8_MAX :: int
  EV_INT8_MIN :: int

text \<open>Without \<open>stdint.h\<close> the limits are computed, at the width of their type; with it they are its own.\<close>

definition ev_limits :: "macros \<Rightarrow> int_limits" where
  "ev_limits m =
     (if \<not> defd m ''EVENT__HAVE_STDINT_H'' then
        let max64 = sint (push_bit 32 (0x7fffffff :: 64 word) OR 0xffffffff);
            max32 = sint (0x7fffffff :: 32 word);
            max16 = sint (0x7fff :: 16 word);
            max8 = 127
        in \<lparr>EV_UINT64_MAX = uint (push_bit 32 (0xffffffff :: 64 word) OR 0xffffffff),
            EV_INT64_MAX = max64, EV_INT64_MIN = (- max64) - 1,
            EV_UINT32_MAX = uint (0xffffffff :: 32 word),
            EV_INT32_MAX = max32, EV_INT32_MIN = (- max32) - 1,
            EV_UINT16_MAX = uint (0xffff :: 16 word),
            EV_INT16_MAX = max16, EV_INT16_MIN = (- max16) - 1,
            EV_UINT8_MAX = 255,
            EV_INT8_MAX = max8, EV_INT8_MIN = (- max8) - 1\<rparr>
      else \<lparr>EV_UINT64_MAX = 2 ^ 64 - 1, EV_INT64_MAX = 2 ^ 63 - 1, EV_INT64_MIN = - (2 ^ 63),
            EV_UINT32_MAX = 2 ^ 32 - 1, EV_INT32_MAX = 2 ^ 31 - 1, EV_INT32_MIN = - (2 ^ 31),
            EV_UINT16_MAX = 2 ^ 16 - 1, EV_INT16_MAX = 2 ^ 15 - 1, EV_INT16_MIN = - (2 ^ 15),
            EV_UINT8_MAX = 2 ^ 8 - 1, EV_INT8_MAX = 2 ^ 7 - 1, EV_INT8_MIN = - (2 ^ 7)\<rparr>)"

text \<open>\<open>EV_SIZE_MAX\<close>, \<open>EV_SSIZE_MAX\<close> and \<open>EV_SSIZE_MIN\<close>; no value in the documentation, or \<open>#error\<close>.\<close>

definition ev_size_limits :: "macros \<Rightarrow> (int \<times> int \<times> int) option" where
  "ev_size_limits m =
     (let size = pp_int m ''EVENT__SIZEOF_SIZE_T''; l = ev_limits m in
      if size = 8 then Some (EV_UINT64_MAX l, EV_INT64_MAX l, (- EV_INT64_MAX l) - 1)
      else if size = 4 then Some (EV_UINT32_MAX l, EV_INT32_MAX l, (- EV_INT32_MAX l) - 1)
      else None)"

section \<open>Time values\<close>

record timeval =
  tv_sec :: int
  tv_usec :: int

text \<open>
  The macros work on objects through pointers, and the same object may be passed twice. A store has
  the time values by their address. Seconds and microseconds are integers without bounds: what happens
  when seconds overflow \<open>time_t\<close>, which C leaves undefined, is not described.
\<close>

type_synonym tv_store = "nat \<Rightarrow> timeval"

definition put_sec :: "nat \<Rightarrow> int \<Rightarrow> tv_store \<Rightarrow> tv_store" where
  "put_sec v x st = st(v := (st v)\<lparr>tv_sec := x\<rparr>)"

definition put_usec :: "nat \<Rightarrow> int \<Rightarrow> tv_store \<Rightarrow> tv_store" where
  "put_usec v x st = st(v := (st v)\<lparr>tv_usec := x\<rparr>)"

definition evutil_timeradd :: "nat \<Rightarrow> nat \<Rightarrow> nat \<Rightarrow> tv_store \<Rightarrow> tv_store" where
  "evutil_timeradd tvp uvp vvp st =
     (let st1 = put_sec vvp (tv_sec (st tvp) + tv_sec (st uvp)) st;
          st2 = put_usec vvp (tv_usec (st1 tvp) + tv_usec (st1 uvp)) st1 in
      if tv_usec (st2 vvp) \<ge> 1000000 then
        let st3 = put_sec vvp (tv_sec (st2 vvp) + 1) st2 in
        put_usec vvp (tv_usec (st3 vvp) - 1000000) st3
      else st2)"

definition evutil_timersub :: "nat \<Rightarrow> nat \<Rightarrow> nat \<Rightarrow> tv_store \<Rightarrow> tv_store" where
  "evutil_timersub tvp uvp vvp st =
     (let st1 = put_sec vvp (tv_sec (st tvp) - tv_sec (st uvp)) st;
          st2 = put_usec vvp (tv_usec (st1 tvp) - tv_usec (st1 uvp)) st1 in
      if tv_usec (st2 vvp) < 0 then
        let st3 = put_sec vvp (tv_sec (st2 vvp) - 1) st2 in
        put_usec vvp (tv_usec (st3 vvp) + 1000000) st3
      else st2)"

definition evutil_timerclear :: "nat \<Rightarrow> tv_store \<Rightarrow> tv_store" where
  "evutil_timerclear tvp st = put_sec tvp 0 (put_usec tvp 0 st)"

definition evutil_timercmp :: "timeval \<Rightarrow> timeval \<Rightarrow> (int \<Rightarrow> int \<Rightarrow> bool) \<Rightarrow> bool" where
  "evutil_timercmp t u cmp =
     (if tv_sec t = tv_sec u then cmp (tv_usec t) (tv_usec u) else cmp (tv_sec t) (tv_sec u))"

definition evutil_timerisset :: "timeval \<Rightarrow> bool" where
  "evutil_timerisset t \<longleftrightarrow> tv_sec t \<noteq> 0 \<or> tv_usec t \<noteq> 0"

section \<open>Name lookup: error codes and flags\<close>

datatype gai_code = Addrfamily | Again | Badflags | Gai_Fail | Family | Memory | Nodata | Noname
  | Service | Socktype | System | Cancel

fun eai_name :: "gai_code \<Rightarrow> string" where
  "eai_name Addrfamily = ''EAI_ADDRFAMILY''"
| "eai_name Again = ''EAI_AGAIN''"
| "eai_name Badflags = ''EAI_BADFLAGS''"
| "eai_name Gai_Fail = ''EAI_FAIL''"
| "eai_name Family = ''EAI_FAMILY''"
| "eai_name Memory = ''EAI_MEMORY''"
| "eai_name Nodata = ''EAI_NODATA''"
| "eai_name Noname = ''EAI_NONAME''"
| "eai_name Service = ''EAI_SERVICE''"
| "eai_name Socktype = ''EAI_SOCKTYPE''"
| "eai_name System = ''EAI_SYSTEM''"
| "eai_name Cancel = ''''"

fun eai_fallback :: "gai_code \<Rightarrow> int" where
  "eai_fallback Addrfamily = - 901"
| "eai_fallback Again = - 902"
| "eai_fallback Badflags = - 903"
| "eai_fallback Gai_Fail = - 904"
| "eai_fallback Family = - 905"
| "eai_fallback Memory = - 906"
| "eai_fallback Nodata = - 907"
| "eai_fallback Noname = - 908"
| "eai_fallback Service = - 909"
| "eai_fallback Socktype = - 910"
| "eai_fallback System = - 911"
| "eai_fallback Cancel = - 90001"

text \<open>
  A code of the system is taken when there is one and the system has \<open>getaddrinfo\<close>; \<open>EAI_NODATA\<close> only
  when it is not the same number as \<open>EAI_NONAME\<close>; the code for cancelling is libevent's own.
\<close>

definition eai_native :: "macros \<Rightarrow> gai_code \<Rightarrow> bool" where
  "eai_native m c \<longleftrightarrow> c \<noteq> Cancel \<and> defd m (eai_name c) \<and> defd m ''EVENT__HAVE_GETADDRINFO'' \<and>
     (c = Nodata \<longrightarrow> \<not> defd m (eai_name Noname) \<or> pp_int m (eai_name Nodata) \<noteq> pp_int m (eai_name Noname))"

definition EVUTIL_EAI :: "macros \<Rightarrow> gai_code \<Rightarrow> int" where
  "EVUTIL_EAI m c = (if eai_native m c then pp_int m (eai_name c) else eai_fallback c)"

datatype ai_flag = Passive | Canonname | Numerichost | Numericserv | V4mapped | Ai_All | Addrconfig

fun ai_name :: "ai_flag \<Rightarrow> string" where
  "ai_name Passive = ''AI_PASSIVE''"
| "ai_name Canonname = ''AI_CANONNAME''"
| "ai_name Numerichost = ''AI_NUMERICHOST''"
| "ai_name Numericserv = ''AI_NUMERICSERV''"
| "ai_name V4mapped = ''AI_V4MAPPED''"
| "ai_name Ai_All = ''AI_ALL''"
| "ai_name Addrconfig = ''AI_ADDRCONFIG''"

fun ai_fallback :: "ai_flag \<Rightarrow> int" where
  "ai_fallback Passive = 0x1000"
| "ai_fallback Canonname = 0x2000"
| "ai_fallback Numerichost = 0x4000"
| "ai_fallback Numericserv = 0x8000"
| "ai_fallback V4mapped = 0x10000"
| "ai_fallback Ai_All = 0x20000"
| "ai_fallback Addrconfig = 0x40000"

definition EVUTIL_AI :: "macros \<Rightarrow> ai_flag \<Rightarrow> int" where
  "EVUTIL_AI m f = (if defd m (ai_name f) \<and> defd m ''EVENT__HAVE_GETADDRINFO'' then pp_int m (ai_name f)
     else ai_fallback f)"

section \<open>Widths\<close>

text \<open>The sizes in bytes of the types of a platform, as the compiler has them.\<close>

record platform =
  sz_short :: nat
  sz_int :: nat
  sz_long :: nat
  sz_long_long :: nat
  sz_ptr :: nat

fun bits :: "platform \<Rightarrow> ctype \<Rightarrow> nat option" where
  "bits p (Stdint s n) = Some n"
| "bits p (MS_int64 s) = Some 64"
| "bits p (C_char s) = Some 8"
| "bits p (C_short s) = Some (8 * sz_short p)"
| "bits p (C_int s) = Some (8 * sz_int p)"
| "bits p (C_long s) = Some (8 * sz_long p)"
| "bits p (C_long_long s) = Some (8 * sz_long_long p)"
| "bits p (C_intptr s) = Some (8 * sz_ptr p)"
| "bits p _ = None"

fun signed_type :: "ctype \<Rightarrow> bool" where
  "signed_type (Stdint s n) = s"
| "signed_type (MS_int64 s) = s"
| "signed_type (C_char s) = s"
| "signed_type (C_short s) = s"
| "signed_type (C_int s) = s"
| "signed_type (C_long s) = s"
| "signed_type (C_long_long s) = s"
| "signed_type (C_intptr s) = s"
| "signed_type _ = True"

text \<open>
  The macros were made on the platform: a size that is defined is the size of the type. On Windows
  \<open>int\<close> has 32 and \<open>short\<close> 16 bits. The documentation is not being generated.
\<close>

definition size_ok :: "macros \<Rightarrow> string \<Rightarrow> nat \<Rightarrow> bool" where
  "size_ok m x n \<longleftrightarrow> defd m x \<longrightarrow> pp_int m x = int n"

definition made_on :: "macros \<Rightarrow> platform \<Rightarrow> bool" where
  "made_on m p \<longleftrightarrow> \<not> defd m DOXYGEN \<and> size_ok m ''EVENT__SIZEOF_SHORT'' (sz_short p) \<and>
     size_ok m ''EVENT__SIZEOF_INT'' (sz_int p) \<and> size_ok m ''EVENT__SIZEOF_LONG'' (sz_long p) \<and>
     size_ok m ''EVENT__SIZEOF_LONG_LONG'' (sz_long_long p) \<and>
     size_ok m ''EVENT__SIZEOF_VOID__'' (sz_ptr p) \<and> size_ok m ''EVENT__SIZEOF_VOID_P'' (sz_ptr p) \<and>
     (defd m WIN32 \<longrightarrow> sz_int p = 4 \<and> sz_short p = 2)"

text \<open>A pair of an unsigned and a signed type of a width.\<close>

definition exact :: "platform \<Rightarrow> nat \<Rightarrow> (ctype \<times> ctype) option \<Rightarrow> bool" where
  "exact p n r \<longleftrightarrow> (\<forall>u s. r = Some (u, s) \<longrightarrow> bits p u = Some n \<and> bits p s = Some n \<and> \<not> signed_type u \<and> signed_type s)"

lemma exact_simps [simp]:
  "exact p n None"
  "exact p n (both t) \<longleftrightarrow> bits p (t False) = Some n \<and> bits p (t True) = Some n \<and>
     \<not> signed_type (t False) \<and> signed_type (t True)"
  by (auto simp: exact_def both_def)

text \<open>A size that an \<open>#if\<close> compares with a number other than 0 is defined.\<close>

lemma size_okD: "size_ok m x n \<Longrightarrow> pp_int m x = int k \<Longrightarrow> 0 < k \<Longrightarrow> n = k"
  by (auto simp: size_ok_def defd_def pp_int_def split: option.splits)

lemma size_ok_numeral: "size_ok m x n \<Longrightarrow> pp_int m x = numeral k \<Longrightarrow> n = numeral k"
  using size_okD [of m x n "numeral k"] by simp

lemma int_types_exact:
  assumes "made_on m p"
  shows "exact p 64 (ev_int64_types m)" "exact p 32 (ev_int32_types m)" "exact p 16 (ev_int16_types m)"
    "exact p 8 (ev_int8_types m)"
  using assms
  by (auto simp: made_on_def ev_int64_types_def ev_int32_types_def ev_int16_types_def ev_int8_types_def
      dest: size_ok_numeral)

section \<open>The shipped configuration\<close>

lemmas config_h_defs = event_config_h_def config_a_def config_b_def config_c_def config_d_def

abbreviation shipped :: "macros \<Rightarrow> macros" where
  "shipped m \<equiv> pp_run event_config_h m"

lemma cfg_uint64: "pp_lookup event_config_h ''EVENT__HAVE_UINT64_T'' v = Some (PP_Int 1)"
  by (simp add: config_h_defs)

lemma cfg_uint32: "pp_lookup event_config_h ''EVENT__HAVE_UINT32_T'' v = Some (PP_Int 1)"
  by (simp add: config_h_defs)

lemma cfg_uint16: "pp_lookup event_config_h ''EVENT__HAVE_UINT16_T'' v = Some (PP_Int 1)"
  by (simp add: config_h_defs)

lemma cfg_uint8: "pp_lookup event_config_h ''EVENT__HAVE_UINT8_T'' v = Some (PP_Int 1)"
  by (simp add: config_h_defs)

lemma cfg_uintptr: "pp_lookup event_config_h ''EVENT__HAVE_UINTPTR_T'' v = Some (PP_Int 1)"
  by (simp add: config_h_defs)

lemma cfg_off_t: "pp_lookup event_config_h ''EVENT__SIZEOF_OFF_T'' v = Some (PP_Int 8)"
  by (simp add: config_h_defs)

lemma cfg_size_t: "pp_lookup event_config_h ''EVENT__SIZEOF_SIZE_T'' v = Some (PP_Int 8)"
  by (simp add: config_h_defs)

lemmas shipped_simps = pp_run_lookup cfg_uint64 cfg_uint32 cfg_uint16 cfg_uint8 cfg_uintptr cfg_off_t cfg_size_t

lemma shipped_types:
  "ev_int64_types (shipped m) = both (\<lambda>s. Stdint s 64)" "ev_int32_types (shipped m) = both (\<lambda>s. Stdint s 32)"
  "ev_int16_types (shipped m) = both (\<lambda>s. Stdint s 16)" "ev_int8_types (shipped m) = both (\<lambda>s. Stdint s 8)"
  "ev_intptr_types (shipped m) = both C_intptr" "ev_off_t (shipped m) = Some (Stdint True 64)"
  by (simp_all add: ev_int64_types_def ev_int32_types_def ev_int16_types_def ev_int8_types_def
      ev_intptr_types_def ev_off_t_def defd_def pp_int_def both_def shipped_simps)

section \<open>Time values: lemmas\<close>

text \<open>A time value in microseconds, and the values whose microseconds are a proper fraction.\<close>

definition usecs :: "timeval \<Rightarrow> int" where
  "usecs t = tv_sec t * 1000000 + tv_usec t"

definition normal :: "timeval \<Rightarrow> bool" where
  "normal t \<longleftrightarrow> 0 \<le> tv_usec t \<and> tv_usec t < 1000000"

lemma normal_div_mod:
  assumes "normal t"
  shows "tv_sec t = usecs t div 1000000" "tv_usec t = usecs t mod 1000000"
  using assms by (simp_all add: normal_def usecs_def)

lemma normal_unique: "normal t \<Longrightarrow> normal u \<Longrightarrow> usecs t = usecs u \<Longrightarrow> t = u"
  by (intro timeval.equality) (simp_all add: normal_div_mod)

lemma timeradd_store:
  "\<exists>r. evutil_timeradd t u v st = st(v := r) \<and> usecs r = usecs (st t) + usecs (st u) \<and>
    (normal (st t) \<and> normal (st u) \<longrightarrow> normal r)"
proof -
  let ?s = "tv_sec (st t) + tv_sec (st u)" and ?us = "tv_usec (st t) + tv_usec (st u)"
  let ?r = "if ?us \<ge> 1000000 then (st v)\<lparr>tv_sec := ?s + 1, tv_usec := ?us - 1000000\<rparr>
    else (st v)\<lparr>tv_sec := ?s, tv_usec := ?us\<rparr>"
  have "evutil_timeradd t u v st = st(v := ?r)"
    by (auto simp: evutil_timeradd_def put_sec_def put_usec_def Let_def)
  moreover have "usecs ?r = usecs (st t) + usecs (st u)" by (simp add: usecs_def)
  moreover have "normal (st t) \<and> normal (st u) \<longrightarrow> normal ?r" by (auto simp: normal_def)
  ultimately show ?thesis by blast
qed

lemma timersub_store:
  "\<exists>r. evutil_timersub t u v st = st(v := r) \<and> usecs r = usecs (st t) - usecs (st u) \<and>
    (normal (st t) \<and> normal (st u) \<longrightarrow> normal r)"
proof -
  let ?s = "tv_sec (st t) - tv_sec (st u)" and ?us = "tv_usec (st t) - tv_usec (st u)"
  let ?r = "if ?us < 0 then (st v)\<lparr>tv_sec := ?s - 1, tv_usec := ?us + 1000000\<rparr>
    else (st v)\<lparr>tv_sec := ?s, tv_usec := ?us\<rparr>"
  have "evutil_timersub t u v st = st(v := ?r)"
    by (auto simp: evutil_timersub_def put_sec_def put_usec_def Let_def)
  moreover have "usecs ?r = usecs (st t) - usecs (st u)" by (simp add: usecs_def)
  moreover have "normal (st t) \<and> normal (st u) \<longrightarrow> normal ?r" by (auto simp: normal_def)
  ultimately show ?thesis by blast
qed

lemma timercmp_lex:
  assumes "normal t" and "normal u"
  shows "tv_sec t < tv_sec u \<Longrightarrow> usecs t < usecs u" "tv_sec t = tv_sec u \<Longrightarrow> usecs t - usecs u = tv_usec t - tv_usec u"
  using assms by (auto simp: normal_def usecs_def)

section \<open>Name lookup: lemmas\<close>

lemma eai_fallback_inj: "eai_fallback c = eai_fallback d \<longleftrightarrow> c = d"
  by (cases c; cases d) simp_all

lemma eai_fallback_low: "eai_fallback c \<le> - 901"
  by (cases c) simp_all

end
