(* ===== verification/Ev_Util_Correct.thy ===== *)
theory Ev_Util_Correct
  imports Ev_Util
begin

text \<open>
  Properties of the portable layer of libevent's headers: the integer types have the documented
  widths on every platform the configuration was made on, the limits are right however they are
  computed, time values add, subtract and compare as durations, and the codes of a name lookup can be
  told apart.
\<close>

section \<open>Integer types and limits\<close>

definition linux64 :: platform where
  "linux64 = \<lparr>sz_short = 2, sz_int = 4, sz_long = 8, sz_long_long = 8, sz_ptr = 8\<rparr>"

definition win32_macros :: macros where
  "win32_macros = [WIN32 \<mapsto> PP_Int 1, ''EVENT__SIZEOF_VOID_P'' \<mapsto> PP_Int 8]"

definition win64 :: platform where
  "win64 = \<lparr>sz_short = 2, sz_int = 4, sz_long = 4, sz_long_long = 8, sz_ptr = 8\<rparr>"

definition holds_pointer :: "platform \<Rightarrow> (ctype \<times> ctype) option \<Rightarrow> bool" where
  "holds_pointer p r \<longleftrightarrow> (\<forall>u s. r = Some (u, s) \<longrightarrow> (\<exists>n k. bits p u = Some n \<and> bits p s = Some k \<and> 8 * sz_ptr p \<le> n \<and> 8 * sz_ptr p \<le> k))"

lemma holds_pointer_exact: "exact p n r \<Longrightarrow> 8 * sz_ptr p \<le> n \<Longrightarrow> holds_pointer p r"
  by (auto simp: holds_pointer_def exact_def)

definition pointer_size_known :: "macros \<Rightarrow> bool" where
  "pointer_size_known m \<longleftrightarrow> defd m ''EVENT__HAVE_UINTPTR_T'' \<or> defd m ''EVENT__SIZEOF_VOID_P'' \<or>
     defd m ''EVENT__SIZEOF_VOID__''"

lemma ev_intptr_holds:
  assumes "made_on m p" and "pointer_size_known m"
  shows "holds_pointer p (ev_intptr_types m)"
proof (cases "defd m ''EVENT__HAVE_UINTPTR_T''")
  case True
  then show ?thesis by (simp add: ev_intptr_types_def holds_pointer_def both_def)
next
  case False
  have size: "sizeof_void_p m = int (sz_ptr p)" and dox: "\<not> defd m DOXYGEN"
    using assms False by (auto simp: made_on_def size_ok_def sizeof_void_p_def pointer_size_known_def)
  have "holds_pointer p (ev_int32_types m)" if "sz_ptr p \<le> 4"
    using int_types_exact(2) [OF assms(1)] that by (auto intro: holds_pointer_exact)
  moreover have "holds_pointer p (ev_int64_types m)" if "sz_ptr p \<le> 8"
    using int_types_exact(1) [OF assms(1)] that by (auto intro: holds_pointer_exact)
  moreover have "holds_pointer p None" by (simp add: holds_pointer_def)
  ultimately show ?thesis using False size dox by (simp add: ev_intptr_types_def)
qed

text \<open>An unknown size counts as 0 in an \<open>#if\<close>.\<close>

lemma ev_intptr_unknown:
  "\<not> pointer_size_known m \<Longrightarrow> ev_intptr_types m = ev_int32_types m"
  by (simp add: pointer_size_known_def ev_intptr_types_def sizeof_void_p_def defd_def pp_int_def)

text \<open>
  C31 (integer types). On every platform and with every configuration made on it, each of
  \<open>ev_uint64_t\<close>, \<open>ev_int64_t\<close>, ..., \<open>ev_int8_t\<close> that the header defines has exactly the width and the sign
  in its name. When the configuration has \<open>uintptr_t\<close> or the size of a pointer under either of its names,
  \<open>ev_uintptr_t\<close> and \<open>ev_intptr_t\<close> hold a pointer; when it has none of the three, they are the types of 32
  bits, whatever the size of a pointer. The shipped configuration defines all the types, whatever else the
  compiler defines, and the pointer types are those of the compiler.
\<close>

theorem ev_types_exact:
  assumes "made_on m p"
  shows "exact p 64 (ev_int64_types m) \<and> exact p 32 (ev_int32_types m) \<and> exact p 16 (ev_int16_types m) \<and>
    exact p 8 (ev_int8_types m) \<and>
    (if pointer_size_known m then holds_pointer p (ev_intptr_types m) else ev_intptr_types m = ev_int32_types m) \<and>
    ev_int64_types (shipped m') \<noteq> None \<and> ev_int32_types (shipped m') \<noteq> None \<and> ev_int16_types (shipped m') \<noteq> None \<and>
    ev_int8_types (shipped m') \<noteq> None \<and> ev_intptr_types (shipped m') = Some (C_intptr False, C_intptr True) \<and>
    ev_off_t (shipped m') = Some (Stdint True 64)"
  unfolding shipped_types using int_types_exact [OF assms] ev_intptr_holds [OF assms] ev_intptr_unknown
  by (simp add: both_def)

theorem ev_types_exact_witness:
  "exact win64 64 (ev_int64_types win32_macros) \<and> exact win64 16 (ev_int16_types win32_macros) \<and>
    holds_pointer win64 (ev_intptr_types win32_macros) \<and> ev_int64_types win32_macros = Some (MS_int64 False, MS_int64 True)"
proof -
  have "made_on win32_macros win64" by (simp add: made_on_def win32_macros_def win64_def size_ok_def defd_def pp_int_def)
  from ev_types_exact [OF this, of Map.empty] show ?thesis
    by (simp add: win32_macros_def defd_def ev_int64_types_def both_def pointer_size_known_def)
qed

text \<open>
  Limits. The limits of the integer types are the same numbers, the right ones, whether they
  come from \<open>stdint.h\<close> or are computed by shifts and negations; and the shipped configuration gives
  those of \<open>size_t\<close> for 64 bits.
\<close>

theorem ev_limits_correct:
  "ev_limits m = \<lparr>EV_UINT64_MAX = 2 ^ 64 - 1, EV_INT64_MAX = 2 ^ 63 - 1, EV_INT64_MIN = - (2 ^ 63),
      EV_UINT32_MAX = 2 ^ 32 - 1, EV_INT32_MAX = 2 ^ 31 - 1, EV_INT32_MIN = - (2 ^ 31),
      EV_UINT16_MAX = 2 ^ 16 - 1, EV_INT16_MAX = 2 ^ 15 - 1, EV_INT16_MIN = - (2 ^ 15),
      EV_UINT8_MAX = 2 ^ 8 - 1, EV_INT8_MAX = 2 ^ 7 - 1, EV_INT8_MIN = - (2 ^ 7)\<rparr> \<and>
   ev_size_limits (shipped m) = Some (2 ^ 64 - 1, 2 ^ 63 - 1, - (2 ^ 63))"
  by (simp add: ev_limits_def ev_size_limits_def Let_def pp_int_def shipped_simps)

section \<open>Time values\<close>

definition ex_tv :: tv_store where
  "ex_tv = (\<lambda>_. \<lparr>tv_sec = 0, tv_usec = 0\<rparr>)(1 := \<lparr>tv_sec = 3, tv_usec = 900000\<rparr>, 2 := \<lparr>tv_sec = 1, tv_usec = 200000\<rparr>)"



text \<open>
  Comparing time. For each of the five operators the documentation allows, \<open>evutil_timercmp\<close> of two
  normal time values is the comparison of the durations, and \<open>evutil_timerisset\<close> says whether a duration
  differs from zero.
\<close>

theorem timercmp_correct:
  assumes "normal t" and "normal u" and "cmp \<in> {(=), (<), (\<le>), (>), (\<ge>)}"
  shows "evutil_timercmp t u cmp = cmp (usecs t) (usecs u) \<and> (evutil_timerisset t \<longleftrightarrow> usecs t \<noteq> 0)"
proof
  show "evutil_timercmp t u cmp = cmp (usecs t) (usecs u)"
  proof (cases "tv_sec t" "tv_sec u" rule: linorder_cases)
    case less
    then have "usecs t < usecs u" by (rule timercmp_lex(1) [OF assms(1,2)])
    then show ?thesis using assms(3) less by (auto simp: evutil_timercmp_def)
  next
    case equal
    have "usecs t = tv_usec t + (usecs u - tv_usec u)" using timercmp_lex(2) [OF assms(1,2) equal] by simp
    then show ?thesis using assms(3) equal by (auto simp: evutil_timercmp_def)
  next
    case greater
    then have "usecs u < usecs t" by (rule timercmp_lex(1) [OF assms(2,1)])
    then show ?thesis using assms(3) greater by (auto simp: evutil_timercmp_def)
  qed
  have "tv_sec t = 0 \<and> tv_usec t = 0" if "usecs t = 0"
    using normal_div_mod [OF assms(1)] that by simp
  then show "evutil_timerisset t \<longleftrightarrow> usecs t \<noteq> 0"
    by (auto simp: evutil_timerisset_def) (simp add: usecs_def)
qed

theorem timercmp_correct_witness:
  "evutil_timercmp (ex_tv 2) (ex_tv 1) (<) = (usecs (ex_tv 2) < usecs (ex_tv 1)) \<and> evutil_timercmp (ex_tv 2) (ex_tv 1) (<)"
proof -
  have "normal (ex_tv 2)" "normal (ex_tv 1)" by (simp_all add: ex_tv_def normal_def)
  then show ?thesis using timercmp_correct [of "ex_tv 2" "ex_tv 1" "(<)"] by (simp add: evutil_timercmp_def ex_tv_def)
qed

section \<open>Name lookup\<close>

text \<open>
  Codes of a name lookup. Whatever codes the system has, as long as its own are pairwise different
  apart from \<open>EAI_NODATA\<close> and \<open>EAI_NONAME\<close> and lie above libevent's substitutes, all codes of
  \<open>evutil_getaddrinfo\<close> are pairwise different, \<open>EVUTIL_EAI_CANCEL\<close> included.
\<close>

theorem eai_codes_distinct:
  assumes above: "\<And>c. defd m (eai_name c) \<Longrightarrow> - 901 < pp_int m (eai_name c)"
    and differ: "\<And>c d. defd m (eai_name c) \<Longrightarrow> defd m (eai_name d) \<Longrightarrow> c \<noteq> d \<Longrightarrow> {c, d} \<noteq> {Nodata, Noname} \<Longrightarrow>
      pp_int m (eai_name c) \<noteq> pp_int m (eai_name d)"
  shows "inj (EVUTIL_EAI m)"
proof (rule injI, rule ccontr)
  fix c d
  assume eq: "EVUTIL_EAI m c = EVUTIL_EAI m d" and ne: "c \<noteq> d"
  have native: "- 901 < pp_int m (eai_name x)" if "eai_native m x" for x
    using above that by (simp add: eai_native_def)
  have both: "eai_native m c" "eai_native m d"
    using eq ne native [of c] native [of d] eai_fallback_low [of c] eai_fallback_low [of d] eai_fallback_inj [of c d]
    by (auto simp: EVUTIL_EAI_def split: if_splits)
  then have same: "pp_int m (eai_name c) = pp_int m (eai_name d)" using eq by (simp add: EVUTIL_EAI_def)
  then have "{c, d} = {Nodata, Noname}" using differ [of c d] both ne by (auto simp: eai_native_def)
  then have "c = Nodata \<and> d = Noname \<or> c = Noname \<and> d = Nodata" by (auto simp: doubleton_eq_iff)
  then show False using both same by (auto simp: eai_native_def)
qed

definition ms_macros :: macros where
  "ms_macros = [''EVENT__HAVE_GETADDRINFO'' \<mapsto> PP_Int 1, ''EAI_NONAME'' \<mapsto> PP_Int 11001, ''EAI_NODATA'' \<mapsto> PP_Int 11001]"

theorem eai_codes_distinct_witness: "inj (EVUTIL_EAI ms_macros) \<and> EVUTIL_EAI ms_macros Nodata = - 907"
proof
  have names: "eai_name c = ''EAI_NONAME'' \<longleftrightarrow> c = Noname" "eai_name c = ''EAI_NODATA'' \<longleftrightarrow> c = Nodata"
    "eai_name c \<noteq> ''EVENT__HAVE_GETADDRINFO''" for c by (cases c; simp)+
  have d: "defd ms_macros (eai_name c) \<longleftrightarrow> c = Noname \<or> c = Nodata" for c
    using names [of c] by (auto simp: ms_macros_def defd_def)
  show "inj (EVUTIL_EAI ms_macros)"
    by (rule eai_codes_distinct) (auto simp: d, auto simp: ms_macros_def pp_int_def)
  show "EVUTIL_EAI ms_macros Nodata = - 907"
    by (simp add: EVUTIL_EAI_def eai_native_def ms_macros_def defd_def pp_int_def)
qed

text \<open>
  The one name the configuration defines without a condition that does not have the prefix its first
  comment promises.
\<close>

lemma config_prefix:
  "filter (\<lambda>l. forced l \<and> \<not> prefix ''EVENT__'' (line_name l)) event_config_h = [Define ''STDC_HEADERS'' (PP_Int 1)]"
  by code_simp

end
