(* ===== verification/Cpp_Model.thy ===== *)
theory Cpp_Model
  imports Event_Config
begin

text \<open>
  The preprocessor, for whole header files: a header is a list of directives and pieces of code (lines,
  enumerations with the values of their constants, or a run of prototypes named by its first and last
  one), with the conditionals as a tree, and is run on a macro environment. The result is the code that reaches
  the compiler and the macros that are defined afterwards. An included file is an argument \<open>inc\<close>: what
  it does to the macros. Its code is not part of the result.

  Two analyses of the text of a header are defined and proved sound for every environment: the name of
  its include guard, and the linkage of its declarations in C++.
\<close>

section \<open>Directives\<close>

datatype pp_cond =
    Defined string
  | At_Least string int
  | At_Most string int
  | Equals string int
  | Differ string string
  | Never
  | C_Not pp_cond
  | C_And pp_cond pp_cond
  | C_Or pp_cond pp_cond

datatype pp =
    Def string pp_value
  | Undef string
  | Include string
  | Code string
  | Enum string "(string \<times> int) list"
  | Cond pp_cond "pp list" "pp list"

fun pp_holds :: "macros \<Rightarrow> pp_cond \<Rightarrow> bool" where
  "pp_holds m (Defined x) = defd m x"
| "pp_holds m (At_Least x i) = (pp_int m x \<ge> i)"
| "pp_holds m (At_Most x i) = (pp_int m x \<le> i)"
| "pp_holds m (Equals x i) = (pp_int m x = i)"
| "pp_holds m (Differ x y) = (pp_int m x \<noteq> pp_int m y)"
| "pp_holds m Never = False"
| "pp_holds m (C_Not c) = (\<not> pp_holds m c)"
| "pp_holds m (C_And c d) = (pp_holds m c \<and> pp_holds m d)"
| "pp_holds m (C_Or c d) = (pp_holds m c \<or> pp_holds m d)"

type_synonym pp_inc = "string \<Rightarrow> macros \<Rightarrow> macros"

fun pp_exec :: "pp_inc \<Rightarrow> pp \<Rightarrow> macros \<Rightarrow> string list \<times> macros"
  and pp_execs :: "pp_inc \<Rightarrow> pp list \<Rightarrow> macros \<Rightarrow> string list \<times> macros" where
  "pp_exec inc (Def x v) m = ([], m(x \<mapsto> v))"
| "pp_exec inc (Undef x) m = ([], m(x := None))"
| "pp_exec inc (Include f) m = ([], inc f m)"
| "pp_exec inc (Code c) m = ([c], m)"
| "pp_exec inc (Enum n cs) m = ([n], m)"
| "pp_exec inc (Cond c xs ys) m = (if pp_holds m c then pp_execs inc xs m else pp_execs inc ys m)"
| "pp_execs inc [] m = ([], m)"
| "pp_execs inc (x # xs) m =
     (let (c1, m1) = pp_exec inc x m; (c2, m2) = pp_execs inc xs m1 in (c1 @ c2, m2))"

abbreviation pp_code :: "pp_inc \<Rightarrow> pp list \<Rightarrow> macros \<Rightarrow> string list" where
  "pp_code inc xs m \<equiv> fst (pp_execs inc xs m)"

abbreviation pp_after :: "pp_inc \<Rightarrow> pp list \<Rightarrow> macros \<Rightarrow> macros" where
  "pp_after inc xs m \<equiv> snd (pp_execs inc xs m)"

text \<open>The files a header may include, and the names it may define or undefine.\<close>

fun pp_includes :: "pp \<Rightarrow> string list" where
  "pp_includes (Include f) = [f]"
| "pp_includes (Cond c xs ys) = concat (map pp_includes xs) @ concat (map pp_includes ys)"
| "pp_includes _ = []"

fun pp_undefs :: "pp \<Rightarrow> string list" where
  "pp_undefs (Undef x) = [x]"
| "pp_undefs (Cond c xs ys) = concat (map pp_undefs xs) @ concat (map pp_undefs ys)"
| "pp_undefs _ = []"

fun pp_touches :: "pp \<Rightarrow> string list" where
  "pp_touches (Def x v) = [x]"
| "pp_touches (Undef x) = [x]"
| "pp_touches (Cond c xs ys) = concat (map pp_touches xs) @ concat (map pp_touches ys)"
| "pp_touches _ = []"

section \<open>What a run changes\<close>

lemma pp_after_Cons: "pp_after inc (x # xs) m = pp_after inc xs (snd (pp_exec inc x m))"
  by (simp add: case_prod_beta Let_def)

lemma pp_code_Cons: "pp_code inc (x # xs) m = fst (pp_exec inc x m) @ pp_code inc xs (snd (pp_exec inc x m))"
  by (simp add: case_prod_beta Let_def)

lemma pp_execs_append:
  "pp_execs inc (xs @ ys) m = (pp_code inc xs m @ pp_code inc ys (pp_after inc xs m), pp_after inc ys (pp_after inc xs m))"
  by (induction xs arbitrary: m) (auto simp: case_prod_beta Let_def)

text \<open>A name that a header never undefines stays defined; one it does not touch keeps its value.\<close>

lemma pp_keeps_defined:
  assumes "\<And>f m. m x \<noteq> None \<Longrightarrow> inc f m x \<noteq> None"
  shows "x \<notin> set (pp_undefs p) \<Longrightarrow> m x \<noteq> None \<Longrightarrow> snd (pp_exec inc p m) x \<noteq> None"
    and "x \<notin> set (concat (map pp_undefs ps)) \<Longrightarrow> m x \<noteq> None \<Longrightarrow> pp_after inc ps m x \<noteq> None"
  using assms
proof (induction inc p m and inc ps m rule: pp_exec_pp_execs.induct)
  case (8 inc p ps m)
  obtain c1 m1 where p: "pp_exec inc p m = (c1, m1)" by fastforce
  have "m1 x \<noteq> None" using 8(1) 8(3-5) p by simp
  then have "pp_after inc ps m1 x \<noteq> None" using 8(2) [OF p [symmetric] refl] 8(3,5) by simp
  then show ?case by (simp only: pp_after_Cons p snd_conv not_False_eq_True)
qed simp_all

lemma pp_keeps_value:
  assumes "\<And>f m. inc f m x = m x"
  shows "x \<notin> set (pp_touches p) \<Longrightarrow> snd (pp_exec inc p m) x = m x"
    and "x \<notin> set (concat (map pp_touches ps)) \<Longrightarrow> pp_after inc ps m x = m x"
  using assms
proof (induction inc p m and inc ps m rule: pp_exec_pp_execs.induct)
  case (8 inc p ps m)
  obtain c1 m1 where p: "pp_exec inc p m = (c1, m1)" by fastforce
  have "m1 x = m x" using 8(1) 8(3,4) p by simp
  moreover have "pp_after inc ps m1 x = m1 x" using 8(2) [OF p [symmetric] refl] 8(3,4) by simp
  ultimately show ?case by (simp only: pp_after_Cons p snd_conv)
qed simp_all

section \<open>Include guards\<close>

text \<open>
  The whole header is one conditional on a name that is not defined, which its first line then defines
  and nothing in it undefines.
\<close>

fun pp_guard :: "pp list \<Rightarrow> string option" where
  "pp_guard [Cond (C_Not (Defined g)) (Def h v # body) []] =
     (if g = h \<and> g \<notin> set (concat (map pp_undefs body)) then Some g else None)"
| "pp_guard _ = None"

lemma pp_guardE:
  assumes "pp_guard h = Some g"
  obtains v body where "h = [Cond (C_Not (Defined g)) (Def g v # body) []]" and "g \<notin> set (concat (map pp_undefs body))"
  using assms by (cases h rule: pp_guard.cases) (auto split: if_splits)

lemma pp_guard_skips: "pp_guard h = Some g \<Longrightarrow> m g \<noteq> None \<Longrightarrow> pp_execs inc h m = ([], m)"
  by (erule pp_guardE) (simp add: defd_def)

lemma pp_guard_sets:
  assumes g: "pp_guard h = Some g" and inc: "\<And>f m. m g \<noteq> None \<Longrightarrow> inc f m g \<noteq> None"
  shows "pp_after inc h m g \<noteq> None"
proof -
  obtain v body where h: "h = [Cond (C_Not (Defined g)) (Def g v # body) []]"
    and u: "g \<notin> set (concat (map pp_undefs body))"
    using g by (rule pp_guardE)
  have "pp_after inc body (m(g \<mapsto> v)) g \<noteq> None"
    using pp_keeps_defined(2) [of g inc body "m(g \<mapsto> v)", OF inc u] by simp
  then show ?thesis by (cases "m g") (simp_all add: h defd_def pp_after_Cons case_prod_beta Let_def)
qed

section \<open>Linkage\<close>

abbreviation CPLUSPLUS :: string where "CPLUSPLUS \<equiv> ''__cplusplus''"
abbreviation OPEN_C :: string where "OPEN_C \<equiv> ''extern \"C\" {''"
abbreviation CLOSE_C :: string where "CLOSE_C \<equiv> ''}''"

text \<open>
  The number of open linkage blocks after one piece of code, \<open>None\<close> if a block is closed that is not open
  or, in C++, something is declared outside of every block.
\<close>

definition link_step :: "bool \<Rightarrow> string \<Rightarrow> nat \<Rightarrow> nat option" where
  "link_step cpp c n = (if c = OPEN_C then Some (Suc n)
     else if c = CLOSE_C then (if n = 0 then None else Some (n - 1))
     else if cpp \<and> n = 0 then None else Some n)"

fun link_run :: "bool \<Rightarrow> string list \<Rightarrow> nat \<Rightarrow> nat option" where
  "link_run cpp [] n = Some n"
| "link_run cpp (c # cs) n = Option.bind (link_step cpp c n) (link_run cpp cs)"

lemma link_run_append: "link_run cpp (cs @ ds) n = Option.bind (link_run cpp cs n) (link_run cpp ds)"
  by (induction cs arbitrary: n) (auto split: Option.bind_split)

text \<open>The same from the text of a header: other conditionals leave the number as it is on both branches.\<close>

fun link_scan :: "bool \<Rightarrow> pp \<Rightarrow> nat \<Rightarrow> nat option"
  and link_scans :: "bool \<Rightarrow> pp list \<Rightarrow> nat \<Rightarrow> nat option" where
  "link_scan cpp (Code c) n = link_step cpp c n"
| "link_scan cpp (Enum x cs) n = link_step cpp x n"
| "link_scan cpp (Cond c xs ys) n =
     (if c = Defined CPLUSPLUS then (if cpp then link_scans cpp xs n else link_scans cpp ys n)
      else if link_scans cpp xs n = link_scans cpp ys n then link_scans cpp xs n else None)"
| "link_scan cpp (Def x v) n = Some n"
| "link_scan cpp (Undef x) n = Some n"
| "link_scan cpp (Include f) n = Some n"
| "link_scans cpp [] n = Some n"
| "link_scans cpp (x # xs) n = Option.bind (link_scan cpp x n) (link_scans cpp xs)"

lemma link_scan_sound:
  assumes "\<And>f m. inc f m CPLUSPLUS = m CPLUSPLUS" and "defd m CPLUSPLUS = cpp"
  shows "CPLUSPLUS \<notin> set (pp_touches p) \<Longrightarrow> link_scan cpp p n = Some k \<Longrightarrow>
      link_run cpp (fst (pp_exec inc p m)) n = Some k"
    and "CPLUSPLUS \<notin> set (concat (map pp_touches ps)) \<Longrightarrow> link_scans cpp ps n = Some k \<Longrightarrow>
      link_run cpp (pp_code inc ps m) n = Some k"
  using assms
proof (induction inc p m and inc ps m arbitrary: n k and n k rule: pp_exec_pp_execs.induct)
  case (6 inc c xs ys m)
  have t: "CPLUSPLUS \<notin> set (concat (map pp_touches xs))" "CPLUSPLUS \<notin> set (concat (map pp_touches ys))"
    using 6(3) by auto
  have s: "link_scans cpp (if pp_holds m c then xs else ys) n = Some k"
    using 6(4,6) by (auto split: if_splits)
  show ?case
  proof (cases "pp_holds m c")
    case True
    then show ?thesis using 6(1) [OF True t(1) _ 6(5,6)] s by simp
  next
    case False
    then show ?thesis using 6(2) [OF False t(2) _ 6(5,6)] s by simp
  qed
next
  case (8 inc p ps m)
  obtain c1 m1 where p: "pp_exec inc p m = (c1, m1)" by fastforce
  from 8(4) obtain j where j: "link_scan cpp p n = Some j" "link_scans cpp ps j = Some k"
    by (auto simp: bind_eq_Some_conv)
  have "m1 CPLUSPLUS = m CPLUSPLUS" using pp_keeps_value(1) [of inc CPLUSPLUS p m, OF 8(5)] 8(3) p by simp
  then have m1: "defd m1 CPLUSPLUS = cpp" using 8(6) by (simp add: defd_def)
  have "link_run cpp c1 n = Some j" using 8(1) [OF _ j(1) 8(5,6)] 8(3) p by simp
  moreover have "link_run cpp (pp_code inc ps m1) j = Some k"
    using 8(2) [OF p [symmetric] refl _ j(2) 8(5) m1] 8(3) by simp
  ultimately show ?case by (simp only: pp_code_Cons p fst_conv snd_conv link_run_append) simp
qed simp_all

end
