(* ===== verification/Headers_Base.thy ===== *)
theory Headers_Base
  imports Cpp_Model
begin

text \<open>
  The headers of \<open>lib/libevent\<close> for the portable layer and the small headers,
  line by line as the preprocessor sees them: every directive, every line of a structure, every
  enumeration with its values. A run of prototypes is one piece of code, named by the first and the
  last of them; macros with parameters are only named here.
\<close>

section \<open>\<open>event2/visibility.h\<close>\<close>

definition visibility_h_1 :: "pp list" where
  "visibility_h_1 =
   [Include ''event2/event-config.h'',
    Cond (C_Or (C_Or (C_Or (C_Or (Defined ''event_shared_EXPORTS'') (Defined ''event_extra_shared_EXPORTS'')) (Defined ''event_core_shared_EXPORTS'')) (Defined ''event_pthreads_shared_EXPORTS'')) (Defined ''event_openssl_shared_EXPORTS''))
      [Cond (C_And (Defined ''__SUNPRO_C'') (At_Least ''__SUNPRO_C'' 1360))
         [Def ''EVENT2_EXPORT_SYMBOL'' (PP_Tokens ''__global'')]
         [Cond (Defined ''__GNUC__'')
            [Def ''EVENT2_EXPORT_SYMBOL'' (PP_Tokens ''__attribute__ ((visibility(\"default\")))'')]
            [Cond (Defined ''_MSC_VER'')
               [Def ''EVENT2_EXPORT_SYMBOL'' (PP_Tokens ''__declspec(dllexport)'')]
               [Def ''EVENT2_EXPORT_SYMBOL'' (PP_Tokens '''')]]]]
      [Def ''EVENT2_EXPORT_SYMBOL'' (PP_Tokens '''')],
    Cond (Defined ''_MSC_VER'')
      [Cond (Defined ''event_core_shared_EXPORTS'')
         [Def ''EVENT2_CORE_EXPORT_SYMBOL'' (PP_Tokens ''__declspec(dllexport)'')]
         [Cond (C_Or (Defined ''event_extra_shared_EXPORTS'') (Defined ''EVENT_VISIBILITY_WANT_DLLIMPORT''))
            [Def ''EVENT2_CORE_EXPORT_SYMBOL'' (PP_Tokens ''__declspec(dllimport)'')]
            []]]
      [],
    Cond (C_Not (Defined ''EVENT2_CORE_EXPORT_SYMBOL''))
      [Def ''EVENT2_CORE_EXPORT_SYMBOL'' (PP_Tokens ''EVENT2_EXPORT_SYMBOL'')]
      []]"

definition visibility_h :: "pp list" where
  "visibility_h =
     [Cond (C_Not (Defined ''EVENT2_VISIBILITY_H_INCLUDED_'')) (Def ''EVENT2_VISIBILITY_H_INCLUDED_'' (PP_Tokens '''') #
       visibility_h_1) []]"

lemmas visibility_h_text = visibility_h_def visibility_h_1_def

section \<open>\<open>event2/util.h\<close>\<close>

definition util_h_1 :: "pp list" where
  "util_h_1 =
   [Include ''event2/visibility.h'',
    Cond (Defined ''__cplusplus'')
      [Code ''extern \"C\" {'']
      [],
    Include ''event2/event-config.h'',
    Cond (Defined ''EVENT__HAVE_SYS_TIME_H'')
      [Include ''sys/time.h'']
      [],
    Cond (Defined ''EVENT__HAVE_STDINT_H'')
      [Include ''stdint.h'']
      [Cond (Defined ''EVENT__HAVE_INTTYPES_H'')
         [Include ''inttypes.h'']
         []],
    Cond (Defined ''EVENT__HAVE_SYS_TYPES_H'')
      [Include ''sys/types.h'']
      [],
    Cond (Defined ''EVENT__HAVE_STDDEF_H'')
      [Include ''stddef.h'']
      [],
    Cond (Defined ''_MSC_VER'')
      [Include ''BaseTsd.h'']
      [],
    Include ''stdarg.h'',
    Cond (Defined ''EVENT__HAVE_NETDB_H'')
      [Include ''netdb.h'']
      [],
    Cond (Defined ''_WIN32'')
      [Include ''winsock2.h'',
       Cond (Defined ''EVENT__HAVE_GETADDRINFO'')
         [Include ''ws2tcpip.h'']
         []]
      [Cond (Defined ''EVENT__HAVE_ERRNO_H'')
         [Include ''errno.h'']
         [],
       Include ''sys/socket.h''],
    Include ''time.h'',
    Cond (C_And (Defined ''EVENT__SIZEOF_VOID__'') (C_Not (Defined ''EVENT__SIZEOF_VOID_P'')))
      [Def ''EVENT__SIZEOF_VOID_P'' (PP_Tokens ''EVENT__SIZEOF_VOID__'')]
      []]"

definition util_h_2 :: "pp list" where
  "util_h_2 =
   [Cond (Defined ''EVENT__HAVE_UINT64_T'')
      [Def ''ev_uint64_t'' (PP_Tokens ''uint64_t''), Def ''ev_int64_t'' (PP_Tokens ''int64_t'')]
      [Cond (Defined ''_WIN32'')
         [Def ''ev_uint64_t'' (PP_Tokens ''unsigned __int64''),
          Def ''ev_int64_t'' (PP_Tokens ''signed __int64'')]
         [Cond (Equals ''EVENT__SIZEOF_LONG_LONG'' 8)
            [Def ''ev_uint64_t'' (PP_Tokens ''unsigned long long''),
             Def ''ev_int64_t'' (PP_Tokens ''long long'')]
            [Cond (Equals ''EVENT__SIZEOF_LONG'' 8)
               [Def ''ev_uint64_t'' (PP_Tokens ''unsigned long''),
                Def ''ev_int64_t'' (PP_Tokens ''long'')]
               [Cond (Defined ''EVENT_IN_DOXYGEN_'')
                  [Def ''ev_uint64_t'' (PP_Tokens ''...''), Def ''ev_int64_t'' (PP_Tokens ''...'')]
                  [Code ''#error'']]]]],
    Cond (Defined ''EVENT__HAVE_UINT32_T'')
      [Def ''ev_uint32_t'' (PP_Tokens ''uint32_t''), Def ''ev_int32_t'' (PP_Tokens ''int32_t'')]
      [Cond (Defined ''_WIN32'')
         [Def ''ev_uint32_t'' (PP_Tokens ''unsigned int''),
          Def ''ev_int32_t'' (PP_Tokens ''signed int'')]
         [Cond (Equals ''EVENT__SIZEOF_LONG'' 4)
            [Def ''ev_uint32_t'' (PP_Tokens ''unsigned long''),
             Def ''ev_int32_t'' (PP_Tokens ''signed long'')]
            [Cond (Equals ''EVENT__SIZEOF_INT'' 4)
               [Def ''ev_uint32_t'' (PP_Tokens ''unsigned int''),
                Def ''ev_int32_t'' (PP_Tokens ''signed int'')]
               [Cond (Defined ''EVENT_IN_DOXYGEN_'')
                  [Def ''ev_uint32_t'' (PP_Tokens ''...''), Def ''ev_int32_t'' (PP_Tokens ''...'')]
                  [Code ''#error'']]]]],
    Cond (Defined ''EVENT__HAVE_UINT16_T'')
      [Def ''ev_uint16_t'' (PP_Tokens ''uint16_t''), Def ''ev_int16_t'' (PP_Tokens ''int16_t'')]
      [Cond (Defined ''_WIN32'')
         [Def ''ev_uint16_t'' (PP_Tokens ''unsigned short''),
          Def ''ev_int16_t'' (PP_Tokens ''signed short'')]
         [Cond (Equals ''EVENT__SIZEOF_INT'' 2)
            [Def ''ev_uint16_t'' (PP_Tokens ''unsigned int''),
             Def ''ev_int16_t'' (PP_Tokens ''signed int'')]
            [Cond (Equals ''EVENT__SIZEOF_SHORT'' 2)
               [Def ''ev_uint16_t'' (PP_Tokens ''unsigned short''),
                Def ''ev_int16_t'' (PP_Tokens ''signed short'')]
               [Cond (Defined ''EVENT_IN_DOXYGEN_'')
                  [Def ''ev_uint16_t'' (PP_Tokens ''...''), Def ''ev_int16_t'' (PP_Tokens ''...'')]
                  [Code ''#error'']]]]],
    Cond (Defined ''EVENT__HAVE_UINT8_T'')
      [Def ''ev_uint8_t'' (PP_Tokens ''uint8_t''), Def ''ev_int8_t'' (PP_Tokens ''int8_t'')]
      [Cond (Defined ''EVENT_IN_DOXYGEN_'')
         [Def ''ev_uint8_t'' (PP_Tokens ''...''), Def ''ev_int8_t'' (PP_Tokens ''...'')]
         [Def ''ev_uint8_t'' (PP_Tokens ''unsigned char''),
          Def ''ev_int8_t'' (PP_Tokens ''signed char'')]],
    Cond (Defined ''EVENT__HAVE_UINTPTR_T'')
      [Def ''ev_uintptr_t'' (PP_Tokens ''uintptr_t''), Def ''ev_intptr_t'' (PP_Tokens ''intptr_t'')]
      [Cond (At_Most ''EVENT__SIZEOF_VOID_P'' 4)
         [Def ''ev_uintptr_t'' (PP_Tokens ''ev_uint32_t''),
          Def ''ev_intptr_t'' (PP_Tokens ''ev_int32_t'')]
         [Cond (At_Most ''EVENT__SIZEOF_VOID_P'' 8)
            [Def ''ev_uintptr_t'' (PP_Tokens ''ev_uint64_t''),
             Def ''ev_intptr_t'' (PP_Tokens ''ev_int64_t'')]
            [Cond (Defined ''EVENT_IN_DOXYGEN_'')
               [Def ''ev_uintptr_t'' (PP_Tokens ''...''), Def ''ev_intptr_t'' (PP_Tokens ''...'')]
               [Code ''#error'']]]],
    Cond (Defined ''EVENT__ssize_t'')
      [Def ''ev_ssize_t'' (PP_Tokens ''EVENT__ssize_t'')]
      [Def ''ev_ssize_t'' (PP_Tokens ''ssize_t'')],
    Cond (Defined ''_WIN32'')
      [Def ''ev_off_t'' (PP_Tokens ''ev_int64_t'')]
      [Cond (Equals ''EVENT__SIZEOF_OFF_T'' 8)
         [Def ''ev_off_t'' (PP_Tokens ''ev_int64_t'')]
         [Cond (Equals ''EVENT__SIZEOF_OFF_T'' 4)
            [Def ''ev_off_t'' (PP_Tokens ''ev_int32_t'')]
            [Cond (Defined ''EVENT_IN_DOXYGEN_'')
               [Def ''ev_off_t'' (PP_Tokens ''...'')]
               [Def ''ev_off_t'' (PP_Tokens ''off_t'')]]]]]"

definition util_h_3 :: "pp list" where
  "util_h_3 =
   [Cond (C_Not (Defined ''EVENT__HAVE_STDINT_H''))
      [Def ''EV_UINT64_MAX'' (PP_Tokens ''((((ev_uint64_t)0xffffffffUL) << 32) | 0xffffffffUL)''),
       Def ''EV_INT64_MAX'' (PP_Tokens ''((((ev_int64_t) 0x7fffffffL) << 32) | 0xffffffffL)''),
       Def ''EV_INT64_MIN'' (PP_Tokens ''((-EV_INT64_MAX) - 1)''),
       Def ''EV_UINT32_MAX'' (PP_Tokens ''((ev_uint32_t)0xffffffffUL)''),
       Def ''EV_INT32_MAX'' (PP_Tokens ''((ev_int32_t) 0x7fffffffL)''),
       Def ''EV_INT32_MIN'' (PP_Tokens ''((-EV_INT32_MAX) - 1)''),
       Def ''EV_UINT16_MAX'' (PP_Tokens ''((ev_uint16_t)0xffffUL)''),
       Def ''EV_INT16_MAX'' (PP_Tokens ''((ev_int16_t) 0x7fffL)''),
       Def ''EV_INT16_MIN'' (PP_Tokens ''((-EV_INT16_MAX) - 1)''), Def ''EV_UINT8_MAX'' (PP_Int 255),
       Def ''EV_INT8_MAX'' (PP_Int 127), Def ''EV_INT8_MIN'' (PP_Tokens ''((-EV_INT8_MAX) - 1)'')]
      [Def ''EV_UINT64_MAX'' (PP_Tokens ''UINT64_MAX''),
       Def ''EV_INT64_MAX'' (PP_Tokens ''INT64_MAX''),
       Def ''EV_INT64_MIN'' (PP_Tokens ''INT64_MIN''),
       Def ''EV_UINT32_MAX'' (PP_Tokens ''UINT32_MAX''),
       Def ''EV_INT32_MAX'' (PP_Tokens ''INT32_MAX''),
       Def ''EV_INT32_MIN'' (PP_Tokens ''INT32_MIN''),
       Def ''EV_UINT16_MAX'' (PP_Tokens ''UINT16_MAX''),
       Def ''EV_INT16_MIN'' (PP_Tokens ''INT16_MIN''),
       Def ''EV_INT16_MAX'' (PP_Tokens ''INT16_MAX''),
       Def ''EV_UINT8_MAX'' (PP_Tokens ''UINT8_MAX''), Def ''EV_INT8_MAX'' (PP_Tokens ''INT8_MAX''),
       Def ''EV_INT8_MIN'' (PP_Tokens ''INT8_MIN'')],
    Cond (Equals ''EVENT__SIZEOF_SIZE_T'' 8)
      [Def ''EV_SIZE_MAX'' (PP_Tokens ''EV_UINT64_MAX''),
       Def ''EV_SSIZE_MAX'' (PP_Tokens ''EV_INT64_MAX'')]
      [Cond (Equals ''EVENT__SIZEOF_SIZE_T'' 4)
         [Def ''EV_SIZE_MAX'' (PP_Tokens ''EV_UINT32_MAX''),
          Def ''EV_SSIZE_MAX'' (PP_Tokens ''EV_INT32_MAX'')]
         [Cond (Defined ''EVENT_IN_DOXYGEN_'')
            [Def ''EV_SIZE_MAX'' (PP_Tokens ''...''), Def ''EV_SSIZE_MAX'' (PP_Tokens ''...'')]
            [Code ''#error'']]],
    Def ''EV_SSIZE_MIN'' (PP_Tokens ''((-EV_SSIZE_MAX) - 1)''),
    Cond (Defined ''_WIN32'')
      [Def ''ev_socklen_t'' (PP_Tokens ''int'')]
      [Cond (Defined ''EVENT__socklen_t'')
         [Def ''ev_socklen_t'' (PP_Tokens ''EVENT__socklen_t'')]
         [Def ''ev_socklen_t'' (PP_Tokens ''socklen_t'')]],
    Cond (Defined ''EVENT__HAVE_STRUCT_SOCKADDR_STORAGE___SS_FAMILY'')
      [Cond (C_And (C_Not (Defined ''EVENT__HAVE_STRUCT_SOCKADDR_STORAGE_SS_FAMILY'')) (C_Not (Defined ''ss_family'')))
         [Def ''ss_family'' (PP_Tokens ''__ss_family'')]
         []]
      [],
    Cond (Defined ''_WIN32'')
      [Def ''evutil_socket_t'' (PP_Tokens ''intptr_t'')]
      [Def ''evutil_socket_t'' (PP_Tokens ''int'')],
    Code ''struct evutil_monotonic_timer'',
    Cond (Defined ''EVENT_IN_DOXYGEN_'')
      [Code ''{ }'']
      [],
    Code '';'', Def ''EV_MONOT_PRECISE'' (PP_Int 1), Def ''EV_MONOT_FALLBACK'' (PP_Int 2)]"

definition util_h_4 :: "pp list" where
  "util_h_4 =
   [Def ''EVUTIL_CLOSESOCKET'' PP_Macro, Code ''evutil_make_tcp_listen_socket_deferred'',
    Cond (Defined ''_WIN32'')
      [Def ''EVUTIL_SOCKET_ERROR'' PP_Macro, Def ''EVUTIL_SET_SOCKET_ERROR'' PP_Macro,
       Code ''evutil_socket_geterror ... evutil_socket_error_to_string'',
       Def ''EVUTIL_INVALID_SOCKET'' (PP_Tokens ''INVALID_SOCKET'')]
      [Cond (Defined ''EVENT_IN_DOXYGEN_'')
         [Def ''EVUTIL_SOCKET_ERROR'' PP_Macro, Def ''EVUTIL_SET_SOCKET_ERROR'' PP_Macro,
          Def ''evutil_socket_geterror'' PP_Macro, Def ''evutil_socket_error_to_string'' PP_Macro,
          Def ''EVUTIL_INVALID_SOCKET'' (PP_Int (- 1))]
         [Def ''EVUTIL_SOCKET_ERROR'' PP_Macro, Def ''EVUTIL_SET_SOCKET_ERROR'' PP_Macro,
          Def ''evutil_socket_geterror'' PP_Macro, Def ''evutil_socket_error_to_string'' PP_Macro,
          Def ''EVUTIL_INVALID_SOCKET'' (PP_Int (- 1))]],
    Cond (Defined ''EVENT__HAVE_TIMERADD'')
      [Def ''evutil_timeradd'' PP_Macro, Def ''evutil_timersub'' PP_Macro]
      [Def ''evutil_timeradd'' PP_Macro, Def ''evutil_timersub'' PP_Macro],
    Cond (Defined ''EVENT__HAVE_TIMERCLEAR'')
      [Def ''evutil_timerclear'' PP_Macro]
      [Def ''evutil_timerclear'' PP_Macro],
    Def ''evutil_timercmp'' PP_Macro,
    Cond (Defined ''EVENT__HAVE_TIMERISSET'')
      [Def ''evutil_timerisset'' PP_Macro]
      [Def ''evutil_timerisset'' PP_Macro],
    Cond (Defined ''offsetof'')
      [Def ''evutil_offsetof'' PP_Macro]
      [Def ''evutil_offsetof'' PP_Macro],
    Code ''evutil_strtoll'',
    Cond (Defined ''EVENT__HAVE_GETTIMEOFDAY'')
      [Def ''evutil_gettimeofday'' PP_Macro]
      [Code ''struct timezone ... evutil_gettimeofday''],
    Code ''evutil_snprintf'',
    Cond (Defined ''__GNUC__'')
      [Code ''__attribute__((format(printf, 3, 4)))'']
      []]"

definition util_h_5 :: "pp list" where
  "util_h_5 =
   [Code ''evutil_vsnprintf'',
    Cond (Defined ''__GNUC__'')
      [Code ''__attribute__((format(printf, 3, 0)))'']
      []]"

definition util_h_6 :: "pp list" where
  "util_h_6 =
   [Cond (Defined ''EVENT__HAVE_STRUCT_ADDRINFO'')
      [Def ''evutil_addrinfo'' (PP_Tokens ''addrinfo'')]
      [Code ''struct evutil_addrinfo {'', Code ''int ai_flags;'', Code ''int ai_family;'',
       Code ''int ai_socktype;'', Code ''int ai_protocol;'', Code ''size_t ai_addrlen;'',
       Code ''char *ai_canonname;'', Code ''struct sockaddr *ai_addr;'',
       Code ''struct evutil_addrinfo *ai_next;'', Code ''};''],
    Cond (C_And (Defined ''EAI_ADDRFAMILY'') (Defined ''EVENT__HAVE_GETADDRINFO''))
      [Def ''EVUTIL_EAI_ADDRFAMILY'' (PP_Tokens ''EAI_ADDRFAMILY'')]
      [Def ''EVUTIL_EAI_ADDRFAMILY'' (PP_Int (- 901))],
    Cond (C_And (Defined ''EAI_AGAIN'') (Defined ''EVENT__HAVE_GETADDRINFO''))
      [Def ''EVUTIL_EAI_AGAIN'' (PP_Tokens ''EAI_AGAIN'')]
      [Def ''EVUTIL_EAI_AGAIN'' (PP_Int (- 902))],
    Cond (C_And (Defined ''EAI_BADFLAGS'') (Defined ''EVENT__HAVE_GETADDRINFO''))
      [Def ''EVUTIL_EAI_BADFLAGS'' (PP_Tokens ''EAI_BADFLAGS'')]
      [Def ''EVUTIL_EAI_BADFLAGS'' (PP_Int (- 903))],
    Cond (C_And (Defined ''EAI_FAIL'') (Defined ''EVENT__HAVE_GETADDRINFO''))
      [Def ''EVUTIL_EAI_FAIL'' (PP_Tokens ''EAI_FAIL'')]
      [Def ''EVUTIL_EAI_FAIL'' (PP_Int (- 904))],
    Cond (C_And (Defined ''EAI_FAMILY'') (Defined ''EVENT__HAVE_GETADDRINFO''))
      [Def ''EVUTIL_EAI_FAMILY'' (PP_Tokens ''EAI_FAMILY'')]
      [Def ''EVUTIL_EAI_FAMILY'' (PP_Int (- 905))],
    Cond (C_And (Defined ''EAI_MEMORY'') (Defined ''EVENT__HAVE_GETADDRINFO''))
      [Def ''EVUTIL_EAI_MEMORY'' (PP_Tokens ''EAI_MEMORY'')]
      [Def ''EVUTIL_EAI_MEMORY'' (PP_Int (- 906))],
    Cond (C_And (C_And (Defined ''EAI_NODATA'') (Defined ''EVENT__HAVE_GETADDRINFO'')) (C_Or (C_Not (Defined ''EAI_NONAME'')) (Differ ''EAI_NODATA'' ''EAI_NONAME'')))
      [Def ''EVUTIL_EAI_NODATA'' (PP_Tokens ''EAI_NODATA'')]
      [Def ''EVUTIL_EAI_NODATA'' (PP_Int (- 907))],
    Cond (C_And (Defined ''EAI_NONAME'') (Defined ''EVENT__HAVE_GETADDRINFO''))
      [Def ''EVUTIL_EAI_NONAME'' (PP_Tokens ''EAI_NONAME'')]
      [Def ''EVUTIL_EAI_NONAME'' (PP_Int (- 908))],
    Cond (C_And (Defined ''EAI_SERVICE'') (Defined ''EVENT__HAVE_GETADDRINFO''))
      [Def ''EVUTIL_EAI_SERVICE'' (PP_Tokens ''EAI_SERVICE'')]
      [Def ''EVUTIL_EAI_SERVICE'' (PP_Int (- 909))],
    Cond (C_And (Defined ''EAI_SOCKTYPE'') (Defined ''EVENT__HAVE_GETADDRINFO''))
      [Def ''EVUTIL_EAI_SOCKTYPE'' (PP_Tokens ''EAI_SOCKTYPE'')]
      [Def ''EVUTIL_EAI_SOCKTYPE'' (PP_Int (- 910))],
    Cond (C_And (Defined ''EAI_SYSTEM'') (Defined ''EVENT__HAVE_GETADDRINFO''))
      [Def ''EVUTIL_EAI_SYSTEM'' (PP_Tokens ''EAI_SYSTEM'')]
      [Def ''EVUTIL_EAI_SYSTEM'' (PP_Int (- 911))],
    Def ''EVUTIL_EAI_CANCEL'' (PP_Int (- 90001)),
    Cond (C_And (Defined ''AI_PASSIVE'') (Defined ''EVENT__HAVE_GETADDRINFO''))
      [Def ''EVUTIL_AI_PASSIVE'' (PP_Tokens ''AI_PASSIVE'')]
      [Def ''EVUTIL_AI_PASSIVE'' (PP_Int 4096)],
    Cond (C_And (Defined ''AI_CANONNAME'') (Defined ''EVENT__HAVE_GETADDRINFO''))
      [Def ''EVUTIL_AI_CANONNAME'' (PP_Tokens ''AI_CANONNAME'')]
      [Def ''EVUTIL_AI_CANONNAME'' (PP_Int 8192)],
    Cond (C_And (Defined ''AI_NUMERICHOST'') (Defined ''EVENT__HAVE_GETADDRINFO''))
      [Def ''EVUTIL_AI_NUMERICHOST'' (PP_Tokens ''AI_NUMERICHOST'')]
      [Def ''EVUTIL_AI_NUMERICHOST'' (PP_Int 16384)],
    Cond (C_And (Defined ''AI_NUMERICSERV'') (Defined ''EVENT__HAVE_GETADDRINFO''))
      [Def ''EVUTIL_AI_NUMERICSERV'' (PP_Tokens ''AI_NUMERICSERV'')]
      [Def ''EVUTIL_AI_NUMERICSERV'' (PP_Int 32768)],
    Cond (C_And (Defined ''AI_V4MAPPED'') (Defined ''EVENT__HAVE_GETADDRINFO''))
      [Def ''EVUTIL_AI_V4MAPPED'' (PP_Tokens ''AI_V4MAPPED'')]
      [Def ''EVUTIL_AI_V4MAPPED'' (PP_Int 65536)],
    Cond (C_And (Defined ''AI_ALL'') (Defined ''EVENT__HAVE_GETADDRINFO''))
      [Def ''EVUTIL_AI_ALL'' (PP_Tokens ''AI_ALL'')]
      [Def ''EVUTIL_AI_ALL'' (PP_Int 131072)],
    Cond (C_And (Defined ''AI_ADDRCONFIG'') (Defined ''EVENT__HAVE_GETADDRINFO''))
      [Def ''EVUTIL_AI_ADDRCONFIG'' (PP_Tokens ''AI_ADDRCONFIG'')]
      [Def ''EVUTIL_AI_ADDRCONFIG'' (PP_Int 262144)]]"

definition util_h_7 :: "pp list" where
  "util_h_7 =
   [Cond (C_Or (C_Not (Defined ''EVENT__HAVE_ARC4RANDOM'')) (Defined ''EVENT__HAVE_ARC4RANDOM_ADDRANDOM''))
      [Code ''evutil_secure_rng_add_bytes'']
      [],
    Cond (Defined ''__cplusplus'')
      [Code ''}'']
      []]"

definition util_h :: "pp list" where
  "util_h =
     [Cond (C_Not (Defined ''EVENT2_UTIL_H_INCLUDED_'')) (Def ''EVENT2_UTIL_H_INCLUDED_'' (PP_Tokens '''') #
       util_h_1 @
       util_h_2 @
       util_h_3 @
       [Code ''evutil_date_rfc1123 ... evutil_closesocket''] @
       util_h_4 @
       util_h_5 @
       [Code ''evutil_inet_ntop ... evutil_ascii_strncasecmp''] @
       util_h_6 @
       [Code ''struct evutil_addrinfo ... evutil_secure_rng_set_urandom_device_file''] @
       util_h_7) []]"

lemmas util_h_text = util_h_def util_h_1_def util_h_2_def util_h_3_def util_h_4_def util_h_5_def util_h_6_def util_h_7_def

section \<open>\<open>event2/tag.h\<close>\<close>

definition tag_h_1 :: "pp list" where
  "tag_h_1 =
   [Include ''event2/visibility.h'',
    Cond (Defined ''__cplusplus'')
      [Code ''extern \"C\" {'']
      [],
    Include ''event2/event-config.h'',
    Cond (Defined ''EVENT__HAVE_SYS_TYPES_H'')
      [Include ''sys/types.h'']
      [],
    Cond (Defined ''EVENT__HAVE_SYS_TIME_H'')
      [Include ''sys/time.h'']
      [],
    Include ''event2/util.h'']"

definition tag_h_2 :: "pp list" where
  "tag_h_2 =
   [Cond (Defined ''__cplusplus'')
      [Code ''}'']
      []]"

definition tag_h :: "pp list" where
  "tag_h =
     [Cond (C_Not (Defined ''EVENT2_TAG_H_INCLUDED_'')) (Def ''EVENT2_TAG_H_INCLUDED_'' (PP_Tokens '''') #
       tag_h_1 @
       [Code ''struct evbuffer ... evtag_unmarshal_timeval''] @
       tag_h_2) []]"

lemmas tag_h_text = tag_h_def tag_h_1_def tag_h_2_def

section \<open>\<open>event2/tag_compat.h\<close>\<close>

definition tag_compat_h_1 :: "pp list" where
  "tag_compat_h_1 =
   [Def ''encode_int'' PP_Macro, Def ''encode_int64'' PP_Macro]"

definition tag_compat_h :: "pp list" where
  "tag_compat_h =
     [Cond (C_Not (Defined ''EVENT2_TAG_COMPAT_H_INCLUDED_'')) (Def ''EVENT2_TAG_COMPAT_H_INCLUDED_'' (PP_Tokens '''') #
       tag_compat_h_1) []]"

lemmas tag_compat_h_text = tag_compat_h_def tag_compat_h_1_def

section \<open>\<open>event2/thread.h\<close>\<close>

definition thread_h_1 :: "pp list" where
  "thread_h_1 =
   [Include ''event2/visibility.h'',
    Cond (Defined ''__cplusplus'')
      [Code ''extern \"C\" {'']
      [],
    Include ''event2/event-config.h'', Def ''EVTHREAD_WRITE'' (PP_Int 4),
    Def ''EVTHREAD_READ'' (PP_Int 8), Def ''EVTHREAD_TRY'' (PP_Int 16)]"

definition thread_h_2 :: "pp list" where
  "thread_h_2 =
   [Cond (C_Or (C_Not (Defined ''EVENT__DISABLE_THREAD_SUPPORT'')) (Defined ''EVENT_IN_DOXYGEN_''))
      [Def ''EVTHREAD_LOCK_API_VERSION'' (PP_Int 1), Def ''EVTHREAD_LOCKTYPE_RECURSIVE'' (PP_Int 1),
       Def ''EVTHREAD_LOCKTYPE_READWRITE'' (PP_Int 2), Code ''struct evthread_lock_callbacks {'',
       Code ''int lock_api_version;'', Code ''unsigned supported_locktypes;'',
       Code ''void *(*alloc)(unsigned locktype);'',
       Code ''void (*free)(void *lock, unsigned locktype);'',
       Code ''int (*lock)(unsigned mode, void *lock);'',
       Code ''int (*unlock)(unsigned mode, void *lock);'', Code ''};'',
       Code ''evthread_set_lock_callbacks'', Def ''EVTHREAD_CONDITION_API_VERSION'' (PP_Int 1),
       Code ''struct timeval'', Code ''struct evthread_condition_callbacks {'',
       Code ''int condition_api_version;'', Code ''void *(*alloc_condition)(unsigned condtype);'',
       Code ''void (*free_condition)(void *cond);'',
       Code ''int (*signal_condition)(void *cond, int broadcast);'',
       Code ''int (*wait_condition)(void *cond, void *lock,'',
       Code ''const struct timeval *timeout);'', Code ''};'',
       Code ''evthread_set_condition_callbacks ... evthread_set_id_callback'',
       Cond (C_Or (C_And (Defined ''_WIN32'') (C_Not (Defined ''EVENT__DISABLE_THREAD_SUPPORT''))) (Defined ''EVENT_IN_DOXYGEN_''))
         [Code ''evthread_use_windows_threads'',
          Def ''EVTHREAD_USE_WINDOWS_THREADS_IMPLEMENTED'' (PP_Int 1)]
         [],
       Cond (C_Or (Defined ''EVENT__HAVE_PTHREADS'') (Defined ''EVENT_IN_DOXYGEN_''))
         [Code ''evthread_use_pthreads'', Def ''EVTHREAD_USE_PTHREADS_IMPLEMENTED'' (PP_Int 1)]
         [],
       Code ''evthread_enable_lock_debugging ... evthread_enable_lock_debuging'']
      []]"

definition thread_h_3 :: "pp list" where
  "thread_h_3 =
   [Code ''struct event_base ... evthread_make_base_notifiable'',
    Cond (Defined ''__cplusplus'')
      [Code ''}'']
      []]"

definition thread_h :: "pp list" where
  "thread_h =
     [Cond (C_Not (Defined ''EVENT2_THREAD_H_INCLUDED_'')) (Def ''EVENT2_THREAD_H_INCLUDED_'' (PP_Tokens '''') #
       thread_h_1 @
       thread_h_2 @
       thread_h_3) []]"

lemmas thread_h_text = thread_h_def thread_h_1_def thread_h_2_def thread_h_3_def

section \<open>\<open>event2/keyvalq_struct.h\<close>\<close>

definition keyvalq_struct_h_1 :: "pp list" where
  "keyvalq_struct_h_1 =
   [Cond (Defined ''__cplusplus'')
      [Code ''extern \"C\" {'']
      [],
    Cond (C_Not (Defined ''TAILQ_ENTRY''))
      [Def ''EVENT_DEFINED_TQENTRY_'' (PP_Tokens ''''), Def ''TAILQ_ENTRY'' PP_Macro]
      [],
    Cond (C_Not (Defined ''TAILQ_HEAD''))
      [Def ''EVENT_DEFINED_TQHEAD_'' (PP_Tokens ''''), Def ''TAILQ_HEAD'' PP_Macro]
      [],
    Code ''struct evkeyval {'', Code ''TAILQ_ENTRY(evkeyval) next;'', Code ''char *key;'',
    Code ''char *value;'', Code ''};'', Code ''TAILQ_HEAD'',
    Cond (Defined ''EVENT_DEFINED_TQENTRY_'')
      [Undef ''TAILQ_ENTRY'']
      [],
    Cond (Defined ''EVENT_DEFINED_TQHEAD_'')
      [Undef ''TAILQ_HEAD'']
      [],
    Cond (Defined ''__cplusplus'')
      [Code ''}'']
      []]"

definition keyvalq_struct_h :: "pp list" where
  "keyvalq_struct_h =
     [Cond (C_Not (Defined ''EVENT2_KEYVALQ_STRUCT_H_INCLUDED_'')) (Def ''EVENT2_KEYVALQ_STRUCT_H_INCLUDED_'' (PP_Tokens '''') #
       keyvalq_struct_h_1) []]"

lemmas keyvalq_struct_h_text = keyvalq_struct_h_def keyvalq_struct_h_1_def

section \<open>\<open>event2/event_struct.h\<close>\<close>

definition event_struct_h_1 :: "pp list" where
  "event_struct_h_1 =
   [Cond (Defined ''__cplusplus'')
      [Code ''extern \"C\" {'']
      [],
    Include ''event2/event-config.h'',
    Cond (Defined ''EVENT__HAVE_SYS_TYPES_H'')
      [Include ''sys/types.h'']
      [],
    Cond (Defined ''EVENT__HAVE_SYS_TIME_H'')
      [Include ''sys/time.h'']
      [],
    Include ''event2/util.h'', Include ''event2/keyvalq_struct.h'',
    Def ''EVLIST_TIMEOUT'' (PP_Int 1), Def ''EVLIST_INSERTED'' (PP_Int 2),
    Def ''EVLIST_SIGNAL'' (PP_Int 4), Def ''EVLIST_ACTIVE'' (PP_Int 8),
    Def ''EVLIST_INTERNAL'' (PP_Int 16), Def ''EVLIST_ACTIVE_LATER'' (PP_Int 32),
    Def ''EVLIST_FINALIZING'' (PP_Int 64), Def ''EVLIST_INIT'' (PP_Int 128),
    Def ''EVLIST_ALL'' (PP_Int 255),
    Cond (C_Not (Defined ''TAILQ_ENTRY''))
      [Def ''EVENT_DEFINED_TQENTRY_'' (PP_Tokens ''''), Def ''TAILQ_ENTRY'' PP_Macro]
      [],
    Cond (C_Not (Defined ''TAILQ_HEAD''))
      [Def ''EVENT_DEFINED_TQHEAD_'' (PP_Tokens ''''), Def ''TAILQ_HEAD'' PP_Macro]
      [],
    Cond (C_Not (Defined ''LIST_ENTRY''))
      [Def ''EVENT_DEFINED_LISTENTRY_'' (PP_Tokens ''''), Def ''LIST_ENTRY'' PP_Macro]
      [],
    Cond (C_Not (Defined ''LIST_HEAD''))
      [Def ''EVENT_DEFINED_LISTHEAD_'' (PP_Tokens ''''), Def ''LIST_HEAD'' PP_Macro]
      [],
    Code ''struct event'', Code ''struct event_callback {'',
    Code ''TAILQ_ENTRY(event_callback) evcb_active_next;'', Code ''short evcb_flags;'',
    Code ''ev_uint8_t evcb_pri;'', Code ''ev_uint8_t evcb_closure;'', Code ''union {'',
    Code ''void (*evcb_callback)(evutil_socket_t, short, void *);'',
    Code ''void (*evcb_selfcb)(struct event_callback *, void *);'',
    Code ''void (*evcb_evfinalize)(struct event *, void *);'',
    Code ''void (*evcb_cbfinalize)(struct event_callback *, void *);'', Code ''} evcb_cb_union;'',
    Code ''void *evcb_arg;'', Code ''};'', Code ''struct event_base'', Code ''struct event {'',
    Code ''struct event_callback ev_evcallback;'', Code ''union {'',
    Code ''TAILQ_ENTRY(event) ev_next_with_common_timeout;'', Code ''int min_heap_idx;'',
    Code ''} ev_timeout_pos;'', Code ''evutil_socket_t ev_fd;'',
    Code ''struct event_base *ev_base;'', Code ''union {'', Code ''struct {'',
    Code ''LIST_ENTRY (event) ev_io_next;'', Code ''struct timeval ev_timeout;'', Code ''} ev_io;'',
    Code ''struct {'', Code ''LIST_ENTRY (event) ev_signal_next;'', Code ''short ev_ncalls;'',
    Code ''short *ev_pncalls;'', Code ''} ev_signal;'', Code ''} ev_;'', Code ''short ev_events;'',
    Code ''short ev_res;'', Code ''struct timeval ev_timeout;'', Code ''};'', Code ''TAILQ_HEAD'',
    Cond (Defined ''EVENT_DEFINED_TQENTRY_'')
      [Undef ''TAILQ_ENTRY'']
      [],
    Cond (Defined ''EVENT_DEFINED_TQHEAD_'')
      [Undef ''TAILQ_HEAD'']
      [],
    Code ''LIST_HEAD'',
    Cond (Defined ''EVENT_DEFINED_LISTENTRY_'')
      [Undef ''LIST_ENTRY'']
      [],
    Cond (Defined ''EVENT_DEFINED_LISTHEAD_'')
      [Undef ''LIST_HEAD'']
      [],
    Cond (Defined ''__cplusplus'')
      [Code ''}'']
      []]"

definition event_struct_h :: "pp list" where
  "event_struct_h =
     [Cond (C_Not (Defined ''EVENT2_EVENT_STRUCT_H_INCLUDED_'')) (Def ''EVENT2_EVENT_STRUCT_H_INCLUDED_'' (PP_Tokens '''') #
       event_struct_h_1) []]"

lemmas event_struct_h_text = event_struct_h_def event_struct_h_1_def

end
