(* ===== verification/Headers_Event.thy ===== *)
theory Headers_Event
  imports Cpp_Model
begin

text \<open>
  The headers of \<open>lib/libevent\<close> for events, buffers, bufferevents and listeners,
  line by line as the preprocessor sees them: every directive, every line of a structure, every
  enumeration with its values. A run of prototypes is one piece of code, named by the first and the
  last of them; macros with parameters are only named here.
\<close>

section \<open>\<open>event2/event.h\<close>\<close>

definition event_h_1 :: "pp list" where
  "event_h_1 =
   [Include ''event2/visibility.h'',
    Cond (Defined ''__cplusplus'')
      [Code ''extern \"C\" {'']
      [],
    Include ''event2/event-config.h'',
    Cond (Defined ''EVENT__HAVE_SYS_TYPES_H'')
      [Include ''sys/types.h'']
      [],
    Cond (Defined ''EVENT__HAVE_SYS_TIME_H'')
      [Include ''sys/time.h'']
      [],
    Include ''stdio.h'', Include ''event2/util.h'', Code ''struct event_base'',
    Cond (Defined ''EVENT_IN_DOXYGEN_'')
      [Code ''{ }'']
      []]"

definition event_h_2 :: "pp list" where
  "event_h_2 =
   [Cond (Defined ''EVENT_IN_DOXYGEN_'')
      [Code ''{ }'']
      []]"

definition event_h_3 :: "pp list" where
  "event_h_3 =
   [Cond (Defined ''EVENT_IN_DOXYGEN_'')
      [Code ''{ }'']
      []]"

definition event_h_4 :: "pp list" where
  "event_h_4 =
   [Def ''EVENT_BASE_COUNT_ACTIVE'' (PP_Int 1), Def ''EVENT_BASE_COUNT_VIRTUAL'' (PP_Int 2),
    Def ''EVENT_BASE_COUNT_ADDED'' (PP_Int 4)]"

definition event_h_5 :: "pp list" where
  "event_h_5 =
   [Enum ''event_method_feature'' [(''EV_FEATURE_ET'', 1), (''EV_FEATURE_O1'', 2), (''EV_FEATURE_FDS'', 4), (''EV_FEATURE_EARLY_CLOSE'', 8)],
    Enum ''event_base_config_flag'' [(''EVENT_BASE_FLAG_NOLOCK'', 1), (''EVENT_BASE_FLAG_IGNORE_ENV'', 2), (''EVENT_BASE_FLAG_STARTUP_IOCP'', 4), (''EVENT_BASE_FLAG_NO_CACHE_TIME'', 8), (''EVENT_BASE_FLAG_EPOLL_USE_CHANGELIST'', 16), (''EVENT_BASE_FLAG_PRECISE_TIMER'', 32)]]"

definition event_h_6 :: "pp list" where
  "event_h_6 =
   [Def ''EVENT_LOG_DEBUG'' (PP_Int 0), Def ''EVENT_LOG_MSG'' (PP_Int 1),
    Def ''EVENT_LOG_WARN'' (PP_Int 2), Def ''EVENT_LOG_ERR'' (PP_Int 3),
    Def ''_EVENT_LOG_DEBUG'' (PP_Tokens ''EVENT_LOG_DEBUG''),
    Def ''_EVENT_LOG_MSG'' (PP_Tokens ''EVENT_LOG_MSG''),
    Def ''_EVENT_LOG_WARN'' (PP_Tokens ''EVENT_LOG_WARN''),
    Def ''_EVENT_LOG_ERR'' (PP_Tokens ''EVENT_LOG_ERR'')]"

definition event_h_7 :: "pp list" where
  "event_h_7 =
   [Def ''EVENT_DBG_ALL'' (PP_Int 4294967295), Def ''EVENT_DBG_NONE'' (PP_Int 0),
    Code ''event_enable_debug_logging ... event_base_set'', Def ''EVLOOP_ONCE'' (PP_Int 1),
    Def ''EVLOOP_NONBLOCK'' (PP_Int 2), Def ''EVLOOP_NO_EXIT_ON_EMPTY'' (PP_Int 4)]"

definition event_h_8 :: "pp list" where
  "event_h_8 =
   [Def ''EV_TIMEOUT'' (PP_Int 1), Def ''EV_READ'' (PP_Int 2), Def ''EV_WRITE'' (PP_Int 4),
    Def ''EV_SIGNAL'' (PP_Int 8), Def ''EV_PERSIST'' (PP_Int 16), Def ''EV_ET'' (PP_Int 32),
    Def ''EV_FINALIZE'' (PP_Int 64), Def ''EV_CLOSED'' (PP_Int 128), Def ''evtimer_assign'' PP_Macro,
    Def ''evtimer_new'' PP_Macro, Def ''evtimer_add'' PP_Macro, Def ''evtimer_del'' PP_Macro,
    Def ''evtimer_pending'' PP_Macro, Def ''evtimer_initialized'' PP_Macro,
    Def ''evsignal_add'' PP_Macro, Def ''evsignal_assign'' PP_Macro, Def ''evsignal_new'' PP_Macro,
    Def ''evsignal_del'' PP_Macro, Def ''evsignal_pending'' PP_Macro,
    Def ''evsignal_initialized'' PP_Macro, Def ''evuser_new'' PP_Macro, Def ''evuser_del'' PP_Macro,
    Def ''evuser_pending'' PP_Macro, Def ''evuser_initialized'' PP_Macro,
    Def ''evuser_trigger'' PP_Macro]"

definition event_h_9 :: "pp list" where
  "event_h_9 =
   [Def ''event_get_signal'' PP_Macro]"

definition event_h_10 :: "pp list" where
  "event_h_10 =
   [Def ''LIBEVENT_VERSION'' (PP_Tokens ''EVENT__VERSION''),
    Def ''LIBEVENT_VERSION_NUMBER'' (PP_Tokens ''EVENT__NUMERIC_VERSION''),
    Def ''EVENT_MAX_PRIORITIES'' (PP_Int 256)]"

definition event_h_11 :: "pp list" where
  "event_h_11 =
   [Cond (C_Or (C_Not (Defined ''EVENT__DISABLE_MM_REPLACEMENT'')) (Defined ''EVENT_IN_DOXYGEN_''))
      [Code ''event_set_mem_functions'',
       Def ''EVENT_SET_MEM_FUNCTIONS_IMPLEMENTED'' (PP_Tokens '''')]
      []]"

definition event_h_12 :: "pp list" where
  "event_h_12 =
   [Cond (Defined ''__cplusplus'')
      [Code ''}'']
      []]"

definition event_h :: "pp list" where
  "event_h =
     [Cond (C_Not (Defined ''EVENT2_EVENT_H_INCLUDED_'')) (Def ''EVENT2_EVENT_H_INCLUDED_'' (PP_Tokens '''') #
       event_h_1 @
       [Code ''struct event''] @
       event_h_2 @
       [Code ''struct event_config''] @
       event_h_3 @
       [Code ''event_enable_debug_mode ... event_gettime_monotonic''] @
       event_h_4 @
       [Code ''event_base_get_num_events ... event_config_avoid_method''] @
       event_h_5 @
       [Code ''event_base_get_features ... event_base_free_nofinalize''] @
       event_h_6 @
       [Code ''typedef event_log_cb ... event_set_fatal_callback''] @
       event_h_7 @
       [Code ''event_base_loop ... event_base_got_break''] @
       event_h_8 @
       [Code ''typedef event_callback_fn ... event_initialized''] @
       event_h_9 @
       [Code ''event_get_fd ... event_get_version_number''] @
       event_h_10 @
       [Code ''event_base_priority_init ... event_base_init_common_timeout''] @
       event_h_11 @
       [Code ''event_base_dump_events ... libevent_global_shutdown''] @
       event_h_12) []]"

lemmas event_h_text = event_h_def event_h_1_def event_h_2_def event_h_3_def event_h_4_def event_h_5_def event_h_6_def event_h_7_def event_h_8_def event_h_9_def event_h_10_def event_h_11_def event_h_12_def

section \<open>\<open>event2/event_compat.h\<close>\<close>

definition event_compat_h_1 :: "pp list" where
  "event_compat_h_1 =
   [Include ''event2/visibility.h'',
    Cond (Defined ''__cplusplus'')
      [Code ''extern \"C\" {'']
      [],
    Include ''event2/event-config.h'',
    Cond (Defined ''EVENT__HAVE_SYS_TYPES_H'')
      [Include ''sys/types.h'']
      [],
    Cond (Defined ''EVENT__HAVE_SYS_TIME_H'')
      [Include ''sys/time.h'']
      [],
    Include ''event2/util.h'']"

definition event_compat_h_2 :: "pp list" where
  "event_compat_h_2 =
   [Def ''evtimer_set'' PP_Macro, Def ''evsignal_set'' PP_Macro, Def ''timeout_add'' PP_Macro,
    Def ''timeout_set'' PP_Macro, Def ''timeout_del'' PP_Macro, Def ''timeout_pending'' PP_Macro,
    Def ''timeout_initialized'' PP_Macro, Def ''signal_add'' PP_Macro, Def ''signal_set'' PP_Macro,
    Def ''signal_del'' PP_Macro, Def ''signal_pending'' PP_Macro,
    Def ''signal_initialized'' PP_Macro,
    Cond (C_Not (Defined ''EVENT_FD''))
      [Def ''EVENT_FD'' PP_Macro, Def ''EVENT_SIGNAL'' PP_Macro]
      [],
    Cond (Defined ''__cplusplus'')
      [Code ''}'']
      []]"

definition event_compat_h :: "pp list" where
  "event_compat_h =
     [Cond (C_Not (Defined ''EVENT2_EVENT_COMPAT_H_INCLUDED_'')) (Def ''EVENT2_EVENT_COMPAT_H_INCLUDED_'' (PP_Tokens '''') #
       event_compat_h_1 @
       [Code ''event_init ... event_set''] @
       event_compat_h_2) []]"

lemmas event_compat_h_text = event_compat_h_def event_compat_h_1_def event_compat_h_2_def

section \<open>\<open>event.h\<close>\<close>

definition event1_h_1 :: "pp list" where
  "event1_h_1 =
   [Cond (Defined ''__cplusplus'')
      [Code ''extern \"C\" {'']
      [],
    Include ''event2/event-config.h'',
    Cond (Defined ''EVENT__HAVE_SYS_TYPES_H'')
      [Include ''sys/types.h'']
      [],
    Cond (Defined ''EVENT__HAVE_SYS_TIME_H'')
      [Include ''sys/time.h'']
      [],
    Cond (Defined ''EVENT__HAVE_STDINT_H'')
      [Include ''stdint.h'']
      [],
    Include ''stdarg.h'', Include ''evutil.h'',
    Cond (Defined ''_WIN32'')
      [Cond (C_Not (Defined ''WIN32_LEAN_AND_MEAN''))
         [Def ''WIN32_LEAN_AND_MEAN'' (PP_Tokens '''')]
         [],
       Include ''winsock2.h'', Include ''windows.h'', Undef ''WIN32_LEAN_AND_MEAN'']
      [],
    Include ''event2/event_struct.h'', Include ''event2/event.h'', Include ''event2/event_compat.h'',
    Include ''event2/buffer.h'', Include ''event2/buffer_compat.h'',
    Include ''event2/bufferevent.h'', Include ''event2/bufferevent_struct.h'',
    Include ''event2/bufferevent_compat.h'', Include ''event2/tag.h'',
    Include ''event2/tag_compat.h'',
    Cond (Defined ''__cplusplus'')
      [Code ''}'']
      []]"

definition event1_h :: "pp list" where
  "event1_h =
     [Cond (C_Not (Defined ''EVENT1_EVENT_H_INCLUDED_'')) (Def ''EVENT1_EVENT_H_INCLUDED_'' (PP_Tokens '''') #
       event1_h_1) []]"

lemmas event1_h_text = event1_h_def event1_h_1_def

section \<open>\<open>event2/buffer.h\<close>\<close>

definition buffer_h_1 :: "pp list" where
  "buffer_h_1 =
   [Include ''event2/visibility.h'',
    Cond (Defined ''__cplusplus'')
      [Code ''extern \"C\" {'']
      [],
    Include ''event2/event-config.h'', Include ''stdarg.h'',
    Cond (Defined ''EVENT__HAVE_SYS_TYPES_H'')
      [Include ''sys/types.h'']
      [],
    Cond (Defined ''EVENT__HAVE_SYS_UIO_H'')
      [Include ''sys/uio.h'']
      [],
    Include ''event2/util.h'', Code ''struct evbuffer'',
    Cond (Defined ''EVENT_IN_DOXYGEN_'')
      [Code ''{}'']
      [],
    Code '';'', Code ''struct evbuffer_ptr {'', Code ''ev_ssize_t pos;'', Code ''struct {'',
    Code ''void *chain;'', Code ''size_t pos_in_chain;'', Code ''} internal_;'', Code ''};'',
    Cond (Defined ''EVENT__HAVE_SYS_UIO_H'')
      [Def ''evbuffer_iovec'' (PP_Tokens ''iovec''),
       Def ''EVBUFFER_IOVEC_IS_NATIVE_'' (PP_Tokens '''')]
      [Code ''struct evbuffer_iovec {'', Code ''void *iov_base;'', Code ''size_t iov_len;'',
       Code ''};'']]"

definition buffer_h_2 :: "pp list" where
  "buffer_h_2 =
   [Def ''EVBUFFER_FLAG_DRAINS_TO_FD'' (PP_Int 1)]"

definition buffer_h_3 :: "pp list" where
  "buffer_h_3 =
   [Enum ''evbuffer_eol_style'' [(''EVBUFFER_EOL_ANY'', 0), (''EVBUFFER_EOL_CRLF'', 1), (''EVBUFFER_EOL_CRLF_STRICT'', 2), (''EVBUFFER_EOL_LF'', 3), (''EVBUFFER_EOL_NUL'', 4)]]"

definition buffer_h_4 :: "pp list" where
  "buffer_h_4 =
   [Def ''EVBUF_FS_CLOSE_ON_FREE'' (PP_Int 1), Def ''EVBUF_FS_DISABLE_MMAP'' (PP_Int 2),
    Def ''EVBUF_FS_DISABLE_SENDFILE'' (PP_Int 4), Def ''EVBUF_FS_DISABLE_LOCKING'' (PP_Int 8)]"

definition buffer_h_5 :: "pp list" where
  "buffer_h_5 =
   [Cond (Defined ''__GNUC__'')
      [Code ''__attribute__((format(printf, 2, 3)))'']
      [],
    Code ''evbuffer_add_vprintf'',
    Cond (Defined ''__GNUC__'')
      [Code ''__attribute__((format(printf, 2, 0)))'']
      []]"

definition buffer_h_6 :: "pp list" where
  "buffer_h_6 =
   [Enum ''evbuffer_ptr_how'' [(''EVBUFFER_PTR_SET'', 0), (''EVBUFFER_PTR_ADD'', 1)]]"

definition buffer_h_7 :: "pp list" where
  "buffer_h_7 =
   [Code ''struct evbuffer_cb_info {'', Code ''size_t orig_size;'', Code ''size_t n_added;'',
    Code ''size_t n_deleted;'', Code ''};'']"

definition buffer_h_8 :: "pp list" where
  "buffer_h_8 =
   [Def ''EVBUFFER_CB_ENABLED'' (PP_Int 1),
    Code ''evbuffer_cb_set_flags ... evbuffer_cb_clear_flags'',
    Cond (Never)
      [Code ''evbuffer_cb_suspend ... evbuffer_cb_unsuspend'']
      []]"

definition buffer_h_9 :: "pp list" where
  "buffer_h_9 =
   [Cond (Defined ''__cplusplus'')
      [Code ''}'']
      []]"

definition buffer_h :: "pp list" where
  "buffer_h =
     [Cond (C_Not (Defined ''EVENT2_BUFFER_H_INCLUDED_'')) (Def ''EVENT2_BUFFER_H_INCLUDED_'' (PP_Tokens '''') #
       buffer_h_1 @
       [Code ''evbuffer_new ... evbuffer_unlock''] @
       buffer_h_2 @
       [Code ''evbuffer_set_flags ... evbuffer_remove_buffer''] @
       buffer_h_3 @
       [Code ''evbuffer_readln ... struct evbuffer_file_segment''] @
       buffer_h_4 @
       [Code ''typedef evbuffer_file_segment_cleanup_cb ... evbuffer_add_printf''] @
       buffer_h_5 @
       [Code ''evbuffer_drain ... evbuffer_search_range''] @
       buffer_h_6 @
       [Code ''evbuffer_ptr_set ... evbuffer_peek''] @
       buffer_h_7 @
       [Code ''typedef evbuffer_cb_func ... evbuffer_remove_cb''] @
       buffer_h_8 @
       [Code ''evbuffer_pullup ... evbuffer_add_iovec''] @
       buffer_h_9) []]"

lemmas buffer_h_text = buffer_h_def buffer_h_1_def buffer_h_2_def buffer_h_3_def buffer_h_4_def buffer_h_5_def buffer_h_6_def buffer_h_7_def buffer_h_8_def buffer_h_9_def

section \<open>\<open>event2/buffer_compat.h\<close>\<close>

definition buffer_compat_h_1 :: "pp list" where
  "buffer_compat_h_1 =
   [Include ''event2/visibility.h'']"

definition buffer_compat_h_2 :: "pp list" where
  "buffer_compat_h_2 =
   [Def ''EVBUFFER_LENGTH'' PP_Macro, Def ''EVBUFFER_DATA'' PP_Macro]"

definition buffer_compat_h :: "pp list" where
  "buffer_compat_h =
     [Cond (C_Not (Defined ''EVENT2_BUFFER_COMPAT_H_INCLUDED_'')) (Def ''EVENT2_BUFFER_COMPAT_H_INCLUDED_'' (PP_Tokens '''') #
       buffer_compat_h_1 @
       [Code ''evbuffer_readline ... evbuffer_find''] @
       buffer_compat_h_2) []]"

lemmas buffer_compat_h_text = buffer_compat_h_def buffer_compat_h_1_def buffer_compat_h_2_def

section \<open>\<open>event2/bufferevent.h\<close>\<close>

definition bufferevent_h_1 :: "pp list" where
  "bufferevent_h_1 =
   [Include ''event2/visibility.h'',
    Cond (Defined ''__cplusplus'')
      [Code ''extern \"C\" {'']
      [],
    Include ''event2/event-config.h'',
    Cond (Defined ''EVENT__HAVE_SYS_TYPES_H'')
      [Include ''sys/types.h'']
      [],
    Cond (Defined ''EVENT__HAVE_SYS_TIME_H'')
      [Include ''sys/time.h'']
      [],
    Include ''event2/util.h'', Def ''BEV_EVENT_READING'' (PP_Int 1),
    Def ''BEV_EVENT_WRITING'' (PP_Int 2), Def ''BEV_EVENT_EOF'' (PP_Int 16),
    Def ''BEV_EVENT_ERROR'' (PP_Int 32), Def ''BEV_EVENT_TIMEOUT'' (PP_Int 64),
    Def ''BEV_EVENT_CONNECTED'' (PP_Int 128), Code ''struct bufferevent'',
    Cond (Defined ''EVENT_IN_DOXYGEN_'')
      [Code ''{}'']
      []]"

definition bufferevent_h_2 :: "pp list" where
  "bufferevent_h_2 =
   [Enum ''bufferevent_options'' [(''BEV_OPT_CLOSE_ON_FREE'', 1), (''BEV_OPT_THREADSAFE'', 2), (''BEV_OPT_DEFER_CALLBACKS'', 4), (''BEV_OPT_UNLOCK_CALLBACKS'', 8)]]"

definition bufferevent_h_3 :: "pp list" where
  "bufferevent_h_3 =
   [Enum ''bufferevent_flush_mode'' [(''BEV_NORMAL'', 0), (''BEV_FLUSH'', 1), (''BEV_FINISHED'', 2)],
    Code ''bufferevent_flush'',
    Enum ''bufferevent_trigger_options'' [(''BEV_TRIG_IGNORE_WATERMARKS'', 65536), (''BEV_TRIG_DEFER_CALLBACKS'', 4)]]"

definition bufferevent_h_4 :: "pp list" where
  "bufferevent_h_4 =
   [Enum ''bufferevent_filter_result'' [(''BEV_OK'', 0), (''BEV_NEED_MORE'', 1), (''BEV_ERROR'', 2)]]"

definition bufferevent_h_5 :: "pp list" where
  "bufferevent_h_5 =
   [Def ''EV_RATE_LIMIT_MAX'' (PP_Tokens ''EV_SSIZE_MAX'')]"

definition bufferevent_h_6 :: "pp list" where
  "bufferevent_h_6 =
   [Cond (Defined ''__cplusplus'')
      [Code ''}'']
      []]"

definition bufferevent_h :: "pp list" where
  "bufferevent_h =
     [Cond (C_Not (Defined ''EVENT2_BUFFEREVENT_H_INCLUDED_'')) (Def ''EVENT2_BUFFEREVENT_H_INCLUDED_'' (PP_Tokens '''') #
       bufferevent_h_1 @
       [Code ''struct event_base ... typedef bufferevent_event_cb''] @
       bufferevent_h_2 @
       [Code ''bufferevent_socket_new ... bufferevent_decref''] @
       bufferevent_h_3 @
       [Code ''bufferevent_trigger ... bufferevent_trigger_event''] @
       bufferevent_h_4 @
       [Code ''typedef bufferevent_filter_cb ... struct bufferevent_rate_limit_group''] @
       bufferevent_h_5 @
       [Code ''ev_token_bucket_cfg_new ... bufferevent_rate_limit_group_reset_totals''] @
       bufferevent_h_6) []]"

lemmas bufferevent_h_text = bufferevent_h_def bufferevent_h_1_def bufferevent_h_2_def bufferevent_h_3_def bufferevent_h_4_def bufferevent_h_5_def bufferevent_h_6_def

section \<open>\<open>event2/bufferevent_compat.h\<close>\<close>

definition bufferevent_compat_h_1 :: "pp list" where
  "bufferevent_compat_h_1 =
   [Include ''event2/visibility.h'', Def ''evbuffercb'' (PP_Tokens ''bufferevent_data_cb''),
    Def ''everrorcb'' (PP_Tokens ''bufferevent_event_cb'')]"

definition bufferevent_compat_h_2 :: "pp list" where
  "bufferevent_compat_h_2 =
   [Code ''bufferevent_new ... bufferevent_settimeout'',
    Def ''EVBUFFER_READ'' (PP_Tokens ''BEV_EVENT_READING''),
    Def ''EVBUFFER_WRITE'' (PP_Tokens ''BEV_EVENT_WRITING''),
    Def ''EVBUFFER_EOF'' (PP_Tokens ''BEV_EVENT_EOF''),
    Def ''EVBUFFER_ERROR'' (PP_Tokens ''BEV_EVENT_ERROR''),
    Def ''EVBUFFER_TIMEOUT'' (PP_Tokens ''BEV_EVENT_TIMEOUT''), Def ''EVBUFFER_INPUT'' PP_Macro,
    Def ''EVBUFFER_OUTPUT'' PP_Macro]"

definition bufferevent_compat_h :: "pp list" where
  "bufferevent_compat_h =
     [Cond (C_Not (Defined ''EVENT2_BUFFEREVENT_COMPAT_H_INCLUDED_'')) (Def ''EVENT2_BUFFEREVENT_COMPAT_H_INCLUDED_'' (PP_Tokens '''') #
       bufferevent_compat_h_1 @
       bufferevent_compat_h_2) []]"

lemmas bufferevent_compat_h_text = bufferevent_compat_h_def bufferevent_compat_h_1_def bufferevent_compat_h_2_def

section \<open>\<open>event2/bufferevent_ssl.h\<close>\<close>

definition bufferevent_ssl_h_1 :: "pp list" where
  "bufferevent_ssl_h_1 =
   [Include ''event2/visibility.h'', Include ''event2/event-config.h'',
    Include ''event2/bufferevent.h'', Include ''event2/util.h'',
    Cond (Defined ''__cplusplus'')
      [Code ''extern \"C\" {'']
      [],
    Code ''struct ssl_st'',
    Enum ''bufferevent_ssl_state'' [(''BUFFEREVENT_SSL_OPEN'', 0), (''BUFFEREVENT_SSL_CONNECTING'', 1), (''BUFFEREVENT_SSL_ACCEPTING'', 2)],
    Cond (C_Or (Defined ''EVENT__HAVE_OPENSSL'') (Defined ''EVENT_IN_DOXYGEN_''))
      [Code ''bufferevent_openssl_filter_new ... bufferevent_get_openssl_error'']
      [],
    Cond (Defined ''__cplusplus'')
      [Code ''}'']
      []]"

definition bufferevent_ssl_h :: "pp list" where
  "bufferevent_ssl_h =
     [Cond (C_Not (Defined ''EVENT2_BUFFEREVENT_SSL_H_INCLUDED_'')) (Def ''EVENT2_BUFFEREVENT_SSL_H_INCLUDED_'' (PP_Tokens '''') #
       bufferevent_ssl_h_1) []]"

lemmas bufferevent_ssl_h_text = bufferevent_ssl_h_def bufferevent_ssl_h_1_def

section \<open>\<open>event2/bufferevent_struct.h\<close>\<close>

definition bufferevent_struct_h_1 :: "pp list" where
  "bufferevent_struct_h_1 =
   [Cond (Defined ''__cplusplus'')
      [Code ''extern \"C\" {'']
      [],
    Include ''event2/event-config.h'',
    Cond (Defined ''EVENT__HAVE_SYS_TYPES_H'')
      [Include ''sys/types.h'']
      [],
    Cond (Defined ''EVENT__HAVE_SYS_TIME_H'')
      [Include ''sys/time.h'']
      [],
    Include ''event2/util.h'', Include ''event2/event_struct.h'', Code ''struct event_watermark {'',
    Code ''size_t low;'', Code ''size_t high;'', Code ''};'', Code ''struct bufferevent {'',
    Code ''struct event_base *ev_base;'', Code ''const struct bufferevent_ops *be_ops;'',
    Code ''struct event ev_read;'', Code ''struct event ev_write;'',
    Code ''struct evbuffer *input;'', Code ''struct evbuffer *output;'',
    Code ''struct event_watermark wm_read;'', Code ''struct event_watermark wm_write;'',
    Code ''bufferevent_data_cb readcb;'', Code ''bufferevent_data_cb writecb;'',
    Code ''bufferevent_event_cb errorcb;'', Code ''void *cbarg;'',
    Code ''struct timeval timeout_read;'', Code ''struct timeval timeout_write;'',
    Code ''short enabled;'', Code ''};'',
    Cond (Defined ''__cplusplus'')
      [Code ''}'']
      []]"

definition bufferevent_struct_h :: "pp list" where
  "bufferevent_struct_h =
     [Cond (C_Not (Defined ''EVENT2_BUFFEREVENT_STRUCT_H_INCLUDED_'')) (Def ''EVENT2_BUFFEREVENT_STRUCT_H_INCLUDED_'' (PP_Tokens '''') #
       bufferevent_struct_h_1) []]"

lemmas bufferevent_struct_h_text = bufferevent_struct_h_def bufferevent_struct_h_1_def

section \<open>\<open>event2/listener.h\<close>\<close>

definition listener_h_1 :: "pp list" where
  "listener_h_1 =
   [Include ''event2/visibility.h'',
    Cond (Defined ''__cplusplus'')
      [Code ''extern \"C\" {'']
      [],
    Include ''event2/event.h'']"

definition listener_h_2 :: "pp list" where
  "listener_h_2 =
   [Def ''LEV_OPT_LEAVE_SOCKETS_BLOCKING'' (PP_Int 1), Def ''LEV_OPT_CLOSE_ON_FREE'' (PP_Int 2),
    Def ''LEV_OPT_CLOSE_ON_EXEC'' (PP_Int 4), Def ''LEV_OPT_REUSEABLE'' (PP_Int 8),
    Def ''LEV_OPT_THREADSAFE'' (PP_Int 16), Def ''LEV_OPT_DISABLED'' (PP_Int 32),
    Def ''LEV_OPT_DEFERRED_ACCEPT'' (PP_Int 64), Def ''LEV_OPT_REUSEABLE_PORT'' (PP_Int 128),
    Def ''LEV_OPT_BIND_IPV6ONLY'' (PP_Int 256)]"

definition listener_h_3 :: "pp list" where
  "listener_h_3 =
   [Cond (Defined ''__cplusplus'')
      [Code ''}'']
      []]"

definition listener_h :: "pp list" where
  "listener_h =
     [Cond (C_Not (Defined ''EVENT2_LISTENER_H_INCLUDED_'')) (Def ''EVENT2_LISTENER_H_INCLUDED_'' (PP_Tokens '''') #
       listener_h_1 @
       [Code ''struct sockaddr ... typedef evconnlistener_errorcb''] @
       listener_h_2 @
       [Code ''evconnlistener_new ... evconnlistener_set_error_cb''] @
       listener_h_3) []]"

lemmas listener_h_text = listener_h_def listener_h_1_def listener_h_2_def listener_h_3_def

end
