(* ===== verification/Headers_Net.thy ===== *)
theory Headers_Net
  imports Cpp_Model
begin

text \<open>
  The headers of \<open>lib/libevent\<close> for DNS, HTTP and RPC,
  line by line as the preprocessor sees them: every directive, every line of a structure, every
  enumeration with its values. A run of prototypes is one piece of code, named by the first and the
  last of them; macros with parameters are only named here.
\<close>

section \<open>\<open>event2/dns.h\<close>\<close>

definition dns_h_1 :: "pp list" where
  "dns_h_1 =
   [Include ''event2/visibility.h'',
    Cond (Defined ''__cplusplus'')
      [Code ''extern \"C\" {'']
      [],
    Include ''event2/util.h'', Def ''DNS_ERR_NONE'' (PP_Int 0), Def ''DNS_ERR_FORMAT'' (PP_Int 1),
    Def ''DNS_ERR_SERVERFAILED'' (PP_Int 2), Def ''DNS_ERR_NOTEXIST'' (PP_Int 3),
    Def ''DNS_ERR_NOTIMPL'' (PP_Int 4), Def ''DNS_ERR_REFUSED'' (PP_Int 5),
    Def ''DNS_ERR_TRUNCATED'' (PP_Int 65), Def ''DNS_ERR_UNKNOWN'' (PP_Int 66),
    Def ''DNS_ERR_TIMEOUT'' (PP_Int 67), Def ''DNS_ERR_SHUTDOWN'' (PP_Int 68),
    Def ''DNS_ERR_CANCEL'' (PP_Int 69), Def ''DNS_ERR_NODATA'' (PP_Int 70),
    Def ''DNS_IPv4_A'' (PP_Int 1), Def ''DNS_PTR'' (PP_Int 2), Def ''DNS_IPv6_AAAA'' (PP_Int 3),
    Def ''DNS_QUERY_NO_SEARCH'' (PP_Int 1), Def ''DNS_OPTION_SEARCH'' (PP_Int 1),
    Def ''DNS_OPTION_NAMESERVERS'' (PP_Int 2), Def ''DNS_OPTION_MISC'' (PP_Int 4),
    Def ''DNS_OPTION_HOSTSFILE'' (PP_Int 8),
    Def ''DNS_OPTIONS_ALL'' (PP_Tokens ''( DNS_OPTION_SEARCH | DNS_OPTION_NAMESERVERS | DNS_OPTION_MISC | DNS_OPTION_HOSTSFILE | 0 )''),
    Def ''DNS_OPTION_NAMESERVERS_NO_DEFAULT'' (PP_Int 16),
    Def ''DNS_NO_SEARCH'' (PP_Tokens ''DNS_QUERY_NO_SEARCH''),
    Code ''typedef evdns_callback_type ... struct event_base'',
    Def ''EVDNS_BASE_INITIALIZE_NAMESERVERS'' (PP_Int 1),
    Def ''EVDNS_BASE_DISABLE_WHEN_INACTIVE'' (PP_Int 32768),
    Def ''EVDNS_BASE_NAMESERVERS_NO_DEFAULT'' (PP_Int 65536)]"

definition dns_h_2 :: "pp list" where
  "dns_h_2 =
   [Cond (C_Or (Defined ''EVENT_IN_DOXYGEN_'') (Defined ''_WIN32''))
      [Code ''evdns_base_config_windows_nameservers'',
       Def ''EVDNS_BASE_CONFIG_WINDOWS_NAMESERVERS_IMPLEMENTED'' (PP_Tokens '''')]
      []]"

definition dns_h_3 :: "pp list" where
  "dns_h_3 =
   [Def ''EVDNS_ANSWER_SECTION'' (PP_Int 0), Def ''EVDNS_AUTHORITY_SECTION'' (PP_Int 1),
    Def ''EVDNS_ADDITIONAL_SECTION'' (PP_Int 2), Def ''EVDNS_TYPE_A'' (PP_Int 1),
    Def ''EVDNS_TYPE_NS'' (PP_Int 2), Def ''EVDNS_TYPE_CNAME'' (PP_Int 5),
    Def ''EVDNS_TYPE_SOA'' (PP_Int 6), Def ''EVDNS_TYPE_PTR'' (PP_Int 12),
    Def ''EVDNS_TYPE_MX'' (PP_Int 15), Def ''EVDNS_TYPE_TXT'' (PP_Int 16),
    Def ''EVDNS_TYPE_AAAA'' (PP_Int 28), Def ''EVDNS_QTYPE_AXFR'' (PP_Int 252),
    Def ''EVDNS_QTYPE_ALL'' (PP_Int 255), Def ''EVDNS_CLASS_INET'' (PP_Int 1),
    Def ''EVDNS_FLAGS_AA'' (PP_Int 1024), Def ''EVDNS_FLAGS_RD'' (PP_Int 128)]"

definition dns_h_4 :: "pp list" where
  "dns_h_4 =
   [Cond (Defined ''__cplusplus'')
      [Code ''}'']
      []]"

definition dns_h :: "pp list" where
  "dns_h =
     [Cond (C_Not (Defined ''EVENT2_DNS_H_INCLUDED_'')) (Def ''EVENT2_DNS_H_INCLUDED_'' (PP_Tokens '''') #
       dns_h_1 @
       [Code ''evdns_base_new ... evdns_base_load_hosts''] @
       dns_h_2 @
       [Code ''evdns_base_search_clear ... typedef evdns_request_callback_fn_type''] @
       dns_h_3 @
       [Code ''evdns_add_server_port_with_base ... evdns_base_get_nameserver_addr''] @
       dns_h_4) []]"

lemmas dns_h_text = dns_h_def dns_h_1_def dns_h_2_def dns_h_3_def dns_h_4_def

section \<open>\<open>event2/dns_compat.h\<close>\<close>

definition dns_compat_h_1 :: "pp list" where
  "dns_compat_h_1 =
   [Cond (Defined ''__cplusplus'')
      [Code ''extern \"C\" {'']
      [],
    Include ''event2/event-config.h'',
    Cond (Defined ''EVENT__HAVE_SYS_TYPES_H'')
      [Include ''sys/types.h'']
      [],
    Cond (Defined ''EVENT__HAVE_SYS_TIME_H'')
      [Include ''sys/time.h'']
      [],
    Include ''event2/util.h'', Include ''event2/visibility.h'']"

definition dns_compat_h_2 :: "pp list" where
  "dns_compat_h_2 =
   [Cond (Defined ''_WIN32'')
      [Code ''evdns_config_windows_nameservers'',
       Def ''EVDNS_CONFIG_WINDOWS_NAMESERVERS_IMPLEMENTED'' (PP_Tokens '''')]
      [],
    Cond (Defined ''__cplusplus'')
      [Code ''}'']
      []]"

definition dns_compat_h :: "pp list" where
  "dns_compat_h =
     [Cond (C_Not (Defined ''EVENT2_DNS_COMPAT_H_INCLUDED_'')) (Def ''EVENT2_DNS_COMPAT_H_INCLUDED_'' (PP_Tokens '''') #
       dns_compat_h_1 @
       [Code ''evdns_init ... evdns_add_server_port''] @
       dns_compat_h_2) []]"

lemmas dns_compat_h_text = dns_compat_h_def dns_compat_h_1_def dns_compat_h_2_def

section \<open>\<open>event2/dns_struct.h\<close>\<close>

definition dns_struct_h_1 :: "pp list" where
  "dns_struct_h_1 =
   [Cond (Defined ''__cplusplus'')
      [Code ''extern \"C\" {'']
      [],
    Include ''event2/event-config.h'',
    Cond (Defined ''EVENT__HAVE_SYS_TYPES_H'')
      [Include ''sys/types.h'']
      [],
    Cond (Defined ''EVENT__HAVE_SYS_TIME_H'')
      [Include ''sys/time.h'']
      [],
    Include ''event2/util.h'', Code ''struct evdns_server_request {'', Code ''int flags;'',
    Code ''int nquestions;'', Code ''struct evdns_server_question **questions;'', Code ''};'',
    Code ''struct evdns_server_question {'', Code ''int type;'',
    Cond (Defined ''__cplusplus'')
      [Code ''int dns_question_class;'']
      [Code ''int class;'', Def ''dns_question_class'' (PP_Tokens ''class'')],
    Code ''char name[1];'', Code ''};'',
    Cond (Defined ''__cplusplus'')
      [Code ''}'']
      []]"

definition dns_struct_h :: "pp list" where
  "dns_struct_h =
     [Cond (C_Not (Defined ''EVENT2_DNS_STRUCT_H_INCLUDED_'')) (Def ''EVENT2_DNS_STRUCT_H_INCLUDED_'' (PP_Tokens '''') #
       dns_struct_h_1) []]"

lemmas dns_struct_h_text = dns_struct_h_def dns_struct_h_1_def

section \<open>\<open>event2/http.h\<close>\<close>

definition http_h_1 :: "pp list" where
  "http_h_1 =
   [Include ''event2/util.h'', Include ''event2/visibility.h'',
    Cond (Defined ''__cplusplus'')
      [Code ''extern \"C\" {'']
      [],
    Code ''struct evbuffer ... struct evhttp_connection'', Def ''HTTP_OK'' (PP_Int 200),
    Def ''HTTP_NOCONTENT'' (PP_Int 204), Def ''HTTP_MOVEPERM'' (PP_Int 301),
    Def ''HTTP_MOVETEMP'' (PP_Int 302), Def ''HTTP_NOTMODIFIED'' (PP_Int 304),
    Def ''HTTP_BADREQUEST'' (PP_Int 400), Def ''HTTP_NOTFOUND'' (PP_Int 404),
    Def ''HTTP_BADMETHOD'' (PP_Int 405), Def ''HTTP_ENTITYTOOLARGE'' (PP_Int 413),
    Def ''HTTP_EXPECTATIONFAILED'' (PP_Int 417), Def ''HTTP_INTERNAL'' (PP_Int 500),
    Def ''HTTP_NOTIMPLEMENTED'' (PP_Int 501), Def ''HTTP_SERVUNAVAIL'' (PP_Int 503)]"

definition http_h_2 :: "pp list" where
  "http_h_2 =
   [Def ''EVHTTP_SERVER_LINGERING_CLOSE'' (PP_Int 1)]"

definition http_h_3 :: "pp list" where
  "http_h_3 =
   [Enum ''evhttp_cmd_type'' [(''EVHTTP_REQ_GET'', 1), (''EVHTTP_REQ_POST'', 2), (''EVHTTP_REQ_HEAD'', 4), (''EVHTTP_REQ_PUT'', 8), (''EVHTTP_REQ_DELETE'', 16), (''EVHTTP_REQ_OPTIONS'', 32), (''EVHTTP_REQ_TRACE'', 64), (''EVHTTP_REQ_CONNECT'', 128), (''EVHTTP_REQ_PATCH'', 256)],
    Enum ''evhttp_request_kind'' [(''EVHTTP_REQUEST'', 0), (''EVHTTP_RESPONSE'', 1)]]"

definition http_h_4 :: "pp list" where
  "http_h_4 =
   [Enum ''evhttp_request_error'' [(''EVREQ_HTTP_TIMEOUT'', 0), (''EVREQ_HTTP_EOF'', 1), (''EVREQ_HTTP_INVALID_HEADER'', 2), (''EVREQ_HTTP_BUFFER_ERROR'', 3), (''EVREQ_HTTP_REQUEST_CANCEL'', 4), (''EVREQ_HTTP_DATA_TOO_LONG'', 5)]]"

definition http_h_5 :: "pp list" where
  "http_h_5 =
   [Def ''EVHTTP_CON_REUSE_CONNECTED_ADDR'' (PP_Int 8),
    Def ''EVHTTP_CON_READ_ON_WRITE_ERROR'' (PP_Int 16),
    Def ''EVHTTP_CON_LINGERING_CLOSE'' (PP_Int 32),
    Def ''EVHTTP_CON_PUBLIC_FLAGS_END'' (PP_Int 1048576)]"

definition http_h_6 :: "pp list" where
  "http_h_6 =
   [Def ''EVHTTP_URI_NONCONFORMANT'' (PP_Int 1)]"

definition http_h_7 :: "pp list" where
  "http_h_7 =
   [Cond (Defined ''__cplusplus'')
      [Code ''}'']
      []]"

definition http_h :: "pp list" where
  "http_h =
     [Cond (C_Not (Defined ''EVENT2_HTTP_H_INCLUDED_'')) (Def ''EVENT2_HTTP_H_INCLUDED_'' (PP_Tokens '''') #
       http_h_1 @
       [Code ''struct evhttp ... evhttp_set_timeout_tv''] @
       http_h_2 @
       [Code ''evhttp_set_flags ... evhttp_send_reply_end''] @
       http_h_3 @
       [Code ''evhttp_connection_base_bufferevent_new ... evhttp_request_set_header_cb''] @
       http_h_4 @
       [Code ''evhttp_request_set_error_cb ... evhttp_connection_set_family''] @
       http_h_5 @
       [Code ''evhttp_connection_set_flags ... evhttp_uri_parse_with_flags''] @
       http_h_6 @
       [Code ''evhttp_uri_parse ... evhttp_uri_join''] @
       http_h_7) []]"

lemmas http_h_text = http_h_def http_h_1_def http_h_2_def http_h_3_def http_h_4_def http_h_5_def http_h_6_def http_h_7_def

section \<open>\<open>event2/http_compat.h\<close>\<close>

definition http_compat_h_1 :: "pp list" where
  "http_compat_h_1 =
   [Cond (Defined ''__cplusplus'')
      [Code ''extern \"C\" {'']
      [],
    Include ''event2/event-config.h'',
    Cond (Defined ''EVENT__HAVE_SYS_TYPES_H'')
      [Include ''sys/types.h'']
      [],
    Cond (Defined ''EVENT__HAVE_SYS_TIME_H'')
      [Include ''sys/time.h'']
      [],
    Include ''event2/util.h'']"

definition http_compat_h_2 :: "pp list" where
  "http_compat_h_2 =
   [Def ''evhttp_request_uri'' (PP_Tokens ''evhttp_request_get_uri''),
    Cond (Defined ''__cplusplus'')
      [Code ''}'']
      []]"

definition http_compat_h :: "pp list" where
  "http_compat_h =
     [Cond (C_Not (Defined ''EVENT2_HTTP_COMPAT_H_INCLUDED_'')) (Def ''EVENT2_HTTP_COMPAT_H_INCLUDED_'' (PP_Tokens '''') #
       http_compat_h_1 @
       [Code ''evhttp_start ... evhttp_connection_set_base''] @
       http_compat_h_2) []]"

lemmas http_compat_h_text = http_compat_h_def http_compat_h_1_def http_compat_h_2_def

section \<open>\<open>event2/http_struct.h\<close>\<close>

definition http_struct_h_1 :: "pp list" where
  "http_struct_h_1 =
   [Cond (Defined ''__cplusplus'')
      [Code ''extern \"C\" {'']
      [],
    Include ''event2/event-config.h'',
    Cond (Defined ''EVENT__HAVE_SYS_TYPES_H'')
      [Include ''sys/types.h'']
      [],
    Cond (Defined ''EVENT__HAVE_SYS_TIME_H'')
      [Include ''sys/time.h'']
      [],
    Include ''event2/util.h'', Code ''struct evhttp_request {'',
    Cond (Defined ''TAILQ_ENTRY'')
      [Code ''TAILQ_ENTRY(evhttp_request) next;'']
      [Code ''struct {'', Code ''struct evhttp_request *tqe_next;'',
       Code ''struct evhttp_request **tqe_prev;'', Code ''} next;''],
    Code ''struct evhttp_connection *evcon;'', Code ''int flags;'',
    Def ''EVHTTP_REQ_OWN_CONNECTION'' (PP_Int 1), Def ''EVHTTP_PROXY_REQUEST'' (PP_Int 2),
    Def ''EVHTTP_USER_OWNED'' (PP_Int 4), Def ''EVHTTP_REQ_DEFER_FREE'' (PP_Int 8),
    Def ''EVHTTP_REQ_NEEDS_FREE'' (PP_Int 16), Code ''struct evkeyvalq *input_headers;'',
    Code ''struct evkeyvalq *output_headers;'', Code ''char *remote_host;'',
    Code ''ev_uint16_t remote_port;'', Code ''char *host_cache;'',
    Code ''enum evhttp_request_kind kind ... enum evhttp_cmd_type type'',
    Code ''size_t headers_size;'', Code ''size_t body_size;'', Code ''char *uri;'',
    Code ''struct evhttp_uri *uri_elems;'', Code ''char major;'', Code ''char minor;'',
    Code ''int response_code;'', Code ''char *response_code_line;'',
    Code ''struct evbuffer *input_buffer;'', Code ''ev_int64_t ntoread;'',
    Code ''unsigned chunked:1,'', Code ''userdone:1;'', Code ''struct evbuffer *output_buffer;'',
    Code ''void (*cb)(struct evhttp_request *, void *);'', Code ''void *cb_arg;'',
    Code ''void (*chunk_cb)(struct evhttp_request *, void *);'',
    Code ''int (*header_cb)(struct evhttp_request *, void *);'',
    Code ''void (*error_cb)(enum evhttp_request_error, void *);'',
    Code ''void (*on_complete_cb)(struct evhttp_request *, void *);'',
    Code ''void *on_complete_cb_arg;'', Code ''};'',
    Cond (Defined ''__cplusplus'')
      [Code ''}'']
      []]"

definition http_struct_h :: "pp list" where
  "http_struct_h =
     [Cond (C_Not (Defined ''EVENT2_HTTP_STRUCT_H_INCLUDED_'')) (Def ''EVENT2_HTTP_STRUCT_H_INCLUDED_'' (PP_Tokens '''') #
       http_struct_h_1) []]"

lemmas http_struct_h_text = http_struct_h_def http_struct_h_1_def

section \<open>\<open>event2/rpc.h\<close>\<close>

definition rpc_h_1 :: "pp list" where
  "rpc_h_1 =
   [Include ''event2/util.h'', Include ''event2/visibility.h'',
    Cond (Defined ''__cplusplus'')
      [Code ''extern \"C\" {'']
      []]"

definition rpc_h_2 :: "pp list" where
  "rpc_h_2 =
   [Def ''EVTAG_HAS'' PP_Macro,
    Cond (C_Not (Defined ''EVENT2_RPC_COMPAT_H_INCLUDED_''))
      [Def ''EVTAG_ASSIGN'' PP_Macro, Def ''EVTAG_ASSIGN_WITH_LEN'' PP_Macro,
       Def ''EVTAG_GET'' PP_Macro, Def ''EVTAG_GET_WITH_LEN'' PP_Macro]
      [],
    Def ''EVTAG_ARRAY_ADD_VALUE'' PP_Macro, Def ''EVTAG_ARRAY_ADD'' PP_Macro,
    Def ''EVTAG_ARRAY_GET'' PP_Macro, Def ''EVTAG_ARRAY_LEN'' PP_Macro,
    Code ''struct evbuffer ... struct evrpc'', Def ''EVRPC_STRUCT'' PP_Macro,
    Code ''struct evhttp_request ... struct evrpc_hook_meta'', Def ''EVRPC_HEADER'' PP_Macro,
    Code ''struct evrpc_pool ... evrpc_make_request_ctx'', Def ''EVRPC_MAKE_CTX'' PP_Macro]"

definition rpc_h_3 :: "pp list" where
  "rpc_h_3 =
   [Def ''EVRPC_GENERATE'' PP_Macro, Def ''EVRPC_REQUEST_HTTP'' PP_Macro,
    Code ''evrpc_request_done ... evrpc_get_reply'', Def ''EVRPC_REQUEST_DONE'' PP_Macro]"

definition rpc_h_4 :: "pp list" where
  "rpc_h_4 =
   [Def ''EVRPC_REGISTER'' PP_Macro, Code ''evrpc_register_rpc'', Def ''EVRPC_UNREGISTER'' PP_Macro,
    Code ''evrpc_unregister_rpc ... struct evrpc_status'', Def ''EVRPC_MAKE_REQUEST'' PP_Macro]"

definition rpc_h_5 :: "pp list" where
  "rpc_h_5 =
   [Enum ''EVRPC_HOOK_TYPE'' [(''EVRPC_INPUT'', 0), (''EVRPC_OUTPUT'', 1)],
    Cond (C_Not (Defined ''_WIN32''))
      [Def ''INPUT'' (PP_Tokens ''EVRPC_INPUT''), Def ''OUTPUT'' (PP_Tokens ''EVRPC_OUTPUT'')]
      [],
    Enum ''EVRPC_HOOK_RESULT'' [(''EVRPC_TERMINATE'', - 1), (''EVRPC_CONTINUE'', 0), (''EVRPC_PAUSE'', 1)]]"

definition rpc_h_6 :: "pp list" where
  "rpc_h_6 =
   [Cond (Defined ''__cplusplus'')
      [Code ''}'']
      []]"

definition rpc_h :: "pp list" where
  "rpc_h =
     [Cond (C_Not (Defined ''EVENT2_RPC_H_INCLUDED_'')) (Def ''EVENT2_RPC_H_INCLUDED_'' (PP_Tokens '''') #
       rpc_h_1 @
       rpc_h_2 @
       rpc_h_3 @
       [Code ''struct evrpc_base ... evrpc_free''] @
       rpc_h_4 @
       [Code ''evrpc_make_request ... evrpc_pool_set_timeout''] @
       rpc_h_5 @
       [Code ''evrpc_add_hook ... evrpc_request_set_cb''] @
       rpc_h_6) []]"

lemmas rpc_h_text = rpc_h_def rpc_h_1_def rpc_h_2_def rpc_h_3_def rpc_h_4_def rpc_h_5_def rpc_h_6_def

section \<open>\<open>event2/rpc_compat.h\<close>\<close>

definition rpc_compat_h_1 :: "pp list" where
  "rpc_compat_h_1 =
   [Cond (Defined ''__cplusplus'')
      [Code ''extern \"C\" {'']
      [],
    Cond (C_And (Defined ''__GNUC__'') (C_Not (Defined ''__STRICT_ANSI__'')))
      [Undef ''EVTAG_ASSIGN'', Undef ''EVTAG_GET'', Undef ''EVTAG_ADD'',
       Def ''EVTAG_ASSIGN'' PP_Macro, Def ''EVTAG_GET'' PP_Macro, Def ''EVTAG_ADD'' PP_Macro]
      [],
    Def ''EVTAG_LEN'' PP_Macro,
    Cond (Defined ''__cplusplus'')
      [Code ''}'']
      []]"

definition rpc_compat_h :: "pp list" where
  "rpc_compat_h =
     [Cond (C_Not (Defined ''EVENT2_RPC_COMPAT_H_INCLUDED_'')) (Def ''EVENT2_RPC_COMPAT_H_INCLUDED_'' (PP_Tokens '''') #
       rpc_compat_h_1) []]"

lemmas rpc_compat_h_text = rpc_compat_h_def rpc_compat_h_1_def

section \<open>\<open>event2/rpc_struct.h\<close>\<close>

definition rpc_struct_h_1 :: "pp list" where
  "rpc_struct_h_1 =
   [Cond (Defined ''__cplusplus'')
      [Code ''extern \"C\" {'']
      [],
    Cond (C_Not (Defined ''TAILQ_ENTRY''))
      [Def ''EVENT_DEFINED_TQENTRY_'' (PP_Tokens ''''), Def ''TAILQ_ENTRY'' PP_Macro]
      [],
    Code ''struct evrpc_status {'', Def ''EVRPC_STATUS_ERR_NONE'' (PP_Int 0),
    Def ''EVRPC_STATUS_ERR_TIMEOUT'' (PP_Int 1), Def ''EVRPC_STATUS_ERR_BADPAYLOAD'' (PP_Int 2),
    Def ''EVRPC_STATUS_ERR_UNSTARTED'' (PP_Int 3), Def ''EVRPC_STATUS_ERR_HOOKABORTED'' (PP_Int 4),
    Code ''int error;'', Code ''struct evhttp_request *http_req;'', Code ''};'',
    Code ''struct evrpc {'', Code ''TAILQ_ENTRY(evrpc) next;'', Code ''const char* uri;'',
    Code ''void *(*request_new)(void *);'', Code ''void *request_new_arg;'',
    Code ''void (*request_free)(void *);'',
    Code ''int (*request_unmarshal)(void *, struct evbuffer *);'',
    Code ''void *(*reply_new)(void *);'', Code ''void *reply_new_arg;'',
    Code ''void (*reply_free)(void *);'', Code ''int (*reply_complete)(void *);'',
    Code ''void (*reply_marshal)(struct evbuffer*, void *);'',
    Code ''void (*cb)(struct evrpc_req_generic *, void *);'', Code ''void *cb_arg;'',
    Code ''struct evrpc_base *base;'', Code ''};'',
    Cond (Defined ''EVENT_DEFINED_TQENTRY_'')
      [Undef ''TAILQ_ENTRY'']
      [],
    Cond (Defined ''__cplusplus'')
      [Code ''}'']
      []]"

definition rpc_struct_h :: "pp list" where
  "rpc_struct_h =
     [Cond (C_Not (Defined ''EVENT2_RPC_STRUCT_H_INCLUDED_'')) (Def ''EVENT2_RPC_STRUCT_H_INCLUDED_'' (PP_Tokens '''') #
       rpc_struct_h_1) []]"

lemmas rpc_struct_h_text = rpc_struct_h_def rpc_struct_h_1_def

end
