(* ===== verification/Headers_Order.thy ===== *)
theory Headers_Order
  imports Headers_Correct
begin

text \<open>
  Properties of headers that are included one after the other, or after headers of the system: the
  macros for queues, which three headers define for themselves when \<open>sys/queue.h\<close> has not defined them,
  and the accessors of RPC messages, which two headers define.
\<close>

section \<open>Queue macros\<close>

text \<open>
  The macros of \<open>sys/queue.h\<close> that the headers use, each with the macro by which a header remembers that
  it has defined it.
\<close>

definition queue_macros :: "(string \<times> string) list" where
  "queue_macros = [(''TAILQ_ENTRY'', ''EVENT_DEFINED_TQENTRY_''), (''TAILQ_HEAD'', ''EVENT_DEFINED_TQHEAD_''),
     (''LIST_ENTRY'', ''EVENT_DEFINED_LISTENTRY_''), (''LIST_HEAD'', ''EVENT_DEFINED_LISTHEAD_'')]"

text \<open>
  \<open>m\<close> agrees with \<open>m0\<close> on the macro \<open>x\<close>, and if \<open>x\<close> is defined there, the note \<open>d\<close> is not. A file gives
  \<open>x\<close> back if it keeps this.
\<close>

definition queue_same :: "string \<Rightarrow> string \<Rightarrow> macros \<Rightarrow> macros \<Rightarrow> bool" where
  "queue_same x d m0 m \<longleftrightarrow> m x = m0 x \<and> (m0 x \<noteq> None \<longrightarrow> m d = None)"

definition gives_back :: "string \<Rightarrow> string \<Rightarrow> (macros \<Rightarrow> macros) \<Rightarrow> bool" where
  "gives_back x d f \<longleftrightarrow> (\<forall>m0 m. queue_same x d m0 m \<longrightarrow> queue_same x d m0 (f m))"

text \<open>
  The shape of a header that defines \<open>x\<close> for itself: nothing touches \<open>x\<close> or \<open>d\<close> but one conditional that
  defines both and one that undefines \<open>x\<close>, and no file is included between the two.
\<close>

definition queue_free :: "string \<Rightarrow> string \<Rightarrow> pp \<Rightarrow> bool" where
  "queue_free x d p \<longleftrightarrow> x \<notin> set (pp_touches p) \<and> d \<notin> set (pp_touches p)"

definition queue_opens :: "string \<Rightarrow> string \<Rightarrow> pp" where
  "queue_opens x d = Cond (C_Not (Defined x)) [Def d (PP_Tokens ''''), Def x PP_Macro] []"

definition queue_closes :: "string \<Rightarrow> string \<Rightarrow> pp" where
  "queue_closes x d = Cond (Defined d) [Undef x] []"

definition queue_shape :: "string \<Rightarrow> string \<Rightarrow> pp list \<Rightarrow> bool" where
  "queue_shape x d body \<longleftrightarrow> (case dropWhile (queue_free x d) body of
      [] \<Rightarrow> True
    | a # r \<Rightarrow> a = queue_opens x d \<and> concat (map pp_includes (takeWhile (queue_free x d) r)) = [] \<and>
        (case dropWhile (queue_free x d) r of
           [] \<Rightarrow> False
         | b # post \<Rightarrow> b = queue_closes x d \<and> list_all (queue_free x d) post))"

fun header_body :: "pp list \<Rightarrow> pp list" where
  "header_body [Cond c xs []] = xs"
| "header_body _ = []"

lemma headers_queue_shape:
  "list_all (\<lambda>(n, h). list_all (\<lambda>(x, d). queue_shape x d (header_body h)) queue_macros) libevent_headers"
  by code_simp

lemma pp_touches_free:
  "queue_free x d (Cond c xs ys) \<longleftrightarrow> list_all (queue_free x d) xs \<and> list_all (queue_free x d) ys"
  by (auto simp: queue_free_def list_all_iff)

lemma queue_free_same:
  assumes "\<And>f. gives_back x d (inc f)"
  shows "queue_free x d p \<Longrightarrow> queue_same x d m0 m \<Longrightarrow> queue_same x d m0 (snd (pp_exec inc p m))"
    and "list_all (queue_free x d) ps \<Longrightarrow> queue_same x d m0 m \<Longrightarrow> queue_same x d m0 (pp_after inc ps m)"
  using assms
proof (induction inc p m and inc ps m rule: pp_exec_pp_execs.induct)
  case (3 inc f m)
  then show ?case by (simp add: gives_back_def)
next
  case (6 inc c xs ys m)
  then show ?case by (cases "pp_holds m c") (simp_all add: pp_touches_free)
next
  case (8 inc p ps m)
  obtain c1 m1 where p: "pp_exec inc p m = (c1, m1)" by fastforce
  have "queue_same x d m0 m1" using 8(1) 8(3-5) p by simp
  then have "queue_same x d m0 (pp_after inc ps m1)" using 8(2) [OF p [symmetric] refl] 8(3,5) by simp
  then show ?case by (simp only: pp_after_Cons p snd_conv)
qed (auto simp: queue_free_def queue_same_def)

text \<open>Without an include, free directives leave both names alone.\<close>

lemma queue_free_keeps:
  "queue_free x d p \<Longrightarrow> pp_includes p = [] \<Longrightarrow> snd (pp_exec inc p m) x = m x \<and> snd (pp_exec inc p m) d = m d"
  "list_all (queue_free x d) ps \<Longrightarrow> concat (map pp_includes ps) = [] \<Longrightarrow>
    pp_after inc ps m x = m x \<and> pp_after inc ps m d = m d"
proof (induction inc p m and inc ps m rule: pp_exec_pp_execs.induct)
  case (6 inc c xs ys m)
  then show ?case by (cases "pp_holds m c") (simp_all add: pp_touches_free)
next
  case (8 inc p ps m)
  obtain c1 m1 where p: "pp_exec inc p m = (c1, m1)" by fastforce
  have "m1 x = m x \<and> m1 d = m d" using 8(1) 8(3,4) p by simp
  moreover have "pp_after inc ps m1 x = m1 x \<and> pp_after inc ps m1 d = m1 d"
    using 8(2) [OF p [symmetric] refl] 8(3,4) by simp
  ultimately show ?case by (simp only: pp_after_Cons p snd_conv)
qed (auto simp: queue_free_def)

lemma pp_after_append: "pp_after inc (xs @ ys) m = pp_after inc ys (pp_after inc xs m)"
  by (simp add: pp_execs_append)

lemma queue_opened:
  assumes "x \<noteq> d" and "queue_same x d m0 m"
  shows "snd (pp_exec inc (queue_opens x d) m) = (if m0 x = None then m(d \<mapsto> PP_Tokens '''', x \<mapsto> PP_Macro) else m)"
  using assms by (simp add: queue_opens_def queue_same_def defd_def)

lemma queue_closed:
  "snd (pp_exec inc (queue_closes x d) m) = (if m d = None then m else m(x := None))"
  by (simp add: queue_closes_def defd_def)

lemma queue_shape_same:
  assumes inc: "\<And>f. gives_back x d (inc f)" and ne: "x \<noteq> d"
    and shape: "queue_shape x d body" and m: "queue_same x d m0 m"
  shows "queue_same x d m0 (pp_after inc body m)"
proof -
  let ?free = "queue_free x d"
  have split: "takeWhile ?free zs @ dropWhile ?free zs = zs" and pre: "list_all ?free (takeWhile ?free zs)" for zs
    by (auto simp: list_all_iff dest: set_takeWhileD)
  let ?m1 = "pp_after inc (takeWhile ?free body) m"
  have 1: "queue_same x d m0 ?m1" by (rule queue_free_same(2) [OF inc pre m])
  show ?thesis
  proof (cases "dropWhile ?free body")
    case Nil
    then have e: "takeWhile ?free body = body" using split [of body] by (metis append_Nil2)
    show ?thesis using 1 unfolding e .
  next
    case (Cons a r)
    then obtain post where a: "a = queue_opens x d" and mid: "concat (map pp_includes (takeWhile ?free r)) = []"
      and r: "dropWhile ?free r = queue_closes x d # post" and post: "list_all ?free post"
      using shape by (auto simp: queue_shape_def split: list.splits)
    let ?m2 = "snd (pp_exec inc a ?m1)"
    let ?m3 = "pp_after inc (takeWhile ?free r) ?m2"
    let ?m4 = "snd (pp_exec inc (queue_closes x d) ?m3)"
    have keep: "?m3 x = ?m2 x \<and> ?m3 d = ?m2 d" by (rule queue_free_keeps(2) [OF pre mid])
    have "queue_same x d m0 ?m4"
      using keep 1 ne unfolding queue_closed unfolding a queue_opened [OF ne 1]
      by (cases "m0 x") (simp_all add: queue_same_def)
    then have "queue_same x d m0 (pp_after inc post ?m4)" by (rule queue_free_same(2) [OF inc post])
    moreover have "body = takeWhile ?free body @ a # takeWhile ?free r @ queue_closes x d # post"
      using split [of body] split [of r] Cons r by simp
    then have "pp_after inc body m = pp_after inc post ?m4" by (metis pp_after_append pp_after_Cons)
    ultimately show ?thesis by simp
  qed
qed

section \<open>Properties\<close>

text \<open>
  C29 (queue macros are given back). A header of libevent, included in an environment in which the macro
  \<open>TAILQ_ENTRY\<close> (\<open>TAILQ_HEAD\<close>, \<open>LIST_ENTRY\<close>, \<open>LIST_HEAD\<close>) has some definition or none, leaves exactly that
  behind: it uses a definition of the system and removes one of its own. This needs that, where the
  macro is defined, no header of libevent has left its note of an own definition behind. The files it includes are assumed to do the
  same, which makes the property compose.
\<close>

theorem queue_macros_given_back:
  assumes "(n, h) \<in> set libevent_headers" and "(x, d) \<in> set queue_macros" and "\<And>f. gives_back x d (inc f)"
    and "m x = None \<or> m d = None"
  shows "pp_after inc h m x = m x \<and> gives_back x d (pp_after inc h)"
proof -
  obtain g where g: "pp_guard h = Some g" using assms(1) by (rule header_guard)
  have ne: "x \<noteq> d" using assms(2) by (auto simp: queue_macros_def)
  have shape: "queue_shape x d (header_body h)"
    using headers_queue_shape assms(1,2) by (fastforce simp: list_all_iff)
  have gb: "gives_back x d (pp_after inc h)"
    unfolding gives_back_def
  proof (intro allI impI)
    fix m0 m'
    assume m': "queue_same x d m0 m'"
    obtain v body where h: "h = [Cond (C_Not (Defined g)) (Def g v # body) []]" using g by (rule pp_guardE)
    have b: "header_body h = Def g v # body" by (simp add: h)
    show "queue_same x d m0 (pp_after inc h m')"
    proof (cases "defd m' g")
      case True
      then show ?thesis using m' by (simp add: h)
    next
      case False
      have "queue_same x d m0 (pp_after inc (Def g v # body) m')"
        using queue_shape_same [OF assms(3) ne shape m'] by (simp only: b)
      moreover have "pp_after inc h m' = pp_after inc (Def g v # body) m'"
        using False by (simp add: h case_prod_beta Let_def)
      ultimately show ?thesis by simp
    qed
  qed
  have "queue_same x d m m" using assms(4) by (auto simp: queue_same_def)
  then have "queue_same x d m (pp_after inc h m)" using gb unfolding gives_back_def by blast
  then show ?thesis using gb by (simp add: queue_same_def)
qed

theorem queue_macros_given_back_witness:
  "pp_after (\<lambda>_ m. m) event_struct_h [''LIST_HEAD'' \<mapsto> PP_Macro] ''TAILQ_ENTRY'' = None \<and>
   pp_after (\<lambda>_ m. m) event_struct_h [''LIST_HEAD'' \<mapsto> PP_Macro] ''LIST_HEAD'' = Some PP_Macro"
proof
  have h: "(''event2/event_struct.h'', event_struct_h) \<in> set libevent_headers" by (simp add: libevent_headers_def)
  have i: "gives_back x d (\<lambda>m. m)" for x d by (simp add: gives_back_def)
  have t: "(''TAILQ_ENTRY'', ''EVENT_DEFINED_TQENTRY_'') \<in> set queue_macros"
    "(''LIST_HEAD'', ''EVENT_DEFINED_LISTHEAD_'') \<in> set queue_macros" by (simp_all add: queue_macros_def)
  show "pp_after (\<lambda>_ m. m) event_struct_h [''LIST_HEAD'' \<mapsto> PP_Macro] ''TAILQ_ENTRY'' = None"
    using queue_macros_given_back [of _ _ _ _ "\<lambda>_ m. m" "[''LIST_HEAD'' \<mapsto> PP_Macro]", OF h t(1) i] by simp
  show "pp_after (\<lambda>_ m. m) event_struct_h [''LIST_HEAD'' \<mapsto> PP_Macro] ''LIST_HEAD'' = Some PP_Macro"
    using queue_macros_given_back [of _ _ _ _ "\<lambda>_ m. m" "[''LIST_HEAD'' \<mapsto> PP_Macro]", OF h t(2) i] by simp
qed

text \<open>
  C39 (a lost queue macro). The note is never removed. A program that includes \<open>keyvalq_struct.h\<close> (as
  \<open>event_struct.h\<close> does) before \<open>sys/queue.h\<close> and \<open>rpc_struct.h\<close> after it loses the system's
  \<open>TAILQ_ENTRY\<close>: the header takes the definition for its own and removes it.
\<close>

theorem queue_macro_lost:
  assumes "\<not> defd m ''EVENT2_KEYVALQ_STRUCT_H_INCLUDED_''" and "\<not> defd m ''EVENT2_RPC_STRUCT_H_INCLUDED_''"
    and "\<not> defd m ''TAILQ_ENTRY''"
  shows "pp_after inc rpc_struct_h ((pp_after inc keyvalq_struct_h m)(''TAILQ_ENTRY'' \<mapsto> v)) ''TAILQ_ENTRY'' = None"
proof -
  let ?m = "pp_after inc keyvalq_struct_h m"
  have d: "?m ''EVENT_DEFINED_TQENTRY_'' \<noteq> None" "?m ''EVENT2_RPC_STRUCT_H_INCLUDED_'' = None"
    using assms
    by (cases "defd m CPLUSPLUS"; cases "defd m ''TAILQ_HEAD''"; cases "defd m ''EVENT_DEFINED_TQHEAD_''";
        simp add: keyvalq_struct_h_text defd_def)+
  show ?thesis using d
    by (cases "defd ?m CPLUSPLUS") (simp_all add: rpc_struct_h_text defd_def)
qed

theorem queue_macro_lost_witness:
  "pp_after (\<lambda>_ m. m) rpc_struct_h ((pp_after (\<lambda>_ m. m) keyvalq_struct_h Map.empty)(''TAILQ_ENTRY'' \<mapsto> PP_Macro))
     ''TAILQ_ENTRY'' = None"
  by (rule queue_macro_lost) (simp_all add: defd_def)

section \<open>Accessors of RPC messages\<close>

definition rpc_names :: "string list" where
  "rpc_names = [''EVTAG_ASSIGN'', ''EVTAG_GET'', ''EVENT2_RPC_H_INCLUDED_'', ''EVENT2_RPC_COMPAT_H_INCLUDED_'',
     ''__GNUC__'', ''__STRICT_ANSI__'', ''_WIN32'', CPLUSPLUS]"

lemma header_runs_body:
  "h = [Cond (C_Not (Defined g)) xs []] \<Longrightarrow> \<not> defd m g \<Longrightarrow> pp_after inc h m = pp_after inc xs m"
  by (simp add: case_prod_beta Let_def)

text \<open>A name that only one conditional of a header touches.\<close>

lemma only_in_cond:
  assumes x: "filter (\<lambda>p. x \<in> set (pp_touches p)) body = [Cond (C_Not (Defined g)) ds []]"
    and g: "g \<notin> set (concat (map pp_touches body))"
    and inc: "\<And>f m. inc f m x = m x" "\<And>f m. inc f m g = m g" and ds: "\<And>m. pp_after inc ds m x = Some v"
  shows "pp_after inc body m x = (if defd m g then m x else Some v)"
proof -
  obtain us vs where b: "body = us @ Cond (C_Not (Defined g)) ds [] # vs"
    and us: "\<forall>p \<in> set us. x \<notin> set (pp_touches p)" and vs: "filter (\<lambda>p. x \<in> set (pp_touches p)) vs = []"
    using filter_eq_ConsD [OF x] by auto
  have "x \<notin> set (concat (map pp_touches us))" "x \<notin> set (concat (map pp_touches vs))"
    using us vs by (auto simp: filter_empty_conv)
  then have 1: "pp_after inc us m' x = m' x" "pp_after inc vs m' x = m' x" for m'
    using pp_keeps_value(2) [of inc x, OF inc(1)] by blast+
  have "g \<notin> set (concat (map pp_touches us))" using g b by simp
  then have 2: "pp_after inc us m g = m g" by (rule pp_keeps_value(2) [of inc g, OF inc(2)])
  have "pp_after inc body m x = snd (pp_exec inc (Cond (C_Not (Defined g)) ds []) (pp_after inc us m)) x"
    by (simp only: b pp_after_append pp_after_Cons 1(2))
  then show ?thesis using 1(1) [of m] 2 ds by (simp add: defd_def)
qed

lemma rpc_text:
  "rpc_h = [Cond (C_Not (Defined ''EVENT2_RPC_H_INCLUDED_'')) (header_body rpc_h) []]"
  "''EVENT2_RPC_COMPAT_H_INCLUDED_'' \<notin> set (concat (map pp_touches (header_body rpc_h)))"
  by code_simp+

lemma rpc_text_cond:
  "x \<in> {''EVTAG_ASSIGN'', ''EVTAG_GET''} \<Longrightarrow> filter (\<lambda>p. x \<in> set (pp_touches p)) (header_body rpc_h) =
    [Cond (C_Not (Defined ''EVENT2_RPC_COMPAT_H_INCLUDED_''))
      [Def ''EVTAG_ASSIGN'' PP_Macro, Def ''EVTAG_ASSIGN_WITH_LEN'' PP_Macro, Def ''EVTAG_GET'' PP_Macro,
       Def ''EVTAG_GET_WITH_LEN'' PP_Macro] []]"
  by (elim insertE emptyE; simp only:; code_simp)

lemma rpc_after:
  assumes inc: "\<And>f m x. x \<in> set rpc_names \<Longrightarrow> inc f m x = m x" and g: "\<not> defd m ''EVENT2_RPC_H_INCLUDED_''"
    and x: "x \<in> {''EVTAG_ASSIGN'', ''EVTAG_GET''}"
  shows "pp_after inc rpc_h m x = (if defd m ''EVENT2_RPC_COMPAT_H_INCLUDED_'' then m x else Some PP_Macro)"
  unfolding header_runs_body [OF rpc_text(1) g]
proof (rule only_in_cond [OF rpc_text_cond [OF x] rpc_text(2)])
  show "inc f m x = m x" for f m using inc x by (auto simp: rpc_names_def)
  show "inc f m ''EVENT2_RPC_COMPAT_H_INCLUDED_'' = m ''EVENT2_RPC_COMPAT_H_INCLUDED_''" for f m
    using inc by (simp add: rpc_names_def)
qed (use x in auto)

lemma rpc_compat_after:
  assumes "\<not> defd m ''EVENT2_RPC_COMPAT_H_INCLUDED_''" and "x \<in> {''EVTAG_ASSIGN'', ''EVTAG_GET''}"
  shows "pp_after inc rpc_compat_h m x =
      (if defd m ''__GNUC__'' \<and> \<not> defd m ''__STRICT_ANSI__'' then Some PP_Macro else m x)"
    and "pp_after inc rpc_compat_h m ''EVENT2_RPC_COMPAT_H_INCLUDED_'' \<noteq> None"
    and "pp_after inc rpc_compat_h m ''EVENT2_RPC_H_INCLUDED_'' = m ''EVENT2_RPC_H_INCLUDED_''"
  using assms
  by (cases "m CPLUSPLUS"; cases "m ''__GNUC__''"; cases "m ''__STRICT_ANSI__''";
      auto simp: rpc_compat_h_text defd_def)+

lemma rpc_keeps:
  assumes inc: "\<And>f m x. x \<in> set rpc_names \<Longrightarrow> inc f m x = m x"
    and x: "x \<in> {''EVENT2_RPC_COMPAT_H_INCLUDED_'', ''__GNUC__'', ''__STRICT_ANSI__''}"
  shows "pp_after inc rpc_h m x = m x"
proof (rule pp_keeps_value(2))
  show "inc f m x = m x" for f m using inc x by (auto simp: rpc_names_def)
  have "list_all (\<lambda>x. x \<notin> set (concat (map pp_touches rpc_h)))
      [''EVENT2_RPC_COMPAT_H_INCLUDED_'', ''__GNUC__'', ''__STRICT_ANSI__'']" by code_simp
  then show "x \<notin> set (concat (map pp_touches rpc_h))" using x by auto
qed

text \<open>
  Order of the RPC headers. When the compiler is not GNU C, or is in strict mode, the accessors
  \<open>EVTAG_ASSIGN\<close> and \<open>EVTAG_GET\<close> depend on the order of two headers: with \<open>rpc.h\<close> before \<open>rpc_compat.h\<close> they
  are defined, in the other order they are not, because \<open>rpc.h\<close> leaves them to \<open>rpc_compat.h\<close>, which defines
  them for GNU C only. With GNU C they are defined in both orders.
\<close>

theorem rpc_header_order:
  assumes "\<And>f m x. x \<in> set rpc_names \<Longrightarrow> inc f m x = m x"
    and "\<not> defd m ''EVENT2_RPC_H_INCLUDED_''" and "\<not> defd m ''EVENT2_RPC_COMPAT_H_INCLUDED_''"
    and "x \<in> {''EVTAG_ASSIGN'', ''EVTAG_GET''}"
  shows "pp_after inc rpc_compat_h (pp_after inc rpc_h m) x = Some PP_Macro \<and>
    pp_after inc rpc_h (pp_after inc rpc_compat_h m) x =
      (if defd m ''__GNUC__'' \<and> \<not> defd m ''__STRICT_ANSI__'' then Some PP_Macro else m x)"
proof
  have "\<not> defd (pp_after inc rpc_h m) ''EVENT2_RPC_COMPAT_H_INCLUDED_''"
    using rpc_keeps [of inc "''EVENT2_RPC_COMPAT_H_INCLUDED_''" m, OF assms(1)] assms(3) by (simp add: defd_def)
  then show "pp_after inc rpc_compat_h (pp_after inc rpc_h m) x = Some PP_Macro"
    using rpc_compat_after(1) [OF _ assms(4)] rpc_after [of inc, OF assms(1,2,4)] assms(3) by simp
  note c = rpc_compat_after [OF assms(3,4), of inc]
  have "\<not> defd (pp_after inc rpc_compat_h m) ''EVENT2_RPC_H_INCLUDED_''" using c(3) assms(2) by (simp add: defd_def)
  then have "pp_after inc rpc_h (pp_after inc rpc_compat_h m) x = pp_after inc rpc_compat_h m x"
    using rpc_after [of inc "pp_after inc rpc_compat_h m" x, OF assms(1) _ assms(4)] c(2) by (simp add: defd_def)
  then show "pp_after inc rpc_h (pp_after inc rpc_compat_h m) x =
      (if defd m ''__GNUC__'' \<and> \<not> defd m ''__STRICT_ANSI__'' then Some PP_Macro else m x)"
    using c(1) by simp
qed

theorem rpc_header_order_witness:
  "pp_after (\<lambda>_ m. m) rpc_compat_h (pp_after (\<lambda>_ m. m) rpc_h Map.empty) ''EVTAG_GET'' = Some PP_Macro \<and>
   pp_after (\<lambda>_ m. m) rpc_h (pp_after (\<lambda>_ m. m) rpc_compat_h Map.empty) ''EVTAG_GET'' = None"
  using rpc_header_order [of "\<lambda>_ m. m" Map.empty "''EVTAG_GET''"] by (simp add: defd_def)

end
