(* ===== verification/Header_Macros.thy ===== *)
theory Header_Macros
  imports Libevent
begin

text \<open>
  The macros with parameters of \<open>event.h\<close> and \<open>event_compat.h\<close>. They expand to calls of library
  functions, which are fields of a record, an argument of every macro: the functions' code is not part
  of the repository. What the library documents of a function is a hypothesis where a property needs
  it.
\<close>

section \<open>Events\<close>

definition EV_TIMEOUT :: flags where "EV_TIMEOUT = 0x01"
definition EV_SIGNAL :: flags where "EV_SIGNAL = 0x08"

text \<open>The functions the macros call, on a state \<open>'s\<close> of the library; a time may be null.\<close>

record ('s, 'ev, 'base, 'cb, 'arg, 'tv) event_api =
  event_assign :: "'ev \<Rightarrow> 'base \<Rightarrow> int \<Rightarrow> flags \<Rightarrow> 'cb \<Rightarrow> 'arg \<Rightarrow> 's \<Rightarrow> int \<times> 's"
  event_set :: "'ev \<Rightarrow> int \<Rightarrow> flags \<Rightarrow> 'cb \<Rightarrow> 'arg \<Rightarrow> 's \<Rightarrow> 's"
  event_new :: "'base \<Rightarrow> int \<Rightarrow> flags \<Rightarrow> 'cb \<Rightarrow> 'arg \<Rightarrow> 's \<Rightarrow> 'ev option \<times> 's"
  event_add :: "'ev \<Rightarrow> 'tv option \<Rightarrow> 's \<Rightarrow> int \<times> 's"
  event_del :: "'ev \<Rightarrow> 's \<Rightarrow> int \<times> 's"
  event_pending :: "'ev \<Rightarrow> flags \<Rightarrow> 's \<Rightarrow> int"
  event_initialized :: "'ev \<Rightarrow> 's \<Rightarrow> int"
  event_active :: "'ev \<Rightarrow> int \<Rightarrow> int \<Rightarrow> 's \<Rightarrow> 's"
  event_get_fd :: "'ev \<Rightarrow> 's \<Rightarrow> int"

definition evtimer_assign where "evtimer_assign A ev b cb arg = event_assign A ev b (- 1) 0 cb arg"
definition evtimer_new where "evtimer_new A b cb arg = event_new A b (- 1) 0 cb arg"
definition evtimer_add where "evtimer_add A ev tv = event_add A ev tv"
definition evtimer_del where "evtimer_del A ev = event_del A ev"
definition evtimer_pending where "evtimer_pending A ev = event_pending A ev EV_TIMEOUT"
definition evtimer_initialized where "evtimer_initialized A ev = event_initialized A ev"

definition evsignal_add where "evsignal_add A ev tv = event_add A ev tv"
definition evsignal_assign where "evsignal_assign A ev b x cb arg = event_assign A ev b x (EV_SIGNAL OR EV_PERSIST) cb arg"
definition evsignal_new where "evsignal_new A b x cb arg = event_new A b x (EV_SIGNAL OR EV_PERSIST) cb arg"
definition evsignal_del where "evsignal_del A ev = event_del A ev"
definition evsignal_pending where "evsignal_pending A ev = event_pending A ev EV_SIGNAL"
definition evsignal_initialized where "evsignal_initialized A ev = event_initialized A ev"

definition evuser_new where "evuser_new A b cb arg = event_new A b (- 1) 0 cb arg"
definition evuser_del where "evuser_del A ev = event_del A ev"
definition evuser_pending where "evuser_pending A ev = event_pending A ev 0"
definition evuser_initialized where "evuser_initialized A ev = event_initialized A ev"
definition evuser_trigger where "evuser_trigger A ev = event_active A ev 0 0"

definition event_get_signal where "event_get_signal A ev = event_get_fd A ev"

text \<open>The older names in \<open>event_compat.h\<close>.\<close>

definition evtimer_set where "evtimer_set A ev cb arg = event_set A ev (- 1) 0 cb arg"
definition evsignal_set where "evsignal_set A ev x cb arg = event_set A ev x (EV_SIGNAL OR EV_PERSIST) cb arg"

definition timeout_add where "timeout_add A ev tv = event_add A ev tv"
definition timeout_set where "timeout_set A ev cb arg = event_set A ev (- 1) 0 cb arg"
definition timeout_del where "timeout_del A ev = event_del A ev"
definition timeout_pending where "timeout_pending A ev = event_pending A ev EV_TIMEOUT"
definition timeout_initialized where "timeout_initialized A ev = event_initialized A ev"

definition signal_add where "signal_add A ev tv = event_add A ev tv"
definition signal_set where "signal_set A ev x cb arg = event_set A ev x (EV_SIGNAL OR EV_PERSIST) cb arg"
definition signal_del where "signal_del A ev = event_del A ev"
definition signal_pending where "signal_pending A ev = event_pending A ev EV_SIGNAL"
definition signal_initialized where "signal_initialized A ev = event_initialized A ev"

definition EVENT_FD where "EVENT_FD A ev = event_get_fd A ev"
definition EVENT_SIGNAL where "EVENT_SIGNAL A ev = event_get_signal A ev"

section \<open>Properties\<close>

text \<open>
  Asking whether an event is pending. For any library whose \<open>event_pending\<close> says, as documented,
  whether an event is pending on any of the events asked for: the macros for timers and signals, under
  both names, tell exactly whether the timer or signal is pending, and \<open>evuser_pending\<close>, which asks for
  no event at all, says no for every event, pending or not.
\<close>

theorem pending_macros:
  assumes "\<And>ev what s. event_pending A ev what s \<noteq> 0 \<longleftrightarrow> has_flag (pending ev s) what"
  shows "(evtimer_pending A ev s \<noteq> 0 \<longleftrightarrow> bit (pending ev s) 0) \<and> timeout_pending A ev s = evtimer_pending A ev s \<and>
    (evsignal_pending A ev s \<noteq> 0 \<longleftrightarrow> bit (pending ev s) 3) \<and> signal_pending A ev s = evsignal_pending A ev s \<and>
    evuser_pending A ev s = 0"
proof -
  have 1: "has_flag w 1 \<longleftrightarrow> bit w 0" for w :: flags
    by (simp add: has_flag_def and_one_eq bit_0 odd_iff_mod_2_eq_one)
  have 8: "has_flag w 8 \<longleftrightarrow> bit w 3" for w :: flags
    using and_exp_eq_0_iff_not_bit [of w 3] by (simp add: has_flag_def)
  have "\<not> has_flag w 0" for w :: flags by (simp add: has_flag_def)
  then show ?thesis using assms 1 8
    by (auto simp: evtimer_pending_def timeout_pending_def evsignal_pending_def signal_pending_def evuser_pending_def
        EV_TIMEOUT_def EV_SIGNAL_def)
qed

theorem pending_macros_witness:
  "\<exists>A :: (flags, unit, unit, unit, unit, unit) event_api.
     (\<forall>ev what s. event_pending A ev what s \<noteq> 0 \<longleftrightarrow> has_flag s what) \<and>
     evtimer_pending A () EV_SIGNAL = 0 \<and> evsignal_pending A () EV_SIGNAL \<noteq> 0 \<and> evuser_pending A () EV_SIGNAL = 0"
proof -
  define A :: "(flags, unit, unit, unit, unit, unit) event_api" where
    "A = \<lparr>event_assign = (\<lambda>_ _ _ _ _ _ s. (0, s)), event_set = (\<lambda>_ _ _ _ _ s. s), event_new = (\<lambda>_ _ _ _ _ s. (None, s)),
       event_add = (\<lambda>_ _ s. (0, s)), event_del = (\<lambda>_ s. (0, s)),
       event_pending = (\<lambda>_ what s. if has_flag s what then 1 else 0), event_initialized = (\<lambda>_ _. 1),
       event_active = (\<lambda>_ _ _ s. s), event_get_fd = (\<lambda>_ _. 0)\<rparr>"
  have 1: "event_pending A ev what s \<noteq> 0 \<longleftrightarrow> has_flag ((\<lambda>_ s. s) ev s) what" for ev what s
    by (simp add: A_def)
  show ?thesis
    using pending_macros [of A "\<lambda>_ s. s" "()" EV_SIGNAL, OF 1] 1
    by (intro exI [of _ A]) (auto simp: EV_SIGNAL_def bit_0)
qed

end
