(* ===== verification/Spec2Isabelle.thy ===== *)
theory Spec2Isabelle
  imports Le_Proxy_Correct Le_Proxy_Main Transparent_Proxy_Correct Transparent_Run_Correct
    Tcp_Proxy_Correct Epoll_Correct Virtual_Listener Echo_Server Splice_Echo Load_Client
    Ev_Util_Correct Headers_Order Header_Macros
begin

text \<open>
  A verification of the network programs of this repository: three TCP proxies on libevent, an event
  loop on \<open>epoll\<close> with echo handlers, the small servers and clients that exercise them, and the headers
  of libevent that are shipped with them.

  \<^bold>\<open>The program and how it is modelled.\<close>

  \<^item> \<open>source/tcp/le_proxy.cpp\<close>, a forwarding proxy: per accepted connection two bufferevents, each the
    callback argument of the other. Theory \<open>Le_Proxy\<close> has one definition per callback (\<open>readcb\<close>,
    \<open>drained_writecb\<close>, \<open>close_on_finished_writecb\<close>, \<open>eventcb\<close>, \<open>accept_cb\<close>), the globals, and the event
    loop as a labelled step relation \<open>le_step\<close>, in which libevent reads, writes and calls whatever
    callback is installed; \<open>Le_Proxy_Main\<close> has \<open>main\<close> with its options and addresses.
  \<^item> \<open>source/common/concurrency/IoContext\<close>, an array of event bases, the choice of one for a connection,
    and the listener: theory \<open>IoContext\<close>.
  \<^item> \<open>source/tcp/TransparentTcpProxy\<close> with \<open>test/tcp/transparent_proxy.cpp\<close>, pairs of heap objects that
    delete each other: theory \<open>Transparent_Proxy\<close>, from the constructor and the three stages of
    accepting to the callbacks, the destructor and \<open>main\<close>; \<open>Transparent_Run\<close> has the runs of its event
    loop as a labelled step relation \<open>t_step\<close> with the same actions as that of \<open>le_proxy\<close>. A run takes any
    step, with no condition on the events or the sockets.
  \<^item> \<open>source/tcp/tcp_proxy\<close>, one object per connection with two callback contexts and a holder that owns
    the objects: theory \<open>Tcp_Proxy\<close>. What a function without a \<open>return\<close> gives is an argument, which by
    the rules of the language is a fault.
  \<^item> \<open>source/tcp/epoll_handler\<close> with \<open>test/zero_copy/epoll_echo.cpp\<close> and \<open>splice_epoll_echo.cpp\<close>, the
    \<open>IOLoop\<close> and its handlers: theory \<open>Epoll_Handler\<close> has the operations, \<open>Epoll_Loop\<close> the runs of the
    loop and their invariant. Every system call may fail: \<open>accept\<close>, \<open>pipe\<close>, \<open>splice\<close> and each \<open>epoll_ctl\<close>.
  \<^item> \<open>source/exe/virtual_listerner.c\<close>, an upper-case echo server: theory \<open>Virtual_Listener\<close>, with
    failing and short answers of the system calls, and the lengths that are passed to them unwritten.
  \<^item> \<open>test/zero_copy/echo_server.cpp\<close>, \<open>test/event/splice_echo.cpp\<close>, \<open>test/zero_copy/load_client.cpp\<close>:
    theories \<open>Echo_Server\<close>, \<open>Splice_Echo\<close>, \<open>Load_Client\<close>.
  \<^item> \<open>lib/libevent\<close>, the library all proxies are built on, of which the repository ships the headers and
    an archive. The functions have no code here and no definition of their own; what the headers contain
    of code is translated: \<open>event-config.h\<close> line by line in \<open>Event_Config\<close>; all other headers as
    trees of directives and declarations in \<open>Headers_Base\<close>, \<open>Headers_Event\<close> and \<open>Headers_Net\<close>, with
    the preprocessor that runs them in \<open>Cpp_Model\<close>; in \<open>Ev_Util\<close> the types, limits and codes that \<open>util.h\<close>
    chooses by the configuration and its macros on \<open>struct timeval\<close>, which work through pointers that may
    be equal; in \<open>Header_Macros\<close> the macros of \<open>event.h\<close> and \<open>event_compat.h\<close> that expand to calls.

  \<^bold>\<open>The shared layer.\<close> \<open>Net_Prelude\<close> has the faults of C and C++ code (use after free, null or
  uninitialised pointers, a \<open>void *\<close> cast to the wrong type, a missing \<open>return\<close>, an access outside an
  array, \<open>assert\<close>, \<open>exit\<close>) as values, statements as functions from a state to a fault or the next
  state, and their sequence \<open>exec\<close>; a function body is the list of its statements. \<open>C_Lib\<close> has the
  functions of the C library that are computed with. \<open>Libevent\<close> has \<open>struct bufferevent\<close> and the flags
  of the shipped headers; the functions of the library are an argument \<open>L\<close> of every definition that
  calls them. What the headers document of them is the locale \<open>libevent_lib\<close>, which the locales
  \<open>le_proxy_lib\<close>, \<open>t_proxy_lib\<close>, \<open>tcp_proxy_lib\<close>, \<open>echo_lib\<close> and \<open>load_lib\<close> extend with the lemmas of one
  client each; the functions \<open>libevent_ref\<close> meet the laws, and each locale is interpreted on them. \<open>IoContext\<close>
  is used by its clients through the locale \<open>base_chooser\<close>, interpreted on \<open>io_base\<close>. \<open>Event_Batch\<close> states, as
  the locale \<open>batch_loop\<close>, what an \<open>epoll\<close> loop asks of the code that handles one event so that a batch
  reported once can be handled to its end; it is interpreted on \<open>dispatch_event\<close> and on \<open>vl_event\<close>.
  Answers of the operating system (\<open>recv\<close>, \<open>splice\<close>, \<open>accept\<close>, \<open>getsockopt\<close>, ...) are arguments too.

  \<^bold>\<open>What is shown.\<close>

  \<^item> \<open>Le_Proxy_Correct\<close>: in every run of the event loop no callback touches a released bufferevent; the
    bytes that arrive for an endpoint are those sent to it and those on their way, in order; every
    step is a step of an abstract relay of FIFO channels; an endpoint is read only while its partner's
    output is below the bound, a throttled one can always be started again, and the survivor of a
    closed connection is flushed before it is closed. \<open>Le_Proxy_Main\<close> and this theory: which command lines
    are served, and that TLS is dropped when its context cannot be made.
  \<^item> \<open>IoContext\<close>: a context for one thread always gives the main base; any other one reads, at its first
    choice, an index nobody has set.
  \<^item> \<open>Transparent_Run_Correct\<close>: for every step from every reachable state, exactly when it faults: an end
    or error event on a flushing side deletes a deleted object, and accepting may use a null or an unwritten
    pointer. All other steps return, and in all reachable states no byte is lost, nothing is leaked or
    shared, a side without partner can be flushed, outputs are bounded, and every step that returns is a
    step of the same abstract relay as that of \<open>le_proxy\<close>. \<open>Transparent_Proxy_Correct\<close>: the outcomes of
    accepting, the callbacks one by one, the two faults, and what \<open>main\<close> listens on.
  \<^item> \<open>Tcp_Proxy_Correct\<close>: forwarding and ownership by the holder; the missing returns, the wrong context
    that throttling installs, and the dangling pointers the event callback leaves to the destructor.
  \<^item> \<open>Epoll_Correct\<close>: in every run, for every batch of events and every answer of the system calls, the
    handler of an event is live and handling it returns, except that a failed \<open>pipe\<close> makes the
    constructor of a handler use unwritten descriptors; no descriptor is open that the table does not
    account for, and no byte is lost or reordered; the counter \<open>received\<close> is right as long as no
    \<open>splice\<close> fails; and what goes wrong after a failed or partial \<open>splice\<close>, a hang-up, a failed \<open>epoll_ctl\<close>,
    and in \<open>EchoHandler\<close> when its buffer is filled.
  \<^item> \<open>Virtual_Listener\<close>, \<open>Echo_Server\<close>, \<open>Splice_Echo\<close>, \<open>Load_Client\<close>: the upper-case loop against its
    specification, what each server answers and drops, and the bound on the load generator's output.
  \<^item> \<open>Headers_Correct\<close> and \<open>Headers_Order\<close>: two analyses of a header's text, of its include guard and of
    the linkage of its declarations, are sound for every macro environment and are run on every header;
    the queue macros of the system are given back as they were found, and when they are not; and an
    order of two headers that loses macros. \<open>Ev_Util_Correct\<close>: the integer types are as wide as their names
    say on every platform with a configuration made there, and when the pointer types are; limits,
    arithmetic and comparison of time, codes of a name lookup. \<open>Header_Macros\<close>: one macro of \<open>event.h\<close>,
    \<open>evuser_pending\<close>, cannot report anything.

  \<^bold>\<open>Assumptions about memory.\<close> A bufferevent or proxy object that is allocated has an identity no live
  object has; a proxy object, moreover, one that no object had before, as the language has it: an address
  that is used again does not make a pointer to a deleted object valid. So a use of a deleted object is a fault
  in the model also where the allocator has given its address to another one.

  \<^bold>\<open>Bounds.\<close> No definition uses fuel. The loops of the programs are step relations or recursion over
  the list of answers, so a run of any length is covered; \<open>str_toupper\<close> has a termination proof. \<open>int\<close>
  counters are unbounded integers where they cannot reach the 32-bit limits (a pipe holds at most
  1 MB, a buffer 4 MB); the seconds of a time value are unbounded too, so that overflow of \<open>time_t\<close> is
  not described; ports, addresses and flags are machine words.

  \<^bold>\<open>What is not modelled.\<close> The functions of libevent, of which there are only prototypes (they are
  arguments, with the documented laws of those the programs call); output to the terminal; \<open>errno\<close>; signals,
  also the one that \<open>write\<close> raises on a closed connection in the programs that do not ignore it. In
  the headers: which macros an included file of the system defines, an argument; the code behind macros with
  parameters outside \<open>Ev_Util\<close> and \<open>Header_Macros\<close>. In the programs: threads (the load generator's threads share only
  read-only data, and the contexts of the proxies run one loop); the return value of \<open>Handler::handle\<close>,
  which the loop ignores; the SSL objects that are handed through to libevent; the Rust crate under \<open>rnet\<close>,
  the \<open>iptables\<close> scripts and the build files.
\<close>

section \<open>The flags of the programs\<close>

text \<open>The flags the models of the programs are written with are those that the headers define.\<close>

lemma program_flags:
  "header_const event_h ''EV_READ'' = Some (uint EV_READ)" "header_const event_h ''EV_WRITE'' = Some (uint EV_WRITE)"
  "header_const event_h ''EV_PERSIST'' = Some (uint EV_PERSIST)" "header_const event_h ''EV_ET'' = Some (uint EV_ET)"
  "header_const event_h ''EV_TIMEOUT'' = Some (uint EV_TIMEOUT)" "header_const event_h ''EV_SIGNAL'' = Some (uint EV_SIGNAL)"
  "header_const bufferevent_h ''BEV_EVENT_EOF'' = Some (uint BEV_EVENT_EOF)"
  "header_const bufferevent_h ''BEV_EVENT_ERROR'' = Some (uint BEV_EVENT_ERROR)"
  "header_const bufferevent_h ''BEV_EVENT_CONNECTED'' = Some (uint BEV_EVENT_CONNECTED)"
  "header_const bufferevent_h ''BEV_OPT_CLOSE_ON_FREE'' = Some (uint BEV_OPT_CLOSE_ON_FREE)"
  "header_const bufferevent_h ''BEV_OPT_DEFER_CALLBACKS'' = Some (uint BEV_OPT_DEFER_CALLBACKS)"
  by code_simp+

section \<open>Properties across components\<close>



end
